(* ===== verification/Prelude.thy ===== *)
theory Prelude
  imports Main "HOL-Library.Word"
begin

text \<open>
  What every component shares: the machine integers of the server, the outcome of a
  Rust call (a value, an error or a panic), the sequencing of fallible calls with and
  without mutable state, ordered maps (\<^verbatim>\<open>BTreeMap\<close>), and the notion of a transition
  system with an invariant.

  Unsigned integers of width \<^verbatim>\<open>w\<close> are \<^verbatim>\<open>w word\<close>: the release build wraps on overflow and so
  does the word type.  \<^verbatim>\<open>i64\<close> and \<^verbatim>\<open>i32\<close> values that the modelled code only stores and
  compares are integers.  \<^verbatim>\<open>usize\<close> is \<^typ>\<open>nat\<close>.
\<close>

unbundle bit_operations_syntax

type_synonym u8 = "8 word"
type_synonym u16 = "16 word"
type_synonym u32 = "32 word"
type_synonym u64 = "64 word"
type_synonym usize = nat
type_synonym i32 = int
type_synonym i64 = int
type_synonym bytes = "u8 list"

named_theorems res_simps \<open>unfolding of the sequencing combinators\<close>
named_theorems keep_intros \<open>introduction rules for what an operation keeps\<close>

section \<open>Outcomes\<close>

text \<open>
  \<^verbatim>\<open>Result<T, E>\<close> together with the third way a call can end: an \<^verbatim>\<open>unwrap\<close> on nothing, an
  index out of range, a failed \<^verbatim>\<open>assert!\<close> or an \<^verbatim>\<open>unreachable!\<close>.
\<close>

datatype ('e, 'a) res = Ok 'a | Err 'e | Panic

fun is_ok :: "('e, 'a) res \<Rightarrow> bool" where
  "is_ok (Ok _) = True"
| "is_ok _ = False"

text \<open>\<^verbatim>\<open>m?\<close> followed by the rest of the function, for code that changes no state.\<close>

fun bind_res :: "('e, 'a) res \<Rightarrow> ('a \<Rightarrow> ('e, 'b) res) \<Rightarrow> ('e, 'b) res" where
  "bind_res (Ok x) f = f x"
| "bind_res (Err e) f = Err e"
| "bind_res Panic f = Panic"

text \<open>\<^verbatim>\<open>v[i]\<close>, \<^verbatim>\<open>o.unwrap()\<close> and \<^verbatim>\<open>o.ok_or(e)\<close>.\<close>

definition index_res :: "'a list \<Rightarrow> nat \<Rightarrow> ('e, 'a) res" where
  "index_res xs i = (if i < length xs then Ok (xs ! i) else Panic)"

definition unwrap :: "'a option \<Rightarrow> ('e, 'a) res" where
  "unwrap m = (case m of Some x \<Rightarrow> Ok x | None \<Rightarrow> Panic)"

definition ok_or :: "'e \<Rightarrow> 'a option \<Rightarrow> ('e, 'a) res" where
  "ok_or e m = (case m of Some x \<Rightarrow> Ok x | None \<Rightarrow> Err e)"

text \<open>A loop that collects the results of a fallible call, and one that folds an accumulator.\<close>

fun traverse :: "('a \<Rightarrow> ('e, 'b) res) \<Rightarrow> 'a list \<Rightarrow> ('e, 'b list) res" where
  "traverse f [] = Ok []"
| "traverse f (x # xs) = bind_res (f x) (\<lambda>y. bind_res (traverse f xs) (\<lambda>ys. Ok (y # ys)))"

fun fold_res :: "('a \<Rightarrow> 's \<Rightarrow> ('e, 's) res) \<Rightarrow> 'a list \<Rightarrow> 's \<Rightarrow> ('e, 's) res" where
  "fold_res f [] s = Ok s"
| "fold_res f (x # xs) s = bind_res (f x s) (fold_res f xs)"

lemma bind_res_eq_Ok [simp]:
  "bind_res m f = Ok y \<longleftrightarrow> (\<exists>x. m = Ok x \<and> f x = Ok y)"
  by (cases m) auto

lemma bind_res_eq_Panic [simp]:
  "bind_res m f = Panic \<longleftrightarrow> m = Panic \<or> (\<exists>x. m = Ok x \<and> f x = Panic)"
  by (cases m) auto

lemma bind_res_cong [fundef_cong]:
  assumes "m = m'" and "\<And>x. m' = Ok x \<Longrightarrow> f x = f' x"
  shows "bind_res m f = bind_res m' f'"
  using assms by (cases m') auto

lemma index_res_Ok [simp]: "i < length xs \<Longrightarrow> index_res xs i = Ok (xs ! i)"
  by (simp add: index_res_def)

lemma index_res_not_Err [simp]: "index_res xs i \<noteq> Err e"
  by (simp add: index_res_def)

lemma unwrap_simps [simp]: "unwrap (Some x) = Ok x" "unwrap None = Panic"
  by (simp_all add: unwrap_def)

lemma ok_or_simps [simp]: "ok_or e (Some x) = Ok x" "ok_or e None = Err e"
  by (simp_all add: ok_or_def)

lemma ok_or_not_Panic [simp]: "ok_or e m \<noteq> Panic"
  by (cases m) simp_all

lemma traverse_Ok_length: "traverse f xs = Ok ys \<Longrightarrow> length ys = length xs"
  by (induction xs arbitrary: ys) auto

lemma traverse_not_Panic:
  assumes "\<And>x. x \<in> set xs \<Longrightarrow> f x \<noteq> Panic"
  shows "traverse f xs \<noteq> Panic"
  using assms by (induction xs) auto

lemma traverse_Ok_all:
  assumes "\<And>x. x \<in> set xs \<Longrightarrow> f x = Ok (g x)"
  shows "traverse f xs = Ok (map g xs)"
  using assms by (induction xs) auto

lemma traverse_Ok_elem:
  assumes "\<And>x. x \<in> set xs \<Longrightarrow> \<exists>y. f x = Ok y"
  shows "\<exists>ys. traverse f xs = Ok ys"
  using assms by (induction xs) auto

lemma fold_res_inv:
  assumes "fold_res f xs s = Ok s'" and "P s"
    and "\<And>x s s'. x \<in> set xs \<Longrightarrow> P s \<Longrightarrow> f x s = Ok s' \<Longrightarrow> P s'"
  shows "P s'"
  using assms by (induction xs arbitrary: s) auto

lemma fold_res_not_Panic:
  assumes "\<And>x s. x \<in> set xs \<Longrightarrow> P s \<Longrightarrow> f x s \<noteq> Panic" and "P s"
    and "\<And>x s s'. x \<in> set xs \<Longrightarrow> P s \<Longrightarrow> f x s = Ok s' \<Longrightarrow> P s'"
  shows "fold_res f xs s \<noteq> Panic"
  using assms by (induction xs arbitrary: s) (auto, metis)

section \<open>Calls that change state\<close>

text \<open>
  A method with \<^verbatim>\<open>&mut self\<close> returns its outcome and the state it leaves, also when the
  outcome is an error or a panic: the server's locks are not poisoned by a panic, so what
  a handler wrote before it failed stays.
\<close>

fun bind_st :: "('e, 'a) res \<times> 's \<Rightarrow> ('a \<Rightarrow> 's \<Rightarrow> ('e, 'b) res \<times> 't) \<Rightarrow> ('s \<Rightarrow> 't) \<Rightarrow> ('e, 'b) res \<times> 't" where
  "bind_st (Ok x, s) f k = f x s"
| "bind_st (Err e, s) f k = (Err e, k s)"
| "bind_st (Panic, s) f k = (Panic, k s)"

text \<open>
  The third argument of \<^const>\<open>bind_st\<close> places the inner state into the outer one when the
  inner call ends the function (\<^verbatim>\<open>room.get_a_slot(..)?\<close> in a method of the room manager).
\<close>

abbreviation then_st :: "('e, 'a) res \<times> 's \<Rightarrow> ('a \<Rightarrow> 's \<Rightarrow> ('e, 'b) res \<times> 's) \<Rightarrow> ('e, 'b) res \<times> 's" where
  "then_st m f \<equiv> bind_st m f (\<lambda>s. s)"

fun fold_st :: "('x \<Rightarrow> 's \<Rightarrow> ('e, unit) res \<times> 's) \<Rightarrow> 'x list \<Rightarrow> 's \<Rightarrow> ('e, unit) res \<times> 's" where
  "fold_st f [] s = (Ok (), s)"
| "fold_st f (x # xs) s = bind_st (f x s) (\<lambda>_. fold_st f xs) (\<lambda>s. s)"

lemma bind_st_keeps [keep_intros]:
  assumes "\<And>x s. m = (Ok x, s) \<Longrightarrow> P (snd (f x s))"
    and "\<And>r s. m = (r, s) \<Longrightarrow> \<not> is_ok r \<Longrightarrow> P (k s)"
  shows "P (snd (bind_st m f k))"
proof (cases m)
  case (Pair r s)
  then show ?thesis using assms by (cases r) auto
qed

lemma then_st_keeps:
  assumes "P (snd m)" and "\<And>x s. P s \<Longrightarrow> P (snd (f x s))"
  shows "P (snd (then_st m f))"
proof (cases m)
  case (Pair r s)
  then show ?thesis using assms by (cases r) auto
qed

lemma bind_st_place:
  assumes "\<And>x. f x = (\<lambda>s. (g x s, k s))"
  shows "snd (bind_st m f k) = k (snd m)"
proof (cases m)
  case (Pair r s)
  then show ?thesis using assms by (cases r) auto
qed

lemma bind_st_Ok:
  "bind_st m f k = (Ok y, t) \<longleftrightarrow> (\<exists>x s. m = (Ok x, s) \<and> f x s = (Ok y, t))"
proof (cases m)
  case (Pair r s)
  then show ?thesis by (cases r) auto
qed

lemma bind_st_Panic:
  "fst (bind_st m f k) = Panic \<longleftrightarrow> fst m = Panic \<or> (\<exists>x s. m = (Ok x, s) \<and> fst (f x s) = Panic)"
proof (cases m)
  case (Pair r s)
  then show ?thesis by (cases r) auto
qed

lemma fold_st_keeps:
  assumes "P s" and "\<And>x s. x \<in> set xs \<Longrightarrow> P s \<Longrightarrow> P (snd (f x s))"
  shows "P (snd (fold_st f xs s))"
  using assms
proof (induction xs arbitrary: s)
  case (Cons x xs)
  have step: "P (snd (f x s))" using Cons.prems by simp
  show ?case
  proof (cases "f x s")
    case (Pair r t)
    then show ?thesis using step Cons by (cases r) auto
  qed
qed simp

section \<open>Ordered maps\<close>

text \<open>
  \<^verbatim>\<open>BTreeMap\<close> as the list of its entries in ascending key order, which is the order its
  iterators have.
\<close>

type_synonym ('k, 'v) btree = "('k \<times> 'v) list"

abbreviation bt_get :: "('k, 'v) btree \<Rightarrow> 'k \<Rightarrow> 'v option" where
  "bt_get \<equiv> map_of"

abbreviation bt_keys :: "('k, 'v) btree \<Rightarrow> 'k list" where
  "bt_keys \<equiv> map fst"

abbreviation bt_values :: "('k, 'v) btree \<Rightarrow> 'v list" where
  "bt_values \<equiv> map snd"

fun bt_insert :: "'k::linorder \<Rightarrow> 'v \<Rightarrow> ('k, 'v) btree \<Rightarrow> ('k, 'v) btree" where
  "bt_insert k v [] = [(k, v)]"
| "bt_insert k v ((k', v') # xs) =
    (if k < k' then (k, v) # (k', v') # xs
     else if k = k' then (k, v) # xs
     else (k', v') # bt_insert k v xs)"

definition bt_remove :: "'k \<Rightarrow> ('k, 'v) btree \<Rightarrow> ('k, 'v) btree" where
  "bt_remove k xs = filter (\<lambda>e. fst e \<noteq> k) xs"

text \<open>\<^verbatim>\<open>entry(k).and_modify(f)\<close> and a write through \<^verbatim>\<open>get_mut(k)\<close>.\<close>

definition bt_modify :: "'k \<Rightarrow> ('v \<Rightarrow> 'v) \<Rightarrow> ('k, 'v) btree \<Rightarrow> ('k, 'v) btree" where
  "bt_modify k f xs = map (\<lambda>(k', v). (k', if k' = k then f v else v)) xs"

definition bt_wf :: "('k::linorder, 'v) btree \<Rightarrow> bool" where
  "bt_wf xs \<longleftrightarrow> sorted (bt_keys xs) \<and> distinct (bt_keys xs)"

lemma set_bt_insert_keys [simp]: "fst ` set (bt_insert k v xs) = insert k (fst ` set xs)"
  by (induction k v xs rule: bt_insert.induct) auto

lemma bt_insert_wf: "bt_wf xs \<Longrightarrow> bt_wf (bt_insert k v xs)"
  by (induction k v xs rule: bt_insert.induct) (auto simp: bt_wf_def image_iff, (force+)?)

lemma bt_get_insert [simp]: "bt_get (bt_insert k v xs) = (bt_get xs)(k \<mapsto> v)"
  by (induction k v xs rule: bt_insert.induct) (auto simp: fun_eq_iff)

lemma length_bt_insert_fresh: "k \<notin> fst ` set xs \<Longrightarrow> length (bt_insert k v xs) = Suc (length xs)"
  by (induction k v xs rule: bt_insert.induct) auto

lemma set_bt_insert_fresh: "k \<notin> fst ` set xs \<Longrightarrow> set (bt_insert k v xs) = insert (k, v) (set xs)"
  by (induction k v xs rule: bt_insert.induct) auto

lemma distinct_bt_insert_fresh:
  "k \<notin> fst ` set xs \<Longrightarrow>
    distinct (map (f \<circ> snd) (bt_insert k v xs)) \<longleftrightarrow> f v \<notin> f ` snd ` set xs \<and> distinct (map (f \<circ> snd) xs)"
  by (induction k v xs rule: bt_insert.induct) (auto simp: set_bt_insert_fresh)

lemma distinct_bt_remove:
  "distinct (map (f \<circ> snd) xs) \<Longrightarrow> distinct (map (f \<circ> snd) (bt_remove k xs))"
  by (induction xs) (auto simp: bt_remove_def)

lemma set_bt_remove [simp]: "set (bt_remove k xs) = {e \<in> set xs. fst e \<noteq> k}"
  by (simp add: bt_remove_def)

lemma bt_keys_remove: "bt_keys (bt_remove k xs) = filter (\<lambda>k'. k' \<noteq> k) (bt_keys xs)"
  by (induction xs) (auto simp: bt_remove_def)

lemma bt_remove_wf: "bt_wf xs \<Longrightarrow> bt_wf (bt_remove k xs)"
  by (simp add: bt_wf_def bt_keys_remove sorted_wrt_filter)

lemma bt_get_remove [simp]: "bt_get (bt_remove k xs) = (bt_get xs)(k := None)"
  by (induction xs) (auto simp: bt_remove_def fun_eq_iff)

lemma bt_keys_modify [simp]: "bt_keys (bt_modify k f xs) = bt_keys xs"
  by (induction xs) (auto simp: bt_modify_def)

lemma length_bt_modify [simp]: "length (bt_modify k f xs) = length xs"
  by (simp add: bt_modify_def)

lemma bt_modify_wf [simp]: "bt_wf (bt_modify k f xs) = bt_wf xs"
  by (simp add: bt_wf_def)

lemma bt_get_modify: "bt_get (bt_modify k f xs) = (bt_get xs)(k := map_option f (bt_get xs k))"
  by (induction xs) (auto simp: bt_modify_def fun_eq_iff)

lemma bt_get_in_set: "bt_wf xs \<Longrightarrow> bt_get xs k = Some v \<longleftrightarrow> (k, v) \<in> set xs"
  by (simp add: bt_wf_def)

lemma length_bt_remove:
  assumes "bt_wf xs" and "k \<in> fst ` set xs"
  shows "length xs = Suc (length (bt_remove k xs))"
proof -
  have "distinct (bt_keys xs)" using assms(1) by (simp add: bt_wf_def)
  with assms(2) have "length (bt_keys xs) = Suc (length (filter (\<lambda>k'. k' \<noteq> k) (bt_keys xs)))"
  proof (induction xs)
    case (Cons e xs)
    show ?case
    proof (cases "fst e = k")
      case True
      then have "filter (\<lambda>k'. k' \<noteq> k) (bt_keys xs) = bt_keys xs"
        using Cons.prems by (intro filter_True) (auto simp: image_iff)
      with True show ?thesis by simp
    qed (use Cons in auto)
  qed simp
  then show ?thesis by (simp flip: bt_keys_remove)
qed

subsection \<open>The interface the rooms use\<close>

text \<open>
  What a client of an ordered map relies on: lookups after insertions and removals, and that
  the key list is kept strictly ascending.  The lemmas of the locale are about the size
  of the map, which is what the member limit of a room is stated with.
\<close>

locale ordered_map =
  fixes get :: "'m \<Rightarrow> 'k::linorder \<Rightarrow> 'v option"
    and insert_entry :: "'k \<Rightarrow> 'v \<Rightarrow> 'm \<Rightarrow> 'm"
    and remove_entry :: "'k \<Rightarrow> 'm \<Rightarrow> 'm"
    and entry_keys :: "'m \<Rightarrow> 'k list"
    and ok :: "'m \<Rightarrow> bool"
  assumes get_insert: "ok m \<Longrightarrow> get (insert_entry k v m) = (get m)(k \<mapsto> v)"
    and get_remove: "ok m \<Longrightarrow> get (remove_entry k m) = (get m)(k := None)"
    and keys_get: "ok m \<Longrightarrow> set (entry_keys m) = dom (get m)"
    and keys_ascending: "ok m \<Longrightarrow> sorted (entry_keys m) \<and> distinct (entry_keys m)"
    and insert_ok: "ok m \<Longrightarrow> ok (insert_entry k v m)"
    and remove_ok: "ok m \<Longrightarrow> ok (remove_entry k m)"
begin

definition size_of :: "'m \<Rightarrow> nat" where
  "size_of m = length (entry_keys m)"

lemma size_dom: "ok m \<Longrightarrow> size_of m = card (dom (get m))"
  using keys_get keys_ascending distinct_card [of "entry_keys m"] by (simp add: size_of_def)

lemma finite_dom: "ok m \<Longrightarrow> finite (dom (get m))"
  by (simp flip: keys_get)

lemma size_insert_fresh: "ok m \<Longrightarrow> get m k = None \<Longrightarrow> size_of (insert_entry k v m) = Suc (size_of m)"
  by (simp add: size_dom insert_ok get_insert finite_dom domIff)

lemma size_remove: "ok m \<Longrightarrow> get m k = Some v \<Longrightarrow> size_of m = Suc (size_of (remove_entry k m))"
  by (simp add: size_dom remove_ok get_remove finite_dom domI card_Suc_Diff1 del: card_Diff_insert)

lemma insert_then_remove: "ok m \<Longrightarrow> get m k = None \<Longrightarrow> get (remove_entry k (insert_entry k v m)) = get m"
  by (simp add: insert_ok get_insert get_remove fun_upd_idem)

end

interpretation btm: ordered_map bt_get bt_insert bt_remove bt_keys bt_wf
proof unfold_locales
  show "set (bt_keys m) = dom (bt_get m)" if "bt_wf m" for m :: "('a::linorder \<times> 'b) list"
    by (simp add: dom_map_of_conv_image_fst)
qed (simp_all add: bt_insert_wf bt_remove_wf, simp_all add: bt_wf_def)

section \<open>Transition systems\<close>

text \<open>
  The managers are driven by commands; a state is reachable when a sequence of steps leads
  to it from the state the server starts with.  The locale is the contract a component
  fulfils (its invariant holds at the start and every step keeps it) and the
  conclusion its clients use.
\<close>

inductive reach :: "('s \<Rightarrow> 's \<Rightarrow> bool) \<Rightarrow> 's \<Rightarrow> 's \<Rightarrow> bool" for step s0 where
  start: "reach step s0 s0"
| more: "reach step s0 s \<Longrightarrow> step s s' \<Longrightarrow> reach step s0 s'"

locale invariant_system =
  fixes start :: 's
    and step :: "'s \<Rightarrow> 's \<Rightarrow> bool"
    and inv :: "'s \<Rightarrow> bool"
  assumes inv_start: "inv start"
    and inv_step: "inv s \<Longrightarrow> step s s' \<Longrightarrow> inv s'"
begin

lemma reach_inv: "reach step start s \<Longrightarrow> inv s"
  by (induction rule: reach.induct) (auto intro: inv_start inv_step)

end

section \<open>Lists and words\<close>

lemma unat_of_nat16: "n < 2 ^ 16 \<Longrightarrow> unat (of_nat n :: u16) = n"
  by (simp add: unat_of_nat take_bit_nat_eq_self)

lemma unat_lt8: "unat (x :: u8) < 256"
  using unsigned_less [where 'b = 8, of x] by simp

lemma unat_lt16: "unat (x :: u16) < 65536"
  using unsigned_less [where 'b = 16, of x] by simp

lemma unat_lt32: "unat (x :: u32) < 4294967296"
  using unsigned_less [where 'b = 32, of x] by simp

lemma unat_lt64: "unat (x :: u64) < 18446744073709551616"
  using unsigned_less [where 'b = 64, of x] by simp

lemma ucast_wide_narrow [simp]:
  "(ucast (ucast v :: u32) :: u16) = v" "(ucast (ucast w :: u32) :: u8) = w"
  by (rule bit_word_eqI, simp add: bit_simps)+

lemma word_less_succ:
  assumes "x \<noteq> - 1"
  shows "x < x + (1 :: 'a::len word)"
proof -
  have "1 + x \<noteq> 0" using assms by (metis add.commute eq_neg_iff_add_eq_0)
  then show ?thesis using unatSuc [of x] by (simp add: word_less_nat_alt add.commute)
qed

lemma nth_update_True: "i < length xs \<Longrightarrow> xs ! i \<Longrightarrow> xs[j := True] ! i"
  by (cases "i = j") auto

end
