(* ===== verification/Client_Types.thy ===== *)
theory Client_Types
  imports Prelude
begin

text \<open>
  The types of \<^verbatim>\<open>server/client.rs\<close> that the managers and the handlers share: error codes,
  event causes, the identity of a client and its peer-to-peer addresses, and the
  communication identifier of a game.
\<close>

datatype ErrorType =
    NoError | Malformed | Invalid | InvalidInput | TooSoon
  | LoginError | LoginAlreadyLoggedIn | LoginInvalidUsername | LoginInvalidPassword | LoginInvalidToken
  | CreationError | CreationExistingUsername | CreationBannedEmailProvider | CreationExistingEmail
  | RoomMissing | RoomAlreadyJoined | RoomFull | RoomPasswordMismatch | RoomPasswordMissing
  | RoomGroupNoJoinLabel | RoomGroupFull | RoomGroupJoinLabelNotFound | RoomGroupMaxSlotMismatch
  | Unauthorized | DbFail | EmailFail | NotFound | Blocked | AlreadyFriend
  | ScoreNotBest | ScoreInvalid | ScoreHasData | CondFail | Unsupported

type_synonym 'a result = "(ErrorType, 'a) res"

datatype EventCause =
    CauseNone | LeaveAction | KickoutAction | GrantOwnerAction | ServerOperation | MemberDisappeared
  | ServerInternal | ConnectionError | NpSignedOut | SystemError | ContextError | ContextAction

text \<open>\<^verbatim>\<open>event_cause as u8\<close>: the variants are numbered in the order of their declaration.\<close>

fun event_cause_u8 :: "EventCause \<Rightarrow> u8" where
  "event_cause_u8 CauseNone = 0"
| "event_cause_u8 LeaveAction = 1"
| "event_cause_u8 KickoutAction = 2"
| "event_cause_u8 GrantOwnerAction = 3"
| "event_cause_u8 ServerOperation = 4"
| "event_cause_u8 MemberDisappeared = 5"
| "event_cause_u8 ServerInternal = 6"
| "event_cause_u8 ConnectionError = 7"
| "event_cause_u8 NpSignedOut = 8"
| "event_cause_u8 SystemError = 9"
| "event_cause_u8 ContextError = 10"
| "event_cause_u8 ContextAction = 11"

definition COMMUNICATION_ID_SIZE :: usize where
  "COMMUNICATION_ID_SIZE = 12"

type_synonym ComId = bytes

record ClientInfo =
  ci_user_id :: i64
  ci_npid :: string
  ci_online_name :: string
  ci_avatar_url :: string
  ci_token :: string
  ci_admin :: bool
  ci_stat_agent :: bool
  ci_banned :: bool

record ClientSharedSignalingInfo =
  si_addr_p2p_ipv4 :: "bytes \<times> u16"
  si_addr_p2p_ipv6 :: "(bytes \<times> u16) option"
  si_local_addr_p2p :: bytes

definition ClientSharedSignalingInfo_new :: ClientSharedSignalingInfo where
  "ClientSharedSignalingInfo_new =
    \<lparr> si_addr_p2p_ipv4 = (replicate 4 0, 0), si_addr_p2p_ipv6 = None, si_local_addr_p2p = replicate 4 0 \<rparr>"

definition com_id_to_string :: "ComId \<Rightarrow> string" where
  "com_id_to_string com_id = map (\<lambda>c. char_of (unat c)) com_id"

lemma com_id_to_string_inj: "com_id_to_string a = com_id_to_string b \<longleftrightarrow> a = b"
proof -
  have "inj (\<lambda>c :: u8. char_of (unat c) :: char)"
  proof (rule injI)
    fix x y :: u8
    assume "(char_of (unat x) :: char) = char_of (unat y)"
    then have "unat x mod 256 = unat y mod 256" by (metis of_char_of)
    moreover have "unat x < 256" "unat y < 256" by (simp_all add: unat_lt8)
    ultimately show "x = y" by (simp add: word_unat_eq_iff)
  qed
  then show ?thesis by (simp add: com_id_to_string_def inj_map_eq_map)
qed

end
