(* ===== verification/Np2_Structs.thy ===== *)
theory Np2_Structs
  imports Client_Types
begin

text \<open>
  The messages of \<^verbatim>\<open>server/stream_extractor/np2_structs.proto\<close> that the modelled components
  read or build, one record per message with the fields the generated Rust structs have:
  a message-typed field is optional, a repeated field is a list, \<^verbatim>\<open>bytes\<close> is a list of
  octets.  The encoder and the decoder are generated by \<^verbatim>\<open>prost\<close> and are not part of
  the sources: the operations that call them take them as the record
  \<^verbatim>\<open>prost_codec\<close>.  Then \<^verbatim>\<open>protobuf_helpers.rs\<close>: the checked narrowing of the
  wrapped 8 and 16 bit integers.
\<close>

section \<open>Messages\<close>

datatype Uint8 = Uint8 (uint8_val: u32)
datatype Uint16 = Uint16 (uint16_val: u32)

record SignalingAddr =
  sa_ip :: bytes
  sa_port :: "Uint16 option"

record Matching2SignalingInfo =
  m2si_member_id :: "Uint16 option"
  m2si_addr :: "SignalingAddr option"

record BinAttr =
  ba_id :: "Uint16 option"
  ba_data :: bytes

record IntAttr =
  ia_id :: "Uint16 option"
  ia_num :: u32

record RoomMemberBinAttrInternal =
  mbai_update_date :: u64
  mbai_data :: "BinAttr option"

record BinAttrInternal =
  bai_update_date :: u64
  bai_update_member_id :: "Uint16 option"
  bai_data :: "BinAttr option"

record OptParam =
  op_type :: "Uint8 option"
  op_flag :: "Uint8 option"
  op_hub_member_id :: "Uint16 option"

record GroupConfig =
  gc_slot_num :: u32
  gc_label :: bytes
  gc_with_password :: bool

record UserInfo =
  ui_np_id :: string
  ui_online_name :: string
  ui_avatar_url :: string

record RoomGroup =
  rg_group_id :: "Uint8 option"
  rg_with_password :: bool
  rg_label :: bytes
  rg_slot_num :: u32
  rg_cur_group_member_num :: u32

record RoomMemberDataInternal =
  rmdi_user_info :: "UserInfo option"
  rmdi_join_date :: u64
  rmdi_member_id :: u32
  rmdi_team_id :: "Uint8 option"
  rmdi_room_group :: "RoomGroup option"
  rmdi_nat_type :: "Uint8 option"
  rmdi_flag_attr :: u32
  rmdi_room_member_bin_attr_internal :: "RoomMemberBinAttrInternal list"

record RoomMemberDataExternal =
  rmde_user_info :: "UserInfo option"
  rmde_join_date :: u64
  rmde_role :: "Uint8 option"

record RoomDataInternal =
  rdi_server_id :: "Uint16 option"
  rdi_world_id :: u32
  rdi_lobby_id :: u64
  rdi_room_id :: u64
  rdi_password_slot_mask :: u64
  rdi_max_slot :: u32
  rdi_member_list :: "RoomMemberDataInternal list"
  rdi_owner_id :: "Uint16 option"
  rdi_room_group :: "RoomGroup list"
  rdi_flag_attr :: u32
  rdi_room_bin_attr_internal :: "BinAttrInternal list"

text \<open>
  \<^verbatim>\<open>RoomDataExternalAll\<close> has the fields of \<^verbatim>\<open>RoomDataExternal\<close> and the member list after them.
\<close>

record RoomDataExternal =
  rde_server_id :: "Uint16 option"
  rde_world_id :: u32
  rde_public_slot_num :: "Uint16 option"
  rde_private_slot_num :: "Uint16 option"
  rde_lobby_id :: u64
  rde_room_id :: u64
  rde_open_public_slot_num :: "Uint16 option"
  rde_max_slot :: "Uint16 option"
  rde_open_private_slot_num :: "Uint16 option"
  rde_cur_member_num :: "Uint16 option"
  rde_password_slot_mask :: u64
  rde_owner :: "UserInfo option"
  rde_room_group :: "RoomGroup list"
  rde_flag_attr :: u32
  rde_room_searchable_int_attr_external :: "IntAttr list"
  rde_room_searchable_bin_attr_external :: "BinAttr list"
  rde_room_bin_attr_external :: "BinAttr list"

record RoomDataExternalAll = RoomDataExternal +
  rdea_users :: "RoomMemberDataExternal list"

record IntSearchFilter =
  isf_search_operator :: "Uint8 option"
  isf_attr :: "IntAttr option"

record BinSearchFilter =
  bsf_search_operator :: "Uint8 option"
  bsf_attr :: "BinAttr option"

record PresenceOptionData =
  pod_data :: bytes
  pod_len :: u32

record RoomGroupPasswordConfig =
  rgpc_group_id :: "Uint8 option"
  rgpc_with_password :: bool

record SearchRoomRequest =
  srr_option :: i32
  srr_world_id :: u32
  srr_lobby_id :: u64
  srr_range_filter_start_index :: u32
  srr_range_filter_max :: u32
  srr_flag_filter :: u32
  srr_flag_attr :: u32
  srr_int_filter :: "IntSearchFilter list"
  srr_bin_filter :: "BinSearchFilter list"
  srr_attr_id :: "Uint16 list"

record SearchRoomResponse =
  srs_start_index :: u32
  srs_total :: u32
  srs_rooms :: "RoomDataExternal list"

record SearchRoomAllResponse =
  sra_start_index :: u32
  sra_total :: u32
  sra_rooms :: "RoomDataExternalAll list"

record CreateJoinRoomRequest =
  cj_world_id :: u32
  cj_lobby_id :: u64
  cj_max_slot :: u32
  cj_flag_attr :: u32
  cj_room_bin_attr_internal :: "BinAttr list"
  cj_room_searchable_int_attr_external :: "IntAttr list"
  cj_room_searchable_bin_attr_external :: "BinAttr list"
  cj_room_bin_attr_external :: "BinAttr list"
  cj_room_password :: bytes
  cj_group_config :: "GroupConfig list"
  cj_password_slot_mask :: u64
  cj_allowed_user :: "string list"
  cj_blocked_user :: "string list"
  cj_join_room_group_label :: bytes
  cj_room_member_bin_attr_internal :: "BinAttr list"
  cj_team_id :: "Uint8 option"
  cj_sig_opt_param :: "OptParam option"

record CreateRoomResponse =
  crs_internal :: "RoomDataInternal option"
  crs_opt_param :: "OptParam option"

record JoinRoomRequest =
  jr_room_id :: u64
  jr_room_password :: bytes
  jr_join_room_group_label :: bytes
  jr_room_member_bin_attr_internal :: "BinAttr list"
  jr_opt_data :: "PresenceOptionData option"
  jr_team_id :: "Uint8 option"

record JoinRoomResponse =
  jrs_room_data :: "RoomDataInternal option"
  jrs_signaling_data :: "Matching2SignalingInfo list"
  jrs_opt_param :: "OptParam option"

record GetRoomDataExternalListRequest =
  gel_room_ids :: "u64 list"
  gel_attr_ids :: "Uint16 list"

record GetRoomDataExternalListResponse =
  gels_rooms :: "RoomDataExternal list"

record GetRoomMemberDataExternalListResponse =
  gmels_members :: "RoomMemberDataExternal list"

record SetRoomDataExternalRequest =
  se_room_id :: u64
  se_room_searchable_int_attr_external :: "IntAttr list"
  se_room_searchable_bin_attr_external :: "BinAttr list"
  se_room_bin_attr_external :: "BinAttr list"

record SetRoomDataInternalRequest =
  sri_room_id :: u64
  sri_flag_filter :: u32
  sri_flag_attr :: u32
  sri_room_bin_attr_internal :: "BinAttr list"
  sri_password_config :: "RoomGroupPasswordConfig list"
  sri_password_slot_mask :: "u64 list"
  sri_owner_privilege_rank :: "Uint16 list"

record GetRoomMemberDataInternalRequest =
  gmi_room_id :: u64
  gmi_member_id :: "Uint16 option"
  gmi_attr_id :: "Uint16 list"

record SetRoomMemberDataInternalRequest =
  smi_room_id :: u64
  smi_member_id :: "Uint16 option"
  smi_team_id :: "Uint8 option"
  smi_room_member_bin_attr_internal :: "BinAttr list"

record GetRoomDataInternalRequest =
  gri_room_id :: u64
  gri_attr_id :: "Uint16 list"

record RoomMemberUpdateInfo =
  rmui_room_member_data_internal :: "RoomMemberDataInternal option"
  rmui_event_cause :: "Uint8 option"
  rmui_opt_data :: "PresenceOptionData option"

record NotificationUserJoinedRoom =
  nujr_room_id :: u64
  nujr_update_info :: "RoomMemberUpdateInfo option"
  nujr_signaling :: "SignalingAddr option"

record RoomDataInternalUpdateInfo =
  rdiu_new_room_data_internal :: "RoomDataInternal option"
  rdiu_prev_flag_attr :: u32
  rdiu_prev_room_password_slot_mask :: u64
  rdiu_new_room_group :: bytes
  rdiu_new_room_bin_attr_internal :: "Uint16 list"

record RoomMemberDataInternalUpdateInfo =
  rmdu_new_room_member_data_internal :: "RoomMemberDataInternal option"
  rmdu_prev_flag_attr :: u32
  rmdu_prev_team_id :: "Uint8 option"
  rmdu_new_room_member_bin_attr_internal :: "Uint16 list"

text \<open>The encoders (\<^verbatim>\<open>encode_to_vec\<close>) of the messages the room manager sends.\<close>

record prost_codec =
  enc_CreateRoomResponse :: "CreateRoomResponse \<Rightarrow> bytes"
  enc_JoinRoomResponse :: "JoinRoomResponse \<Rightarrow> bytes"
  enc_NotificationUserJoinedRoom :: "NotificationUserJoinedRoom \<Rightarrow> bytes"
  enc_SearchRoomResponse :: "SearchRoomResponse \<Rightarrow> bytes"
  enc_SearchRoomAllResponse :: "SearchRoomAllResponse \<Rightarrow> bytes"
  enc_GetRoomDataExternalListResponse :: "GetRoomDataExternalListResponse \<Rightarrow> bytes"
  enc_GetRoomMemberDataExternalListResponse :: "GetRoomMemberDataExternalListResponse \<Rightarrow> bytes"
  enc_RoomDataInternal :: "RoomDataInternal \<Rightarrow> bytes"
  enc_RoomDataInternalUpdateInfo :: "RoomDataInternalUpdateInfo \<Rightarrow> bytes"
  enc_RoomMemberDataInternal :: "RoomMemberDataInternal \<Rightarrow> bytes"
  enc_RoomMemberDataInternalUpdateInfo :: "RoomMemberDataInternalUpdateInfo \<Rightarrow> bytes"

section \<open>Checked narrowing of wrapped integers\<close>

definition Uint16_get_verified :: "Uint16 \<Rightarrow> u16 result" where
  "Uint16_get_verified u = (if uint16_val u > 0xFFFF then Err Malformed else Ok (ucast (uint16_val u)))"

definition Uint16_new_from_value :: "u16 \<Rightarrow> Uint16 option" where
  "Uint16_new_from_value v = Some (Uint16 (ucast v))"

definition Uint16_opt_get_verified :: "Uint16 option \<Rightarrow> u16 result" where
  "Uint16_opt_get_verified m = (case m of None \<Rightarrow> Err Malformed | Some u \<Rightarrow> Uint16_get_verified u)"

definition Uint8_get_verified :: "Uint8 \<Rightarrow> u8 result" where
  "Uint8_get_verified u = (if uint8_val u > 0xFF then Err Malformed else Ok (ucast (uint8_val u)))"

definition Uint8_new_from_value :: "u8 \<Rightarrow> Uint8 option" where
  "Uint8_new_from_value v = Some (Uint8 (ucast v))"

definition Uint8_opt_get_verified :: "Uint8 option \<Rightarrow> u8 result" where
  "Uint8_opt_get_verified m = (case m of None \<Rightarrow> Err Malformed | Some u \<Rightarrow> Uint8_get_verified u)"

lemma get_verified_not_Panic [simp]:
  "Uint16_get_verified u \<noteq> Panic" "Uint16_opt_get_verified m \<noteq> Panic"
  "Uint8_get_verified v \<noteq> Panic" "Uint8_opt_get_verified n \<noteq> Panic"
  by (auto simp: Uint16_get_verified_def Uint16_opt_get_verified_def Uint8_get_verified_def
      Uint8_opt_get_verified_def split: option.splits)

lemma get_verified_error:
  "Uint16_opt_get_verified m = Err e \<Longrightarrow> e = Malformed"
  "Uint8_opt_get_verified n = Err e \<Longrightarrow> e = Malformed"
  by (auto simp: Uint16_get_verified_def Uint16_opt_get_verified_def Uint8_get_verified_def
      Uint8_opt_get_verified_def split: option.splits if_splits)

lemma Uint16_verified_new [simp]: "Uint16_opt_get_verified (Uint16_new_from_value v) = Ok v"
proof -
  have "\<not> ucast v > (0xFFFF :: u32)"
    using unat_lt16 [of v] by (simp add: word_less_nat_alt unsigned_ucast_eq take_bit_nat_eq_self)
  then show ?thesis
    by (simp add: Uint16_opt_get_verified_def Uint16_new_from_value_def Uint16_get_verified_def)
qed

lemma Uint8_verified_new [simp]: "Uint8_opt_get_verified (Uint8_new_from_value v) = Ok v"
proof -
  have "\<not> ucast v > (0xFF :: u32)"
    using unat_lt8 [of v] by (simp add: word_less_nat_alt unsigned_ucast_eq take_bit_nat_eq_self)
  then show ?thesis
    by (simp add: Uint8_opt_get_verified_def Uint8_new_from_value_def Uint8_get_verified_def)
qed

end
