(* ===== verification/Room_Attrs.thy ===== *)
theory Room_Attrs
  imports Np2_Structs
begin

text \<open>
  The attributes of a matching room (first part of \<^verbatim>\<open>server/room_manager.rs\<close>): constants,
  the binary and integer attributes with their conversion from and to the wire messages,
  the configuration of a slot group and the signaling parameters.  The lemmas are the
  round trips of the conversions and that a stored size never exceeds its array.

  Functions that stamp the current time take it as the argument \<^verbatim>\<open>now\<close>
  (\<^verbatim>\<open>Client::get_psn_timestamp\<close>).
\<close>

section \<open>Constants\<close>

datatype SceNpMatching2Operator =
  OperatorEq | OperatorNe | OperatorLt | OperatorLe | OperatorGt | OperatorGe

fun operator_from_u8 :: "u8 \<Rightarrow> SceNpMatching2Operator option" where
  "operator_from_u8 n =
    (if n = 1 then Some OperatorEq
     else if n = 2 then Some OperatorNe
     else if n = 3 then Some OperatorLt
     else if n = 4 then Some OperatorLe
     else if n = 5 then Some OperatorGt
     else if n = 6 then Some OperatorGe
     else None)"

abbreviation ROOM_SEARCHABLE_INT_ATTR_EXTERNAL_1_ID :: u16 where
  "ROOM_SEARCHABLE_INT_ATTR_EXTERNAL_1_ID \<equiv> 0x4C"
abbreviation ROOM_SEARCHABLE_INT_ATTR_EXTERNAL_8_ID :: u16 where
  "ROOM_SEARCHABLE_INT_ATTR_EXTERNAL_8_ID \<equiv> 0x53"
abbreviation ROOM_SEARCHABLE_BIN_ATTR_EXTERNAL_1_ID :: u16 where
  "ROOM_SEARCHABLE_BIN_ATTR_EXTERNAL_1_ID \<equiv> 0x54"
abbreviation ROOM_BIN_ATTR_EXTERNAL_1_ID :: u16 where
  "ROOM_BIN_ATTR_EXTERNAL_1_ID \<equiv> 0x55"
abbreviation ROOM_BIN_ATTR_EXTERNAL_2_ID :: u16 where
  "ROOM_BIN_ATTR_EXTERNAL_2_ID \<equiv> 0x56"
abbreviation ROOM_BIN_ATTR_INTERNAL_1_ID :: u16 where
  "ROOM_BIN_ATTR_INTERNAL_1_ID \<equiv> 0x57"
abbreviation ROOM_BIN_ATTR_INTERNAL_2_ID :: u16 where
  "ROOM_BIN_ATTR_INTERNAL_2_ID \<equiv> 0x58"
abbreviation ROOMMEMBER_BIN_ATTR_INTERNAL_1_ID :: u16 where
  "ROOMMEMBER_BIN_ATTR_INTERNAL_1_ID \<equiv> 0x59"

abbreviation SESSION_PASSWORD_SIZE :: usize where
  "SESSION_PASSWORD_SIZE \<equiv> 8"
abbreviation GROUP_LABEL_SIZE :: usize where
  "GROUP_LABEL_SIZE \<equiv> 8"

abbreviation ROOM_FLAG_ATTR_FULL :: u32 where
  "ROOM_FLAG_ATTR_FULL \<equiv> 0x20000000"
abbreviation ROOM_FLAG_ATTR_HIDDEN :: u32 where
  "ROOM_FLAG_ATTR_HIDDEN \<equiv> 0x10000000"
abbreviation ROOM_FLAG_ATTR_NAT_TYPE_RESTRICTION :: u32 where
  "ROOM_FLAG_ATTR_NAT_TYPE_RESTRICTION \<equiv> 0x04000000"
abbreviation PROTECTED_ROOM_FLAGS :: u32 where
  "PROTECTED_ROOM_FLAGS \<equiv> ROOM_FLAG_ATTR_FULL"
abbreviation ROOMMEMBER_FLAG_ATTR_OWNER :: u32 where
  "ROOMMEMBER_FLAG_ATTR_OWNER \<equiv> 0x80000000"
abbreviation ROLE_MEMBER :: u8 where
  "ROLE_MEMBER \<equiv> 1"
abbreviation ROLE_OWNER :: u8 where
  "ROLE_OWNER \<equiv> 2"
abbreviation CREATOR_ROOM_MEMBER_ID :: u16 where
  "CREATOR_ROOM_MEMBER_ID \<equiv> 16"

datatype SignalingType = SignalingNone | SignalingMesh | SignalingStar

fun signaling_type_from_u8 :: "u8 \<Rightarrow> SignalingType option" where
  "signaling_type_from_u8 n =
    (if n = 0 then Some SignalingNone
     else if n = 1 then Some SignalingMesh
     else if n = 2 then Some SignalingStar
     else None)"

fun signaling_type_u8 :: "SignalingType \<Rightarrow> u8" where
  "signaling_type_u8 SignalingNone = 0"
| "signaling_type_u8 SignalingMesh = 1"
| "signaling_type_u8 SignalingStar = 2"

section \<open>Binary attributes\<close>

text \<open>
  \<^verbatim>\<open>RoomBinAttr<N>\<close>: the array length is the first argument of the two constructors.
\<close>

record RoomBinAttr =
  rba_id :: u16
  rba_attr :: bytes
  rba_cur_size :: usize

definition RoomBinAttr_with_id :: "nat \<Rightarrow> u16 \<Rightarrow> RoomBinAttr" where
  "RoomBinAttr_with_id N ident = \<lparr> rba_id = ident, rba_attr = replicate N 0, rba_cur_size = 0 \<rparr>"

definition RoomBinAttr_from_protobuf :: "nat \<Rightarrow> BinAttr \<Rightarrow> RoomBinAttr result" where
  "RoomBinAttr_from_protobuf N pb =
    bind_res (Uint16_opt_get_verified (ba_id pb)) (\<lambda>ident.
      let len = length (ba_data pb) in
      if len > N then Err Malformed
      else Ok \<lparr> rba_id = ident, rba_attr = ba_data pb @ replicate (N - len) 0, rba_cur_size = len \<rparr>)"

definition RoomBinAttr_to_protobuf :: "RoomBinAttr \<Rightarrow> BinAttr" where
  "RoomBinAttr_to_protobuf b =
    \<lparr> ba_id = Uint16_new_from_value (rba_id b), ba_data = take (rba_cur_size b) (rba_attr b) \<rparr>"

text \<open>The slice \<^verbatim>\<open>attr[0..cur_size]\<close> is in range for every value the constructors build.\<close>

definition bin_attr_wf :: "nat \<Rightarrow> RoomBinAttr \<Rightarrow> bool" where
  "bin_attr_wf N b \<longleftrightarrow> length (rba_attr b) = N \<and> rba_cur_size b \<le> N"

lemma RoomBinAttr_with_id_wf [simp]: "bin_attr_wf N (RoomBinAttr_with_id N i)"
  by (simp add: bin_attr_wf_def RoomBinAttr_with_id_def)

lemma RoomBinAttr_from_protobuf_wf: "RoomBinAttr_from_protobuf N pb = Ok b \<Longrightarrow> bin_attr_wf N b"
  by (auto simp: RoomBinAttr_from_protobuf_def bin_attr_wf_def Let_def split: if_splits)

lemma RoomBinAttr_from_protobuf_not_Panic [simp]: "RoomBinAttr_from_protobuf N pb \<noteq> Panic"
  by (auto simp: RoomBinAttr_from_protobuf_def Let_def)

lemma Uint16_verified_wrap:
  assumes "Uint16_opt_get_verified m = Ok v"
  shows "Uint16_new_from_value v = m"
proof -
  obtain u where m: "m = Some u" and v: "v = ucast (uint16_val u)" and le: "uint16_val u \<le> 0xFFFF"
    using assms by (auto simp: Uint16_opt_get_verified_def Uint16_get_verified_def split: option.splits if_splits)
  from le have "unat (uint16_val u) \<le> 65535" by (simp add: word_le_nat_alt)
  then have "(ucast (ucast (uint16_val u) :: u16) :: u32) = uint16_val u"
    by (simp add: word_unat_eq_iff unsigned_ucast_eq unsigned_take_bit_eq take_bit_nat_eq_self)
  with m v show ?thesis by (cases u) (simp add: Uint16_new_from_value_def)
qed

lemma RoomBinAttr_round_trip: "RoomBinAttr_from_protobuf N pb = Ok b \<Longrightarrow> RoomBinAttr_to_protobuf b = pb"
  by (auto simp: RoomBinAttr_from_protobuf_def RoomBinAttr_to_protobuf_def Uint16_verified_wrap Let_def
      split: if_splits)

record RoomMemberBinAttr =
  rmb_update_date :: u64
  rmb_data :: RoomBinAttr

definition RoomMemberBinAttr_new :: "u64 \<Rightarrow> RoomMemberBinAttr" where
  "RoomMemberBinAttr_new now =
    \<lparr> rmb_update_date = now, rmb_data = RoomBinAttr_with_id 128 ROOMMEMBER_BIN_ATTR_INTERNAL_1_ID \<rparr>"

definition RoomMemberBinAttr_from_protobuf :: "u64 \<Rightarrow> BinAttr \<Rightarrow> RoomMemberBinAttr result" where
  "RoomMemberBinAttr_from_protobuf now pb =
    bind_res (RoomBinAttr_from_protobuf 128 pb) (\<lambda>d. Ok \<lparr> rmb_update_date = now, rmb_data = d \<rparr>)"

definition RoomMemberBinAttr_to_protobuf :: "RoomMemberBinAttr \<Rightarrow> RoomMemberBinAttrInternal" where
  "RoomMemberBinAttr_to_protobuf a =
    \<lparr> mbai_update_date = rmb_update_date a, mbai_data = Some (RoomBinAttr_to_protobuf (rmb_data a)) \<rparr>"

lemma RoomMemberBinAttr_from_protobuf_not_Panic [simp]: "RoomMemberBinAttr_from_protobuf now pb \<noteq> Panic"
  by (auto simp: RoomMemberBinAttr_from_protobuf_def)

record RoomBinAttrInternal =
  rbi_update_date :: u64
  rbi_update_member_id :: u16
  rbi_data :: RoomBinAttr

definition RoomBinAttrInternal_with_id :: "u64 \<Rightarrow> u16 \<Rightarrow> RoomBinAttrInternal" where
  "RoomBinAttrInternal_with_id now ident =
    \<lparr> rbi_update_date = now, rbi_update_member_id = CREATOR_ROOM_MEMBER_ID,
      rbi_data = RoomBinAttr_with_id 256 ident \<rparr>"

definition RoomBinAttrInternal_from_protobuf :: "u64 \<Rightarrow> BinAttr \<Rightarrow> u16 \<Rightarrow> RoomBinAttrInternal result" where
  "RoomBinAttrInternal_from_protobuf now pb member_id =
    bind_res (RoomBinAttr_from_protobuf 256 pb) (\<lambda>d.
      Ok \<lparr> rbi_update_date = now, rbi_update_member_id = member_id, rbi_data = d \<rparr>)"

definition RoomBinAttrInternal_to_protobuf :: "RoomBinAttrInternal \<Rightarrow> BinAttrInternal" where
  "RoomBinAttrInternal_to_protobuf a =
    \<lparr> bai_update_date = rbi_update_date a,
      bai_update_member_id = Uint16_new_from_value (rbi_update_member_id a),
      bai_data = Some (RoomBinAttr_to_protobuf (rbi_data a)) \<rparr>"

lemma RoomBinAttrInternal_from_protobuf_not_Panic [simp]:
  "RoomBinAttrInternal_from_protobuf now pb m \<noteq> Panic"
  by (auto simp: RoomBinAttrInternal_from_protobuf_def)

section \<open>Integer attributes\<close>

record RoomIntAttr =
  ria_id :: u16
  ria_attr :: u32

definition RoomIntAttr_with_id :: "u16 \<Rightarrow> RoomIntAttr" where
  "RoomIntAttr_with_id ident = \<lparr> ria_id = ident, ria_attr = 0 \<rparr>"

definition RoomIntAttr_from_protobuf :: "IntAttr \<Rightarrow> RoomIntAttr result" where
  "RoomIntAttr_from_protobuf pb =
    bind_res (Uint16_opt_get_verified (ia_id pb)) (\<lambda>ident. Ok \<lparr> ria_id = ident, ria_attr = ia_num pb \<rparr>)"

definition RoomIntAttr_to_protobuf :: "RoomIntAttr \<Rightarrow> IntAttr" where
  "RoomIntAttr_to_protobuf a = \<lparr> ia_id = Uint16_new_from_value (ria_id a), ia_num = ria_attr a \<rparr>"

lemma RoomIntAttr_from_protobuf_not_Panic [simp]: "RoomIntAttr_from_protobuf pb \<noteq> Panic"
  by (auto simp: RoomIntAttr_from_protobuf_def)

lemma RoomIntAttr_round_trip: "RoomIntAttr_from_protobuf (RoomIntAttr_to_protobuf a) = Ok a"
  by (simp add: RoomIntAttr_from_protobuf_def RoomIntAttr_to_protobuf_def)

section \<open>Slot groups\<close>

record RoomGroupConfig =
  g_slot_num :: u32
  g_fixed_label :: bool
  g_label :: "bytes option"
  g_with_password :: bool
  g_group_id :: u8
  g_num_members :: u32

definition RoomGroupConfig_from_protobuf :: "GroupConfig \<Rightarrow> u8 \<Rightarrow> RoomGroupConfig" where
  "RoomGroupConfig_from_protobuf pb group_id =
    (let label = (if length (gc_label pb) = GROUP_LABEL_SIZE then Some (gc_label pb) else None) in
     \<lparr> g_slot_num = gc_slot_num pb, g_fixed_label = (label \<noteq> None), g_label = label,
       g_with_password = gc_with_password pb, g_group_id = group_id, g_num_members = 0 \<rparr>)"

definition RoomGroupConfig_to_protobuf :: "RoomGroupConfig \<Rightarrow> RoomGroup" where
  "RoomGroupConfig_to_protobuf g =
    \<lparr> rg_group_id = Uint8_new_from_value (g_group_id g), rg_with_password = g_with_password g,
      rg_label = (case g_label g of Some l \<Rightarrow> l | None \<Rightarrow> []), rg_slot_num = g_slot_num g,
      rg_cur_group_member_num = g_num_members g \<rparr>"

section \<open>Signaling parameters\<close>

record SignalParam =
  sp_sig_type :: SignalingType
  sp_flag :: u8
  sp_hub_member_id :: u16

definition SignalParam_from_protobuf :: "OptParam \<Rightarrow> SignalParam result" where
  "SignalParam_from_protobuf pb =
    bind_res (Uint8_opt_get_verified (op_type pb)) (\<lambda>t.
    bind_res (ok_or Malformed (signaling_type_from_u8 t)) (\<lambda>sig_type.
    bind_res (Uint8_opt_get_verified (op_flag pb)) (\<lambda>flag.
    bind_res (Uint16_opt_get_verified (op_hub_member_id pb)) (\<lambda>hub_member_id.
      Ok \<lparr> sp_sig_type = sig_type, sp_flag = flag, sp_hub_member_id = hub_member_id \<rparr>))))"

definition SignalParam_to_protobuf :: "SignalParam \<Rightarrow> OptParam" where
  "SignalParam_to_protobuf p =
    \<lparr> op_type = Uint8_new_from_value (signaling_type_u8 (sp_sig_type p)),
      op_flag = Uint8_new_from_value (sp_flag p),
      op_hub_member_id = Uint16_new_from_value (sp_hub_member_id p) \<rparr>"

definition should_signal :: "SignalParam \<Rightarrow> bool" where
  "should_signal p = (case sp_sig_type p of SignalingNone \<Rightarrow> False | _ \<Rightarrow> (sp_flag p AND 1) \<noteq> 1)"

lemma signaling_type_round_trip [simp]: "signaling_type_from_u8 (signaling_type_u8 t) = Some t"
  by (cases t) simp_all

lemma SignalParam_from_protobuf_not_Panic [simp]: "SignalParam_from_protobuf pb \<noteq> Panic"
  by (auto simp: SignalParam_from_protobuf_def simp del: signaling_type_from_u8.simps)

lemma SignalParam_round_trip: "SignalParam_from_protobuf (SignalParam_to_protobuf p) = Ok p"
  by (simp add: SignalParam_from_protobuf_def SignalParam_to_protobuf_def del: signaling_type_from_u8.simps)

end
