(* ===== verification/Room.thy ===== *)
theory Room
  imports Room_Attrs
begin

text \<open>
  A matching room and its members (\<^verbatim>\<open>RoomUser\<close> and \<^verbatim>\<open>Room\<close> of \<^verbatim>\<open>server/room_manager.rs\<close>):
  construction from a request, the messages that describe a room, the search filters and
  the allocation of slots and member identifiers.
\<close>

section \<open>Data\<close>

record RoomUser =
  u_user_id :: i64
  u_npid :: string
  u_online_name :: string
  u_avatar_url :: string
  u_join_date :: u64
  u_flag_attr :: u32
  u_group_id :: u8
  u_member_attr :: RoomMemberBinAttr
  u_team_id :: u8
  u_member_id :: u16
  u_signaling_info :: ClientSharedSignalingInfo

record Room =
  r_world_id :: u32
  r_lobby_id :: u64
  r_max_slot :: u16
  r_flag_attr :: u32
  r_bin_attr_internal :: "RoomBinAttrInternal list"
  r_bin_attr_external :: "RoomBinAttr list"
  r_search_bin_attr :: RoomBinAttr
  r_search_int_attr :: "RoomIntAttr list"
  r_room_password :: "bytes option"
  r_group_config :: "RoomGroupConfig list"
  r_password_slot_mask :: u64
  r_allowed_users :: "string list"
  r_blocked_users :: "string list"
  r_signaling_param :: "SignalParam option"
  r_server_id :: u16
  r_room_id :: u64
  r_slots :: "bool list"
  r_member_id_counter :: u16
  r_users :: "(u16, RoomUser) btree"
  r_owner :: u16
  r_owner_succession :: "u16 list"

section \<open>Members\<close>

definition new_room_user :: "u64 \<Rightarrow> RoomMemberBinAttr \<Rightarrow> u8 \<Rightarrow> ClientSharedSignalingInfo \<Rightarrow> RoomUser" where
  "new_room_user now member_attr team_id signaling_info =
    \<lparr> u_user_id = 0, u_npid = '''', u_online_name = '''', u_avatar_url = '''', u_join_date = now,
      u_flag_attr = 0, u_group_id = 0, u_member_attr = member_attr, u_team_id = team_id,
      u_member_id = 0, u_signaling_info = signaling_info \<rparr>"

definition from_CreateJoinRoomRequest ::
    "u64 \<Rightarrow> CreateJoinRoomRequest \<Rightarrow> ClientSharedSignalingInfo \<Rightarrow> RoomUser result" where
  "from_CreateJoinRoomRequest now pb signaling_info =
    bind_res
      (case cj_room_member_bin_attr_internal pb of
         [bin_attr] \<Rightarrow>
           bind_res (Uint16_opt_get_verified (ba_id bin_attr)) (\<lambda>bin_attr_id.
             if bin_attr_id = ROOMMEMBER_BIN_ATTR_INTERNAL_1_ID
             then RoomMemberBinAttr_from_protobuf now bin_attr
             else Err Malformed)
       | _ # _ \<Rightarrow> Err Malformed
       | [] \<Rightarrow> Ok (RoomMemberBinAttr_new now))
      (\<lambda>member_attr.
        bind_res (Uint8_opt_get_verified (cj_team_id pb)) (\<lambda>team_id.
          Ok (new_room_user now member_attr team_id signaling_info)))"

definition from_JoinRoomRequest ::
    "u64 \<Rightarrow> JoinRoomRequest \<Rightarrow> ClientSharedSignalingInfo \<Rightarrow> RoomUser result" where
  "from_JoinRoomRequest now pb signaling_info =
    bind_res
      (case jr_room_member_bin_attr_internal pb of
         [bin_attr] \<Rightarrow>
           bind_res (Uint16_opt_get_verified (ba_id bin_attr)) (\<lambda>bin_attr_id.
             if bin_attr_id = ROOMMEMBER_BIN_ATTR_INTERNAL_1_ID
             then RoomMemberBinAttr_from_protobuf now bin_attr
             else Ok (RoomMemberBinAttr_new now))
       | _ # _ \<Rightarrow> Ok (RoomMemberBinAttr_new now)
       | [] \<Rightarrow> Ok (RoomMemberBinAttr_new now))
      (\<lambda>member_attr.
        bind_res (Uint8_opt_get_verified (jr_team_id pb)) (\<lambda>team_id.
          Ok (new_room_user now member_attr team_id signaling_info)))"

definition user_info_of :: "RoomUser \<Rightarrow> UserInfo" where
  "user_info_of u = \<lparr> ui_np_id = u_npid u, ui_online_name = u_online_name u, ui_avatar_url = u_avatar_url u \<rparr>"

definition to_RoomMemberDataInternal :: "RoomUser \<Rightarrow> Room \<Rightarrow> RoomMemberDataInternal result" where
  "to_RoomMemberDataInternal u room =
    bind_res
      (if u_group_id u \<noteq> 0
       then bind_res (index_res (r_group_config room) (unat (u_group_id u) - 1))
              (\<lambda>g. Ok (Some (RoomGroupConfig_to_protobuf g)))
       else Ok None)
      (\<lambda>room_group. Ok
        \<lparr> rmdi_user_info = Some (user_info_of u), rmdi_join_date = u_join_date u,
          rmdi_member_id = ucast (u_member_id u), rmdi_team_id = Uint8_new_from_value (u_team_id u),
          rmdi_room_group = room_group, rmdi_nat_type = Uint8_new_from_value 2,
          rmdi_flag_attr = u_flag_attr u,
          rmdi_room_member_bin_attr_internal = [RoomMemberBinAttr_to_protobuf (u_member_attr u)] \<rparr>)"

definition to_roomMemberDataExternal :: "RoomUser \<Rightarrow> RoomMemberDataExternal" where
  "to_roomMemberDataExternal u =
    \<lparr> rmde_user_info = Some (user_info_of u), rmde_join_date = u_join_date u,
      rmde_role = (if (u_flag_attr u AND ROOMMEMBER_FLAG_ATTR_OWNER) \<noteq> 0
                   then Uint8_new_from_value ROLE_OWNER else Uint8_new_from_value ROLE_MEMBER) \<rparr>"

section \<open>Creation from a request\<close>

text \<open>One iteration of each of the attribute loops; the arrays are indexed by the identifier.\<close>

definition put_bin_attr_internal ::
    "u64 \<Rightarrow> u16 \<Rightarrow> BinAttr \<Rightarrow> RoomBinAttrInternal list \<Rightarrow> RoomBinAttrInternal list result" where
  "put_bin_attr_internal now member_id pb arr =
    bind_res (RoomBinAttrInternal_from_protobuf now pb member_id) (\<lambda>a.
      let ident = rba_id (rbi_data a) in
      if ident \<noteq> ROOM_BIN_ATTR_INTERNAL_1_ID \<and> ident \<noteq> ROOM_BIN_ATTR_INTERNAL_2_ID then Ok arr
      else Ok (arr[unat (ident - ROOM_BIN_ATTR_INTERNAL_1_ID) := a]))"

definition put_bin_attr_external :: "BinAttr \<Rightarrow> RoomBinAttr list \<Rightarrow> RoomBinAttr list result" where
  "put_bin_attr_external pb arr =
    bind_res (RoomBinAttr_from_protobuf 256 pb) (\<lambda>a.
      if rba_id a \<noteq> ROOM_BIN_ATTR_EXTERNAL_1_ID \<and> rba_id a \<noteq> ROOM_BIN_ATTR_EXTERNAL_2_ID then Ok arr
      else Ok (arr[unat (rba_id a - ROOM_BIN_ATTR_EXTERNAL_1_ID) := a]))"

definition put_search_bin_attr :: "BinAttr \<Rightarrow> RoomBinAttr \<Rightarrow> RoomBinAttr result" where
  "put_search_bin_attr pb cur =
    bind_res (RoomBinAttr_from_protobuf 64 pb) (\<lambda>a.
      if rba_id a \<noteq> ROOM_SEARCHABLE_BIN_ATTR_EXTERNAL_1_ID then Ok cur else Ok a)"

definition put_search_int_attr :: "IntAttr \<Rightarrow> RoomIntAttr list \<Rightarrow> RoomIntAttr list result" where
  "put_search_int_attr pb arr =
    bind_res (RoomIntAttr_from_protobuf pb) (\<lambda>a.
      if ria_id a < ROOM_SEARCHABLE_INT_ATTR_EXTERNAL_1_ID \<or> ria_id a > ROOM_SEARCHABLE_INT_ATTR_EXTERNAL_8_ID
      then Ok arr
      else Ok (arr[unat (ria_id a - ROOM_SEARCHABLE_INT_ATTR_EXTERNAL_1_ID) := a]))"

definition Room_from_protobuf :: "u64 \<Rightarrow> CreateJoinRoomRequest \<Rightarrow> Room result" where
  "Room_from_protobuf now pb =
    bind_res (fold_res (put_bin_attr_internal now CREATOR_ROOM_MEMBER_ID) (cj_room_bin_attr_internal pb)
                [RoomBinAttrInternal_with_id now ROOM_BIN_ATTR_INTERNAL_1_ID,
                 RoomBinAttrInternal_with_id now ROOM_BIN_ATTR_INTERNAL_2_ID]) (\<lambda>bin_attr_internal.
    bind_res (fold_res put_bin_attr_external (cj_room_bin_attr_external pb)
                [RoomBinAttr_with_id 256 ROOM_BIN_ATTR_EXTERNAL_1_ID,
                 RoomBinAttr_with_id 256 ROOM_BIN_ATTR_EXTERNAL_2_ID]) (\<lambda>bin_attr_external.
    bind_res (fold_res put_search_bin_attr (cj_room_searchable_bin_attr_external pb)
                (RoomBinAttr_with_id 64 ROOM_SEARCHABLE_BIN_ATTR_EXTERNAL_1_ID)) (\<lambda>search_bin_attr.
    bind_res (fold_res put_search_int_attr (cj_room_searchable_int_attr_external pb)
                (map (\<lambda>i. RoomIntAttr_with_id (ROOM_SEARCHABLE_INT_ATTR_EXTERNAL_1_ID + of_nat i)) [0..<8]))
      (\<lambda>search_int_attr.
    bind_res (case cj_sig_opt_param pb of
                None \<Rightarrow> Ok None
              | Some sig_opt \<Rightarrow> bind_res (SignalParam_from_protobuf sig_opt) (\<lambda>s. Ok (Some s)))
      (\<lambda>signaling_param.
      let max_slot = ucast (cj_max_slot pb) in
      Ok \<lparr> r_world_id = cj_world_id pb, r_lobby_id = cj_lobby_id pb, r_max_slot = max_slot,
           r_flag_attr = cj_flag_attr pb AND NOT PROTECTED_ROOM_FLAGS,
           r_bin_attr_internal = bin_attr_internal, r_bin_attr_external = bin_attr_external,
           r_search_bin_attr = search_bin_attr, r_search_int_attr = search_int_attr,
           r_room_password = (if length (cj_room_password pb) = 8 then Some (cj_room_password pb) else None),
           r_group_config = map (\<lambda>(i, gc). RoomGroupConfig_from_protobuf gc (of_nat (i + 1)))
                              (enumerate 0 (cj_group_config pb)),
           r_password_slot_mask = cj_password_slot_mask pb,
           r_allowed_users = cj_allowed_user pb, r_blocked_users = cj_blocked_user pb,
           r_signaling_param = signaling_param, r_server_id = 0, r_room_id = 0,
           r_slots = replicate (unat max_slot) False, r_member_id_counter = 0, r_users = [],
           r_owner = 0, r_owner_succession = [] \<rparr>)))))"

section \<open>Descriptions of a room\<close>

definition to_RoomDataInternal :: "Room \<Rightarrow> RoomDataInternal result" where
  "to_RoomDataInternal r =
    bind_res (traverse (\<lambda>u. to_RoomMemberDataInternal u r) (bt_values (r_users r))) (\<lambda>member_list. Ok
      \<lparr> rdi_server_id = Uint16_new_from_value (r_server_id r), rdi_world_id = r_world_id r,
        rdi_lobby_id = r_lobby_id r, rdi_room_id = r_room_id r,
        rdi_password_slot_mask = r_password_slot_mask r, rdi_max_slot = ucast (r_max_slot r),
        rdi_member_list = member_list, rdi_owner_id = Uint16_new_from_value (r_owner r),
        rdi_room_group = map RoomGroupConfig_to_protobuf (r_group_config r),
        rdi_flag_attr = r_flag_attr r,
        rdi_room_bin_attr_internal = map RoomBinAttrInternal_to_protobuf (r_bin_attr_internal r) \<rparr>)"

definition to_OptParam :: "Room \<Rightarrow> OptParam option" where
  "to_OptParam r = map_option SignalParam_to_protobuf (r_signaling_param r)"

definition room_owner_info :: "Room \<Rightarrow> i32 \<Rightarrow> UserInfo option result" where
  "room_owner_info r search_option =
    (if (search_option AND 7) \<noteq> 0
     then bind_res (unwrap (bt_get (r_users r) (r_owner r))) (\<lambda>u. Ok (Some
            \<lparr> ui_np_id = u_npid u,
              ui_online_name = (if (search_option AND 2) \<noteq> 0 then u_online_name u else ''''),
              ui_avatar_url = (if (search_option AND 4) \<noteq> 0 then u_avatar_url u else '''') \<rparr>))
     else Ok None)"

fun inc_loop :: "Room \<Rightarrow> u16 list \<Rightarrow> IntAttr list \<times> BinAttr list \<times> BinAttr list" where
  "inc_loop r [] = ([], [], [])"
| "inc_loop r (a # as) =
    (let (si, sb, be) = inc_loop r as in
     if ROOM_SEARCHABLE_INT_ATTR_EXTERNAL_1_ID \<le> a \<and> a \<le> ROOM_SEARCHABLE_INT_ATTR_EXTERNAL_8_ID
     then (RoomIntAttr_to_protobuf (r_search_int_attr r ! unat (a - ROOM_SEARCHABLE_INT_ATTR_EXTERNAL_1_ID)) # si,
           sb, be)
     else if a = ROOM_SEARCHABLE_BIN_ATTR_EXTERNAL_1_ID
     then (si, RoomBinAttr_to_protobuf (r_search_bin_attr r) # sb, be)
     else if ROOM_BIN_ATTR_EXTERNAL_1_ID \<le> a \<and> a \<le> ROOM_BIN_ATTR_EXTERNAL_2_ID
     then (si, sb, RoomBinAttr_to_protobuf (r_bin_attr_external r ! unat (a - ROOM_BIN_ATTR_EXTERNAL_1_ID)) # be)
     else (si, sb, be))"

text \<open>
  The bit of the password mask for the slot with index \<^verbatim>\<open>i\<close>: \<^verbatim>\<open>1 << (63 - i)\<close>, where the release
  build takes the shift amount modulo 64.
\<close>

definition slot_mask_bit :: "nat \<Rightarrow> u64" where
  "slot_mask_bit i = push_bit (nat ((63 - int i) mod 64)) 1"

fun slot_counts :: "Room \<Rightarrow> nat list \<Rightarrow> u16 \<times> u16 \<times> u16 \<Rightarrow> (u16 \<times> u16 \<times> u16) result" where
  "slot_counts r [] acc = Ok acc"
| "slot_counts r (i # is) (max_private, open_public, open_private) =
    bind_res (index_res (r_slots r) i) (\<lambda>occupied.
      if (r_password_slot_mask r AND slot_mask_bit i) \<noteq> 0
      then slot_counts r is
             (max_private + 1, open_public, if occupied then open_private else open_private + 1)
      else slot_counts r is
             (max_private, if occupied then open_public else open_public + 1, open_private))"

definition to_RoomDataExternal :: "Room \<Rightarrow> i32 \<Rightarrow> u16 list \<Rightarrow> RoomDataExternal result" where
  "to_RoomDataExternal r search_option inc_attrs =
    bind_res (room_owner_info r search_option) (\<lambda>owner_info.
    bind_res (if r_room_password r \<noteq> None
              then slot_counts r [0..<unat (r_max_slot r)] (0, 0, 0)
              else Ok (0, r_max_slot r, 0)) (\<lambda>(max_private_slots, open_public_slots, open_private_slots).
      let (vec_searchint, vec_searchbin, vec_binattrexternal) = inc_loop r inc_attrs;
          max_public_slots = r_max_slot r - max_private_slots
      in Ok \<lparr> rde_server_id = Uint16_new_from_value (r_server_id r), rde_world_id = r_world_id r,
              rde_public_slot_num = Uint16_new_from_value max_public_slots,
              rde_private_slot_num = Uint16_new_from_value max_private_slots,
              rde_lobby_id = r_lobby_id r, rde_room_id = r_room_id r,
              rde_open_public_slot_num = Uint16_new_from_value open_public_slots,
              rde_max_slot = Uint16_new_from_value (r_max_slot r),
              rde_open_private_slot_num = Uint16_new_from_value open_private_slots,
              rde_cur_member_num = Uint16_new_from_value (of_nat (length (r_users r))),
              rde_password_slot_mask = r_password_slot_mask r, rde_owner = owner_info,
              rde_room_group = map RoomGroupConfig_to_protobuf (r_group_config r),
              rde_flag_attr = r_flag_attr r,
              rde_room_searchable_int_attr_external = vec_searchint,
              rde_room_searchable_bin_attr_external = vec_searchbin,
              rde_room_bin_attr_external = vec_binattrexternal \<rparr>))"

definition to_RoomDataExternalAll :: "Room \<Rightarrow> i32 \<Rightarrow> u16 list \<Rightarrow> RoomDataExternalAll result" where
  "to_RoomDataExternalAll r search_option inc_attrs =
    bind_res (to_RoomDataExternal r search_option inc_attrs) (\<lambda>base.
      Ok (RoomDataExternal.extend base
            (RoomDataExternalAll.fields (map to_roomMemberDataExternal (bt_values (r_users r))))))"

definition get_room_member_update_info ::
    "Room \<Rightarrow> u16 \<Rightarrow> EventCause \<Rightarrow> PresenceOptionData option \<Rightarrow> RoomMemberUpdateInfo result" where
  "get_room_member_update_info r member_id event_cause user_opt_data =
    bind_res (unwrap (bt_get (r_users r) member_id)) (\<lambda>user.
    bind_res (to_RoomMemberDataInternal user r) (\<lambda>member_internal. Ok
      \<lparr> rmui_room_member_data_internal = Some member_internal,
        rmui_event_cause = Uint8_new_from_value (event_cause_u8 event_cause),
        rmui_opt_data = user_opt_data \<rparr>))"

definition get_room_users :: "Room \<Rightarrow> u16 \<rightharpoonup> i64" where
  "get_room_users r = map_of (map (\<lambda>(m, u). (m, u_user_id u)) (r_users r))"

definition get_room_user_ids :: "Room \<Rightarrow> i64 set" where
  "get_room_user_ids r = set (map u_user_id (bt_values (r_users r)))"

text \<open>\<^verbatim>\<open>find_user\<close> and \<^verbatim>\<open>get_member_id\<close> scan the members in key order.\<close>

fun member_of :: "i64 \<Rightarrow> (u16, RoomUser) btree \<Rightarrow> u16 option" where
  "member_of user_id [] = None"
| "member_of user_id ((m, u) # us) = (if u_user_id u = user_id then Some m else member_of user_id us)"

definition get_member_id :: "Room \<Rightarrow> i64 \<Rightarrow> u16 result" where
  "get_member_id r user_id = ok_or NotFound (member_of user_id (r_users r))"

definition find_user :: "Room \<Rightarrow> i64 \<Rightarrow> u16" where
  "find_user r user_id = (case member_of user_id (r_users r) of Some m \<Rightarrow> m | None \<Rightarrow> 0)"

definition get_owner :: "Room \<Rightarrow> u16" where
  "get_owner r = r_owner r"

end
