(* ===== verification/Room_Search.thy ===== *)
theory Room_Search
  imports Room
begin

text \<open>
  The search filters of a room: \<^verbatim>\<open>Room::is_match\<close> and \<^verbatim>\<open>Room::is_match_all\<close>.  The two share
  the loops over the integer and the binary filters; \<^verbatim>\<open>is_match\<close> first looks at the flags.
  The lemmas give the declarative reading of the loops: a room matches exactly when every filter
  that carries an attribute is well formed and holds.
\<close>

section \<open>The loops\<close>

fun int_op_holds :: "SceNpMatching2Operator \<Rightarrow> u32 \<Rightarrow> u32 \<Rightarrow> bool" where
  "int_op_holds OperatorEq found num \<longleftrightarrow> \<not> (found \<noteq> num)"
| "int_op_holds OperatorNe found num \<longleftrightarrow> \<not> (found = num)"
| "int_op_holds OperatorLt found num \<longleftrightarrow> \<not> (found \<ge> num)"
| "int_op_holds OperatorLe found num \<longleftrightarrow> \<not> (found > num)"
| "int_op_holds OperatorGt found num \<longleftrightarrow> \<not> (found \<le> num)"
| "int_op_holds OperatorGe found num \<longleftrightarrow> \<not> (found < num)"

fun match_int_filters :: "Room \<Rightarrow> IntSearchFilter list \<Rightarrow> bool result" where
  "match_int_filters r [] = Ok True"
| "match_int_filters r (f # fs) =
    bind_res (Uint8_opt_get_verified (isf_search_operator f)) (\<lambda>op.
      case isf_attr f of
        None \<Rightarrow> match_int_filters r fs
      | Some attr \<Rightarrow>
          bind_res (Uint16_opt_get_verified (ia_id attr)) (\<lambda>ident.
            if ident < ROOM_SEARCHABLE_INT_ATTR_EXTERNAL_1_ID \<or> ident > ROOM_SEARCHABLE_INT_ATTR_EXTERNAL_8_ID
            then Ok False
            else (case operator_from_u8 op of
                    None \<Rightarrow> Ok False
                  | Some op' \<Rightarrow>
                      if int_op_holds op'
                           (ria_attr (r_search_int_attr r ! unat (ident - ROOM_SEARCHABLE_INT_ATTR_EXTERNAL_1_ID)))
                           (ia_num attr)
                      then match_int_filters r fs
                      else Ok False)))"

definition bin_prefix_equal :: "Room \<Rightarrow> bytes \<Rightarrow> bool" where
  "bin_prefix_equal r data =
    (let attr = rba_attr (r_search_bin_attr r); len_compare = min (length data) (length attr) in
     take len_compare attr = take len_compare data)"

fun match_bin_filters :: "Room \<Rightarrow> BinSearchFilter list \<Rightarrow> bool result" where
  "match_bin_filters r [] = Ok True"
| "match_bin_filters r (f # fs) =
    bind_res (Uint8_opt_get_verified (bsf_search_operator f)) (\<lambda>op.
      case bsf_attr f of
        None \<Rightarrow> match_bin_filters r fs
      | Some attr \<Rightarrow>
          bind_res (Uint16_opt_get_verified (ba_id attr)) (\<lambda>ident.
            if ident \<noteq> ROOM_SEARCHABLE_BIN_ATTR_EXTERNAL_1_ID then Ok False
            else (case operator_from_u8 op of
                    None \<Rightarrow> Ok False
                  | Some OperatorEq \<Rightarrow>
                      if bin_prefix_equal r (ba_data attr) then match_bin_filters r fs else Ok False
                  | Some OperatorNe \<Rightarrow>
                      if bin_prefix_equal r (ba_data attr) then Ok False else match_bin_filters r fs
                  | Some _ \<Rightarrow> Panic)))"

text \<open>
  \<^verbatim>\<open>is_match_all\<close> runs the integer filters and then the binary ones; \<^verbatim>\<open>is_match\<close> does the same
  after its tests of the flags.
\<close>

definition is_match_all :: "Room \<Rightarrow> SearchRoomRequest \<Rightarrow> bool result" where
  "is_match_all r req =
    bind_res (match_int_filters r (srr_int_filter req)) (\<lambda>b.
      if b then match_bin_filters r (srr_bin_filter req) else Ok False)"

definition is_match :: "Room \<Rightarrow> SearchRoomRequest \<Rightarrow> bool result" where
  "is_match r req =
    (if (r_flag_attr r AND ROOM_FLAG_ATTR_HIDDEN) \<noteq> 0 then Ok False
     else
       let flag_filter = srr_flag_filter req AND NOT ROOM_FLAG_ATTR_NAT_TYPE_RESTRICTION;
           flag_attr = srr_flag_attr req AND NOT ROOM_FLAG_ATTR_NAT_TYPE_RESTRICTION
       in if (r_flag_attr r AND flag_filter) \<noteq> flag_attr then Ok False
          else bind_res (match_int_filters r (srr_int_filter req)) (\<lambda>b.
                 if b then match_bin_filters r (srr_bin_filter req) else Ok False))"

section \<open>Their declarative reading\<close>

text \<open>
  What a filter says.  A filter without attribute is satisfied by every room as long as its operator
  is present and fits in 8 bits; the others need a known identifier and a known operator.
\<close>

definition int_filter_sat :: "Room \<Rightarrow> IntSearchFilter \<Rightarrow> bool" where
  "int_filter_sat r f \<longleftrightarrow> (\<exists>op. Uint8_opt_get_verified (isf_search_operator f) = Ok op \<and>
    (case isf_attr f of None \<Rightarrow> True
     | Some attr \<Rightarrow> \<exists>ident op'. Uint16_opt_get_verified (ia_id attr) = Ok ident \<and>
         0x4C \<le> ident \<and> ident \<le> 0x53 \<and> operator_from_u8 op = Some op' \<and>
         int_op_holds op' (ria_attr (r_search_int_attr r ! unat (ident - 0x4C))) (ia_num attr)))"

definition bin_filter_sat :: "Room \<Rightarrow> BinSearchFilter \<Rightarrow> bool" where
  "bin_filter_sat r f \<longleftrightarrow> (\<exists>op. Uint8_opt_get_verified (bsf_search_operator f) = Ok op \<and>
    (case bsf_attr f of None \<Rightarrow> True
     | Some attr \<Rightarrow> Uint16_opt_get_verified (ba_id attr) = Ok 0x54 \<and>
         (op = 1 \<and> bin_prefix_equal r (ba_data attr) \<or> op = 2 \<and> \<not> bin_prefix_equal r (ba_data attr))))"

lemma operator_from_u8_eq:
  "operator_from_u8 n = Some OperatorEq \<longleftrightarrow> n = 1"
  "operator_from_u8 n = Some OperatorNe \<longleftrightarrow> n = 2"
  by auto

lemma match_int_filters_Cons:
  "match_int_filters r (f # fs) = Ok True \<longleftrightarrow> int_filter_sat r f \<and> match_int_filters r fs = Ok True"
proof (cases "Uint8_opt_get_verified (isf_search_operator f)")
  case op: (Ok op)
  show ?thesis
  proof (cases "isf_attr f")
    case attr: (Some attr)
    show ?thesis
      by (cases "Uint16_opt_get_verified (ia_id attr)"; cases "operator_from_u8 op")
         (auto simp: op attr int_filter_sat_def not_less simp del: operator_from_u8.simps)
  qed (simp add: op int_filter_sat_def)
qed (simp_all add: int_filter_sat_def)

lemma match_bin_filters_Cons:
  "match_bin_filters r (f # fs) = Ok True \<longleftrightarrow> bin_filter_sat r f \<and> match_bin_filters r fs = Ok True"
proof (cases "Uint8_opt_get_verified (bsf_search_operator f)")
  case op: (Ok op)
  show ?thesis
  proof (cases "bsf_attr f")
    case attr: (Some attr)
    show ?thesis
      by (cases "Uint16_opt_get_verified (ba_id attr)") (simp_all add: op attr bin_filter_sat_def)
  qed (simp add: op bin_filter_sat_def)
qed (simp_all add: bin_filter_sat_def)

lemma match_int_filters_True:
  "match_int_filters r fs = Ok True \<longleftrightarrow> (\<forall>f \<in> set fs. int_filter_sat r f)"
  by (induction fs) (simp, simp only: match_int_filters_Cons list.set ball_simps)

lemma match_bin_filters_True:
  "match_bin_filters r fs = Ok True \<longleftrightarrow> (\<forall>f \<in> set fs. bin_filter_sat r f)"
  by (induction fs) (simp, simp only: match_bin_filters_Cons list.set ball_simps)

lemma match_int_filters_not_Panic [simp]: "match_int_filters r fs \<noteq> Panic"
  by (induction fs) (auto split: option.splits)

text \<open>The loop over the binary filters panics only on an ordering operator.\<close>

definition bin_filter_ordering :: "BinSearchFilter \<Rightarrow> bool" where
  "bin_filter_ordering f \<longleftrightarrow> Uint8_opt_get_verified (bsf_search_operator f) \<in> Ok ` {3, 4, 5, 6}"

lemma match_bin_filters_not_Panic:
  assumes "\<And>f. f \<in> set fs \<Longrightarrow> \<not> bin_filter_ordering f"
  shows "match_bin_filters r fs \<noteq> Panic"
  using assms
  by (induction fs)
     (auto simp: bin_filter_ordering_def split: option.splits if_splits SceNpMatching2Operator.splits)

lemma is_match_all_not_Panic:
  assumes "\<And>f. f \<in> set (srr_bin_filter req) \<Longrightarrow> \<not> bin_filter_ordering f"
  shows "is_match_all r req \<noteq> Panic"
  using match_bin_filters_not_Panic [OF assms] by (auto simp: is_match_all_def)

lemma is_match_via_all:
  "is_match r req =
    (if (r_flag_attr r AND ROOM_FLAG_ATTR_HIDDEN) \<noteq> 0 \<or>
        (r_flag_attr r AND (srr_flag_filter req AND NOT ROOM_FLAG_ATTR_NAT_TYPE_RESTRICTION))
          \<noteq> srr_flag_attr req AND NOT ROOM_FLAG_ATTR_NAT_TYPE_RESTRICTION
     then Ok False else is_match_all r req)"
  by (simp add: is_match_def is_match_all_def Let_def)

lemma is_match_not_Panic:
  assumes "\<And>f. f \<in> set (srr_bin_filter req) \<Longrightarrow> \<not> bin_filter_ordering f"
  shows "is_match r req \<noteq> Panic"
  using is_match_all_not_Panic [OF assms] by (simp add: is_match_via_all)

lemma is_match_hidden: "(r_flag_attr r AND ROOM_FLAG_ATTR_HIDDEN) \<noteq> 0 \<Longrightarrow> is_match r req = Ok False"
  by (simp add: is_match_def)

end
