(* ===== verification/Room_Slots.thy ===== *)
theory Room_Slots
  imports Room
begin

text \<open>
  Slots and member identifiers of a room: \<^verbatim>\<open>is_slot_private\<close>, \<^verbatim>\<open>occupy_slot\<close>, \<^verbatim>\<open>req_slot\<close>,
  \<^verbatim>\<open>req_specific_slots\<close>, \<^verbatim>\<open>free_slot\<close> and \<^verbatim>\<open>get_a_slot\<close> of \<^verbatim>\<open>server/room_manager.rs\<close>.  Slots are
  numbered from 1; slot \<^verbatim>\<open>s\<close> is entry \<^verbatim>\<open>s - 1\<close> of the slot table, and a member identifier is the
  slot number times 16 plus a counter below 16.
\<close>

section \<open>Operations\<close>

definition is_slot_private :: "Room \<Rightarrow> usize \<Rightarrow> bool" where
  "is_slot_private r slot \<longleftrightarrow> (r_password_slot_mask r AND (64 - of_nat slot)) \<noteq> 0"

definition occupy_slot :: "Room \<Rightarrow> usize \<Rightarrow> u16 result \<times> Room" where
  "occupy_slot r slot =
    (if slot = 0 \<or> length (r_slots r) < slot then (Panic, r)
     else if r_slots r ! (slot - 1) then (Panic, r)
     else (Ok (push_bit 4 (of_nat slot) + r_member_id_counter r),
           r\<lparr> r_slots := (r_slots r)[slot - 1 := True],
              r_member_id_counter := (r_member_id_counter r + 1) AND 0xF \<rparr>))"

text \<open>The scan that \<^verbatim>\<open>req_slot\<close> and \<^verbatim>\<open>req_specific_slots\<close> do: the first free slot of the list that fits.\<close>

fun scan_slots :: "(usize \<Rightarrow> bool) \<Rightarrow> bool list \<Rightarrow> usize list \<Rightarrow> usize option result" where
  "scan_slots fits slots [] = Ok None"
| "scan_slots fits slots (i # is) =
    bind_res (index_res slots (i - 1)) (\<lambda>occupied.
      if \<not> occupied \<and> fits i then Ok (Some i) else scan_slots fits slots is)"

definition req_slot :: "Room \<Rightarrow> bool \<Rightarrow> u16 result \<times> Room" where
  "req_slot r private =
    (case scan_slots (\<lambda>i. private = is_slot_private r i) (r_slots r) [1..<Suc (unat (r_max_slot r))] of
       Ok (Some i) \<Rightarrow> occupy_slot r i
     | Ok None \<Rightarrow> (Err RoomFull, r)
     | Err e \<Rightarrow> (Err e, r)
     | Panic \<Rightarrow> (Panic, r))"

definition req_specific_slots :: "Room \<Rightarrow> usize \<Rightarrow> usize \<Rightarrow> u16 result \<times> Room" where
  "req_specific_slots r start_slot num_slots =
    (case scan_slots (\<lambda>i. True) (r_slots r) [start_slot..<start_slot + num_slots] of
       Ok (Some i) \<Rightarrow> occupy_slot r i
     | Ok None \<Rightarrow> (Panic, r)
     | Err e \<Rightarrow> (Err e, r)
     | Panic \<Rightarrow> (Panic, r))"

definition free_slot :: "Room \<Rightarrow> u16 \<Rightarrow> (unit, unit) res \<times> Room" where
  "free_slot r member_id =
    (let slot = unat (drop_bit 4 member_id - 1) in
     if length (r_slots r) \<le> slot then (Panic, r)
     else if r_slots r ! slot then (Ok (), r\<lparr> r_slots := (r_slots r)[slot := False] \<rparr>)
     else (Err (), r))"

text \<open>
  The two loops over the groups in \<^verbatim>\<open>get_a_slot\<close>: the position of the group to join and the first
  slot of its range.  The first looks for the label, the second for a group without one.
\<close>

fun find_label_group :: "bytes option \<Rightarrow> RoomGroupConfig list \<Rightarrow> nat \<Rightarrow> usize \<Rightarrow> (nat \<times> usize) option" where
  "find_label_group label [] i cur_slot_id = None"
| "find_label_group label (g # gs) i cur_slot_id =
    (if g_label g = label then Some (i, cur_slot_id)
     else find_label_group label gs (i + 1) (cur_slot_id + unat (g_slot_num g)))"

fun find_labelless_group ::
    "bytes option \<Rightarrow> bytes option \<Rightarrow> RoomGroupConfig list \<Rightarrow> nat \<Rightarrow> usize \<Rightarrow> (nat \<times> usize) option result" where
  "find_labelless_group password room_password [] i cur_slot_id = Ok None"
| "find_labelless_group password room_password (g # gs) i cur_slot_id =
    (if g_label g = None then
       if g_with_password g \<and> password = None
       then find_labelless_group password room_password gs (i + 1) (cur_slot_id + unat (g_slot_num g))
       else if g_with_password g \<and> password \<noteq> room_password then Err RoomPasswordMismatch
       else Ok (Some (i, cur_slot_id))
     else find_labelless_group password room_password gs (i + 1) (cur_slot_id + unat (g_slot_num g)))"

definition join_group :: "Room \<Rightarrow> nat \<Rightarrow> usize \<Rightarrow> (u8 \<times> u16) result \<times> Room" where
  "join_group r i cur_slot_id =
    (let g = r_group_config r ! i;
         r1 = r\<lparr> r_group_config := (r_group_config r)[i := g\<lparr> g_num_members := g_num_members g + 1 \<rparr>] \<rparr>
     in then_st (req_specific_slots r1 cur_slot_id (unat (g_slot_num g)))
          (\<lambda>member_id r2. (Ok (of_nat (i + 1), member_id), r2)))"

definition get_a_slot :: "Room \<Rightarrow> bytes option \<Rightarrow> bytes option \<Rightarrow> (u8 \<times> u16) result \<times> Room" where
  "get_a_slot r join_label password =
    (if r_group_config r \<noteq> [] then
       if join_label = None then (Err RoomGroupNoJoinLabel, r)
       else (case find_label_group join_label (r_group_config r) 0 1 of
               Some (i, cur_slot_id) \<Rightarrow>
                 let g = r_group_config r ! i in
                 if g_with_password g \<and> password \<noteq> r_room_password r then (Err RoomPasswordMismatch, r)
                 else if g_num_members g \<ge> g_slot_num g then (Err RoomGroupFull, r)
                 else join_group r i cur_slot_id
             | None \<Rightarrow>
                 (case find_labelless_group password (r_room_password r) (r_group_config r) 0 1 of
                    Ok (Some (i, cur_slot_id)) \<Rightarrow> join_group r i cur_slot_id
                  | Ok None \<Rightarrow> (Err RoomGroupJoinLabelNotFound, r)
                  | Err e \<Rightarrow> (Err e, r)
                  | Panic \<Rightarrow> (Panic, r)))
     else
       then_st
         (case password of
            Some p \<Rightarrow>
              if Some p = r_room_password r then
                (case req_slot r True of
                   (Ok member_id, r1) \<Rightarrow> (Ok member_id, r1)
                 | (Err _, r1) \<Rightarrow> req_slot r1 False
                 | (Panic, r1) \<Rightarrow> (Panic, r1))
              else (Err RoomPasswordMismatch, r)
          | None \<Rightarrow> req_slot r False)
         (\<lambda>member_id r1. (Ok (0, member_id), r1)))"

section \<open>Member identifiers\<close>

definition slot_of :: "u16 \<Rightarrow> nat" where
  "slot_of member_id = unat (drop_bit 4 member_id)"

definition slots_ok :: "Room \<Rightarrow> bool" where
  "slots_ok r \<longleftrightarrow> 1 \<le> unat (r_max_slot r) \<and> unat (r_max_slot r) \<le> 64 \<and>
    length (r_slots r) = unat (r_max_slot r) \<and> r_member_id_counter r < 16"

lemma unat_member_id:
  assumes "slot \<le> 64" and "c < (16 :: u16)"
  shows "unat (push_bit 4 (of_nat slot) + c) = 16 * slot + unat c"
proof -
  have c: "unat c < 16" using assms(2) by (simp add: word_less_nat_alt)
  have p: "unat (push_bit 4 (of_nat slot) :: u16) = 16 * slot"
    using assms(1) by (simp add: push_bit_eq_mult unat_word_ariths unat_of_nat16)
  show ?thesis
    using assms(1) c by (subst unat_word_ariths(1), subst p, simp)
qed

lemma slot_of_div: "slot_of m = unat m div 16"
  by (simp add: slot_of_def drop_bit_eq_div unat_div_distrib)

lemma slot_of_member_id:
  assumes "slot \<le> 64" and "c < (16 :: u16)"
  shows "slot_of (push_bit 4 (of_nat slot) + c) = slot"
  using unat_member_id [OF assms] assms(2) by (simp add: slot_of_div word_less_nat_alt)

lemma slot_of_nonzero: "1 \<le> slot_of m \<Longrightarrow> m \<noteq> 0"
  by (auto simp: slot_of_def)

lemma counter_step: "(c + 1) AND 0xF < (16 :: u16)"
proof -
  have "(c + 1) AND 0xF = take_bit 4 (c + 1)"
    by (simp add: take_bit_eq_mask mask_eq_exp_minus_1)
  moreover have "unat (take_bit 4 (c + 1)) < 16"
    using take_bit_nat_less_exp [of 4 "unat (c + 1)"] by (simp add: unsigned_take_bit_eq)
  ultimately show ?thesis by (simp add: word_less_nat_alt)
qed

section \<open>What an allocation does\<close>

text \<open>
  A successful allocation marks the slot of the new identifier, which was free, and may have
  counted a member in a group; nothing else changes.
\<close>

definition takes_slot :: "Room \<Rightarrow> u16 \<Rightarrow> Room \<Rightarrow> bool" where
  "takes_slot r m r' \<longleftrightarrow>
    1 \<le> slot_of m \<and> slot_of m \<le> length (r_slots r) \<and> \<not> r_slots r ! (slot_of m - 1) \<and>
    (\<exists>gc c. length gc = length (r_group_config r) \<and> c < 16 \<and>
      r' = r\<lparr> r_slots := (r_slots r)[slot_of m - 1 := True], r_member_id_counter := c, r_group_config := gc \<rparr>)"

definition same_but_groups :: "Room \<Rightarrow> Room \<Rightarrow> bool" where
  "same_but_groups r r' \<longleftrightarrow>
    (\<exists>gc. length gc = length (r_group_config r) \<and> r' = r\<lparr> r_group_config := gc \<rparr>)"

lemma same_but_groups_refl [simp]: "same_but_groups r r"
  unfolding same_but_groups_def by (rule exI [of _ "r_group_config r"]) simp

lemma same_but_groupsI: "length gc = length (r_group_config r) \<Longrightarrow> same_but_groups r (r\<lparr> r_group_config := gc \<rparr>)"
  unfolding same_but_groups_def by (rule exI [of _ gc]) simp

lemma occupy_slot_Ok:
  assumes "occupy_slot r slot = (Ok m, r')" and "slots_ok r"
  shows "slot_of m = slot" and "takes_slot r m r'"
proof -
  have slot: "1 \<le> slot" "slot \<le> length (r_slots r)" and free: "\<not> r_slots r ! (slot - 1)"
    and m: "m = push_bit 4 (of_nat slot) + r_member_id_counter r"
    and r': "r' = r\<lparr> r_slots := (r_slots r)[slot - 1 := True],
              r_member_id_counter := (r_member_id_counter r + 1) AND 0xF \<rparr>"
    using assms(1) by (auto simp: occupy_slot_def split: if_splits)
  show s: "slot_of m = slot"
    using slot assms(2) by (simp add: m slots_ok_def slot_of_member_id)
  have "r' = r\<lparr> r_slots := (r_slots r)[slot_of m - 1 := True],
              r_member_id_counter := (r_member_id_counter r + 1) AND 0xF,
              r_group_config := r_group_config r \<rparr>"
    by (simp add: r' s)
  then show "takes_slot r m r'"
    unfolding takes_slot_def using slot free s counter_step by metis
qed

lemma occupy_slot_free:
  assumes "1 \<le> slot" and "slot \<le> length (r_slots r)" and "\<not> r_slots r ! (slot - 1)"
  shows "\<exists>m r'. occupy_slot r slot = (Ok m, r')"
  using assms by (simp add: occupy_slot_def)

lemma occupy_slot_not_Err [simp]: "occupy_slot r slot \<noteq> (Err e, r')"
  by (simp add: occupy_slot_def)

lemma occupy_slot_Panic: "occupy_slot r slot = (Panic, r') \<Longrightarrow> r' = r"
  by (auto simp: occupy_slot_def split: if_splits)

lemma scan_slots_not_Err [simp]: "scan_slots fits slots is \<noteq> Err e"
proof (induction "is")
  case (Cons i "is")
  then show ?case by (cases "index_res slots (i - 1) :: (ErrorType, bool) res") (auto simp: index_res_def split: if_splits)
qed simp

lemma scan_slots_Some:
  "scan_slots fits slots is = Ok (Some i) \<Longrightarrow>
     i \<in> set is \<and> i - 1 < length slots \<and> \<not> slots ! (i - 1) \<and> fits i"
  by (induction "is") (auto simp: index_res_def split: if_splits)

lemma scan_slots_in_range:
  assumes "\<And>i. i \<in> set is \<Longrightarrow> i - 1 < length slots"
  shows "scan_slots fits slots is = Ok (List.find (\<lambda>i. \<not> slots ! (i - 1) \<and> fits i) is)"
  using assms by (induction "is") auto

text \<open>The specification of the scans: the lowest free slot of a kind.\<close>

definition lowest_slot :: "Room \<Rightarrow> (nat \<Rightarrow> bool) \<Rightarrow> nat option" where
  "lowest_slot r fits = List.find (\<lambda>i. \<not> r_slots r ! (i - 1) \<and> fits i) [1..<Suc (unat (r_max_slot r))]"

lemma lowest_slot_Some:
  assumes "slots_ok r"
  shows "lowest_slot r fits = Some i \<longleftrightarrow>
    1 \<le> i \<and> i \<le> length (r_slots r) \<and> \<not> r_slots r ! (i - 1) \<and> fits i \<and>
    (\<forall>j. 1 \<le> j \<longrightarrow> j < i \<longrightarrow> r_slots r ! (j - 1) \<or> \<not> fits j)"
    (is "_ \<longleftrightarrow> ?R")
proof -
  let ?n = "unat (r_max_slot r)"
  have n: "length (r_slots r) = ?n" using assms by (simp add: slots_ok_def)
  have "lowest_slot r fits = Some i \<longleftrightarrow>
    (\<exists>k < ?n. (\<not> r_slots r ! k \<and> fits (Suc k)) \<and> i = Suc k \<and> (\<forall>j < k. r_slots r ! j \<or> \<not> fits (Suc j)))"
    unfolding lowest_slot_def find_Some_iff by (rule ex_cong1) (auto simp del: upt_Suc)
  also have "\<dots> \<longleftrightarrow> ?R"
  proof
    assume R: ?R
    then obtain k where i: "i = Suc k" by (cases i) auto
    have "r_slots r ! j \<or> \<not> fits (Suc j)" if "j < k" for j
      using R that i by (auto dest: spec [of _ "Suc j"])
    then show "\<exists>k < ?n. (\<not> r_slots r ! k \<and> fits (Suc k)) \<and> i = Suc k \<and> (\<forall>j < k. r_slots r ! j \<or> \<not> fits (Suc j))"
      using R i n by auto
  next
    assume "\<exists>k < ?n. (\<not> r_slots r ! k \<and> fits (Suc k)) \<and> i = Suc k \<and> (\<forall>j < k. r_slots r ! j \<or> \<not> fits (Suc j))"
    then obtain k where k: "k < ?n" "\<not> r_slots r ! k" "fits (Suc k)" "i = Suc k"
      and below: "\<And>j. j < k \<Longrightarrow> r_slots r ! j \<or> \<not> fits (Suc j)" by blast
    have "r_slots r ! (j - 1) \<or> \<not> fits j" if "1 \<le> j" "j < i" for j
      using below [of "j - 1"] that k by simp
    then show ?R using k n by simp
  qed
  finally show ?thesis .
qed

lemma req_slot_lowest:
  assumes "slots_ok r"
  shows "req_slot r private =
    (case lowest_slot r (\<lambda>i. private = is_slot_private r i) of
       Some i \<Rightarrow> occupy_slot r i
     | None \<Rightarrow> (Err RoomFull, r))"
proof -
  have "i - 1 < length (r_slots r)" if "i \<in> set [1..<Suc (unat (r_max_slot r))]" for i
    using that assms by (auto simp: slots_ok_def)
  then have "scan_slots (\<lambda>i. private = is_slot_private r i) (r_slots r) [1..<Suc (unat (r_max_slot r))]
      = Ok (lowest_slot r (\<lambda>i. private = is_slot_private r i))"
    unfolding lowest_slot_def by (rule scan_slots_in_range)
  then show ?thesis by (simp add: req_slot_def split: option.splits del: upt_Suc)
qed

text \<open>On a room whose slot table fits its size, asking for a slot never panics.\<close>

lemma req_slot_cases:
  assumes "slots_ok r"
  obtains (taken) m r' where "req_slot r private = (Ok m, r')" "takes_slot r m r'"
      "lowest_slot r (\<lambda>i. private = is_slot_private r i) = Some (slot_of m)"
    | (full) "req_slot r private = (Err RoomFull, r)"
      "lowest_slot r (\<lambda>i. private = is_slot_private r i) = None"
proof (cases "lowest_slot r (\<lambda>i. private = is_slot_private r i)")
  case None
  then show ?thesis using full req_slot_lowest [OF assms] by simp
next
  case (Some i)
  then have "1 \<le> i" "i \<le> length (r_slots r)" "\<not> r_slots r ! (i - 1)"
    using lowest_slot_Some [OF assms] by blast+
  then obtain m r' where occ: "occupy_slot r i = (Ok m, r')" using occupy_slot_free by blast
  then have "slot_of m = i" "takes_slot r m r'" using occupy_slot_Ok assms by blast+
  then show ?thesis using taken Some occ req_slot_lowest [OF assms] by simp
qed

section \<open>Joining: which slot is granted\<close>

lemma find_label_group_Some:
  "find_label_group label gs i cur = Some (k, s) \<Longrightarrow>
     i \<le> k \<and> k < i + length gs \<and> cur \<le> s \<and> g_label (gs ! (k - i)) = label"
proof (induction label gs i cur rule: find_label_group.induct)
  case (2 label g gs i cur)
  show ?case
  proof (cases "g_label g = label")
    case False
    with 2 have "Suc i \<le> k" "k < Suc i + length gs" "cur \<le> s" "g_label (gs ! (k - Suc i)) = label" by auto
    then show ?thesis by (auto simp: le_iff_add)
  qed (use 2 in auto)
qed simp

lemma find_labelless_group_Some:
  "find_labelless_group pw room_pw gs i cur = Ok (Some (k, s)) \<Longrightarrow>
     i \<le> k \<and> k < i + length gs \<and> cur \<le> s \<and> g_label (gs ! (k - i)) = None \<and>
     (g_with_password (gs ! (k - i)) \<longrightarrow> pw = room_pw)"
proof (induction pw room_pw gs i cur rule: find_labelless_group.induct)
  case (2 pw room_pw g gs i cur)
  show ?case
  proof (cases "g_label g = None \<and> \<not> (g_with_password g \<and> pw = None)")
    case False
    with 2 have "Suc i \<le> k" "k < Suc i + length gs" "cur \<le> s" "g_label (gs ! (k - Suc i)) = None"
      "g_with_password (gs ! (k - Suc i)) \<longrightarrow> pw = room_pw" by (auto split: if_splits)
    then show ?thesis by (auto simp: le_iff_add)
  qed (use 2 in \<open>auto split: if_splits\<close>)
qed simp

text \<open>The first slot of a group comes after the slots of the groups before it.\<close>

definition group_first :: "RoomGroupConfig list \<Rightarrow> nat \<Rightarrow> usize" where
  "group_first gs i = Suc (sum_list (map (\<lambda>g. unat (g_slot_num g)) (take i gs)))"

lemma find_label_group_first:
  "find_label_group label gs i cur = Some (k, s) \<Longrightarrow> Suc s = cur + group_first gs (k - i)"
proof (induction label gs i cur rule: find_label_group.induct)
  case (2 label g gs i cur)
  show ?case
  proof (cases "g_label g = label")
    case False
    with 2 have "find_label_group label gs (Suc i) (cur + unat (g_slot_num g)) = Some (k, s)"
      and s: "Suc s = cur + unat (g_slot_num g) + group_first gs (k - Suc i)" by auto
    then have "k - i = Suc (k - Suc i)" using find_label_group_Some [of label gs "Suc i"] by fastforce
    with s show ?thesis by (simp add: group_first_def)
  qed (use 2 in \<open>auto simp: group_first_def\<close>)
qed simp

lemma find_labelless_group_first:
  "find_labelless_group pw room_pw gs i cur = Ok (Some (k, s)) \<Longrightarrow> Suc s = cur + group_first gs (k - i)"
proof (induction pw room_pw gs i cur rule: find_labelless_group.induct)
  case (2 pw room_pw g gs i cur)
  show ?case
  proof (cases "g_label g = None \<and> \<not> (g_with_password g \<and> pw = None)")
    case False
    with 2 have "find_labelless_group pw room_pw gs (Suc i) (cur + unat (g_slot_num g)) = Ok (Some (k, s))"
      and s: "Suc s = cur + unat (g_slot_num g) + group_first gs (k - Suc i)" by (auto split: if_splits)
    then have "k - i = Suc (k - Suc i)" using find_labelless_group_Some [of pw room_pw gs "Suc i"] by fastforce
    with s show ?thesis by (simp add: group_first_def)
  qed (use 2 in \<open>auto simp: group_first_def split: if_splits\<close>)
qed simp

lemma find_labelless_group_not_Panic [simp]: "find_labelless_group pw room_pw gs i cur \<noteq> Panic"
  by (induction pw room_pw gs i cur rule: find_labelless_group.induct) auto

lemma req_specific_slots_Ok:
  assumes "req_specific_slots r start n = (Ok m, r')" and "slots_ok r" and "1 \<le> start"
  shows "takes_slot r m r'" and "start \<le> slot_of m" and "slot_of m < start + n"
proof -
  from assms(1) obtain i where i: "scan_slots (\<lambda>i. True) (r_slots r) [start..<start + n] = Ok (Some i)"
    and occ: "occupy_slot r i = (Ok m, r')"
    by (auto simp: req_specific_slots_def split: res.splits option.splits)
  show "takes_slot r m r'" using occupy_slot_Ok [OF occ assms(2)] by simp
  have "slot_of m = i" using occupy_slot_Ok [OF occ assms(2)] by simp
  with scan_slots_Some [OF i] show "start \<le> slot_of m" "slot_of m < start + n" by simp_all
qed

lemma req_specific_slots_not_Ok:
  "req_specific_slots r start n = (Panic, r') \<Longrightarrow> r' = r"
  "req_specific_slots r start n \<noteq> (Err e, r')"
  by (auto simp: req_specific_slots_def occupy_slot_Panic split: res.splits option.splits)

lemma join_group_Ok:
  assumes "join_group r i cur = (Ok (g, m), r')" and "slots_ok r" and "i < length (r_group_config r)" and "1 \<le> cur"
  shows "takes_slot r m r'" and "g = of_nat (i + 1)"
    and "cur \<le> slot_of m" and "slot_of m < cur + unat (g_slot_num (r_group_config r ! i))"
proof -
  let ?g = "r_group_config r ! i"
  let ?gc = "(r_group_config r)[i := ?g\<lparr> g_num_members := g_num_members ?g + 1 \<rparr>]"
  let ?r1 = "r\<lparr> r_group_config := ?gc \<rparr>"
  from assms(1) have req: "req_specific_slots ?r1 cur (unat (g_slot_num ?g)) = (Ok m, r')"
    and g: "g = of_nat (i + 1)"
    by (auto simp: join_group_def Let_def bind_st_Ok)
  have ok1: "slots_ok ?r1" using assms(2) by (simp add: slots_ok_def)
  note res = req_specific_slots_Ok [OF req ok1 assms(4)]
  from res(1) obtain gc c where "length gc = length ?gc" "c < 16"
    "r' = ?r1\<lparr> r_slots := (r_slots r)[slot_of m - 1 := True], r_member_id_counter := c, r_group_config := gc \<rparr>"
    and slot: "1 \<le> slot_of m" "slot_of m \<le> length (r_slots r)" "\<not> r_slots r ! (slot_of m - 1)"
    by (auto simp: takes_slot_def)
  then show "takes_slot r m r'" unfolding takes_slot_def by auto
  show "g = of_nat (i + 1)" by (rule g)
  show "cur \<le> slot_of m" "slot_of m < cur + unat (g_slot_num ?g)" using res by simp_all
qed

lemma join_group_not_Ok:
  assumes "join_group r i cur = (res, r')" and "\<not> is_ok res"
  shows "res = Panic" and "same_but_groups r r'"
proof -
  let ?g = "r_group_config r ! i"
  let ?gc = "(r_group_config r)[i := ?g\<lparr> g_num_members := g_num_members ?g + 1 \<rparr>]"
  let ?r1 = "r\<lparr> r_group_config := ?gc \<rparr>"
  obtain res1 r1 where req: "req_specific_slots ?r1 cur (unat (g_slot_num ?g)) = (res1, r1)" by fastforce
  have "res = Panic \<and> r' = ?r1"
    using assms req req_specific_slots_not_Ok [of ?r1 cur "unat (g_slot_num ?g)"]
    by (cases res1) (auto simp: join_group_def Let_def)
  then show "res = Panic" "same_but_groups r r'" by (simp_all add: same_but_groupsI)
qed

lemma unat_group_number: "i < n \<Longrightarrow> unat (of_nat (i + 1) :: u8) \<le> n"
  using take_bit_nat_less_eq_self [of 8 "i + 1"] by (simp add: unat_of_nat del: of_nat_Suc)

text \<open>The groups a call may pick: with the label first, otherwise one without label.\<close>

lemma get_a_slot_group:
  assumes "r_group_config r \<noteq> []" and "get_a_slot r l p = (res, r')"
  obtains (refused) e where "res = Err e" "r' = r"
    | (picked) i cur where "join_group r i cur = (res, r')" "i < length (r_group_config r)" "1 \<le> cur"
        "g_with_password (r_group_config r ! i) \<longrightarrow> p = r_room_password r" "cur = group_first (r_group_config r) i"
proof (cases "l = None")
  case True
  with assms show ?thesis by (intro refused) (auto simp: get_a_slot_def)
next
  case l: False
  show ?thesis
  proof (cases "find_label_group l (r_group_config r) 0 1")
    case None
    show ?thesis
    proof (cases "find_labelless_group p (r_room_password r) (r_group_config r) 0 1")
      case labelless: (Ok a)
      show ?thesis
      proof (cases a)
        case (Some b)
        then obtain i cur where a: "a = Some (i, cur)" by (cases b) auto
        note pos = find_labelless_group_Some [OF labelless [unfolded a]] find_labelless_group_first [OF labelless [unfolded a]]
        have "join_group r i cur = (res, r')" using assms l None labelless a by (simp add: get_a_slot_def)
        with pos show ?thesis by (intro picked) auto
      qed (use assms l None labelless in \<open>auto simp: get_a_slot_def intro: refused\<close>)
    qed (use assms l None in \<open>auto simp: get_a_slot_def intro: refused\<close>)
  next
    case (Some a)
    obtain i cur where a: "a = (i, cur)" by (cases a)
    note pos = find_label_group_Some [OF Some [unfolded a]] find_label_group_first [OF Some [unfolded a]]
    show ?thesis
    proof (cases "g_with_password (r_group_config r ! i) \<and> p \<noteq> r_room_password r \<or>
        g_num_members (r_group_config r ! i) \<ge> g_slot_num (r_group_config r ! i)")
      case True
      then show ?thesis
        using assms l Some a by (auto simp: get_a_slot_def Let_def split: if_splits intro: refused)
    next
      case False
      then have "join_group r i cur = (res, r')"
        using assms l Some a by (auto simp: get_a_slot_def Let_def)
      with pos False show ?thesis by (intro picked) auto
    qed
  qed
qed

lemma get_a_slot_plain:
  assumes "r_group_config r = []" and "slots_ok r"
  obtains (refused) e where "get_a_slot r l p = (Err e, r)"
    | (taken) m r' where "get_a_slot r l p = (Ok (0, m), r')" "takes_slot r m r'"
        "p = None \<or> p = r_room_password r" "is_slot_private r (slot_of m) \<longrightarrow> p = r_room_password r"
proof (cases p)
  case None
  show ?thesis
    by (rule req_slot_cases [OF assms(2), of False])
       (use assms None in \<open>auto simp: get_a_slot_def lowest_slot_Some intro: refused taken\<close>)
next
  case (Some pw)
  show ?thesis
  proof (cases "r_room_password r = Some pw")
    case pw: True
    show ?thesis
    proof (cases rule: req_slot_cases [OF assms(2), of True])
      case (1 m r')
      with assms Some pw show ?thesis by (intro taken) (auto simp: get_a_slot_def)
    next
      case 2
      show ?thesis
        by (rule req_slot_cases [OF assms(2), of False])
           (use 2 assms Some pw in \<open>auto simp: get_a_slot_def intro: refused taken\<close>)
    qed
  qed (use assms Some in \<open>auto simp: get_a_slot_def intro: refused\<close>)
qed

lemma get_a_slot_Ok:
  assumes "get_a_slot r l p = (Ok (g, m), r')" and "slots_ok r"
  shows "takes_slot r m r'" and "unat g \<le> length (r_group_config r)"
proof -
  have "takes_slot r m r' \<and> unat g \<le> length (r_group_config r)"
  proof (cases "r_group_config r = []")
    case True
    show ?thesis
      by (rule get_a_slot_plain [OF True assms(2), of l p]) (use assms in auto)
  next
    case False
    show ?thesis
    proof (rule get_a_slot_group [OF False assms(1)])
      fix i cur
      assume j: "join_group r i cur = (Ok (g, m), r')" and i: "i < length (r_group_config r)" and "1 \<le> cur"
      note res = join_group_Ok [OF j assms(2) i \<open>1 \<le> cur\<close>]
      show ?thesis using res(1) unat_group_number [OF i] by (simp only: res(2) simp_thms)
    qed simp
  qed
  then show "takes_slot r m r'" and "unat g \<le> length (r_group_config r)" by simp_all
qed

lemma get_a_slot_Err: 
  assumes "get_a_slot r l p = (Err e, r')" and "slots_ok r"
  shows "r' = r"
proof (cases "r_group_config r = []")
  case True
  show ?thesis by (rule get_a_slot_plain [OF True assms(2), of l p]) (use assms in auto)
next
  case False
  show ?thesis
    by (rule get_a_slot_group [OF False assms(1)]) (auto dest: join_group_not_Ok(1))
qed

lemma get_a_slot_Panic:
  assumes "get_a_slot r l p = (Panic, r')" and "slots_ok r"
  shows "same_but_groups r r'" and "r_group_config r \<noteq> []"
proof -
  show groups: "r_group_config r \<noteq> []"
  proof
    assume "r_group_config r = []"
    then show False by (rule get_a_slot_plain [OF _ assms(2), of l p]) (use assms in auto)
  qed
  show "same_but_groups r r'"
    by (rule get_a_slot_group [OF groups assms(1)]) (auto dest: join_group_not_Ok(2))
qed

end
