(* ===== verification/Room_Manager.thy ===== *)
theory Room_Manager
  imports Room_Search Room_Slots
begin

text \<open>
  \<^verbatim>\<open>RoomManager\<close> of \<^verbatim>\<open>server/room_manager.rs\<close>: the rooms of all games with the indices by world, by
  lobby and by user.  Hash maps are partial functions, hash sets are sets.

  Three things of the operations come from outside the sources and are arguments: the message encoders
  (\<^verbatim>\<open>codec\<close>), the order in which a hash set is iterated (\<^verbatim>\<open>hash_order\<close>) and the random choice of a new
  owner (\<^verbatim>\<open>rnd n\<close> stands for \<^verbatim>\<open>gen_range(0..n)\<close>).  \<^verbatim>\<open>now\<close> is the current time.
\<close>

record RoomManager =
  rm_rooms :: "ComId \<times> u64 \<rightharpoonup> Room"
  rm_room_cnt :: "ComId \<rightharpoonup> u64"
  rm_world_rooms :: "ComId \<times> u32 \<rightharpoonup> u64 set"
  rm_lobby_rooms :: "ComId \<times> u64 \<rightharpoonup> u64 set"
  rm_user_rooms :: "i64 \<rightharpoonup> (ComId \<times> u64) set"

definition RoomManager_new :: RoomManager where
  "RoomManager_new =
    \<lparr> rm_rooms = Map.empty, rm_room_cnt = Map.empty, rm_world_rooms = Map.empty,
      rm_lobby_rooms = Map.empty, rm_user_rooms = Map.empty \<rparr>"

text \<open>\<^verbatim>\<open>map.entry(k).or_default().insert(x)\<close>.\<close>

definition entry_insert :: "'k \<Rightarrow> 'x \<Rightarrow> ('k \<rightharpoonup> 'x set) \<Rightarrow> ('k \<rightharpoonup> 'x set)" where
  "entry_insert k x m = m(k \<mapsto> insert x (case m k of Some s \<Rightarrow> s | None \<Rightarrow> {}))"

definition room_exists :: "RoomManager \<Rightarrow> ComId \<Rightarrow> u64 \<Rightarrow> bool" where
  "room_exists rm com_id room_id \<longleftrightarrow> rm_rooms rm (com_id, room_id) \<noteq> None"

definition get_room :: "RoomManager \<Rightarrow> ComId \<Rightarrow> u64 \<Rightarrow> Room result" where
  "get_room rm com_id room_id = unwrap (rm_rooms rm (com_id, room_id))"

definition put_room :: "RoomManager \<Rightarrow> ComId \<Rightarrow> u64 \<Rightarrow> Room \<Rightarrow> RoomManager" where
  "put_room rm com_id room_id room = rm\<lparr> rm_rooms := (rm_rooms rm)((com_id, room_id) \<mapsto> room) \<rparr>"

definition get_room_infos :: "RoomManager \<Rightarrow> ComId \<Rightarrow> u64 \<Rightarrow> (u16 \<times> u32 \<times> u64) result" where
  "get_room_infos rm com_id room_id =
    (if \<not> room_exists rm com_id room_id then Err RoomMissing
     else bind_res (get_room rm com_id room_id) (\<lambda>room.
       Ok (r_server_id room, r_world_id room, r_lobby_id room)))"

section \<open>Creating a room\<close>

definition unfailing_create_room ::
    "prost_codec \<Rightarrow> RoomManager \<Rightarrow> u64 \<Rightarrow> ComId \<Rightarrow> Room \<Rightarrow> ClientInfo \<Rightarrow> bytes result \<times> RoomManager" where
  "unfailing_create_room codec rm room_id com_id room cinfo =
    (let rm1 = (if r_lobby_id room = 0
                then rm\<lparr> rm_world_rooms := entry_insert (com_id, r_world_id room) room_id (rm_world_rooms rm) \<rparr>
                else rm\<lparr> rm_lobby_rooms := entry_insert (com_id, r_lobby_id room) room_id (rm_lobby_rooms rm) \<rparr>);
         rm2 = put_room rm1 com_id room_id room;
         rm3 = rm2\<lparr> rm_user_rooms := entry_insert (ci_user_id cinfo) (com_id, room_id) (rm_user_rooms rm2) \<rparr>
     in (bind_res (to_RoomDataInternal room) (\<lambda>internal.
           Ok (enc_CreateRoomResponse codec
                 \<lparr> crs_internal = Some internal, crs_opt_param = to_OptParam room \<rparr>)), rm3))"

text \<open>
  The checks of \<^verbatim>\<open>create_room\<close> on a room with groups (and the password check on one without): the
  group table with its first group joined by the creator, and the creator's group number.
\<close>

definition creator_group :: "Room \<Rightarrow> CreateJoinRoomRequest \<Rightarrow> (RoomGroupConfig list \<times> u8) result" where
  "creator_group room req =
    (let gc = r_group_config room in
     if gc \<noteq> [] then
       if sum_list (map g_slot_num gc) \<noteq> ucast (r_max_slot room) then Err RoomGroupMaxSlotMismatch
       else if list_ex g_with_password gc \<and> r_room_password room = None then Err RoomPasswordMissing
       else if cj_join_room_group_label req = [] then Err RoomGroupNoJoinLabel
       else if length (cj_join_room_group_label req) \<noteq> GROUP_LABEL_SIZE then Err Malformed
       else
         let label = cj_join_room_group_label req; g = gc ! 0 in
         if g_label g = Some label
         then Ok (gc[0 := g\<lparr> g_num_members := g_num_members g + 1 \<rparr>], 1)
         else if g_label g = None
         then Ok (gc[0 := g\<lparr> g_label := Some label, g_num_members := g_num_members g + 1 \<rparr>], 1)
         else Err Malformed
     else if r_password_slot_mask room \<noteq> 0 \<and> r_room_password room = None then Err RoomPasswordMissing
     else Ok (gc, 0))"

definition create_room ::
    "prost_codec \<Rightarrow> u64 \<Rightarrow> RoomManager \<Rightarrow> ComId \<Rightarrow> CreateJoinRoomRequest \<Rightarrow> ClientInfo \<Rightarrow> u16
      \<Rightarrow> ClientSharedSignalingInfo \<Rightarrow> bytes result \<times> RoomManager" where
  "create_room codec now rm com_id req cinfo server_id signaling_info =
    (if cj_max_slot req = 0 \<or> cj_max_slot req > 64 then (Err Malformed, rm)
     else
       then_st (Room_from_protobuf now req, rm) (\<lambda>room rm.
       then_st (from_CreateJoinRoomRequest now req signaling_info, rm) (\<lambda>room_user rm.
         let room_cnt = (case rm_room_cnt rm com_id of Some c \<Rightarrow> c | None \<Rightarrow> 0);
             rm1 = rm\<lparr> rm_room_cnt := (rm_room_cnt rm)(com_id \<mapsto> room_cnt) \<rparr>
         in bind_st (occupy_slot room 1) (\<lambda>member_id room1.
              let room2 = room1\<lparr> r_owner := member_id, r_room_id := room_cnt + 1, r_server_id := server_id \<rparr>;
                  user2 = room_user\<lparr> u_user_id := ci_user_id cinfo, u_npid := ci_npid cinfo,
                            u_online_name := ci_online_name cinfo, u_avatar_url := ci_avatar_url cinfo,
                            u_member_id := member_id, u_flag_attr := ROOMMEMBER_FLAG_ATTR_OWNER \<rparr>
              in then_st (creator_group room2 req, rm1) (\<lambda>(gc, group_id) rm1.
                   let room3 = room2\<lparr> r_group_config := gc,
                                 r_users := bt_insert member_id (user2\<lparr> u_group_id := group_id \<rparr>) (r_users room2) \<rparr>;
                       rm2 = rm1\<lparr> rm_room_cnt := (rm_room_cnt rm1)(com_id \<mapsto> room_cnt + 1) \<rparr>
                   in unfailing_create_room codec rm2 (room_cnt + 1) com_id room3 cinfo))
            (\<lambda>_. rm1))))"

section \<open>Joining a room\<close>

text \<open>The four notification lists of \<^verbatim>\<open>join_room\<close>, in the order of the array it returns.\<close>

type_synonym notif_list = "(bytes \<times> i64 set) option"

record JoinNotifs =
  jn_no_signaling :: notif_list
  jn_local_signaling :: notif_list
  jn_public_signaling_ipv4 :: notif_list
  jn_public_signaling_ipv6 :: notif_list

definition build_notification ::
    "prost_codec \<Rightarrow> JoinRoomRequest \<Rightarrow> u16 \<Rightarrow> Room \<Rightarrow> (bytes \<times> u16) option \<Rightarrow> bytes result" where
  "build_notification codec req member_id room signaling_info_arg =
    bind_res (get_room_member_update_info room member_id CauseNone (jr_opt_data req)) (\<lambda>update_info.
      Ok (enc_NotificationUserJoinedRoom codec
            \<lparr> nujr_room_id = jr_room_id req, nujr_update_info = Some update_info,
              nujr_signaling = map_option
                (\<lambda>(ip, port). \<lparr> sa_ip = ip, sa_port = Uint16_new_from_value port \<rparr>) signaling_info_arg \<rparr>))"

definition add_to_notif_list ::
    "prost_codec \<Rightarrow> JoinRoomRequest \<Rightarrow> u16 \<Rightarrow> notif_list \<Rightarrow> Room \<Rightarrow> bytes \<times> u16 \<Rightarrow> i64 \<Rightarrow> notif_list result" where
  "add_to_notif_list codec req member_id notif_list room signaling_info_notif to_add =
    (case notif_list of
       None \<Rightarrow> bind_res (build_notification codec req member_id room (Some signaling_info_notif))
                 (\<lambda>d. Ok (Some (d, {to_add})))
     | Some (d, ids) \<Rightarrow> Ok (Some (d, insert to_add ids)))"

text \<open>
  What the joiner and one peer learn of each other: local addresses behind the same public address,
  otherwise IPv6 when both have it, otherwise IPv4.
\<close>

definition signal_peer ::
    "prost_codec \<Rightarrow> JoinRoomRequest \<Rightarrow> u16 \<Rightarrow> Room \<Rightarrow> ClientSharedSignalingInfo \<Rightarrow> RoomUser
      \<Rightarrow> JoinNotifs \<times> (u16 \<times> bytes \<times> u16) list \<Rightarrow> (JoinNotifs \<times> (u16 \<times> bytes \<times> u16) list) result" where
  "signal_peer codec req member_id room signaling_info user acc =
    (let (notifs, replies) = acc; peer = u_signaling_info user in
     if fst (si_addr_p2p_ipv4 peer) = fst (si_addr_p2p_ipv4 signaling_info)
     then bind_res (add_to_notif_list codec req member_id (jn_local_signaling notifs) room
                      (si_local_addr_p2p signaling_info, 3658) (u_user_id user)) (\<lambda>l.
            Ok (notifs\<lparr> jn_local_signaling := l \<rparr>,
                replies @ [(u_member_id user, si_local_addr_p2p peer, 3658)]))
     else (case (si_addr_p2p_ipv6 peer, si_addr_p2p_ipv6 signaling_info) of
             (Some user_ipv6, Some joiner_ipv6) \<Rightarrow>
               bind_res (add_to_notif_list codec req member_id (jn_public_signaling_ipv6 notifs) room
                           joiner_ipv6 (u_user_id user)) (\<lambda>l.
                 Ok (notifs\<lparr> jn_public_signaling_ipv6 := l \<rparr>,
                     replies @ [(u_member_id user, fst user_ipv6, snd user_ipv6)]))
           | _ \<Rightarrow>
               bind_res (add_to_notif_list codec req member_id (jn_public_signaling_ipv4 notifs) room
                           (si_addr_p2p_ipv4 signaling_info) (u_user_id user)) (\<lambda>l.
                 Ok (notifs\<lparr> jn_public_signaling_ipv4 := l \<rparr>,
                     replies @ [(u_member_id user, fst (si_addr_p2p_ipv4 peer), snd (si_addr_p2p_ipv4 peer))]))))"

definition join_signaling ::
    "prost_codec \<Rightarrow> JoinRoomRequest \<Rightarrow> u16 \<Rightarrow> Room \<Rightarrow> ClientSharedSignalingInfo \<Rightarrow> i64 set
      \<Rightarrow> (JoinNotifs \<times> (u16 \<times> bytes \<times> u16) list) result" where
  "join_signaling codec req member_id room signaling_info all_previous_users =
    (let notifs = \<lparr> jn_no_signaling = None, jn_local_signaling = None,
                    jn_public_signaling_ipv4 = None, jn_public_signaling_ipv6 = None \<rparr>;
         need_signaling = (case r_signaling_param room of Some p \<Rightarrow> should_signal p | None \<Rightarrow> False)
     in if need_signaling then
          bind_res (unwrap (r_signaling_param room)) (\<lambda>sig_param.
            case sp_sig_type sig_param of
              SignalingMesh \<Rightarrow>
                fold_res (\<lambda>user acc. if u_member_id user = member_id then Ok acc
                                     else signal_peer codec req member_id room signaling_info user acc)
                  (bt_values (r_users room)) (notifs, [])
            | SignalingStar \<Rightarrow>
                let hub = (if sp_hub_member_id sig_param = 0 then r_owner room else sp_hub_member_id sig_param)
                in bind_res (unwrap (bt_get (r_users room) hub)) (\<lambda>hub_user.
                   bind_res (signal_peer codec req member_id room signaling_info hub_user (notifs, []))
                     (\<lambda>(notifs, replies).
                   bind_res (build_notification codec req member_id room None) (\<lambda>d.
                     Ok (notifs\<lparr> jn_no_signaling := Some (d, all_previous_users - {u_user_id hub_user}) \<rparr>, replies))))
            | SignalingNone \<Rightarrow> Panic)
        else bind_res (build_notification codec req member_id room None) (\<lambda>d.
               Ok (notifs\<lparr> jn_no_signaling := Some (d, all_previous_users) \<rparr>, [])))"

definition join_reply ::
    "prost_codec \<Rightarrow> JoinRoomRequest \<Rightarrow> u16 \<Rightarrow> Room \<Rightarrow> ClientSharedSignalingInfo \<Rightarrow> i64 set
      \<Rightarrow> (bytes \<times> JoinNotifs) result" where
  "join_reply codec req member_id room signaling_info all_previous_users =
    bind_res (join_signaling codec req member_id room signaling_info all_previous_users)
      (\<lambda>(notifs, signaling_list_reply).
    bind_res (to_RoomDataInternal room) (\<lambda>room_data.
      Ok (enc_JoinRoomResponse codec
            \<lparr> jrs_room_data = Some room_data,
              jrs_signaling_data = map (\<lambda>(mid, ip, port).
                \<lparr> m2si_member_id = Uint16_new_from_value mid,
                  m2si_addr = Some \<lparr> sa_ip = ip, sa_port = Uint16_new_from_value port \<rparr> \<rparr>) signaling_list_reply,
              jrs_opt_param = to_OptParam room \<rparr>, notifs)))"

text \<open>The new member enters the room: \<^verbatim>\<open>join_room\<close> from the insertion to the full flag.\<close>

definition enter_room :: "Room \<Rightarrow> u16 \<Rightarrow> RoomUser \<Rightarrow> Room" where
  "enter_room room member_id room_user =
    (let room1 = room\<lparr> r_users := bt_insert member_id room_user (r_users room) \<rparr> in
     if length (r_users room1) = unat (r_max_slot room1)
     then room1\<lparr> r_flag_attr := r_flag_attr room1 OR ROOM_FLAG_ATTR_FULL \<rparr>
     else room1)"

definition join_room ::
    "prost_codec \<Rightarrow> u64 \<Rightarrow> RoomManager \<Rightarrow> ComId \<Rightarrow> JoinRoomRequest \<Rightarrow> ClientInfo
      \<Rightarrow> ClientSharedSignalingInfo \<Rightarrow> (bytes \<times> JoinNotifs) result \<times> RoomManager" where
  "join_room codec now rm com_id req cinfo signaling_info =
    (let room_id = jr_room_id req in
     then_st (get_room rm com_id room_id, rm) (\<lambda>room rm.
       if (r_flag_attr room AND ROOM_FLAG_ATTR_FULL) \<noteq> 0 then (Err RoomFull, rm)
       else if jr_join_room_group_label req \<noteq> [] \<and> length (jr_join_room_group_label req) \<noteq> GROUP_LABEL_SIZE
       then (Err Malformed, rm)
       else if jr_room_password req \<noteq> [] \<and> length (jr_room_password req) \<noteq> SESSION_PASSWORD_SIZE
       then (Err Malformed, rm)
       else
         let join_label = (if length (jr_join_room_group_label req) = GROUP_LABEL_SIZE
                           then Some (jr_join_room_group_label req) else None);
             password = (if length (jr_room_password req) = SESSION_PASSWORD_SIZE
                         then Some (jr_room_password req) else None)
         in bind_st (get_a_slot room join_label password) (\<lambda>(group_id, member_id) room1.
              then_st (from_JoinRoomRequest now req signaling_info, put_room rm com_id room_id room1)
                (\<lambda>room_user rm1.
                  let user2 = room_user\<lparr> u_user_id := ci_user_id cinfo, u_npid := ci_npid cinfo,
                                u_online_name := ci_online_name cinfo, u_avatar_url := ci_avatar_url cinfo,
                                u_member_id := member_id, u_group_id := group_id \<rparr>;
                      all_previous_users = get_room_user_ids room1;
                      room2 = enter_room room1 member_id user2;
                      rm2 = put_room rm1 com_id room_id room2;
                      rm3 = rm2\<lparr> rm_user_rooms :=
                              entry_insert (ci_user_id cinfo) (com_id, r_room_id room2) (rm_user_rooms rm2) \<rparr>
                  in (join_reply codec req member_id room2 signaling_info all_previous_users, rm3)))
            (put_room rm com_id room_id)))"

section \<open>Leaving a room\<close>

text \<open>The member is taken out: \<^verbatim>\<open>leave_room\<close> from \<^verbatim>\<open>users.remove\<close> to the full flag.\<close>

definition leave_group :: "Room \<Rightarrow> u8 \<Rightarrow> unit result \<times> Room" where
  "leave_group room group_id =
    (if group_id \<noteq> 0 then
       let i = unat (group_id - 1) in
       if i < length (r_group_config room) then
         let g = r_group_config room ! i;
             g1 = g\<lparr> g_num_members := g_num_members g - 1 \<rparr>;
             g2 = (if g_num_members g1 = 0 \<and> \<not> g_fixed_label g1 then g1\<lparr> g_label := None \<rparr> else g1)
         in (Ok (), room\<lparr> r_group_config := (r_group_config room)[i := g2] \<rparr>)
       else (Panic, room)
     else (Ok (), room))"

definition remove_member :: "Room \<Rightarrow> u16 \<Rightarrow> unit result \<times> Room" where
  "remove_member room member_id =
    (case bt_get (r_users room) member_id of
       None \<Rightarrow> (Panic, room)
     | Some member \<Rightarrow>
         let room1 = room\<lparr> r_users := bt_remove member_id (r_users room) \<rparr> in
         then_st (leave_group room1 (u_group_id member)) (\<lambda>_ room2.
           case free_slot room2 member_id of
             (Ok _, room3) \<Rightarrow>
               (Ok (), if length (r_users room3) \<noteq> unat (r_max_slot room3)
                       then room3\<lparr> r_flag_attr := r_flag_attr room3 AND NOT ROOM_FLAG_ATTR_FULL \<rparr>
                       else room3)
           | (_, room3) \<Rightarrow> (Panic, room3)))"

fun pop_successor :: "(u16, RoomUser) btree \<Rightarrow> u16 list \<Rightarrow> u16 option \<times> u16 list" where
  "pop_successor users [] = (None, [])"
| "pop_successor users (s # ss) = (if s \<in> set (bt_keys users) then (Some s, ss) else pop_successor users ss)"

definition make_owner :: "u16 \<Rightarrow> Room \<Rightarrow> Room" where
  "make_owner s room =
    room\<lparr> r_owner := s,
          r_users := bt_modify s (\<lambda>e. e\<lparr> u_flag_attr := u_flag_attr e OR ROOMMEMBER_FLAG_ATTR_OWNER \<rparr>) (r_users room) \<rparr>"

text \<open>The new owner: the first ranked successor that is a member, otherwise a random member.\<close>

definition choose_successor :: "(nat \<Rightarrow> nat) \<Rightarrow> Room \<Rightarrow> bool result \<times> Room" where
  "choose_successor rnd room =
    (let (succ, rest) = pop_successor (r_users room) (r_owner_succession room);
         room1 = room\<lparr> r_owner_succession := rest \<rparr>
     in case succ of
          Some s \<Rightarrow> (Ok True, make_owner s room1)
        | None \<Rightarrow>
            if r_users room1 \<noteq> [] then
              let random_user = rnd (length (r_users room1)) in
              if random_user < length (r_users room1)
              then (Ok True, make_owner (bt_keys (r_users room1) ! random_user) room1)
              else (Panic, room1)
            else (Ok False, room1))"

definition forget_room :: "ComId \<Rightarrow> u64 \<Rightarrow> i64 \<Rightarrow> RoomManager \<Rightarrow> unit result \<times> RoomManager" where
  "forget_room com_id room_id user_id rm =
    (case rm_user_rooms rm user_id of
       None \<Rightarrow> (Panic, rm)
     | Some s \<Rightarrow> (Ok (), rm\<lparr> rm_user_rooms := (rm_user_rooms rm)(user_id \<mapsto> s - {(com_id, room_id)}) \<rparr>))"

definition destroy_room :: "ComId \<Rightarrow> u64 \<Rightarrow> Room \<Rightarrow> RoomManager \<Rightarrow> unit result \<times> RoomManager" where
  "destroy_room com_id room_id room rm =
    then_st (fold_st (forget_room com_id room_id) (remdups (map u_user_id (bt_values (r_users room)))) rm) (\<lambda>_ rm.
      if r_lobby_id room = 0 then
        (case rm_world_rooms rm (com_id, r_world_id room) of
           None \<Rightarrow> (Panic, rm)
         | Some s \<Rightarrow> (Ok (), rm\<lparr>
             rm_world_rooms := (rm_world_rooms rm)((com_id, r_world_id room) \<mapsto> s - {room_id}),
             rm_rooms := (rm_rooms rm)((com_id, room_id) := None) \<rparr>))
      else
        (case rm_lobby_rooms rm (com_id, r_lobby_id room) of
           None \<Rightarrow> (Panic, rm)
         | Some s \<Rightarrow> (Ok (), rm\<lparr>
             rm_lobby_rooms := (rm_lobby_rooms rm)((com_id, r_lobby_id room) \<mapsto> s - {room_id}),
             rm_rooms := (rm_rooms rm)((com_id, room_id) := None) \<rparr>)))"

definition leave_room ::
    "(nat \<Rightarrow> nat) \<Rightarrow> RoomManager \<Rightarrow> ComId \<Rightarrow> u64 \<Rightarrow> i64 \<Rightarrow> (bool \<times> i64 set) result \<times> RoomManager" where
  "leave_room rnd rm com_id room_id user_id =
    (if \<not> room_exists rm com_id room_id then (Err RoomMissing, rm)
     else case rm_user_rooms rm user_id of
       None \<Rightarrow> (Err NotFound, rm)
     | Some user_set \<Rightarrow>
         if (com_id, room_id) \<notin> user_set then (Err NotFound, rm)
         else
           let rm1 = rm\<lparr> rm_user_rooms := (rm_user_rooms rm)(user_id \<mapsto> user_set - {(com_id, room_id)}) \<rparr> in
           then_st (get_room rm1 com_id room_id, rm1) (\<lambda>room rm1.
             let member_id = find_user room user_id in
             if member_id = 0 then (Panic, rm1)
             else
               bind_st (remove_member room member_id) (\<lambda>_ room1.
                 let user_list = get_room_user_ids room1 in
                 if member_id = r_owner room1 then
                   bind_st (choose_successor rnd room1) (\<lambda>found room2.
                     let rm2 = put_room rm1 com_id room_id room2 in
                     if found then (Ok (False, user_list), rm2)
                     else then_st (destroy_room com_id room_id room2 rm2)
                            (\<lambda>_ rm3. (Ok (True, user_list), rm3)))
                   (put_room rm1 com_id room_id)
                 else (Ok (False, user_list), put_room rm1 com_id room_id room1))
               (put_room rm1 com_id room_id)))"

end
