(* ===== verification/Room_Data.thy ===== *)
theory Room_Data
  imports Room_Manager
begin

text \<open>
  The operations of \<^verbatim>\<open>RoomManager\<close> that search rooms and read or change the data of a room:
  \<^verbatim>\<open>search_room\<close> to \<^verbatim>\<open>get_rooms_by_user\<close> of \<^verbatim>\<open>server/room_manager.rs\<close>.
\<close>

section \<open>Searching\<close>

definition search_startindex :: "SearchRoomRequest \<Rightarrow> u32" where
  "search_startindex req = (if srr_range_filter_start_index req = 0 then 1 else srr_range_filter_start_index req)"

definition search_max :: "SearchRoomRequest \<Rightarrow> u32" where
  "search_max req =
    (if srr_range_filter_max req = 0 \<or> srr_range_filter_max req > 20 then 20 else srr_range_filter_max req)"

definition search_list :: "RoomManager \<Rightarrow> ComId \<Rightarrow> SearchRoomRequest \<Rightarrow> u64 set option" where
  "search_list rm com_id req =
    (if srr_world_id req \<noteq> 0 then rm_world_rooms rm (com_id, srr_world_id req)
     else if srr_lobby_id req \<noteq> 0 then rm_lobby_rooms rm (com_id, srr_lobby_id req)
     else None)"

text \<open>The loop that collects the matching rooms; \<^verbatim>\<open>p\<close> is \<^verbatim>\<open>is_match\<close> or \<^verbatim>\<open>is_match_all\<close>.\<close>

fun matching_rooms :: "(Room \<Rightarrow> bool result) \<Rightarrow> RoomManager \<Rightarrow> ComId \<Rightarrow> u64 list \<Rightarrow> Room list result" where
  "matching_rooms p rm com_id [] = Ok []"
| "matching_rooms p rm com_id (room_id # ids) =
    bind_res (get_room rm com_id room_id) (\<lambda>room.
    bind_res (p room) (\<lambda>b.
    bind_res (matching_rooms p rm com_id ids) (\<lambda>rooms.
      Ok (if b then room # rooms else rooms))))"

text \<open>The page of the result, with each room described by \<^verbatim>\<open>describe\<close> and the verified attribute list.\<close>

definition search_page ::
    "(Room \<Rightarrow> u16 list \<Rightarrow> 'd result) \<Rightarrow> SearchRoomRequest \<Rightarrow> Room list \<Rightarrow> 'd list result" where
  "search_page describe req rooms =
    (let startindex = unat (search_startindex req) in
     if length rooms \<ge> startindex then
       bind_res (traverse Uint16_get_verified (srr_attr_id req)) (\<lambda>inc_attrs.
         let start = startindex - 1;
             num_to_get = min (length rooms - start) (unat (search_max req))
         in traverse (\<lambda>room. describe room inc_attrs) (take num_to_get (drop start rooms)))
     else Ok [])"

definition search_room ::
    "prost_codec \<Rightarrow> (u64 set \<Rightarrow> u64 list) \<Rightarrow> RoomManager \<Rightarrow> ComId \<Rightarrow> SearchRoomRequest \<Rightarrow> bytes result" where
  "search_room codec hash_order rm com_id req =
    bind_res (case search_list rm com_id req of
                None \<Rightarrow> Ok []
              | Some room_list \<Rightarrow> matching_rooms (\<lambda>room. is_match room req) rm com_id (hash_order room_list))
      (\<lambda>found.
    bind_res (search_page (\<lambda>room. to_RoomDataExternal room (srr_option req)) req found) (\<lambda>rooms.
      Ok (enc_SearchRoomResponse codec
            \<lparr> srs_start_index = search_startindex req, srs_total = of_nat (length found), srs_rooms = rooms \<rparr>)))"

definition search_room_all ::
    "prost_codec \<Rightarrow> (u64 set \<Rightarrow> u64 list) \<Rightarrow> RoomManager \<Rightarrow> ComId \<Rightarrow> SearchRoomRequest \<Rightarrow> bytes result" where
  "search_room_all codec hash_order rm com_id req =
    bind_res (case search_list rm com_id req of
                None \<Rightarrow> Ok []
              | Some room_list \<Rightarrow> matching_rooms (\<lambda>room. is_match_all room req) rm com_id (hash_order room_list))
      (\<lambda>found.
    bind_res (search_page (\<lambda>room. to_RoomDataExternalAll room (srr_option req)) req found) (\<lambda>rooms.
      Ok (enc_SearchRoomAllResponse codec
            \<lparr> sra_start_index = search_startindex req, sra_total = of_nat (length found), sra_rooms = rooms \<rparr>)))"

section \<open>Reading\<close>

definition get_roomdata_external_list ::
    "prost_codec \<Rightarrow> RoomManager \<Rightarrow> ComId \<Rightarrow> GetRoomDataExternalListRequest \<Rightarrow> bytes result" where
  "get_roomdata_external_list codec rm com_id req =
    bind_res (traverse Uint16_get_verified (gel_attr_ids req)) (\<lambda>inc_attrs.
    bind_res (traverse (\<lambda>room_id. bind_res (get_room rm com_id room_id) (\<lambda>room.
                          to_RoomDataExternal room 7 inc_attrs))
                (filter (room_exists rm com_id) (gel_room_ids req))) (\<lambda>rooms.
      Ok (enc_GetRoomDataExternalListResponse codec \<lparr> gels_rooms = rooms \<rparr>)))"

definition get_room_member_data_external_list ::
    "prost_codec \<Rightarrow> RoomManager \<Rightarrow> ComId \<Rightarrow> u64 \<Rightarrow> bytes result" where
  "get_room_member_data_external_list codec rm com_id room_id =
    (if \<not> room_exists rm com_id room_id then Err RoomMissing
     else bind_res (get_room rm com_id room_id) (\<lambda>room.
       Ok (enc_GetRoomMemberDataExternalListResponse codec
             \<lparr> gmels_members = map to_roomMemberDataExternal (bt_values (r_users room)) \<rparr>)))"

definition get_roomdata_internal ::
    "prost_codec \<Rightarrow> RoomManager \<Rightarrow> ComId \<Rightarrow> GetRoomDataInternalRequest \<Rightarrow> bytes result" where
  "get_roomdata_internal codec rm com_id req =
    (if \<not> room_exists rm com_id (gri_room_id req) then Err RoomMissing
     else bind_res (get_room rm com_id (gri_room_id req)) (\<lambda>room.
          bind_res (to_RoomDataInternal room) (\<lambda>room_data. Ok (enc_RoomDataInternal codec room_data))))"

definition get_roommemberdata_internal ::
    "prost_codec \<Rightarrow> RoomManager \<Rightarrow> ComId \<Rightarrow> GetRoomMemberDataInternalRequest \<Rightarrow> bytes result" where
  "get_roommemberdata_internal codec rm com_id req =
    (if \<not> room_exists rm com_id (gmi_room_id req) then Err RoomMissing
     else bind_res (get_room rm com_id (gmi_room_id req)) (\<lambda>room.
          bind_res (Uint16_opt_get_verified (gmi_member_id req)) (\<lambda>member_id.
          bind_res (ok_or NotFound (bt_get (r_users room) member_id)) (\<lambda>user.
          bind_res (to_RoomMemberDataInternal user room) (\<lambda>resp.
            Ok (enc_RoomMemberDataInternal codec resp))))))"

definition get_rooms_by_user :: "RoomManager \<Rightarrow> i64 \<Rightarrow> (ComId \<times> u64) set option" where
  "get_rooms_by_user rm user = rm_user_rooms rm user"

section \<open>Changing the external data\<close>

text \<open>An update of one field that can fail; the field keeps its value then.\<close>

definition update_field ::
    "('v \<Rightarrow> Room \<Rightarrow> Room) \<Rightarrow> (Room \<Rightarrow> 'v) \<Rightarrow> ('x \<Rightarrow> 'v \<Rightarrow> 'v result) \<Rightarrow> 'x \<Rightarrow> Room \<Rightarrow> unit result \<times> Room" where
  "update_field put get f x r =
    (case f x (get r) of Ok v \<Rightarrow> (Ok (), put v r) | Err e \<Rightarrow> (Err e, r) | Panic \<Rightarrow> (Panic, r))"

definition set_external_attrs :: "SetRoomDataExternalRequest \<Rightarrow> Room \<Rightarrow> unit result \<times> Room" where
  "set_external_attrs req room =
    then_st (fold_st (update_field (\<lambda>v. r_bin_attr_external_update (\<lambda>_. v)) r_bin_attr_external
                        put_bin_attr_external) (se_room_bin_attr_external req) room) (\<lambda>_ room.
    then_st (fold_st (update_field (\<lambda>v. r_search_bin_attr_update (\<lambda>_. v)) r_search_bin_attr
                        put_search_bin_attr) (se_room_searchable_bin_attr_external req) room) (\<lambda>_ room.
      fold_st (update_field (\<lambda>v. r_search_int_attr_update (\<lambda>_. v)) r_search_int_attr
                 put_search_int_attr) (se_room_searchable_int_attr_external req) room))"

definition set_roomdata_external ::
    "RoomManager \<Rightarrow> ComId \<Rightarrow> SetRoomDataExternalRequest \<Rightarrow> i64 \<Rightarrow> unit result \<times> RoomManager" where
  "set_roomdata_external rm com_id req user_id =
    (if \<not> room_exists rm com_id (se_room_id req) then (Err RoomMissing, rm)
     else
       then_st (get_room rm com_id (se_room_id req), rm) (\<lambda>room rm.
       then_st (get_member_id room user_id, rm) (\<lambda>member_id rm.
         if get_owner room \<noteq> member_id then (Err Unauthorized, rm)
         else bind_st (set_external_attrs req room)
                (\<lambda>_ room1. (Ok (), put_room rm com_id (se_room_id req) room1))
                (put_room rm com_id (se_room_id req)))))"

section \<open>Changing the internal data\<close>

text \<open>The loop over the group passwords; it returns whether anything changed and the changed groups.\<close>

fun password_config_loop ::
    "RoomGroupPasswordConfig list \<Rightarrow> bool \<times> bytes \<Rightarrow> Room \<Rightarrow> (bool \<times> bytes) result \<times> Room" where
  "password_config_loop [] acc room = (Ok acc, room)"
| "password_config_loop (c # cs) (has_changed, new_groups) room =
    then_st (Uint8_opt_get_verified (rgpc_group_id c), room) (\<lambda>group_id room.
      if unat group_id > length (r_group_config room)
      then password_config_loop cs (has_changed, new_groups) room
      else
        let i = unat (group_id - 1) in
        then_st (index_res (r_group_config room) i, room) (\<lambda>g room.
          if g_with_password g \<noteq> rgpc_with_password c
          then password_config_loop cs (True, new_groups @ [group_id])
                 (room\<lparr> r_group_config := (r_group_config room)[i := g\<lparr> g_with_password := rgpc_with_password c \<rparr>] \<rparr>)
          else password_config_loop cs (has_changed, new_groups) room))"

text \<open>What only the owner may change: flags, group passwords, the slot mask and the succession.\<close>

definition set_flags :: "SetRoomDataInternalRequest \<Rightarrow> Room \<Rightarrow> bool \<times> Room" where
  "set_flags req room =
    (let flag_filter = sri_flag_filter req AND NOT PROTECTED_ROOM_FLAGS;
         flag_attr = sri_flag_attr req AND NOT PROTECTED_ROOM_FLAGS;
         new_room_flag_attr = (flag_attr AND flag_filter) OR (r_flag_attr room AND NOT flag_filter)
     in if new_room_flag_attr \<noteq> r_flag_attr room
        then (True, room\<lparr> r_flag_attr := new_room_flag_attr \<rparr>) else (False, room))"

definition set_slot_mask :: "SetRoomDataInternalRequest \<Rightarrow> u64 \<Rightarrow> bool \<Rightarrow> Room \<Rightarrow> bool \<times> Room" where
  "set_slot_mask req old_password_slot_mask has_changed room =
    (case sri_password_slot_mask req of
       [slot_mask] \<Rightarrow>
         if slot_mask \<noteq> old_password_slot_mask
         then (True, room\<lparr> r_password_slot_mask := slot_mask \<rparr>) else (has_changed, room)
     | _ \<Rightarrow> (has_changed, room))"

definition set_succession :: "SetRoomDataInternalRequest \<Rightarrow> bool \<Rightarrow> Room \<Rightarrow> bool result \<times> Room" where
  "set_succession req has_changed room =
    (if sri_owner_privilege_rank req \<noteq> [] then
       then_st (traverse Uint16_get_verified (sri_owner_privilege_rank req), room) (\<lambda>succession_list room.
         if succession_list \<noteq> r_owner_succession room
         then (Ok True, room\<lparr> r_owner_succession := succession_list \<rparr>)
         else (Ok has_changed, room))
     else (Ok has_changed, room))"

definition set_internal_owner :: "SetRoomDataInternalRequest \<Rightarrow> Room \<Rightarrow> (bool \<times> bytes) result \<times> Room" where
  "set_internal_owner req room =
    (let old_password_slot_mask = r_password_slot_mask room;
         (has_changed, room1) = set_flags req room
     in then_st (password_config_loop (sri_password_config req) (has_changed, []) room1)
          (\<lambda>(has_changed, new_groups) room2.
          let (has_changed, room3) = set_slot_mask req old_password_slot_mask has_changed room2
          in then_st (set_succession req has_changed room3)
               (\<lambda>has_changed room4. (Ok (has_changed, new_groups), room4))))"

fun bin_attr_internal_loop ::
    "u64 \<Rightarrow> u16 \<Rightarrow> BinAttr list \<Rightarrow> Uint16 list \<Rightarrow> Room \<Rightarrow> Uint16 list result \<times> Room" where
  "bin_attr_internal_loop now member_id [] new_attrs room = (Ok new_attrs, room)"
| "bin_attr_internal_loop now member_id (pb # pbs) new_attrs room =
    then_st (RoomBinAttrInternal_from_protobuf now pb member_id, room) (\<lambda>a room.
      let ident = rba_id (rbi_data a) in
      if ident \<noteq> ROOM_BIN_ATTR_INTERNAL_1_ID \<and> ident \<noteq> ROOM_BIN_ATTR_INTERNAL_2_ID
      then bin_attr_internal_loop now member_id pbs new_attrs room
      else bin_attr_internal_loop now member_id pbs (new_attrs @ [Uint16 (ucast ident)])
             (room\<lparr> r_bin_attr_internal :=
                (r_bin_attr_internal room)[unat (ident - ROOM_BIN_ATTR_INTERNAL_1_ID) := a] \<rparr>))"

definition set_internal_room ::
    "prost_codec \<Rightarrow> u64 \<Rightarrow> SetRoomDataInternalRequest \<Rightarrow> i64 \<Rightarrow> u16 \<Rightarrow> Room
      \<Rightarrow> (i64 set \<times> bytes) option result \<times> Room" where
  "set_internal_room codec now req user_id member_id room =
    then_st (if get_owner room = member_id then set_internal_owner req room else (Ok (False, []), room))
      (\<lambda>(has_changed, vec_new_groups) room1.
    then_st (bin_attr_internal_loop now member_id (sri_room_bin_attr_internal req) [] room1)
      (\<lambda>new_room_bin_attr_internal room2.
        if has_changed \<or> new_room_bin_attr_internal \<noteq> [] then
          (bind_res (to_RoomDataInternal room2) (\<lambda>room_data_internal.
             Ok (Some (get_room_user_ids room2 - {user_id},
               enc_RoomDataInternalUpdateInfo codec
                 \<lparr> rdiu_new_room_data_internal = Some room_data_internal,
                   rdiu_prev_flag_attr = r_flag_attr room,
                   rdiu_prev_room_password_slot_mask = r_password_slot_mask room,
                   rdiu_new_room_group = vec_new_groups,
                   rdiu_new_room_bin_attr_internal = new_room_bin_attr_internal \<rparr>))), room2)
        else (Ok None, room2)))"

definition set_roomdata_internal ::
    "prost_codec \<Rightarrow> u64 \<Rightarrow> RoomManager \<Rightarrow> ComId \<Rightarrow> SetRoomDataInternalRequest \<Rightarrow> i64
      \<Rightarrow> (i64 set \<times> bytes) option result \<times> RoomManager" where
  "set_roomdata_internal codec now rm com_id req user_id =
    (if \<not> room_exists rm com_id (sri_room_id req) then (Err RoomMissing, rm)
     else
       then_st (get_room rm com_id (sri_room_id req), rm) (\<lambda>room rm.
       then_st (get_member_id room user_id, rm) (\<lambda>member_id rm.
         bind_st (set_internal_room codec now req user_id member_id room)
           (\<lambda>r room1. (Ok r, put_room rm com_id (sri_room_id req) room1))
           (put_room rm com_id (sri_room_id req)))))"

section \<open>Changing the data of a member\<close>

text \<open>
  The update of the target member: the changed flag, the previous team and the list of changed
  attributes.  The binary attribute is parsed twice in the source, with the same result.
\<close>

definition set_member_attrs ::
    "u64 \<Rightarrow> SetRoomMemberDataInternalRequest \<Rightarrow> RoomUser \<Rightarrow> (bool \<times> u8 \<times> Uint16 list) result \<times> RoomUser" where
  "set_member_attrs now req user =
    then_st (Uint8_opt_get_verified (smi_team_id req), user) (\<lambda>team_id user.
      let prev_team_id = u_team_id user;
          changed = (team_id \<noteq> 0 \<and> u_team_id user \<noteq> team_id);
          user1 = (if changed then user\<lparr> u_team_id := team_id \<rparr> else user)
      in case smi_room_member_bin_attr_internal req of
           [pb] \<Rightarrow>
             then_st (RoomMemberBinAttr_from_protobuf now pb, user1) (\<lambda>bin_attr user1.
               if rba_id (rmb_data bin_attr) = ROOMMEMBER_BIN_ATTR_INTERNAL_1_ID
               then (Ok (True, prev_team_id, [Uint16 (ucast (rba_id (rmb_data bin_attr)))]),
                     user1\<lparr> u_member_attr := bin_attr \<rparr>)
               else (Ok (changed, prev_team_id, []), user1))
         | _ \<Rightarrow> (Ok (changed, prev_team_id, []), user1))"

definition set_member_room ::
    "prost_codec \<Rightarrow> u64 \<Rightarrow> SetRoomMemberDataInternalRequest \<Rightarrow> i64 \<Rightarrow> Room
      \<Rightarrow> (i64 set \<times> bytes) option result \<times> Room" where
  "set_member_room codec now req user_id room =
    then_st (get_member_id room user_id, room) (\<lambda>member_id room.
    then_st (Uint16_opt_get_verified (smi_member_id req), room) (\<lambda>req_member_id room.
      let target = (if req_member_id = 0 then member_id else req_member_id) in
      if member_id \<noteq> target \<and> member_id \<noteq> r_owner room then (Err Unauthorized, room)
      else case bt_get (r_users room) target of
             None \<Rightarrow> (Err NotFound, room)
           | Some user \<Rightarrow>
               bind_st (set_member_attrs now req user) (\<lambda>(has_changed, prev_team_id, new_attrs) user1.
                 let room1 = room\<lparr> r_users := bt_modify target (\<lambda>_. user1) (r_users room) \<rparr> in
                 if has_changed then
                   (bind_res (to_RoomMemberDataInternal user1 room1) (\<lambda>member_internal.
                      Ok (Some (get_room_user_ids room1 - {user_id},
                        enc_RoomMemberDataInternalUpdateInfo codec
                          \<lparr> rmdu_new_room_member_data_internal = Some member_internal,
                            rmdu_prev_flag_attr = u_flag_attr user1,
                            rmdu_prev_team_id = Uint8_new_from_value prev_team_id,
                            rmdu_new_room_member_bin_attr_internal = new_attrs \<rparr>))), room1)
                 else (Ok None, room1))
               (\<lambda>user1. room\<lparr> r_users := bt_modify target (\<lambda>_. user1) (r_users room) \<rparr>)))"

definition set_roommemberdata_internal ::
    "prost_codec \<Rightarrow> u64 \<Rightarrow> RoomManager \<Rightarrow> ComId \<Rightarrow> SetRoomMemberDataInternalRequest \<Rightarrow> i64
      \<Rightarrow> (i64 set \<times> bytes) option result \<times> RoomManager" where
  "set_roommemberdata_internal codec now rm com_id req user_id =
    (if \<not> room_exists rm com_id (smi_room_id req) then (Err RoomMissing, rm)
     else
       then_st (get_room rm com_id (smi_room_id req), rm) (\<lambda>room rm.
         bind_st (set_member_room codec now req user_id room)
           (\<lambda>r room1. (Ok r, put_room rm com_id (smi_room_id req) room1))
           (put_room rm com_id (smi_room_id req))))"

end
