(* ===== verification/Room_Inv.thy ===== *)
theory Room_Inv
  imports Room_Data
begin

text \<open>
  The invariant of a room and that the operations on a single room keep it: the slot table fits the
  size of the room, every member sits in an occupied slot of its own, users are distinct, there is
  exactly one owner and it carries the owner flag, the full flag is only set on a full room, and the
  attribute arrays have their declared sizes.
\<close>

section \<open>The invariant\<close>

definition attrs_ok :: "Room \<Rightarrow> bool" where
  "attrs_ok r \<longleftrightarrow>
    length (r_bin_attr_internal r) = 2 \<and> (\<forall>a \<in> set (r_bin_attr_internal r). bin_attr_wf 256 (rbi_data a)) \<and>
    length (r_bin_attr_external r) = 2 \<and> (\<forall>a \<in> set (r_bin_attr_external r). bin_attr_wf 256 a) \<and>
    bin_attr_wf 64 (r_search_bin_attr r) \<and> length (r_search_int_attr r) = 8"

definition member_ok :: "Room \<Rightarrow> u16 \<Rightarrow> RoomUser \<Rightarrow> bool" where
  "member_ok r m u \<longleftrightarrow>
    u_member_id u = m \<and> 1 \<le> slot_of m \<and> slot_of m \<le> length (r_slots r) \<and>
    r_slots r ! (slot_of m - 1) \<and> unat (u_group_id u) \<le> length (r_group_config r)"

definition members_ok :: "Room \<Rightarrow> bool" where
  "members_ok r \<longleftrightarrow> bt_wf (r_users r) \<and> (\<forall>(m, u) \<in> set (r_users r). member_ok r m u) \<and>
    inj_on slot_of (set (bt_keys (r_users r))) \<and> distinct (map u_user_id (bt_values (r_users r)))"

definition has_owner_flag :: "RoomUser \<Rightarrow> bool" where
  "has_owner_flag u \<longleftrightarrow> (u_flag_attr u AND ROOMMEMBER_FLAG_ATTR_OWNER) \<noteq> 0"

definition owner_ok :: "Room \<Rightarrow> bool" where
  "owner_ok r \<longleftrightarrow> r_owner r \<in> set (bt_keys (r_users r)) \<and>
    (\<forall>(m, u) \<in> set (r_users r). has_owner_flag u \<longleftrightarrow> m = r_owner r)"

definition full_flag :: "Room \<Rightarrow> bool" where
  "full_flag r \<longleftrightarrow> (r_flag_attr r AND ROOM_FLAG_ATTR_FULL) \<noteq> 0"

definition full_ok :: "Room \<Rightarrow> bool" where
  "full_ok r \<longleftrightarrow> (full_flag r \<longrightarrow> length (r_users r) = unat (r_max_slot r))"

definition room_inv :: "Room \<Rightarrow> bool" where
  "room_inv r \<longleftrightarrow> slots_ok r \<and> attrs_ok r \<and> members_ok r \<and> owner_ok r \<and> full_ok r"

lemma room_invD:
  "room_inv r \<Longrightarrow> slots_ok r" "room_inv r \<Longrightarrow> attrs_ok r" "room_inv r \<Longrightarrow> members_ok r"
  "room_inv r \<Longrightarrow> owner_ok r" "room_inv r \<Longrightarrow> full_ok r"
  by (simp_all add: room_inv_def)

lemma members_okD:
  assumes "members_ok r"
  shows "bt_wf (r_users r)" and "(m, u) \<in> set (r_users r) \<Longrightarrow> member_ok r m u"
    and "inj_on slot_of (set (bt_keys (r_users r)))" and "distinct (map u_user_id (bt_values (r_users r)))"
  using assms by (auto simp: members_ok_def)

text \<open>A room never holds more members than it has slots.\<close>

lemma members_le_slots:
  assumes "members_ok r"
  shows "length (r_users r) \<le> length (r_slots r)"
proof -
  have "distinct (bt_keys (r_users r))" using assms by (simp add: members_ok_def bt_wf_def)
  then have "length (r_users r) = card (set (bt_keys (r_users r)))" using distinct_card by fastforce
  also have "\<dots> = card (slot_of ` set (bt_keys (r_users r)))"
    using assms by (simp add: card_image members_ok_def)
  also have "\<dots> \<le> card {1..length (r_slots r)}"
    using assms by (intro card_mono) (auto simp: members_ok_def member_ok_def)
  finally show ?thesis by simp
qed

section \<open>Finding members\<close>

lemma member_of_Some: "member_of uid us = Some m \<Longrightarrow> \<exists>u. (m, u) \<in> set us \<and> u_user_id u = uid"
  by (induction uid us rule: member_of.induct) (auto split: if_splits)

lemma member_of_None: "member_of uid us = None \<longleftrightarrow> uid \<notin> u_user_id ` snd ` set us"
  by (induction uid us rule: member_of.induct) auto

lemma get_room_user_ids_image: "get_room_user_ids r = u_user_id ` snd ` set (r_users r)"
  by (simp add: get_room_user_ids_def image_image)

lemma find_user_member:
  assumes "members_ok r" and "uid \<in> get_room_user_ids r"
  obtains u where "(find_user r uid, u) \<in> set (r_users r)" "u_user_id u = uid"
    "bt_get (r_users r) (find_user r uid) = Some u" "find_user r uid \<noteq> 0"
proof -
  have "member_of uid (r_users r) \<noteq> None"
    using assms(2) by (simp add: member_of_None get_room_user_ids_image)
  then obtain m where m: "member_of uid (r_users r) = Some m" by blast
  then obtain u where u: "(m, u) \<in> set (r_users r)" "u_user_id u = uid" using member_of_Some by blast
  moreover have "m \<noteq> 0"
    using members_okD(2) [OF assms(1) u(1)] by (auto simp: member_ok_def slot_of_def)
  moreover have "bt_get (r_users r) m = Some u" using u(1) by (simp add: bt_get_in_set members_okD(1) [OF assms(1)])
  ultimately show thesis using that m by (simp add: find_user_def)
qed

text \<open>With distinct users the entry of a user is the only one with its identifier.\<close>

lemma user_entry_unique:
  assumes "members_ok r" and "(m, u) \<in> set (r_users r)" and "(m', u') \<in> set (r_users r)"
    and "u_user_id u = u_user_id u'"
  shows "m = m'"
proof -
  have d: "distinct (map (\<lambda>e. u_user_id (snd e)) (r_users r))"
    using members_okD(4) [OF assms(1)] by (simp add: comp_def)
  then have "inj_on (\<lambda>e. u_user_id (snd e)) (set (r_users r))" by (simp add: distinct_map)
  from inj_onD [OF this, of "(m, u)" "(m', u')"] assms show ?thesis by simp
qed

section \<open>Flags\<close>

lemma or_flag_set: "(x OR f) AND f = (f :: 'a::len word)"
  by (rule bit_word_eqI) (auto simp: bit_simps)

lemma clear_flag: "(x AND NOT f) AND f = (0 :: 'a::len word)"
  by (rule bit_word_eqI) (auto simp: bit_simps)

lemma clear_full_flag [simp]: "(x AND - 536870913) AND ROOM_FLAG_ATTR_FULL = 0"
  using clear_flag [of x ROOM_FLAG_ATTR_FULL] by simp

lemma protected_flags_kept:
  "((a AND NOT f) AND (b AND NOT f) OR (c AND NOT (b AND NOT f))) AND f = c AND (f :: 'a::len word)"
  by (rule bit_word_eqI) (auto simp: bit_simps)

lemma has_owner_flag_or [simp]:
  "has_owner_flag (u\<lparr> u_flag_attr := u_flag_attr u OR ROOMMEMBER_FLAG_ATTR_OWNER \<rparr>)"
  by (simp add: has_owner_flag_def or_flag_set)

section \<open>Changes that leave the members alone\<close>

definition same_members :: "Room \<Rightarrow> Room \<Rightarrow> bool" where
  "same_members r r' \<longleftrightarrow>
    r_users r' = r_users r \<and> r_slots r' = r_slots r \<and> r_max_slot r' = r_max_slot r \<and>
    r_member_id_counter r' = r_member_id_counter r \<and> r_owner r' = r_owner r \<and>
    length (r_group_config r') = length (r_group_config r) \<and>
    (r_flag_attr r' AND ROOM_FLAG_ATTR_FULL) = (r_flag_attr r AND ROOM_FLAG_ATTR_FULL) \<and>
    r_room_id r' = r_room_id r \<and> r_lobby_id r' = r_lobby_id r \<and> r_world_id r' = r_world_id r \<and>
    (attrs_ok r \<longrightarrow> attrs_ok r')"

lemma same_members_refl [simp, intro]: "same_members r r"
  by (simp add: same_members_def)

lemma same_members_trans [trans]: "same_members r r' \<Longrightarrow> same_members r' r'' \<Longrightarrow> same_members r r''"
  by (simp add: same_members_def)

lemma same_membersD:
  assumes "same_members r r'"
  shows "r_users r' = r_users r" "r_slots r' = r_slots r" "r_max_slot r' = r_max_slot r"
    "r_member_id_counter r' = r_member_id_counter r" "r_owner r' = r_owner r"
    "length (r_group_config r') = length (r_group_config r)" "full_flag r' = full_flag r"
    "r_room_id r' = r_room_id r" "r_lobby_id r' = r_lobby_id r" "r_world_id r' = r_world_id r"
    "attrs_ok r \<Longrightarrow> attrs_ok r'"
  using assms by (simp_all add: same_members_def full_flag_def)

lemma same_members_inv:
  assumes "same_members r r'" and "room_inv r"
  shows "room_inv r'"
proof -
  note eqs = same_membersD [OF assms(1)]
  have "member_ok r' = member_ok r" by (simp add: fun_eq_iff member_ok_def eqs)
  then show ?thesis
    using assms(2) by (simp add: room_inv_def slots_ok_def members_ok_def owner_ok_def full_ok_def eqs)
qed

lemma same_but_groups_members: "same_but_groups r r' \<Longrightarrow> same_members r r'"
  by (auto simp: same_but_groups_def same_members_def attrs_ok_def)

section \<open>Taking a slot and entering\<close>

lemma takes_slotD:
  assumes "takes_slot r m r'"
  shows "r_users r' = r_users r" "r_max_slot r' = r_max_slot r" "r_owner r' = r_owner r"
    "r_flag_attr r' = r_flag_attr r" "length (r_slots r') = length (r_slots r)"
    "length (r_group_config r') = length (r_group_config r)" "r_member_id_counter r' < 16"
    "r_room_id r' = r_room_id r" "r_lobby_id r' = r_lobby_id r" "r_world_id r' = r_world_id r"
    "attrs_ok r' = attrs_ok r" "r_slots r' = (r_slots r)[slot_of m - 1 := True]"
    "1 \<le> slot_of m" "slot_of m \<le> length (r_slots r)" "\<not> r_slots r ! (slot_of m - 1)"
  using assms by (auto simp: takes_slot_def attrs_ok_def)

lemma takes_slot_inv:
  assumes "takes_slot r m r'" and "room_inv r"
  shows "room_inv r'" and "slot_of m \<notin> slot_of ` set (bt_keys (r_users r))" and "r_slots r' ! (slot_of m - 1)"
proof -
  note eqs = takes_slotD [OF assms(1)]
  have kept: "member_ok r' k u" if "member_ok r k u" for k u
    using that by (auto simp: member_ok_def eqs intro!: nth_update_True)
  show "room_inv r'"
    using assms(2) kept
    by (auto simp: room_inv_def slots_ok_def members_ok_def owner_ok_def full_ok_def full_flag_def eqs)
  have "member_ok r k u" if "(k, u) \<in> set (r_users r)" for k u
    using assms(2) that by (auto simp: room_inv_def members_ok_def)
  then show "slot_of m \<notin> slot_of ` set (bt_keys (r_users r))"
    using eqs(15) by (force simp: member_ok_def)
  show "r_slots r' ! (slot_of m - 1)" using eqs(13-15) by (simp add: eqs(12))
qed

lemma enter_roomD:
  shows "r_users (enter_room r m u) = bt_insert m u (r_users r)"
    "r_slots (enter_room r m u) = r_slots r" "r_max_slot (enter_room r m u) = r_max_slot r"
    "r_member_id_counter (enter_room r m u) = r_member_id_counter r" "r_owner (enter_room r m u) = r_owner r"
    "r_group_config (enter_room r m u) = r_group_config r"
    "r_room_id (enter_room r m u) = r_room_id r" "r_lobby_id (enter_room r m u) = r_lobby_id r"
    "r_world_id (enter_room r m u) = r_world_id r" "attrs_ok (enter_room r m u) = attrs_ok r"
    "r_signaling_param (enter_room r m u) = r_signaling_param r"
  by (simp_all add: enter_room_def Let_def attrs_ok_def)

lemma enter_room_full:
  "full_flag (enter_room r m u) \<longleftrightarrow> full_flag r \<or> length (bt_insert m u (r_users r)) = unat (r_max_slot r)"
  by (simp add: enter_room_def Let_def full_flag_def or_flag_set)

lemma enter_room_inv:
  assumes inv: "room_inv r" and "\<not> full_flag r"
    and slot: "1 \<le> slot_of m" "slot_of m \<le> length (r_slots r)" "r_slots r ! (slot_of m - 1)"
      "slot_of m \<notin> slot_of ` set (bt_keys (r_users r))"
    and user: "u_member_id u = m" "unat (u_group_id u) \<le> length (r_group_config r)" "\<not> has_owner_flag u"
      "u_user_id u \<notin> get_room_user_ids r"
  shows "room_inv (enter_room r m u)"
proof -
  let ?r = "enter_room r m u"
  note eqs = enter_roomD [of r m u]
  have fresh: "m \<notin> fst ` set (r_users r)" using slot(4) by force
  have ent: "set (r_users ?r) = insert (m, u) (set (r_users r))"
    by (simp add: eqs set_bt_insert_fresh fresh)
  have mok: "member_ok ?r = member_ok r" by (simp add: fun_eq_iff member_ok_def eqs)
  have new: "member_ok r m u" using slot user by (simp add: member_ok_def)
  have dist: "distinct (map u_user_id (bt_values (r_users ?r)))"
    using members_okD(4) [OF room_invD(3) [OF inv]] user(4)
    by (simp add: eqs distinct_bt_insert_fresh fresh get_room_user_ids_image)
  have members: "members_ok ?r"
    using inv new slot(4) dist fresh
    by (simp add: room_inv_def members_ok_def mok ent) (simp add: eqs bt_insert_wf inj_on_insert)
  have own: "r_owner r \<in> fst ` set (r_users r)" using inv by (simp add: room_inv_def owner_ok_def)
  then have "m \<noteq> r_owner r" using fresh by blast
  then have "owner_ok ?r"
    using inv user(3) own by (simp add: room_inv_def owner_ok_def ent) (simp add: eqs)
  moreover have "full_ok ?r" using assms(2) by (simp add: full_ok_def enter_room_full) (simp add: eqs)
  ultimately show ?thesis
    using inv members by (simp add: room_inv_def slots_ok_def eqs)
qed

section \<open>Leaving\<close>

text \<open>
  Taking out a member of a room in its invariant never panics: the group index, the slot and the
  entry are all there.  What is left has everything of the invariant but the owner.
\<close>

definition left_room :: "Room \<Rightarrow> u16 \<Rightarrow> Room \<Rightarrow> bool" where
  "left_room r m r' \<longleftrightarrow>
    r_users r' = bt_remove m (r_users r) \<and> slots_ok r' \<and> attrs_ok r' \<and> members_ok r' \<and> \<not> full_flag r' \<and>
    r_owner r' = r_owner r \<and> r_owner_succession r' = r_owner_succession r \<and>
    r_room_id r' = r_room_id r \<and> r_lobby_id r' = r_lobby_id r \<and> r_world_id r' = r_world_id r \<and>
    r_slots r' = (r_slots r)[slot_of m - 1 := False]"

lemma leave_group_ok:
  assumes "unat g \<le> length (r_group_config r)"
  obtains gc where "leave_group r g = (Ok (), r\<lparr> r_group_config := gc \<rparr>)" "length gc = length (r_group_config r)"
proof (cases "g = 0")
  case True
  then show ?thesis using that [of "r_group_config r"] by (simp add: leave_group_def)
next
  case False
  then have "unat (g - 1) = unat g - 1" by (simp add: unat_minus_one)
  moreover have "unat g \<noteq> 0" using False by (simp add: unat_eq_0)
  ultimately have "unat (g - 1) < length (r_group_config r)" using assms by linarith
  then show ?thesis using that False by (simp add: leave_group_def Let_def)
qed

lemma remove_member_ok:
  assumes inv: "room_inv r" and mem: "(m, u) \<in> set (r_users r)"
  obtains r' where "remove_member r m = (Ok (), r')" "left_room r m r'"
proof -
  note mok = members_okD [OF room_invD(3) [OF inv]]
  have slot: "1 \<le> slot_of m" "slot_of m \<le> length (r_slots r)" "r_slots r ! (slot_of m - 1)"
    "unat (u_group_id u) \<le> length (r_group_config r)"
    using mok(2) [OF mem] by (auto simp: member_ok_def)
  have get: "bt_get (r_users r) m = Some u" using mem by (simp add: bt_get_in_set mok(1))
  let ?us = "bt_remove m (r_users r)"
  let ?r1 = "r\<lparr> r_users := ?us \<rparr>"
  have "unat (u_group_id u) \<le> length (r_group_config ?r1)" using slot(4) by simp
  then obtain gc where gc: "leave_group ?r1 (u_group_id u) = (Ok (), ?r1\<lparr> r_group_config := gc \<rparr>)"
    and len: "length gc = length (r_group_config ?r1)"
    by (rule leave_group_ok)
  have "drop_bit 4 m \<noteq> 0" using slot(1) by (auto simp: slot_of_def)
  then have drop: "unat (drop_bit 4 m - 1) = slot_of m - 1" by (simp add: slot_of_def unat_minus_one)
  have "length (r_users r) = Suc (length ?us)" using mem by (intro length_bt_remove mok(1)) force
  moreover have "length (r_users r) \<le> unat (r_max_slot r)"
    using members_le_slots [OF room_invD(3) [OF inv]] room_invD(1) [OF inv] by (simp add: slots_ok_def)
  ultimately have ne: "length ?us \<noteq> unat (r_max_slot r)" by simp
  let ?r4 = "r\<lparr> r_users := ?us, r_group_config := gc, r_slots := (r_slots r)[slot_of m - 1 := False],
    r_flag_attr := r_flag_attr r AND NOT ROOM_FLAG_ATTR_FULL \<rparr>"
  have "remove_member r m = (Ok (), ?r4)"
    using slot ne by (simp add: remove_member_def get gc Let_def free_slot_def drop)
  moreover have "left_room r m ?r4"
  proof -
    have others: "member_ok ?r4 k v" if "(k, v) \<in> set ?us" for k v
    proof -
      have kv: "(k, v) \<in> set (r_users r)" "k \<noteq> m" using that by auto
      have "slot_of k \<noteq> slot_of m" using mok(3) kv mem by (force dest: inj_onD)
      moreover have "member_ok r k v" using mok(2) kv by blast
      ultimately show ?thesis using slot(1) len by (auto simp: member_ok_def nth_list_update_neq)
    qed
    have "members_ok ?r4"
      unfolding members_ok_def using others mok
      by (auto simp: bt_remove_wf distinct_bt_remove intro: inj_on_subset)
    then show ?thesis
      using inv by (simp add: left_room_def room_inv_def slots_ok_def attrs_ok_def full_flag_def clear_flag)
  qed
  ultimately show thesis by (rule that)
qed

lemma left_roomD:
  assumes "left_room r m r'"
  shows "r_users r' = bt_remove m (r_users r)" "slots_ok r'" "attrs_ok r'" "members_ok r'" "\<not> full_flag r'"
    "r_owner r' = r_owner r" "r_owner_succession r' = r_owner_succession r"
    "r_room_id r' = r_room_id r" "r_lobby_id r' = r_lobby_id r" "r_world_id r' = r_world_id r"
    "r_slots r' = (r_slots r)[slot_of m - 1 := False]"
  using assms by (simp_all add: left_room_def)

lemma left_room_other:
  assumes "left_room r m r'" and "room_inv r" and "m \<noteq> r_owner r"
  shows "room_inv r'"
  using assms(2,3) left_roomD [OF assms(1)] by (auto simp: room_inv_def owner_ok_def full_ok_def)

lemma left_room_no_owner:
  assumes "left_room r m r'" and "room_inv r" and "m = r_owner r" and "(k, v) \<in> set (r_users r')"
  shows "\<not> has_owner_flag v"
  using assms(2-) left_roomD(1) [OF assms(1)] by (auto simp: room_inv_def owner_ok_def)

lemma pop_successor_Some:
  "pop_successor us ss = (Some s, rest) \<Longrightarrow> s \<in> set (bt_keys us) \<and>
     (\<exists>skipped. ss = skipped @ s # rest \<and> set skipped \<inter> set (bt_keys us) = {})"
proof (induction us ss rule: pop_successor.induct)
  case (2 us x ss)
  show ?case
  proof (cases "x \<in> set (bt_keys us)")
    case True
    with 2 show ?thesis by auto
  next
    case False
    with 2 obtain skipped where "s \<in> set (bt_keys us)" "ss = skipped @ s # rest" "set skipped \<inter> set (bt_keys us) = {}"
      by auto
    with False show ?thesis by (auto intro!: exI [of _ "x # skipped"])
  qed
qed simp

lemma pop_successor_None:
  "fst (pop_successor us ss) = None \<longleftrightarrow> set ss \<inter> set (bt_keys us) = {}"
  by (induction us ss rule: pop_successor.induct) auto

lemma make_owner_ids:
  "u_user_id ` snd ` set (bt_modify s (\<lambda>e. e\<lparr> u_flag_attr := u_flag_attr e OR f \<rparr>) us) = u_user_id ` snd ` set us"
  by (induction us) (auto simp: bt_modify_def)

lemma make_ownerD:
  "bt_keys (r_users (make_owner s r)) = bt_keys (r_users r)" "r_owner (make_owner s r) = s"
  "slots_ok (make_owner s r) = slots_ok r" "attrs_ok (make_owner s r) = attrs_ok r"
  "full_flag (make_owner s r) = full_flag r" "get_room_user_ids (make_owner s r) = get_room_user_ids r"
  "r_room_id (make_owner s r) = r_room_id r" "r_lobby_id (make_owner s r) = r_lobby_id r"
  "r_world_id (make_owner s r) = r_world_id r"
  by (simp_all add: make_owner_def slots_ok_def attrs_ok_def full_flag_def get_room_user_ids_image make_owner_ids)

lemma make_owner_inv:
  assumes "slots_ok r" "attrs_ok r" "members_ok r" "\<not> full_flag r"
    and s: "s \<in> set (bt_keys (r_users r))"
    and none: "\<And>k v. (k, v) \<in> set (r_users r) \<Longrightarrow> \<not> has_owner_flag v"
  shows "room_inv (make_owner s r)"
proof -
  let ?f = "\<lambda>e. e\<lparr> u_flag_attr := u_flag_attr e OR ROOMMEMBER_FLAG_ATTR_OWNER \<rparr>"
  let ?r = "make_owner s r"
  have us: "r_users ?r = map (\<lambda>(k, v). (k, if k = s then ?f v else v)) (r_users r)"
    by (simp add: make_owner_def bt_modify_def)
  have mok: "member_ok ?r k (if k = s then ?f v else v) = member_ok r k v" for k v
    by (simp add: member_ok_def make_owner_def)
  have ids: "map u_user_id (bt_values (r_users ?r)) = map u_user_id (bt_values (r_users r))"
    by (simp add: us split_beta comp_def)
  have "bt_wf (r_users ?r)" using assms(3) by (simp add: make_owner_def members_ok_def)
  moreover have "\<forall>(k, v) \<in> set (r_users ?r). member_ok ?r k v"
    using assms(3) mok by (auto simp: us members_ok_def)
  ultimately have "members_ok ?r"
    using assms(3) by (simp only: members_ok_def make_ownerD(1) ids)
  moreover have "owner_ok ?r"
    using s none by (auto simp: owner_ok_def make_ownerD us split_beta)
  ultimately show ?thesis using assms by (simp add: room_inv_def make_ownerD full_ok_def)
qed

text \<open>Who becomes owner: the first ranked successor still in the room, otherwise the drawn member.\<close>

definition next_owner :: "(nat \<Rightarrow> nat) \<Rightarrow> Room \<Rightarrow> u16" where
  "next_owner rnd r =
    (case List.find (\<lambda>s. s \<in> set (bt_keys (r_users r))) (r_owner_succession r) of
       Some s \<Rightarrow> s
     | None \<Rightarrow> bt_keys (r_users r) ! rnd (length (r_users r)))"

lemma pop_successor_find: "fst (pop_successor us ss) = List.find (\<lambda>s. s \<in> set (bt_keys us)) ss"
  by (induction us ss rule: pop_successor.induct) auto

lemma choose_successor_some:
  assumes rnd: "\<And>n. 0 < n \<Longrightarrow> rnd n < n" and ne: "r_users r \<noteq> []"
  obtains rest where "choose_successor rnd r = (Ok True, make_owner (next_owner rnd r) (r\<lparr> r_owner_succession := rest \<rparr>))"
    "next_owner rnd r \<in> set (bt_keys (r_users r))"
proof (cases "pop_successor (r_users r) (r_owner_succession r)")
  case (Pair succ rest)
  have find: "succ = List.find (\<lambda>s. s \<in> set (bt_keys (r_users r))) (r_owner_succession r)"
    using pop_successor_find [of "r_users r" "r_owner_succession r"] Pair by simp
  have len: "rnd (length (r_users r)) < length (r_users r)" using ne rnd by simp
  show thesis
  proof (cases succ)
    case None
    then have "next_owner rnd r = bt_keys (r_users r) ! rnd (length (r_users r))"
      using find by (simp add: next_owner_def)
    moreover from this have "next_owner rnd r \<in> set (bt_keys (r_users r))"
      using len by (metis length_map nth_mem)
    ultimately show thesis
      using that Pair None ne len by (simp add: choose_successor_def Let_def)
  next
    case (Some s)
    then have "next_owner rnd r = s" using find by (simp add: next_owner_def)
    moreover have "s \<in> set (bt_keys (r_users r))" using pop_successor_Some Pair Some by blast
    ultimately show thesis using that Pair Some by (simp add: choose_successor_def Let_def)
  qed
qed

lemma choose_successor_none:
  assumes "r_users r = []"
  shows "choose_successor rnd r = (Ok False, r\<lparr> r_owner_succession := [] \<rparr>)"
proof -
  have "pop_successor [] ss = (None, [])" for ss :: "u16 list" by (induction ss) auto
  then show ?thesis using assms by (simp add: choose_successor_def)
qed

lemma left_room_succession:
  assumes rnd: "\<And>n. 0 < n \<Longrightarrow> rnd n < n"
    and left: "left_room r m r'" and inv: "room_inv r" and m: "m = r_owner r" and ne: "r_users r' \<noteq> []"
  obtains r'' where "choose_successor rnd r' = (Ok True, r'')" "room_inv r''"
    "r_owner r'' = next_owner rnd r'" "get_room_user_ids r'' = get_room_user_ids r'"
    "r_room_id r'' = r_room_id r" "r_lobby_id r'' = r_lobby_id r" "r_world_id r'' = r_world_id r"
    "bt_keys (r_users r'') = bt_keys (r_users r')"
proof -
  obtain rest where ch: "choose_successor rnd r' = (Ok True, make_owner (next_owner rnd r') (r'\<lparr> r_owner_succession := rest \<rparr>))"
    and own: "next_owner rnd r' \<in> set (bt_keys (r_users r'))"
    using choose_successor_some [OF rnd ne] by metis
  let ?r = "r'\<lparr> r_owner_succession := rest \<rparr>"
  note eqs = left_roomD [OF left]
  have "slots_ok ?r" "attrs_ok ?r" "members_ok ?r" "\<not> full_flag ?r"
    using eqs(2-5) by (simp_all add: slots_ok_def attrs_ok_def members_ok_def member_ok_def full_flag_def)
  moreover have "\<And>k v. (k, v) \<in> set (r_users ?r) \<Longrightarrow> \<not> has_owner_flag v"
    using left_room_no_owner [OF left inv m] by simp
  ultimately have "room_inv (make_owner (next_owner rnd r') ?r)"
    using own by (intro make_owner_inv) simp_all
  moreover have "get_room_user_ids ?r = get_room_user_ids r'" by (simp add: get_room_user_ids_def)
  ultimately show thesis
    using that [OF ch] eqs(8-10) by (simp add: make_ownerD)
qed

section \<open>Creation\<close>

lemma put_bin_attr_internal_ok:
  assumes "put_bin_attr_internal now mid pb arr = Ok arr'" and "\<forall>a \<in> set arr. bin_attr_wf 256 (rbi_data a)"
  shows "length arr' = length arr \<and> (\<forall>a \<in> set arr'. bin_attr_wf 256 (rbi_data a))"
  using assms
  by (auto simp: put_bin_attr_internal_def RoomBinAttrInternal_from_protobuf_def Let_def
      dest: RoomBinAttr_from_protobuf_wf split: if_splits dest!: set_update_subset_insert [THEN subsetD])

lemma put_bin_attr_external_ok:
  assumes "put_bin_attr_external pb arr = Ok arr'" and "\<forall>a \<in> set arr. bin_attr_wf 256 a"
  shows "length arr' = length arr \<and> (\<forall>a \<in> set arr'. bin_attr_wf 256 a)"
  using assms
  by (auto simp: put_bin_attr_external_def dest: RoomBinAttr_from_protobuf_wf split: if_splits
      dest!: set_update_subset_insert [THEN subsetD])

lemma put_search_bin_attr_ok:
  assumes "put_search_bin_attr pb a = Ok a'" and "bin_attr_wf 64 a"
  shows "bin_attr_wf 64 a'"
  using assms by (auto simp: put_search_bin_attr_def dest: RoomBinAttr_from_protobuf_wf split: if_splits)

lemma put_search_int_attr_ok:
  assumes "put_search_int_attr pb arr = Ok arr'"
  shows "length arr' = length arr"
  using assms by (auto simp: put_search_int_attr_def split: if_splits)

lemma Room_from_protobuf_attrs:
  assumes "Room_from_protobuf now pb = Ok r"
  shows "attrs_ok r"
proof -
  let ?i0 = "[RoomBinAttrInternal_with_id now ROOM_BIN_ATTR_INTERNAL_1_ID,
    RoomBinAttrInternal_with_id now ROOM_BIN_ATTR_INTERNAL_2_ID]"
  let ?e0 = "[RoomBinAttr_with_id 256 ROOM_BIN_ATTR_EXTERNAL_1_ID, RoomBinAttr_with_id 256 ROOM_BIN_ATTR_EXTERNAL_2_ID]"
  let ?n0 = "map (\<lambda>i. RoomIntAttr_with_id (ROOM_SEARCHABLE_INT_ATTR_EXTERNAL_1_ID + of_nat i)) [0..<8]"
  from assms obtain bi be sb si where
    bi: "fold_res (put_bin_attr_internal now CREATOR_ROOM_MEMBER_ID) (cj_room_bin_attr_internal pb) ?i0 = Ok bi" and
    be: "fold_res put_bin_attr_external (cj_room_bin_attr_external pb) ?e0 = Ok be" and
    sb: "fold_res put_search_bin_attr (cj_room_searchable_bin_attr_external pb)
           (RoomBinAttr_with_id 64 ROOM_SEARCHABLE_BIN_ATTR_EXTERNAL_1_ID) = Ok sb" and
    si: "fold_res put_search_int_attr (cj_room_searchable_int_attr_external pb) ?n0 = Ok si" and
    r: "r_bin_attr_internal r = bi" "r_bin_attr_external r = be" "r_search_bin_attr r = sb" "r_search_int_attr r = si"
    unfolding Room_from_protobuf_def bind_res_eq_Ok Let_def by auto
  have "length bi = 2 \<and> (\<forall>a \<in> set bi. bin_attr_wf 256 (rbi_data a))"
    by (rule fold_res_inv [OF bi]) (auto simp: RoomBinAttrInternal_with_id_def dest: put_bin_attr_internal_ok)
  moreover have "length be = 2 \<and> (\<forall>a \<in> set be. bin_attr_wf 256 a)"
    by (rule fold_res_inv [OF be]) (auto dest: put_bin_attr_external_ok)
  moreover have "bin_attr_wf 64 sb"
    by (rule fold_res_inv [OF sb]) (auto dest: put_search_bin_attr_ok)
  moreover have "length si = 8"
    by (rule fold_res_inv [OF si]) (auto dest: put_search_int_attr_ok)
  ultimately show ?thesis by (simp add: attrs_ok_def r)
qed

lemma Room_from_protobuf_fields:
  assumes "Room_from_protobuf now pb = Ok r"
  shows "r_max_slot r = ucast (cj_max_slot pb)" "r_slots r = replicate (unat (r_max_slot r)) False"
    "r_member_id_counter r = 0" "r_users r = []" "r_flag_attr r = cj_flag_attr pb AND NOT PROTECTED_ROOM_FLAGS"
    "r_lobby_id r = cj_lobby_id pb" "r_world_id r = cj_world_id pb"
    "r_room_password r = (if length (cj_room_password pb) = 8 then Some (cj_room_password pb) else None)"
    "r_password_slot_mask r = cj_password_slot_mask pb" "r_owner_succession r = []"
  using assms unfolding Room_from_protobuf_def bind_res_eq_Ok Let_def by auto

lemma Room_from_protobuf_not_Panic: "Room_from_protobuf now pb \<noteq> Panic"
proof -
  have "fold_res (put_bin_attr_internal now m) xs s \<noteq> Panic" for m xs s
    by (rule fold_res_not_Panic [where P = "\<lambda>_. True"]) (auto simp: put_bin_attr_internal_def Let_def)
  moreover have "fold_res put_bin_attr_external xs s \<noteq> Panic" for xs s
    by (rule fold_res_not_Panic [where P = "\<lambda>_. True"]) (auto simp: put_bin_attr_external_def)
  moreover have "fold_res put_search_bin_attr xs s \<noteq> Panic" for xs s
    by (rule fold_res_not_Panic [where P = "\<lambda>_. True"]) (auto simp: put_search_bin_attr_def)
  moreover have "fold_res put_search_int_attr xs s \<noteq> Panic" for xs s
    by (rule fold_res_not_Panic [where P = "\<lambda>_. True"]) (auto simp: put_search_int_attr_def)
  ultimately show ?thesis
    unfolding Room_from_protobuf_def bind_res_eq_Panic Let_def by (auto split: option.splits)
qed

end
