(* ===== verification/Manager_Inv.thy ===== *)
theory Manager_Inv
  imports Room_Inv
begin

text \<open>
  The invariant of the room manager: every room satisfies its own invariant, sits under its identifier
  and below the counter of its game, and the three indices (by user, by world, by lobby) are exactly
  what the rooms say.  Every operation keeps it, whatever its outcome, and the descriptions of a
  room never panic on a room in its invariant.
\<close>

section \<open>Descriptions of a room in its invariant\<close>

lemma to_RoomMemberDataInternal_ok:
  assumes "unat (u_group_id u) \<le> length (r_group_config r)"
  shows "\<exists>d. to_RoomMemberDataInternal u r = Ok d"
proof -
  have "unat (u_group_id u) - 1 < length (r_group_config r)" if "u_group_id u \<noteq> 0"
    using that assms by (metis One_nat_def diff_less le_less_trans less_le_not_le linorder_not_le not_gr_zero
        unat_eq_0 zero_less_one)
  then show ?thesis by (simp add: to_RoomMemberDataInternal_def)
qed

lemma to_RoomDataInternal_ok:
  assumes "members_ok r"
  shows "\<exists>d. to_RoomDataInternal r = Ok d"
proof -
  have "\<exists>ys. traverse (\<lambda>u. to_RoomMemberDataInternal u r) (bt_values (r_users r)) = Ok ys"
    using assms
    by (intro traverse_Ok_elem) (auto simp: members_ok_def member_ok_def intro!: to_RoomMemberDataInternal_ok)
  then show ?thesis by (auto simp: to_RoomDataInternal_def)
qed

lemma get_room_member_update_info_ok:
  assumes "members_ok r" and "(m, u) \<in> set (r_users r)"
  shows "\<exists>d. get_room_member_update_info r m cause opt = Ok d"
proof -
  have "bt_get (r_users r) m = Some u" using assms by (simp add: members_ok_def bt_get_in_set)
  moreover have "\<exists>d. to_RoomMemberDataInternal u r = Ok d"
    using assms by (intro to_RoomMemberDataInternal_ok) (auto simp: members_ok_def member_ok_def)
  ultimately show ?thesis by (auto simp: get_room_member_update_info_def)
qed

lemma slot_counts_ok:
  assumes "\<And>i. i \<in> set is \<Longrightarrow> i < length (r_slots r)"
  shows "\<exists>c. slot_counts r is acc = Ok c"
  using assms by (induction "is" arbitrary: acc) (auto split: prod.splits)

lemma to_RoomDataExternal_ok:
  assumes "room_inv r"
  shows "\<exists>d. to_RoomDataExternal r opt inc = Ok d"
proof -
  have "bt_get (r_users r) (r_owner r) \<noteq> None"
    using assms by (auto simp: room_inv_def owner_ok_def map_of_eq_None_iff)
  then have "\<exists>i. room_owner_info r opt = Ok i" by (auto simp: room_owner_info_def)
  then obtain i where "room_owner_info r opt = Ok i" by blast
  moreover have "\<exists>c. slot_counts r [0..<unat (r_max_slot r)] (0, 0, 0) = Ok c"
    using assms by (intro slot_counts_ok) (auto simp: room_inv_def slots_ok_def)
  then obtain a b c where "slot_counts r [0..<unat (r_max_slot r)] (0, 0, 0) = Ok (a, b, c)"
    by (auto simp: split_paired_Ex)
  moreover obtain si sb be where "inc_loop r inc = (si, sb, be)" by (cases "inc_loop r inc")
  ultimately show ?thesis by (simp add: to_RoomDataExternal_def)
qed

lemma to_RoomDataExternalAll_ok:
  assumes "room_inv r"
  shows "\<exists>d. to_RoomDataExternalAll r opt inc = Ok d"
  using to_RoomDataExternal_ok [OF assms, of opt inc] by (auto simp: to_RoomDataExternalAll_def)

section \<open>The invariant\<close>

definition rooms_of :: "RoomManager \<Rightarrow> i64 \<Rightarrow> (ComId \<times> u64) set" where
  "rooms_of rm u = (case rm_user_rooms rm u of Some s \<Rightarrow> s | None \<Rightarrow> {})"

definition world_set :: "RoomManager \<Rightarrow> ComId \<times> u32 \<Rightarrow> u64 set" where
  "world_set rm k = (case rm_world_rooms rm k of Some s \<Rightarrow> s | None \<Rightarrow> {})"

definition lobby_set :: "RoomManager \<Rightarrow> ComId \<times> u64 \<Rightarrow> u64 set" where
  "lobby_set rm k = (case rm_lobby_rooms rm k of Some s \<Rightarrow> s | None \<Rightarrow> {})"

definition rooms_good :: "RoomManager \<Rightarrow> bool" where
  "rooms_good rm \<longleftrightarrow> (\<forall>c i r. rm_rooms rm (c, i) = Some r \<longrightarrow>
    room_inv r \<and> r_room_id r = i \<and> (\<exists>n. rm_room_cnt rm c = Some n \<and> i \<le> n))"

definition user_index_good :: "RoomManager \<Rightarrow> bool" where
  "user_index_good rm \<longleftrightarrow> (\<forall>u. rooms_of rm u =
    {(c, i). \<exists>r. rm_rooms rm (c, i) = Some r \<and> u \<in> get_room_user_ids r})"

definition place_index_good :: "RoomManager \<Rightarrow> bool" where
  "place_index_good rm \<longleftrightarrow>
    (\<forall>c w. world_set rm (c, w) = {i. \<exists>r. rm_rooms rm (c, i) = Some r \<and> r_lobby_id r = 0 \<and> r_world_id r = w}) \<and>
    (\<forall>c l. lobby_set rm (c, l) = {i. \<exists>r. rm_rooms rm (c, i) = Some r \<and> l \<noteq> 0 \<and> r_lobby_id r = l})"

definition rm_inv :: "RoomManager \<Rightarrow> bool" where
  "rm_inv rm \<longleftrightarrow> rooms_good rm \<and> user_index_good rm \<and> place_index_good rm"

lemma rm_inv_room:
  assumes "rm_inv rm" and "rm_rooms rm (c, i) = Some r"
  shows "room_inv r" and "r_room_id r = i" and "\<exists>n. rm_room_cnt rm c = Some n \<and> i \<le> n"
  using assms unfolding rm_inv_def rooms_good_def by blast+

lemma rm_inv_user:
  assumes "rm_inv rm"
  shows "(c, i) \<in> rooms_of rm u \<longleftrightarrow> (\<exists>r. rm_rooms rm (c, i) = Some r \<and> u \<in> get_room_user_ids r)"
  using assms by (auto simp: rm_inv_def user_index_good_def)

lemma rm_inv_world:
  assumes "rm_inv rm"
  shows "i \<in> world_set rm (c, w) \<longleftrightarrow> (\<exists>r. rm_rooms rm (c, i) = Some r \<and> r_lobby_id r = 0 \<and> r_world_id r = w)"
  using assms by (auto simp: rm_inv_def place_index_good_def)

lemma rm_inv_lobby:
  assumes "rm_inv rm"
  shows "i \<in> lobby_set rm (c, l) \<longleftrightarrow> (\<exists>r. rm_rooms rm (c, i) = Some r \<and> l \<noteq> 0 \<and> r_lobby_id r = l)"
  using assms by (auto simp: rm_inv_def place_index_good_def)

lemma RoomManager_new_inv: "rm_inv RoomManager_new"
  by (simp add: rm_inv_def rooms_good_def user_index_good_def place_index_good_def RoomManager_new_def
      rooms_of_def world_set_def lobby_set_def)

lemma set_of_entry_insert [simp]:
  "(case entry_insert k x m k' of Some s \<Rightarrow> s | None \<Rightarrow> {}) =
    (if k' = k then insert x (case m k of Some s \<Rightarrow> s | None \<Rightarrow> {}) else (case m k' of Some s \<Rightarrow> s | None \<Rightarrow> {}))"
  by (simp add: entry_insert_def)

section \<open>Replacing a room\<close>

text \<open>A room is replaced by one at the same place, with the members the user index says.\<close>

lemma put_room_inv:
  assumes inv: "rm_inv rm" and r: "rm_rooms rm (c, i) = Some r" and r': "room_inv r'"
    and place: "r_room_id r' = r_room_id r" "r_lobby_id r' = r_lobby_id r" "r_world_id r' = r_world_id r"
    and users: "\<And>u. rooms_of rm' u = (if u \<in> get_room_user_ids r' then insert (c, i) (rooms_of rm u)
                                   else rooms_of rm u - {(c, i)})"
    and rm': "rm_rooms rm' = (rm_rooms rm)((c, i) \<mapsto> r')" "rm_room_cnt rm' = rm_room_cnt rm"
      "rm_world_rooms rm' = rm_world_rooms rm" "rm_lobby_rooms rm' = rm_lobby_rooms rm"
  shows "rm_inv rm'"
proof -
  have "rooms_good rm'"
    using inv r r' place rm_inv_room [OF inv r] by (auto simp: rm_inv_def rooms_good_def rm')
  moreover have "user_index_good rm'"
    unfolding user_index_good_def users using inv by (auto simp: rm' rm_inv_user [OF inv] split: if_splits)
  moreover have "place_index_good rm'"
    using inv r place
    by (auto simp: rm_inv_def place_index_good_def rm' world_set_def lobby_set_def)
  ultimately show ?thesis by (simp add: rm_inv_def)
qed

lemma put_room_same_members:
  assumes "rm_inv rm" and "rm_rooms rm (c, i) = Some r" and "same_members r r'"
  shows "rm_inv (put_room rm c i r')"
proof (rule put_room_inv [OF assms(1,2) same_members_inv [OF assms(3) rm_inv_room(1) [OF assms(1,2)]]])
  have "get_room_user_ids r' = get_room_user_ids r" using assms(3) by (simp add: get_room_user_ids_def same_membersD)
  then show "rooms_of (put_room rm c i r') u = (if u \<in> get_room_user_ids r' then insert (c, i) (rooms_of rm u)
        else rooms_of rm u - {(c, i)})" for u
    using assms(2) rm_inv_user [OF assms(1), of c i u] by (auto simp: put_room_def rooms_of_def)
qed (use same_membersD [OF assms(3)] in \<open>simp_all add: put_room_def\<close>)

section \<open>Creating a room\<close>

lemma creator_group_Ok:
  assumes "creator_group r req = Ok (gc, g)"
  shows "length gc = length (r_group_config r)" and "unat g \<le> length gc"
  using assms by (auto simp: creator_group_def Let_def Suc_le_eq split: if_splits)

lemma creator_group_not_Panic [simp]: "creator_group r req \<noteq> Panic"
  by (simp add: creator_group_def Let_def)

text \<open>The room \<^verbatim>\<open>create_room\<close> stores: its creator is the only member, in slot 1, and owns it.\<close>

definition new_room ::
    "Room \<Rightarrow> u16 \<Rightarrow> u64 \<Rightarrow> u16 \<Rightarrow> RoomGroupConfig list \<Rightarrow> RoomUser \<Rightarrow> Room" where
  "new_room room1 member_id room_id server_id gc user =
    room1\<lparr> r_owner := member_id, r_room_id := room_id, r_server_id := server_id, r_group_config := gc,
           r_users := [(member_id, user)] \<rparr>"

lemma occupy_first_slot:
  assumes pb: "Room_from_protobuf now req = Ok room" and max: "cj_max_slot req \<noteq> 0" "\<not> cj_max_slot req > 64"
  obtains m room1 where "occupy_slot room 1 = (Ok m, room1)" "slots_ok room1" "r_slots room1 ! 0" "slot_of m = 1"
    "attrs_ok room1" "r_users room1 = []" "\<not> full_flag room1" "r_lobby_id room1 = r_lobby_id room"
    "r_world_id room1 = r_world_id room" "r_group_config room1 = r_group_config room"
proof -
  note f = Room_from_protobuf_fields [OF pb]
  have le: "unat (cj_max_slot req) \<le> 64" using max(2) by (simp add: word_le_nat_alt not_less)
  moreover have "unat (cj_max_slot req) \<noteq> 0" using max(1) by (simp add: unat_eq_0)
  moreover have "unat (r_max_slot room) = unat (cj_max_slot req)"
    using le by (simp add: f unsigned_ucast_eq take_bit_nat_eq_self)
  ultimately have ok: "slots_ok room" using f(2,3) by (simp add: slots_ok_def)
  then have "\<not> r_slots room ! 0" "0 < length (r_slots room)" using f(2) by (simp_all add: slots_ok_def)
  then obtain m room1 where occ: "occupy_slot room 1 = (Ok m, room1)"
    using occupy_slot_free [of 1 room] by (auto simp: Suc_le_eq)
  have "r_flag_attr room1 = r_flag_attr room" "r_users room1 = []" "attrs_ok room1 = attrs_ok room"
    "r_group_config room1 = r_group_config room" "r_world_id room1 = r_world_id room" "r_lobby_id room1 = r_lobby_id room"
    using occ f(4) by (auto simp: occupy_slot_def attrs_ok_def split: if_splits)
  moreover note t = takes_slotD [OF occupy_slot_Ok(2) [OF occ ok]]
  moreover have "slot_of m = 1" by (rule occupy_slot_Ok(1) [OF occ ok])
  ultimately show thesis
    using that [OF occ] ok f(5) Room_from_protobuf_attrs [OF pb] \<open>0 < length (r_slots room)\<close>
    by (simp add: slots_ok_def full_flag_def)
qed

lemma new_room_inv:
  assumes room1: "slots_ok room1" "r_slots room1 ! 0" "attrs_ok room1" "\<not> full_flag room1"
    and user: "u_member_id u = m" "slot_of m = 1" "has_owner_flag u" "unat (u_group_id u) \<le> length gc"
  shows "room_inv (new_room room1 m i sid gc u)"
proof -
  let ?r = "new_room room1 m i sid gc u"
  have "slots_ok ?r" "attrs_ok ?r" "full_ok ?r"
    using room1 by (simp_all add: new_room_def slots_ok_def attrs_ok_def full_ok_def full_flag_def)
  moreover have "members_ok ?r"
    using room1(1,2) user by (simp add: new_room_def members_ok_def member_ok_def bt_wf_def slots_ok_def)
  moreover have "owner_ok ?r" using user(3) by (simp add: new_room_def owner_ok_def)
  ultimately show ?thesis by (simp add: room_inv_def)
qed

lemma unfailing_create_room_inv:
  assumes inv: "rm_inv rm" and fresh: "rm_rooms rm (c, i) = None" and cnt: "rm_room_cnt rm c = Some i"
    and room: "room_inv room" "r_room_id room = i" "get_room_user_ids room = {ci_user_id cinfo}"
  shows "rm_inv (snd (unfailing_create_room codec rm i c room cinfo))"
proof -
  let ?rm = "snd (unfailing_create_room codec rm i c room cinfo)"
  have rooms: "rm_rooms ?rm = (rm_rooms rm)((c, i) \<mapsto> room)" and cnt': "rm_room_cnt ?rm = rm_room_cnt rm"
    by (simp_all add: unfailing_create_room_def Let_def put_room_def)
  have users: "rooms_of ?rm u = (if u = ci_user_id cinfo then insert (c, i) (rooms_of rm u) else rooms_of rm u)" for u
    by (simp add: unfailing_create_room_def Let_def put_room_def rooms_of_def)
  have world: "world_set ?rm k =
      (if r_lobby_id room = 0 \<and> k = (c, r_world_id room) then insert i (world_set rm k) else world_set rm k)" for k
    by (simp add: unfailing_create_room_def Let_def put_room_def world_set_def)
  have lobby: "lobby_set ?rm k =
      (if r_lobby_id room \<noteq> 0 \<and> k = (c, r_lobby_id room) then insert i (lobby_set rm k) else lobby_set rm k)" for k
    by (simp add: unfailing_create_room_def Let_def put_room_def lobby_set_def)
  have "rooms_good ?rm"
    using inv room cnt by (auto simp: rm_inv_def rooms_good_def rooms cnt')
  moreover have "(c', i') \<in> rooms_of ?rm u \<longleftrightarrow> (\<exists>r. rm_rooms ?rm (c', i') = Some r \<and> u \<in> get_room_user_ids r)" for c' i' u
    by (cases "(c', i') = (c, i)") (auto simp: users rooms rm_inv_user [OF inv] fresh room(3))
  then have "user_index_good ?rm" by (auto simp: user_index_good_def)
  moreover have "place_index_good ?rm"
  proof -
    have "i' \<in> world_set ?rm (c', w) \<longleftrightarrow>
        (\<exists>r. rm_rooms ?rm (c', i') = Some r \<and> r_lobby_id r = 0 \<and> r_world_id r = w)" for c' w i'
      by (cases "(c', i') = (c, i)") (auto simp: world rooms fresh rm_inv_world [OF inv])
    moreover have "i' \<in> lobby_set ?rm (c', l) \<longleftrightarrow>
        (\<exists>r. rm_rooms ?rm (c', i') = Some r \<and> l \<noteq> 0 \<and> r_lobby_id r = l)" for c' l i'
      by (cases "(c', i') = (c, i)") (auto simp: lobby rooms fresh rm_inv_lobby [OF inv])
    ultimately show ?thesis by (auto simp: place_index_good_def)
  qed
  ultimately show ?thesis by (simp add: rm_inv_def)
qed

definition current_cnt :: "RoomManager \<Rightarrow> ComId \<Rightarrow> u64" where
  "current_cnt rm c = (case rm_room_cnt rm c of Some n \<Rightarrow> n | None \<Rightarrow> 0)"

definition with_cnt :: "RoomManager \<Rightarrow> ComId \<Rightarrow> u64 \<Rightarrow> RoomManager" where
  "with_cnt rm c n = rm\<lparr> rm_room_cnt := (rm_room_cnt rm)(c \<mapsto> n) \<rparr>"

lemma with_cnt_inv:
  assumes "rm_inv rm" and "current_cnt rm c \<le> n"
  shows "rm_inv (with_cnt rm c n)"
proof -
  have "\<exists>n'. rm_room_cnt (with_cnt rm c n) c' = Some n' \<and> i \<le> n'" if "rm_rooms rm (c', i) = Some r" for c' i r
    using rm_inv_room(3) [OF assms(1) that] assms(2) by (auto simp: with_cnt_def current_cnt_def)
  moreover have "rm_rooms (with_cnt rm c n) = rm_rooms rm" by (simp add: with_cnt_def)
  ultimately have "rooms_good (with_cnt rm c n)"
    using assms(1) unfolding rm_inv_def rooms_good_def by metis
  moreover have "user_index_good (with_cnt rm c n)" "place_index_good (with_cnt rm c n)"
    using assms(1)
    by (simp_all add: rm_inv_def user_index_good_def place_index_good_def rooms_of_def world_set_def lobby_set_def
        with_cnt_def)
  ultimately show ?thesis by (simp add: rm_inv_def)
qed

lemma create_room_cases:
  obtains (refused) e where "create_room codec now rm c req cinfo sid sig = (Err e, rm)"
    | (refused_late) e where "create_room codec now rm c req cinfo sid sig = (Err e, with_cnt rm c (current_cnt rm c))"
    | (created) m room where
        "create_room codec now rm c req cinfo sid sig =
           unfailing_create_room codec (with_cnt rm c (current_cnt rm c + 1)) (current_cnt rm c + 1) c room cinfo"
        "room_inv room" "r_room_id room = current_cnt rm c + 1" "bt_keys (r_users room) = [m]" "r_owner room = m"
        "slot_of m = 1" "get_room_user_ids room = {ci_user_id cinfo}" "\<not> full_flag room"
        "r_lobby_id room = cj_lobby_id req" "r_world_id room = cj_world_id req"
proof (cases "cj_max_slot req = 0 \<or> cj_max_slot req > 64")
  case True
  then show thesis by (intro refused [of Malformed]) (simp add: create_room_def)
next
  case max: False
  show thesis
  proof (cases "Room_from_protobuf now req")
    case room: (Ok room)
    show thesis
    proof (cases "from_CreateJoinRoomRequest now req sig")
      case user: (Ok user)
      from max have max': "cj_max_slot req \<noteq> 0" "\<not> cj_max_slot req > 64" by simp_all
      obtain m room1 where occ: "occupy_slot room 1 = (Ok m, room1)" and r1: "slots_ok room1" "r_slots room1 ! 0"
        "slot_of m = 1" "attrs_ok room1" "r_users room1 = []" "\<not> full_flag room1"
        "r_lobby_id room1 = r_lobby_id room" "r_world_id room1 = r_world_id room"
        by (rule occupy_first_slot [OF room max'])
      let ?id = "current_cnt rm c + 1"
      let ?room2 = "room1\<lparr> r_owner := m, r_room_id := ?id, r_server_id := sid \<rparr>"
      let ?user = "user\<lparr> u_user_id := ci_user_id cinfo, u_npid := ci_npid cinfo,
        u_online_name := ci_online_name cinfo, u_avatar_url := ci_avatar_url cinfo,
        u_member_id := m, u_flag_attr := ROOMMEMBER_FLAG_ATTR_OWNER \<rparr>"
      show thesis
      proof (cases "creator_group ?room2 req")
        case group: (Ok p)
        obtain gc g where p: "p = (gc, g)" by fastforce
        let ?new = "new_room room1 m ?id sid gc (?user\<lparr> u_group_id := g \<rparr>)"
        have eq: "create_room codec now rm c req cinfo sid sig =
            unfailing_create_room codec (with_cnt rm c ?id) ?id c ?new cinfo"
          using max' room user occ group p r1(5)
          by (simp add: create_room_def Let_def with_cnt_def current_cnt_def new_room_def)
        have "room_inv ?new"
          using r1 creator_group_Ok [OF group [unfolded p]] by (intro new_room_inv) (auto simp: has_owner_flag_def)
        then show thesis
          using r1 Room_from_protobuf_fields [OF room]
          by (intro created [OF eq]) (auto simp: new_room_def get_room_user_ids_def full_flag_def)
      next
        case (Err e)
        then show thesis using max' room user occ
          by (intro refused_late) (simp add: create_room_def Let_def with_cnt_def current_cnt_def)
      qed simp
    next
      case (Err e)
      then show thesis using max room by (intro refused) (simp add: create_room_def)
    next
      case Panic
      then show thesis
        by (auto simp: from_CreateJoinRoomRequest_def split: list.splits if_splits)
    qed
  next
    case (Err e)
    then show thesis using max by (intro refused) (simp add: create_room_def)
  qed (simp add: Room_from_protobuf_not_Panic)
qed

lemma current_cnt_fresh:
  assumes "rm_inv rm" and "current_cnt rm c \<noteq> - 1"
  shows "rm_rooms rm (c, current_cnt rm c + 1) = None" and "current_cnt rm c \<le> current_cnt rm c + 1"
proof -
  have less: "current_cnt rm c < current_cnt rm c + 1"
    using assms(2) by (rule word_less_succ)
  then show "current_cnt rm c \<le> current_cnt rm c + 1" by simp
  show "rm_rooms rm (c, current_cnt rm c + 1) = None"
    using rm_inv_room(3) [OF assms(1), of c "current_cnt rm c + 1"] less
    by (cases "rm_rooms rm (c, current_cnt rm c + 1)") (auto simp: current_cnt_def)
qed

lemma create_room_inv:
  assumes "rm_inv rm" and "current_cnt rm c \<noteq> - 1"
  shows "rm_inv (snd (create_room codec now rm c req cinfo sid sig))"
proof (cases rule: create_room_cases [of codec now rm c req cinfo sid sig])
  case refused_late
  then show ?thesis using assms(1) by (simp add: with_cnt_inv)
next
  case (created m room)
  note fresh = current_cnt_fresh [OF assms]
  have "rm_inv (with_cnt rm c (current_cnt rm c + 1))" using with_cnt_inv assms(1) fresh(2) by blast
  then show ?thesis
    unfolding created(1) using created fresh(1)
    by (intro unfailing_create_room_inv) (simp_all add: with_cnt_def)
qed (use assms in simp)

lemma create_room_not_Panic: "fst (create_room codec now rm c req cinfo sid sig) \<noteq> Panic"
proof (cases rule: create_room_cases [of codec now rm c req cinfo sid sig])
  case (created m room)
  obtain d where "to_RoomDataInternal room = Ok d"
    using to_RoomDataInternal_ok [OF room_invD(3) [OF created(2)]] by blast
  then show ?thesis unfolding created(1) by (simp add: unfailing_create_room_def Let_def)
qed simp_all

section \<open>Joining a room\<close>

lemma from_JoinRoomRequest_Ok: "from_JoinRoomRequest now req sig = Ok u \<Longrightarrow> u_flag_attr u = 0"
  by (auto simp: from_JoinRoomRequest_def new_room_user_def)

lemma from_JoinRoomRequest_not_Panic [simp]: "from_JoinRoomRequest now req sig \<noteq> Panic"
  by (auto simp: from_JoinRoomRequest_def split: list.splits if_splits)

definition join_label :: "JoinRoomRequest \<Rightarrow> bytes option" where
  "join_label req = (if length (jr_join_room_group_label req) = GROUP_LABEL_SIZE
     then Some (jr_join_room_group_label req) else None)"

definition join_password :: "JoinRoomRequest \<Rightarrow> bytes option" where
  "join_password req = (if length (jr_room_password req) = SESSION_PASSWORD_SIZE
     then Some (jr_room_password req) else None)"

definition joining_user :: "RoomUser \<Rightarrow> ClientInfo \<Rightarrow> u16 \<Rightarrow> u8 \<Rightarrow> RoomUser" where
  "joining_user user cinfo m g =
    user\<lparr> u_user_id := ci_user_id cinfo, u_npid := ci_npid cinfo, u_online_name := ci_online_name cinfo,
          u_avatar_url := ci_avatar_url cinfo, u_member_id := m, u_group_id := g \<rparr>"

definition with_member :: "RoomManager \<Rightarrow> ComId \<Rightarrow> u64 \<Rightarrow> Room \<Rightarrow> i64 \<Rightarrow> RoomManager" where
  "with_member rm c i room u =
    rm\<lparr> rm_rooms := (rm_rooms rm)((c, i) \<mapsto> room),
        rm_user_rooms := entry_insert u (c, r_room_id room) (rm_user_rooms rm) \<rparr>"

text \<open>The five ways a call to \<^verbatim>\<open>join_room\<close> on an existing room can go.\<close>

lemma join_room_cases:
  assumes room: "rm_rooms rm (c, jr_room_id req) = Some room" and ok: "slots_ok room"
  obtains (refused) e where "join_room codec now rm c req cinfo sig = (Err e, rm)"
    | (slot_panic) room1 where "join_room codec now rm c req cinfo sig = (Panic, put_room rm c (jr_room_id req) room1)"
        "same_but_groups room room1" "r_group_config room \<noteq> []"
    | (slot_kept) e m room1 where
        "join_room codec now rm c req cinfo sig = (Err e, put_room rm c (jr_room_id req) room1)" "takes_slot room m room1"
    | (entered) g m room1 user where
        "join_room codec now rm c req cinfo sig =
          (join_reply codec req m (enter_room room1 m (joining_user user cinfo m g)) sig (get_room_user_ids room1),
           with_member rm c (jr_room_id req) (enter_room room1 m (joining_user user cinfo m g)) (ci_user_id cinfo))"
        "get_a_slot room (join_label req) (join_password req) = (Ok (g, m), room1)"
        "takes_slot room m room1" "unat g \<le> length (r_group_config room)" "\<not> full_flag room" "u_flag_attr user = 0"
proof (cases "full_flag room \<or>
    jr_join_room_group_label req \<noteq> [] \<and> length (jr_join_room_group_label req) \<noteq> GROUP_LABEL_SIZE \<or>
    jr_room_password req \<noteq> [] \<and> length (jr_room_password req) \<noteq> SESSION_PASSWORD_SIZE")
  case True
  then have "\<exists>e. join_room codec now rm c req cinfo sig = (Err e, rm)"
    using room by (auto simp: join_room_def get_room_def full_flag_def Let_def)
  then show thesis using refused by blast
next
  case guards: False
  obtain res room1 where slot: "get_a_slot room (join_label req) (join_password req) = (res, room1)" by fastforce
  have join: "join_room codec now rm c req cinfo sig =
    bind_st (get_a_slot room (join_label req) (join_password req)) (\<lambda>(g, m) room1.
      then_st (from_JoinRoomRequest now req sig, put_room rm c (jr_room_id req) room1) (\<lambda>user rm1.
        let room2 = enter_room room1 m (joining_user user cinfo m g);
            rm2 = put_room rm1 c (jr_room_id req) room2
        in (join_reply codec req m room2 sig (get_room_user_ids room1),
            rm2\<lparr> rm_user_rooms := entry_insert (ci_user_id cinfo) (c, r_room_id room2) (rm_user_rooms rm2) \<rparr>)))
      (put_room rm c (jr_room_id req))"
  proof -
    have g: "\<not> (r_flag_attr room AND ROOM_FLAG_ATTR_FULL) \<noteq> 0"
      "\<not> (jr_join_room_group_label req \<noteq> [] \<and> length (jr_join_room_group_label req) \<noteq> GROUP_LABEL_SIZE)"
      "\<not> (jr_room_password req \<noteq> [] \<and> length (jr_room_password req) \<noteq> SESSION_PASSWORD_SIZE)"
      using guards by (simp_all add: full_flag_def)
    show ?thesis
      unfolding join_room_def get_room_def room Let_def unwrap_simps bind_st.simps(1) if_not_P [OF g(1)]
        if_not_P [OF g(2)] if_not_P [OF g(3)] join_label_def join_password_def joining_user_def ..
  qed
  show thesis
  proof (cases res)
    case (Ok p)
    obtain g m where p: "p = (g, m)" by fastforce
    note taken = get_a_slot_Ok [OF slot [unfolded Ok p] ok]
    show thesis
    proof (cases "from_JoinRoomRequest now req sig")
      case user: (Ok user)
      show thesis
        by (rule entered [OF _ slot [unfolded Ok p] taken(1)])
           (use taken guards from_JoinRoomRequest_Ok [OF user] in
             \<open>simp_all add: join slot Ok p user Let_def put_room_def with_member_def\<close>)
    next
      case (Err e)
      show thesis by (rule slot_kept [OF _ taken(1)]) (simp add: join slot Ok p Err)
    qed simp
  next
    case (Err e)
    show thesis
      using get_a_slot_Err [OF slot [unfolded Err] ok] room
      by (intro refused [of e]) (simp add: join slot Err put_room_def fun_upd_idem)
  next
    case Panic
    show thesis
      using get_a_slot_Panic [OF slot [unfolded Panic] ok] by (intro slot_panic) (simp_all add: join slot Panic)
  qed
qed

lemma entered_room_inv:
  assumes inv: "room_inv room" and t: "takes_slot room m room1" and g: "unat g \<le> length (r_group_config room)"
    and "\<not> full_flag room" and "u_flag_attr user = 0" and new: "ci_user_id cinfo \<notin> get_room_user_ids room"
  shows "room_inv (enter_room room1 m (joining_user user cinfo m g))"
proof -
  note eqs = takes_slotD [OF t]
  note t_inv = takes_slot_inv [OF t inv]
  show ?thesis
    by (rule enter_room_inv)
       (use assms eqs t_inv in \<open>simp_all add: joining_user_def has_owner_flag_def full_flag_def get_room_user_ids_def\<close>)
qed

lemma enter_room_user_ids:
  assumes "slot_of m \<notin> slot_of ` set (bt_keys (r_users r))"
  shows "get_room_user_ids (enter_room r m u) = insert (u_user_id u) (get_room_user_ids r)"
proof -
  have "m \<notin> fst ` set (r_users r)" using assms by force
  then show ?thesis by (simp add: get_room_user_ids_image enter_roomD set_bt_insert_fresh)
qed

lemma takes_slot_put_inv:
  assumes inv: "rm_inv rm" and r: "rm_rooms rm (c, i) = Some r" and t: "takes_slot r m r'"
  shows "rm_inv (put_room rm c i r')"
proof (rule put_room_inv [OF inv r takes_slot_inv(1) [OF t rm_inv_room(1) [OF inv r]]])
  have "get_room_user_ids r' = get_room_user_ids r" using t by (simp add: get_room_user_ids_def takes_slotD)
  then show "rooms_of (put_room rm c i r') u = (if u \<in> get_room_user_ids r' then insert (c, i) (rooms_of rm u)
        else rooms_of rm u - {(c, i)})" for u
    using r rm_inv_user [OF inv, of c i u] by (auto simp: put_room_def rooms_of_def)
qed (use takes_slotD [OF t] in \<open>simp_all add: put_room_def\<close>)

lemma join_room_inv:
  assumes inv: "rm_inv rm" and new: "(c, jr_room_id req) \<notin> rooms_of rm (ci_user_id cinfo)"
  shows "rm_inv (snd (join_room codec now rm c req cinfo sig))"
proof (cases "rm_rooms rm (c, jr_room_id req)")
  case None
  then show ?thesis using inv by (simp add: join_room_def get_room_def)
next
  case room: (Some room)
  note rinv = rm_inv_room [OF inv room]
  from new have notin: "ci_user_id cinfo \<notin> get_room_user_ids room" using room rm_inv_user [OF inv] by blast
  show ?thesis
  proof (cases rule: join_room_cases [OF room room_invD(1) [OF rinv(1)], of codec now cinfo sig])
    case entered: (4 g m room1 user)
    let ?room2 = "enter_room room1 m (joining_user user cinfo m g)"
    note eqs = takes_slotD [OF entered(3)]
    have ids: "get_room_user_ids ?room2 = insert (ci_user_id cinfo) (get_room_user_ids room)"
      using takes_slot_inv(2) [OF entered(3) rinv(1)] eqs(1)
      by (simp add: enter_room_user_ids joining_user_def) (simp add: get_room_user_ids_def)
    have "rm_inv (with_member rm c (jr_room_id req) ?room2 (ci_user_id cinfo))"
    proof (rule put_room_inv [OF inv room])
      show "room_inv ?room2" using entered rinv notin by (intro entered_room_inv) simp_all
      show "rooms_of (with_member rm c (jr_room_id req) ?room2 (ci_user_id cinfo)) u =
          (if u \<in> get_room_user_ids ?room2 then insert (c, jr_room_id req) (rooms_of rm u)
           else rooms_of rm u - {(c, jr_room_id req)})" for u
        unfolding ids using room rm_inv_user [OF inv, of c "jr_room_id req" u] rinv(2)
        by (auto simp: with_member_def rooms_of_def enter_roomD eqs)
    qed (use eqs in \<open>simp_all add: with_member_def enter_roomD\<close>)
    then show ?thesis by (simp add: entered(1))
  qed (use inv room in \<open>auto intro: takes_slot_put_inv put_room_same_members same_but_groups_members\<close>)
qed

section \<open>Leaving a room\<close>

lemma left_room_user_ids:
  assumes "members_ok r" and "(m, u) \<in> set (r_users r)" and "left_room r m r'"
  shows "get_room_user_ids r' = get_room_user_ids r - {u_user_id u}"
proof (rule set_eqI)
  fix v
  have in_r: "v \<in> get_room_user_ids r \<longleftrightarrow> (\<exists>k w. (k, w) \<in> set (r_users r) \<and> u_user_id w = v)" for r
    by (force simp: get_room_user_ids_image)
  have key: "w = u" if "(m, w) \<in> set (r_users r)" for w
    using that assms(2) members_okD(1) [OF assms(1)] by (metis bt_get_in_set option.inject)
  have "(k, w) \<in> set (r_users r') \<longleftrightarrow> (k, w) \<in> set (r_users r) \<and> k \<noteq> m" for k w
    by (simp add: left_roomD(1) [OF assms(3)])
  moreover have "u_user_id w \<noteq> u_user_id u" if "(k, w) \<in> set (r_users r)" "k \<noteq> m" for k w
    using that user_entry_unique [OF assms(1,2)] by metis
  ultimately show "v \<in> get_room_user_ids r' \<longleftrightarrow> v \<in> get_room_user_ids r - {u_user_id u}"
    unfolding in_r Diff_iff singleton_iff using key by metis
qed

text \<open>The manager with the room out of the user's set, and with the room replaced or dropped.\<close>

definition without_member :: "RoomManager \<Rightarrow> ComId \<Rightarrow> u64 \<Rightarrow> i64 \<Rightarrow> RoomManager" where
  "without_member rm c i u = rm\<lparr> rm_user_rooms := (rm_user_rooms rm)(u \<mapsto> rooms_of rm u - {(c, i)}) \<rparr>"

lemma without_member_rooms_of:
  "rooms_of (without_member rm c i u) v = (if v = u then rooms_of rm u - {(c, i)} else rooms_of rm v)"
  by (simp add: without_member_def rooms_of_def)

lemma replace_left_inv:
  assumes inv: "rm_inv rm" and r: "rm_rooms rm (c, i) = Some r" and r': "room_inv r'"
    and place: "r_room_id r' = r_room_id r" "r_lobby_id r' = r_lobby_id r" "r_world_id r' = r_world_id r"
    and ids: "get_room_user_ids r' = get_room_user_ids r - {u}"
  shows "rm_inv (put_room (without_member rm c i u) c i r')"
proof (rule put_room_inv [OF inv r r' place])
  have "rooms_of (put_room rm c i r') v = rooms_of rm v" for rm v by (simp add: rooms_of_def put_room_def)
  then show "rooms_of (put_room (without_member rm c i u) c i r') v =
      (if v \<in> get_room_user_ids r' then insert (c, i) (rooms_of rm v) else rooms_of rm v - {(c, i)})" for v
    unfolding ids without_member_rooms_of using r rm_inv_user [OF inv, of c i v]
    by (auto simp: without_member_rooms_of)
qed (simp_all add: put_room_def without_member_def)

lemma drop_room_inv:
  assumes inv: "rm_inv rm" and r: "rm_rooms rm (c, i) = Some r" and ids: "get_room_user_ids r = {u}"
    and rooms: "rm_rooms rm' = (rm_rooms rm)((c, i) := None)" and cnt: "rm_room_cnt rm' = rm_room_cnt rm"
    and users: "\<And>v. rooms_of rm' v = (if v = u then rooms_of rm u - {(c, i)} else rooms_of rm v)"
    and world: "\<And>k. world_set rm' k =
      (if r_lobby_id r = 0 \<and> k = (c, r_world_id r) then world_set rm k - {i} else world_set rm k)"
    and lobby: "\<And>k. lobby_set rm' k =
      (if r_lobby_id r \<noteq> 0 \<and> k = (c, r_lobby_id r) then lobby_set rm k - {i} else lobby_set rm k)"
  shows "rm_inv rm'"
proof -
  have "rooms_good rm'" using inv by (simp add: rm_inv_def rooms_good_def rooms cnt)
  moreover have "(c', i') \<in> rooms_of rm' v \<longleftrightarrow> (\<exists>r. rm_rooms rm' (c', i') = Some r \<and> v \<in> get_room_user_ids r)" for c' i' v
    by (cases "(c', i') = (c, i)") (auto simp: users rooms rm_inv_user [OF inv] r ids)
  then have "user_index_good rm'" by (auto simp: user_index_good_def)
  moreover have "place_index_good rm'"
  proof -
    have "i' \<in> world_set rm' (c', w) \<longleftrightarrow>
        (\<exists>r. rm_rooms rm' (c', i') = Some r \<and> r_lobby_id r = 0 \<and> r_world_id r = w)" for c' w i'
      by (cases "(c', i') = (c, i)") (auto simp: world rooms rm_inv_world [OF inv] r)
    moreover have "i' \<in> lobby_set rm' (c', l) \<longleftrightarrow>
        (\<exists>r. rm_rooms rm' (c', i') = Some r \<and> l \<noteq> 0 \<and> r_lobby_id r = l)" for c' l i'
      by (cases "(c', i') = (c, i)") (auto simp: lobby rooms rm_inv_lobby [OF inv] r)
    ultimately show ?thesis by (auto simp: place_index_good_def)
  qed
  ultimately show ?thesis by (simp add: rm_inv_def)
qed

lemma destroy_room_ok:
  assumes inv: "rm_inv rm" and r: "rm_rooms rm (c, i) = Some r" and ids: "get_room_user_ids r = {u}"
    and empty: "r_users r' = []" and place: "r_lobby_id r' = r_lobby_id r" "r_world_id r' = r_world_id r"
  obtains rm' where "destroy_room c i r' (put_room (without_member rm c i u) c i r') = (Ok (), rm')"
    "rm_inv rm'" "rm_rooms rm' = (rm_rooms rm)((c, i) := None)"
proof (cases "r_lobby_id r = 0")
  case True
  then have "i \<in> world_set rm (c, r_world_id r)" using r by (simp add: rm_inv_world [OF inv])
  then obtain s where s: "rm_world_rooms rm (c, r_world_id r) = Some s"
    by (auto simp: world_set_def split: option.splits)
  let ?rm = "(put_room (without_member rm c i u) c i r')\<lparr>
     rm_world_rooms := (rm_world_rooms rm)((c, r_world_id r) \<mapsto> s - {i}),
     rm_rooms := (rm_rooms rm)((c, i) := None) \<rparr>"
  show thesis
  proof (rule that)
    show "destroy_room c i r' (put_room (without_member rm c i u) c i r') = (Ok (), ?rm)"
      using True s empty place by (simp add: destroy_room_def put_room_def without_member_def)
    show "rm_inv ?rm"
      by (rule drop_room_inv [OF inv r ids])
         (use True s in \<open>auto simp: put_room_def without_member_def rooms_of_def world_set_def lobby_set_def\<close>)
  qed simp
next
  case False
  then have "i \<in> lobby_set rm (c, r_lobby_id r)" using r by (simp add: rm_inv_lobby [OF inv])
  then obtain s where s: "rm_lobby_rooms rm (c, r_lobby_id r) = Some s"
    by (auto simp: lobby_set_def split: option.splits)
  let ?rm = "(put_room (without_member rm c i u) c i r')\<lparr>
     rm_lobby_rooms := (rm_lobby_rooms rm)((c, r_lobby_id r) \<mapsto> s - {i}),
     rm_rooms := (rm_rooms rm)((c, i) := None) \<rparr>"
  show thesis
  proof (rule that)
    show "destroy_room c i r' (put_room (without_member rm c i u) c i r') = (Ok (), ?rm)"
      using False s empty place by (simp add: destroy_room_def put_room_def without_member_def)
    show "rm_inv ?rm"
      by (rule drop_room_inv [OF inv r ids])
         (use False s in \<open>auto simp: put_room_def without_member_def rooms_of_def world_set_def lobby_set_def\<close>)
  qed simp
qed

text \<open>
  What \<^verbatim>\<open>leave_room\<close> does for a member of a room: it returns the remaining users and whether the room is
  gone, which it is exactly when nobody remains; the owner changes only when the owner left.
\<close>

definition leave_done :: "(nat \<Rightarrow> nat) \<Rightarrow> RoomManager \<Rightarrow> ComId \<Rightarrow> u64 \<Rightarrow> i64 \<Rightarrow> Room \<Rightarrow> RoomManager \<Rightarrow> bool" where
  "leave_done rnd rm c i u r rm' \<longleftrightarrow>
    (let m = find_user r u; others = get_room_user_ids r - {u} in
     rm_inv rm' \<and>
     (if others = {} then rm_rooms rm' = (rm_rooms rm)((c, i) := None)
      else \<exists>r'. rm_rooms rm' = (rm_rooms rm)((c, i) \<mapsto> r') \<and> get_room_user_ids r' = others \<and>
        bt_keys (r_users r') = filter (\<lambda>k. k \<noteq> m) (bt_keys (r_users r)) \<and>
        r_owner r' = (if m = r_owner r then next_owner rnd (r\<lparr> r_users := bt_remove m (r_users r) \<rparr>) else r_owner r)))"

lemma next_owner_left:
  assumes "left_room r m r'"
  shows "next_owner rnd (r\<lparr> r_users := bt_remove m (r_users r) \<rparr>) = next_owner rnd r'"
  using left_roomD [OF assms] by (simp add: next_owner_def split: option.split)

lemma get_room_user_ids_empty: "get_room_user_ids r = {} \<longleftrightarrow> r_users r = []"
  by (simp add: get_room_user_ids_def)

lemma leave_room_ok:
  assumes rnd: "\<And>n. 0 < n \<Longrightarrow> rnd n < n" and inv: "rm_inv rm"
    and r: "rm_rooms rm (c, i) = Some r" and u: "u \<in> get_room_user_ids r"
  obtains rm' where "leave_room rnd rm c i u = (Ok (get_room_user_ids r - {u} = {}, get_room_user_ids r - {u}), rm')"
    "leave_done rnd rm c i u r rm'"
proof -
  note rinv = rm_inv_room [OF inv r]
  let ?m = "find_user r u" and ?rm1 = "without_member rm c i u"
  have mem: "(c, i) \<in> rooms_of rm u" using r u by (simp add: rm_inv_user [OF inv])
  then obtain us where us: "rm_user_rooms rm u = Some us" by (auto simp: rooms_of_def split: option.splits)
  obtain usr where usr: "(?m, usr) \<in> set (r_users r)" "u_user_id usr = u" "?m \<noteq> 0"
    using find_user_member [OF room_invD(3) [OF rinv(1)] u] by blast
  obtain r1 where rem: "remove_member r ?m = (Ok (), r1)" and left: "left_room r ?m r1"
    by (rule remove_member_ok [OF rinv(1) usr(1)])
  note l = left_roomD [OF left]
  have ids: "get_room_user_ids r1 = get_room_user_ids r - {u}"
    using left_room_user_ids [OF room_invD(3) [OF rinv(1)] usr(1) left] usr(2) by simp
  have keys: "bt_keys (r_users r1) = filter (\<lambda>k. k \<noteq> ?m) (bt_keys (r_users r))" by (simp add: l bt_keys_remove)
  have rm1: "rm\<lparr> rm_user_rooms := (rm_user_rooms rm)(u \<mapsto> us - {(c, i)}) \<rparr> = ?rm1"
    using us by (simp add: without_member_def rooms_of_def)
  have rooms1: "rm_rooms ?rm1 = rm_rooms rm" by (simp add: without_member_def)
  have leave: "leave_room rnd rm c i u =
      (if ?m = r_owner r1 then
         bind_st (choose_successor rnd r1) (\<lambda>found r2.
           let rm2 = put_room ?rm1 c i r2 in
           if found then (Ok (False, get_room_user_ids r1), rm2)
           else then_st (destroy_room c i r2 rm2) (\<lambda>_ rm3. (Ok (True, get_room_user_ids r1), rm3)))
         (put_room ?rm1 c i)
       else (Ok (False, get_room_user_ids r1), put_room ?rm1 c i r1))"
    using r us mem usr(3) rem rooms1
    by (simp add: leave_room_def room_exists_def rooms_of_def get_room_def Let_def rm1)
  show thesis
  proof (cases "?m = r_owner r")
    case other: False
    then have "r_owner r \<in> set (bt_keys (r_users r1))"
      using rinv(1) by (auto simp: keys room_inv_def owner_ok_def)
    then have ne: "get_room_user_ids r1 \<noteq> {}" by (auto simp: get_room_user_ids_empty)
    have "rm_inv (put_room ?rm1 c i r1)"
      by (rule replace_left_inv [OF inv r left_room_other [OF left rinv(1) other]]) (simp_all add: l ids)
    then show thesis
      using other ne ids keys
      by (intro that) (auto simp: leave l leave_done_def Let_def put_room_def without_member_def)
  next
    case owner: True
    show thesis
    proof (cases "r_users r1 = []")
      case False
      obtain r2 where ch: "choose_successor rnd r1 = (Ok True, r2)" and r2: "room_inv r2"
        "r_owner r2 = next_owner rnd r1" "get_room_user_ids r2 = get_room_user_ids r1"
        "r_room_id r2 = r_room_id r" "r_lobby_id r2 = r_lobby_id r" "r_world_id r2 = r_world_id r"
        "bt_keys (r_users r2) = bt_keys (r_users r1)"
        by (rule left_room_succession [OF rnd left rinv(1) owner False])
      have "rm_inv (put_room ?rm1 c i r2)"
        by (rule replace_left_inv [OF inv r r2(1,4,5,6)]) (simp add: r2 ids)
      moreover have "get_room_user_ids r1 \<noteq> {}" using False by (simp add: get_room_user_ids_empty)
      ultimately show thesis
        using owner ids keys r2 next_owner_left [OF left]
        by (intro that) (auto simp: leave l ch leave_done_def Let_def put_room_def without_member_def)
    next
      case True
      then have one: "get_room_user_ids r = {u}" using ids u by (auto simp: get_room_user_ids_empty [symmetric])
      obtain rm' where "destroy_room c i (r1\<lparr> r_owner_succession := [] \<rparr>)
            (put_room ?rm1 c i (r1\<lparr> r_owner_succession := [] \<rparr>)) = (Ok (), rm')"
        "rm_inv rm'" "rm_rooms rm' = (rm_rooms rm)((c, i) := None)"
        by (rule destroy_room_ok [OF inv r one, of "r1\<lparr> r_owner_succession := [] \<rparr>"]) (simp_all add: True l)
      then show thesis
        using owner one ids choose_successor_none [OF True]
        by (intro that) (auto simp: leave l leave_done_def Let_def)
    qed
  qed
qed

lemma leave_room_refused:
  assumes "rm_inv rm" and "\<not> (\<exists>r. rm_rooms rm (c, i) = Some r \<and> u \<in> get_room_user_ids r)"
  obtains e where "leave_room rnd rm c i u = (Err e, rm)"
proof (cases "room_exists rm c i")
  case False
  then show thesis using that by (simp add: leave_room_def)
next
  case True
  have "(c, i) \<notin> rooms_of rm u" using assms by (simp add: rm_inv_user)
  then show thesis using True that by (auto simp: leave_room_def rooms_of_def split: option.splits)
qed

lemma leave_room_inv:
  assumes "\<And>n. 0 < n \<Longrightarrow> rnd n < n" and "rm_inv rm"
  shows "rm_inv (snd (leave_room rnd rm c i u))" and "fst (leave_room rnd rm c i u) \<noteq> Panic"
proof -
  have "rm_inv (snd (leave_room rnd rm c i u)) \<and> fst (leave_room rnd rm c i u) \<noteq> Panic"
  proof (cases "\<exists>r. rm_rooms rm (c, i) = Some r \<and> u \<in> get_room_user_ids r")
    case True
    then obtain r where r: "rm_rooms rm (c, i) = Some r" "u \<in> get_room_user_ids r" by blast
    show ?thesis by (rule leave_room_ok [OF assms r]) (simp_all add: leave_done_def Let_def)
  next
    case False
    show ?thesis by (rule leave_room_refused [OF assms(2) False, of rnd]) (simp add: assms(2))
  qed
  then show "rm_inv (snd (leave_room rnd rm c i u))" and "fst (leave_room rnd rm c i u) \<noteq> Panic" by simp_all
qed

end
