(* ===== verification/Room_Lifecycle.thy ===== *)
theory Room_Lifecycle
  imports Manager_Inv
begin

text \<open>
  The room manager as a transition system: the operations that change data keep the invariant of
  \<^verbatim>\<open>Manager_Inv\<close>, so every state the manager can reach has it.  The properties of the room component
  follow.
\<close>

section \<open>Changes of room data\<close>

lemma update_field_keeps:
  assumes "\<And>v. f x (get r) = Ok v \<Longrightarrow> same_members r (put v r)"
  shows "same_members r (snd (update_field put get f x r))"
  using assms by (auto simp: update_field_def split: res.splits)

lemma fold_field_keeps:
  assumes "\<And>x r v. attrs_ok r \<Longrightarrow> f x (get r) = Ok v \<Longrightarrow> same_members r (put v r)" and "attrs_ok r"
  shows "same_members r (snd (fold_st (update_field put get f) xs r))"
proof (rule fold_st_keeps [where P = "same_members r"])
  fix x s
  assume s: "same_members r s"
  then have "attrs_ok s" using assms(2) by (simp add: same_membersD)
  then show "same_members r (snd (update_field put get f x s))"
    by (intro same_members_trans [OF s update_field_keeps] assms(1))
qed simp

lemma set_external_attrs_keeps:
  assumes "attrs_ok r"
  shows "same_members r (snd (set_external_attrs req r))"
proof -
  have 1: "same_members r (snd (fold_st (update_field (\<lambda>v. r_bin_attr_external_update (\<lambda>_. v)) r_bin_attr_external
      put_bin_attr_external) xs r))" if "attrs_ok r" for r xs
    by (rule fold_field_keeps [OF _ that])
       (auto simp: same_members_def attrs_ok_def dest!: put_bin_attr_external_ok)
  have 2: "same_members r (snd (fold_st (update_field (\<lambda>v. r_search_bin_attr_update (\<lambda>_. v)) r_search_bin_attr
      put_search_bin_attr) xs r))" if "attrs_ok r" for r xs
    by (rule fold_field_keeps [OF _ that])
       (auto simp: same_members_def attrs_ok_def dest!: put_search_bin_attr_ok)
  have 3: "same_members r (snd (fold_st (update_field (\<lambda>v. r_search_int_attr_update (\<lambda>_. v)) r_search_int_attr
      put_search_int_attr) xs r))" if "attrs_ok r" for r xs
    by (rule fold_field_keeps [OF _ that])
       (auto simp: same_members_def attrs_ok_def dest!: put_search_int_attr_ok)
  have ok: "attrs_ok s" if "same_members r s" for s using that assms by (simp add: same_membersD)
  show ?thesis
    unfolding set_external_attrs_def
    by (intro then_st_keeps [where P = "same_members r"] 1 [OF assms])
       (rule same_members_trans, assumption, (rule 2 3), rule ok, assumption)+
qed

lemma set_roomdata_external_inv:
  assumes "rm_inv rm"
  shows "rm_inv (snd (set_roomdata_external rm c req u))"
proof (cases "rm_rooms rm (c, se_room_id req)")
  case None
  then show ?thesis using assms by (simp add: set_roomdata_external_def room_exists_def)
next
  case (Some r)
  have keeps: "same_members r (snd (set_external_attrs req r))"
    using set_external_attrs_keeps rm_inv_room(1) [OF assms Some] room_invD(2) by blast
  have "rm_inv (put_room rm c (se_room_id req) (snd (set_external_attrs req r)))"
    by (rule put_room_same_members [OF assms Some keeps])
  then show ?thesis
    using assms Some
    by (simp add: set_roomdata_external_def room_exists_def get_room_def get_member_id_def ok_or_def bind_st_place
        split: option.splits)
qed

lemma password_config_loop_keeps: "same_members r (snd (password_config_loop cs acc r))"
proof (induction cs acc r rule: password_config_loop.induct)
  case (2 c cs changed groups r)
  show ?case
  proof (cases "Uint8_opt_get_verified (rgpc_group_id c)")
    case gid: (Ok gid)
    show ?thesis
    proof (cases "index_res (r_group_config r) (unat (gid - 1)) :: RoomGroupConfig result")
      case (Ok g)
      let ?r = "r\<lparr> r_group_config := (r_group_config r)[unat (gid - 1) := g\<lparr> g_with_password := rgpc_with_password c \<rparr>] \<rparr>"
      have "same_members r ?r" by (simp add: same_members_def attrs_ok_def)
      then show ?thesis
        using 2 gid Ok by (auto simp: Let_def intro: same_members_trans)
    qed (use 2 gid in \<open>auto simp: Let_def\<close>)
  qed simp_all
qed simp

lemma bin_attr_internal_loop_keeps:
  assumes "attrs_ok r"
  shows "same_members r (snd (bin_attr_internal_loop now m pbs new r))"
  using assms
proof (induction pbs arbitrary: new r)
  case (Cons pb pbs)
  show ?case
  proof (cases "RoomBinAttrInternal_from_protobuf now pb m")
    case (Ok a)
    let ?r = "r\<lparr> r_bin_attr_internal :=
      (r_bin_attr_internal r)[unat (rba_id (rbi_data a) - ROOM_BIN_ATTR_INTERNAL_1_ID) := a] \<rparr>"
    have "bin_attr_wf 256 (rbi_data a)"
      using Ok by (auto simp: RoomBinAttrInternal_from_protobuf_def dest: RoomBinAttr_from_protobuf_wf)
    then have ok: "attrs_ok ?r"
      using Cons.prems by (auto simp: attrs_ok_def dest!: set_update_subset_insert [THEN subsetD])
    then have "same_members r ?r" by (simp add: same_members_def)
    then have "same_members r (snd (bin_attr_internal_loop now m pbs new' ?r))" for new'
      using Cons.IH [OF ok] same_members_trans by blast
    then show ?thesis
      using Cons Ok by (simp add: Let_def)
  qed simp_all
qed simp

lemma set_flags_keeps: "same_members r (snd (set_flags req r))"
proof -
  let ?fa = "sri_flag_attr req AND NOT PROTECTED_ROOM_FLAGS" and ?ff = "sri_flag_filter req AND NOT PROTECTED_ROOM_FLAGS"
  let ?new = "(?fa AND ?ff) OR (r_flag_attr r AND NOT ?ff)"
  have "?new AND ROOM_FLAG_ATTR_FULL = r_flag_attr r AND ROOM_FLAG_ATTR_FULL" by (rule protected_flags_kept)
  then have "same_members r (r\<lparr> r_flag_attr := x \<rparr>)" if "x = ?new" for x
    unfolding that same_members_def by (simp add: attrs_ok_def)
  then show ?thesis by (auto simp: set_flags_def Let_def)
qed

lemma set_slot_mask_keeps: "same_members r (snd (set_slot_mask req old b r))"
  by (auto simp: set_slot_mask_def same_members_def attrs_ok_def split: list.splits)

lemma set_succession_keeps: "same_members r (snd (set_succession req b r))"
proof -
  have "same_members r (r\<lparr> r_owner_succession := ss \<rparr>)" for ss by (simp add: same_members_def attrs_ok_def)
  then show ?thesis
    by (cases "traverse Uint16_get_verified (sri_owner_privilege_rank req)") (auto simp: set_succession_def)
qed

lemma set_internal_owner_keeps: "same_members r (snd (set_internal_owner req r))"
proof -
  obtain b r1 where flags: "set_flags req r = (b, r1)" by fastforce
  have 1: "same_members r r1" using set_flags_keeps [of r req] flags by simp
  have rest: "same_members s (snd (set_succession req b' (snd (set_slot_mask req old b s))))" for s old b b'
    by (rule same_members_trans [OF set_slot_mask_keeps set_succession_keeps])
  show ?thesis
    unfolding set_internal_owner_def Let_def flags prod.case
    by (rule then_st_keeps [where P = "same_members r"])
       (auto simp: split_beta bind_st_place intro: same_members_trans [OF 1 password_config_loop_keeps]
         same_members_trans [OF _ rest])
qed

lemma set_internal_room_keeps:
  assumes "attrs_ok r"
  shows "same_members r (snd (set_internal_room codec now req u m r))"
proof -
  have loop: "same_members r (snd (bin_attr_internal_loop now m pbs [] s))" if "same_members r s" for pbs s
    using same_members_trans [OF that bin_attr_internal_loop_keeps] that assms by (simp add: same_membersD)
  show ?thesis
    unfolding set_internal_room_def
    by (rule then_st_keeps [where P = "same_members r"])
       (auto simp: set_internal_owner_keeps intro!: then_st_keeps [where P = "same_members r"] loop)
qed

lemma set_roomdata_internal_inv:
  assumes "rm_inv rm"
  shows "rm_inv (snd (set_roomdata_internal codec now rm c req u))"
proof (cases "rm_rooms rm (c, sri_room_id req)")
  case None
  then show ?thesis using assms by (simp add: set_roomdata_internal_def room_exists_def)
next
  case (Some r)
  have "rm_inv (put_room rm c (sri_room_id req) (snd (set_internal_room codec now req u m r)))" for m
    by (rule put_room_same_members [OF assms Some])
       (rule set_internal_room_keeps [OF room_invD(2) [OF rm_inv_room(1) [OF assms Some]]])
  then show ?thesis
    using assms Some
    by (simp add: set_roomdata_internal_def room_exists_def get_room_def get_member_id_def ok_or_def bind_st_place
        split: option.splits)
qed

section \<open>Changes of member data\<close>

definition same_seat :: "RoomUser \<Rightarrow> RoomUser \<Rightarrow> bool" where
  "same_seat u u' \<longleftrightarrow> u_user_id u' = u_user_id u \<and> u_member_id u' = u_member_id u \<and>
    u_group_id u' = u_group_id u \<and> u_flag_attr u' = u_flag_attr u"

lemma set_member_attrs_seat: "same_seat u (snd (set_member_attrs now req u))"
proof (cases "Uint8_opt_get_verified (smi_team_id req)")
  case (Ok t)
  then show ?thesis
    by (cases "RoomMemberBinAttr_from_protobuf now (hd (smi_room_member_bin_attr_internal req))")
       (auto simp: same_seat_def set_member_attrs_def Let_def split: list.splits)
qed (simp_all add: same_seat_def set_member_attrs_def)

lemma modify_seat_inv:
  assumes inv: "room_inv r" and u: "bt_get (r_users r) k = Some u" and u': "same_seat u u'"
  defines "r' \<equiv> r\<lparr> r_users := bt_modify k (\<lambda>_. u') (r_users r) \<rparr>"
  shows "room_inv r'" and "get_room_user_ids r' = get_room_user_ids r"
proof -
  note mok = room_invD(3) [OF inv]
  have only: "v = u" if "(k, v) \<in> set (r_users r)" for v
    using that u members_okD(1) [OF mok] by (simp add: bt_get_in_set [symmetric])
  have us: "r_users r' = map (\<lambda>(k', v). (k', if k' = k then u' else v)) (r_users r)"
    by (simp add: r'_def bt_modify_def)
  have ids: "map u_user_id (bt_values (r_users r')) = map u_user_id (bt_values (r_users r))"
    using only u' by (auto simp: us same_seat_def)
  then show "get_room_user_ids r' = get_room_user_ids r" by (simp only: get_room_user_ids_def)
  have keys: "bt_keys (r_users r') = bt_keys (r_users r)" by (simp add: r'_def)
  have ok: "member_ok r' = member_ok r" and own: "r_owner r' = r_owner r"
    by (simp_all add: fun_eq_iff member_ok_def r'_def)
  have "\<forall>(m, v) \<in> set (r_users r'). member_ok r' m v"
    unfolding ok
  proof clarify
    fix m v
    assume "(m, v) \<in> set (r_users r')"
    then obtain w where w: "(m, w) \<in> set (r_users r)" "v = (if m = k then u' else w)" by (auto simp: us)
    then show "member_ok r m v"
      using members_okD(2) [OF mok w(1)] only u' by (auto simp: member_ok_def same_seat_def)
  qed
  moreover have "bt_wf (r_users r')" using members_okD(1) [OF mok] by (simp add: r'_def)
  ultimately have "members_ok r'" using mok by (simp only: members_ok_def keys ids)
  moreover have "owner_ok r'"
    unfolding owner_ok_def keys own
  proof (intro conjI, use room_invD(4) [OF inv] in \<open>simp add: owner_ok_def\<close>, clarify)
    fix m v
    assume "(m, v) \<in> set (r_users r')"
    then obtain w where w: "(m, w) \<in> set (r_users r)" "v = (if m = k then u' else w)" by (auto simp: us)
    then have "has_owner_flag v = has_owner_flag w" using only u' by (auto simp: same_seat_def has_owner_flag_def)
    then show "has_owner_flag v = (m = r_owner r)" using room_invD(4) [OF inv] w(1) by (auto simp: owner_ok_def)
  qed
  ultimately show "room_inv r'"
    using inv by (simp add: room_inv_def slots_ok_def attrs_ok_def full_ok_def full_flag_def r'_def)
qed

lemma set_member_room_cases:
  obtains (kept) "snd (set_member_room codec now req uid r) = r"
    | (set) k u where "bt_get (r_users r) k = Some u"
        "snd (set_member_room codec now req uid r) =
          r\<lparr> r_users := bt_modify k (\<lambda>_. snd (set_member_attrs now req u)) (r_users r) \<rparr>"
proof (cases "get_member_id r uid")
  case mid: (Ok mid)
  show thesis
  proof (cases "Uint16_opt_get_verified (smi_member_id req)")
    case tid: (Ok tid)
    let ?t = "if tid = 0 then mid else tid"
    show thesis
    proof (cases "mid \<noteq> ?t \<and> mid \<noteq> r_owner r \<or> bt_get (r_users r) ?t = None")
      case True
      then show thesis using mid tid by (intro kept) (auto simp: set_member_room_def Let_def)
    next
      case False
      then obtain u where u: "bt_get (r_users r) ?t = Some u" by blast
      obtain res u1 where attrs: "set_member_attrs now req u = (res, u1)" by fastforce
      have "snd (set_member_room codec now req uid r) = r\<lparr> r_users := bt_modify ?t (\<lambda>_. u1) (r_users r) \<rparr>"
        using False mid tid u attrs by (cases res) (auto simp: set_member_room_def Let_def split: prod.splits)
      then show thesis using set [OF u] attrs by simp
    qed
  qed (use mid in \<open>auto simp: set_member_room_def intro: kept\<close>)
qed (auto simp: set_member_room_def intro: kept)

lemma set_roommemberdata_internal_inv:
  assumes "rm_inv rm"
  shows "rm_inv (snd (set_roommemberdata_internal codec now rm c req uid))"
proof (cases "rm_rooms rm (c, smi_room_id req)")
  case None
  then show ?thesis using assms by (simp add: set_roommemberdata_internal_def room_exists_def)
next
  case (Some r)
  note inv = rm_inv_room(1) [OF assms Some]
  let ?r = "snd (set_member_room codec now req uid r)"
  have r': "room_inv ?r" "get_room_user_ids ?r = get_room_user_ids r" "r_room_id ?r = r_room_id r"
    "r_lobby_id ?r = r_lobby_id r" "r_world_id ?r = r_world_id r"
    by (cases rule: set_member_room_cases [of codec now req uid r];
        use inv modify_seat_inv [OF inv _ set_member_attrs_seat] in simp)+
  have "rm_inv (put_room rm c (smi_room_id req) ?r)"
  proof (rule put_room_inv [OF assms Some r'(1,3,4,5)])
    show "rooms_of (put_room rm c (smi_room_id req) ?r) v =
        (if v \<in> get_room_user_ids ?r then insert (c, smi_room_id req) (rooms_of rm v)
         else rooms_of rm v - {(c, smi_room_id req)})" for v
      using Some rm_inv_user [OF assms, of c "smi_room_id req" v]
      by (auto simp: r'(2) put_room_def rooms_of_def)
  qed (simp_all add: put_room_def)
  then show ?thesis
    using Some by (simp add: set_roommemberdata_internal_def room_exists_def get_room_def bind_st_place)
qed

section \<open>The transition system\<close>

text \<open>
  One step is one call of an operation that changes the manager, with what the command handlers check
  before the call: \<^verbatim>\<open>req_join_room\<close> refuses missing rooms and users that are already members.  A room
  counter is a 64 bit number; a step that creates a room is one before the counter wraps around.
  \<^verbatim>\<open>gen_range(0..n)\<close> returns a number below \<^verbatim>\<open>n\<close>.
\<close>

inductive rm_step :: "RoomManager \<Rightarrow> RoomManager \<Rightarrow> bool" where
  create: "current_cnt rm c \<noteq> - 1 \<Longrightarrow> rm_step rm (snd (create_room codec now rm c req cinfo sid sig))"
| join: "rm_rooms rm (c, jr_room_id req) = Some r \<Longrightarrow> ci_user_id cinfo \<notin> get_room_user_ids r \<Longrightarrow>
    rm_step rm (snd (join_room codec now rm c req cinfo sig))"
| leave: "\<forall>n > 0. rnd n < n \<Longrightarrow> rm_step rm (snd (leave_room rnd rm c i u))"
| set_external: "rm_step rm (snd (set_roomdata_external rm c req_e u))"
| set_internal: "rm_step rm (snd (set_roomdata_internal codec now rm c req_i u))"
| set_member: "rm_step rm (snd (set_roommemberdata_internal codec now rm c req_m u))"

lemma rm_step_inv:
  assumes "rm_inv rm" and "rm_step rm rm'"
  shows "rm_inv rm'"
  using assms(2)
proof cases
  case (join c req r cinfo codec now sig)
  then have "(c, jr_room_id req) \<notin> rooms_of rm (ci_user_id cinfo)" by (simp add: rm_inv_user [OF assms(1)])
  then show ?thesis using join join_room_inv [OF assms(1)] by simp
qed (use assms(1) in \<open>auto intro: create_room_inv leave_room_inv(1) set_roomdata_external_inv
      set_roomdata_internal_inv set_roommemberdata_internal_inv\<close>)

interpretation rms: invariant_system RoomManager_new rm_step rm_inv
  by unfold_locales (auto intro: RoomManager_new_inv rm_step_inv)

end
