(* ===== verification/Room_Properties.thy ===== *)
theory Room_Properties
  imports Room_Lifecycle
begin

text \<open>
  The properties of the matching rooms, each with a witness on a small concrete server: one game
  with a room for two players, created by user 7 and joined by user 8.
\<close>

section \<open>A small server\<close>

definition ex_codec :: prost_codec where
  "ex_codec = \<lparr> enc_CreateRoomResponse = (\<lambda>_. []), enc_JoinRoomResponse = (\<lambda>_. []),
     enc_NotificationUserJoinedRoom = (\<lambda>_. []), enc_SearchRoomResponse = (\<lambda>_. []),
     enc_SearchRoomAllResponse = (\<lambda>_. []), enc_GetRoomDataExternalListResponse = (\<lambda>_. []),
     enc_GetRoomMemberDataExternalListResponse = (\<lambda>_. []), enc_RoomDataInternal = (\<lambda>_. []),
     enc_RoomDataInternalUpdateInfo = (\<lambda>_. []), enc_RoomMemberDataInternal = (\<lambda>_. []),
     enc_RoomMemberDataInternalUpdateInfo = (\<lambda>_. []) \<rparr>"

definition ex_com :: ComId where
  "ex_com = [1]"

definition ex_create :: CreateJoinRoomRequest where
  "ex_create = \<lparr> cj_world_id = 1, cj_lobby_id = 0, cj_max_slot = 2, cj_flag_attr = 0, cj_room_bin_attr_internal = [],
     cj_room_searchable_int_attr_external = [], cj_room_searchable_bin_attr_external = [],
     cj_room_bin_attr_external = [], cj_room_password = [], cj_group_config = [], cj_password_slot_mask = 0,
     cj_allowed_user = [], cj_blocked_user = [], cj_join_room_group_label = [],
     cj_room_member_bin_attr_internal = [], cj_team_id = Some (Uint8 0), cj_sig_opt_param = None \<rparr>"

definition ex_join :: JoinRoomRequest where
  "ex_join = \<lparr> jr_room_id = 1, jr_room_password = [], jr_join_room_group_label = [],
     jr_room_member_bin_attr_internal = [], jr_opt_data = None, jr_team_id = Some (Uint8 0) \<rparr>"

definition ex_cinfo :: "i64 \<Rightarrow> ClientInfo" where
  "ex_cinfo uid = \<lparr> ci_user_id = uid, ci_npid = ''p'', ci_online_name = ''p'', ci_avatar_url = '''', ci_token = '''',
     ci_admin = False, ci_stat_agent = False, ci_banned = False \<rparr>"

definition ex_rm1 :: RoomManager where
  "ex_rm1 = snd (create_room ex_codec 0 RoomManager_new ex_com ex_create (ex_cinfo 7) 1 ClientSharedSignalingInfo_new)"

definition ex_rm2 :: RoomManager where
  "ex_rm2 = snd (join_room ex_codec 0 ex_rm1 ex_com ex_join (ex_cinfo 8) ClientSharedSignalingInfo_new)"

definition ex_room1 :: Room where
  "ex_room1 = the (rm_rooms ex_rm1 (ex_com, 1))"

definition ex_room2 :: Room where
  "ex_room2 = the (rm_rooms ex_rm2 (ex_com, 1))"

lemma ex_rooms:
  "rm_rooms ex_rm1 (ex_com, 1) = Some ex_room1" "rm_rooms ex_rm2 (ex_com, 1) = Some ex_room2"
  "current_cnt ex_rm1 ex_com = 1" "current_cnt RoomManager_new ex_com = 0"
  by code_simp+

lemma ex_users:
  "get_room_user_ids ex_room1 = {7}" "get_room_user_ids ex_room2 = {7, 8}"
  "r_owner ex_room1 = 16" "r_owner ex_room2 = 16" "find_user ex_room2 7 = 16" "find_user ex_room2 8 = 33"
  by code_simp+

lemma ex_reach1: "reach rm_step RoomManager_new ex_rm1"
  unfolding ex_rm1_def
  by (rule reach.more [OF reach.start]) (rule rm_step.create, simp add: ex_rooms)

lemma ex_reach2: "reach rm_step RoomManager_new ex_rm2"
proof (rule reach.more [OF ex_reach1])
  have "rm_rooms ex_rm1 (ex_com, jr_room_id ex_join) = Some ex_room1" by (simp add: ex_rooms ex_join_def)
  moreover have "ci_user_id (ex_cinfo 8) \<notin> get_room_user_ids ex_room1" by (simp add: ex_users ex_cinfo_def)
  ultimately show "rm_step ex_rm1 ex_rm2" unfolding ex_rm2_def by (rule rm_step.join)
qed

section \<open>Reachable states\<close>

text \<open>C7: in every state the room manager can reach, all rooms satisfy the room invariant (members
  sit in occupied slots of their own, users are distinct, exactly one member is flagged as owner and it is
  the room's owner, the full flag is set only on a full room), room numbers are below the counter of their
  game, and the indices by user, world and lobby list exactly the rooms they should.\<close>

theorem room_manager_reachable_inv:
  assumes "reach rm_step RoomManager_new rm"
  shows "rm_inv rm"
  using assms by (rule rms.reach_inv)

theorem room_manager_reachable_inv_witness: "reach rm_step RoomManager_new ex_rm2 \<and> rm_inv ex_rm2"
  using ex_reach2 room_manager_reachable_inv [OF ex_reach2] by blast

text \<open>C11: a reachable room never holds more members than its slot count, which is at most 64; the
  members occupy pairwise different slots; and the role reported to other players is owner for exactly
  the member that owns the room.\<close>

theorem room_capacity_and_owner:
  assumes "reach rm_step RoomManager_new rm" and "rm_rooms rm (c, i) = Some r"
  shows "length (r_users r) \<le> unat (r_max_slot r) \<and> unat (r_max_slot r) \<le> 64 \<and>
    inj_on slot_of (set (bt_keys (r_users r))) \<and> r_owner r \<in> set (bt_keys (r_users r)) \<and>
    (\<forall>(m, u) \<in> set (r_users r).
      rmde_role (to_roomMemberDataExternal u) = Uint8_new_from_value ROLE_OWNER \<longleftrightarrow> m = r_owner r)"
proof -
  have inv: "room_inv r" by (rule rm_inv_room(1) [OF rms.reach_inv [OF assms(1)] assms(2)])
  have role: "rmde_role (to_roomMemberDataExternal u) = Uint8_new_from_value ROLE_OWNER \<longleftrightarrow> has_owner_flag u" for u
    by (simp add: to_roomMemberDataExternal_def has_owner_flag_def Uint8_new_from_value_def)
  show ?thesis
    using members_le_slots [OF room_invD(3) [OF inv]] room_invD [OF inv]
    by (simp add: slots_ok_def members_ok_def owner_ok_def role)
qed

theorem room_capacity_and_owner_witness:
  "length (r_users ex_room2) \<le> unat (r_max_slot ex_room2) \<and> inj_on slot_of (set (bt_keys (r_users ex_room2)))"
  using room_capacity_and_owner [OF ex_reach2 ex_rooms(2)] by blast

section \<open>Creating, joining and leaving\<close>

text \<open>C10: a successful \<open>create_room\<close> adds one room, under the next number of the game's counter,
  which no room had before; its only member is the creator, who owns it from slot 1, and its full flag
  is clear whatever flags the request asked for.  All other rooms stay as they are.\<close>

theorem create_room_spec:
  assumes "reach rm_step RoomManager_new rm" and "current_cnt rm c \<noteq> - 1"
    and "create_room codec now rm c req cinfo sid sig = (Ok resp, rm')"
  shows "\<exists>room m. rm_rooms rm (c, current_cnt rm c + 1) = None \<and>
      rm_rooms rm' = (rm_rooms rm)((c, current_cnt rm c + 1) \<mapsto> room) \<and>
      current_cnt rm' c = current_cnt rm c + 1 \<and> get_room_user_ids room = {ci_user_id cinfo} \<and>
      bt_keys (r_users room) = [m] \<and> r_owner room = m \<and> slot_of m = 1 \<and>
      r_flag_attr room AND ROOM_FLAG_ATTR_FULL = 0"
proof -
  note fresh = current_cnt_fresh(1) [OF rms.reach_inv [OF assms(1)] assms(2)]
  show ?thesis
  proof (cases rule: create_room_cases [of codec now rm c req cinfo sid sig])
    case (created m room)
    let ?rm = "snd (unfailing_create_room codec (with_cnt rm c (current_cnt rm c + 1)) (current_cnt rm c + 1) c room cinfo)"
    have "rm' = ?rm" using assms(3) created(1) by simp
    then have "rm_rooms rm' = (rm_rooms rm)((c, current_cnt rm c + 1) \<mapsto> room)"
      "rm_room_cnt rm' c = Some (current_cnt rm c + 1)"
      by (simp_all add: unfailing_create_room_def Let_def put_room_def with_cnt_def)
    then show ?thesis using fresh created by (auto simp: full_flag_def current_cnt_def [of rm'])
  qed (use assms(3) in simp_all)
qed

theorem create_room_spec_witness:
  "\<exists>room m. rm_rooms ex_rm1 = (rm_rooms RoomManager_new)((ex_com, 1) \<mapsto> room) \<and> r_owner room = m \<and> slot_of m = 1"
proof -
  have "create_room ex_codec 0 RoomManager_new ex_com ex_create (ex_cinfo 7) 1 ClientSharedSignalingInfo_new = (Ok [], ex_rm1)"
    unfolding ex_rm1_def by (rule prod_eqI) (code_simp, simp)
  from create_room_spec [OF reach.start _ this] show ?thesis by (auto simp: ex_rooms)
qed

text \<open>C8: when \<open>join_room\<close> succeeds for a user who is not yet in the room, exactly that room changes:
  it gains one member with a new member identifier whose slot was free, its users are the old ones and the
  joiner, the owner stays, and the full flag is set exactly when the room has reached its size.\<close>

theorem join_room_spec:
  assumes "reach rm_step RoomManager_new rm" and "rm_rooms rm (c, jr_room_id req) = Some r"
    and "ci_user_id cinfo \<notin> get_room_user_ids r"
    and "join_room codec now rm c req cinfo sig = (Ok reply, rm')"
  shows "\<exists>r' m. rm_rooms rm' = (rm_rooms rm)((c, jr_room_id req) \<mapsto> r') \<and>
      set (bt_keys (r_users r')) = insert m (set (bt_keys (r_users r))) \<and> m \<notin> set (bt_keys (r_users r)) \<and>
      \<not> r_slots r ! (slot_of m - 1) \<and> r_slots r' = (r_slots r)[slot_of m - 1 := True] \<and>
      get_room_user_ids r' = insert (ci_user_id cinfo) (get_room_user_ids r) \<and>
      length (r_users r') = length (r_users r) + 1 \<and> r_owner r' = r_owner r \<and>
      (full_flag r' \<longleftrightarrow> length (r_users r') = unat (r_max_slot r'))"
proof -
  note rinv = rm_inv_room(1) [OF rms.reach_inv [OF assms(1)] assms(2)]
  show ?thesis
  proof (cases rule: join_room_cases [OF assms(2) room_invD(1) [OF rinv], of codec now cinfo sig])
    case entered: (4 g m room1 user)
    let ?r' = "enter_room room1 m (joining_user user cinfo m g)"
    note t = takes_slotD [OF entered(3)]
    have slot: "slot_of m \<notin> slot_of ` set (bt_keys (r_users r))" by (rule takes_slot_inv(2) [OF entered(3) rinv])
    then have m: "m \<notin> fst ` set (r_users r)" by force
    have "rm_rooms rm' = (rm_rooms rm)((c, jr_room_id req) \<mapsto> ?r')"
      using assms(4) entered(1) by (auto simp: with_member_def)
    moreover have "get_room_user_ids ?r' = insert (ci_user_id cinfo) (get_room_user_ids r)"
      using slot t(1) by (simp add: enter_room_user_ids joining_user_def) (simp add: get_room_user_ids_def)
    moreover have "full_flag ?r' \<longleftrightarrow> length (r_users ?r') = unat (r_max_slot ?r')"
      using entered(5) by (simp add: enter_room_full) (simp add: enter_roomD full_flag_def t)
    ultimately show ?thesis
      using m t by (intro exI [of _ ?r'] exI [of _ m]) (simp add: enter_roomD length_bt_insert_fresh)
  qed (use assms(4) in simp_all)
qed

theorem join_room_spec_witness:
  "\<exists>r'. rm_rooms ex_rm2 = (rm_rooms ex_rm1)((ex_com, 1) \<mapsto> r') \<and> get_room_user_ids r' = {8, 7} \<and> full_flag r'"
proof -
  have "fst (join_room ex_codec 0 ex_rm1 ex_com ex_join (ex_cinfo 8) ClientSharedSignalingInfo_new) =
      Ok ([], \<lparr> jn_no_signaling = Some ([], {7}), jn_local_signaling = None, jn_public_signaling_ipv4 = None,
        jn_public_signaling_ipv6 = None \<rparr>)" by code_simp
  then have join: "join_room ex_codec 0 ex_rm1 ex_com ex_join (ex_cinfo 8) ClientSharedSignalingInfo_new =
      (Ok ([], \<lparr> jn_no_signaling = Some ([], {7}), jn_local_signaling = None, jn_public_signaling_ipv4 = None,
        jn_public_signaling_ipv6 = None \<rparr>), ex_rm2)" by (simp add: ex_rm2_def prod_eq_iff)
  have ids: "jr_room_id ex_join = 1" "ci_user_id (ex_cinfo 8) = 8" by (simp_all add: ex_join_def ex_cinfo_def)
  have room: "rm_rooms ex_rm1 (ex_com, jr_room_id ex_join) = Some ex_room1"
    and new: "ci_user_id (ex_cinfo 8) \<notin> get_room_user_ids ex_room1" by (simp_all add: ids ex_rooms ex_users)
  from join_room_spec [OF ex_reach1 room new join] obtain r' where
    r': "rm_rooms ex_rm2 = (rm_rooms ex_rm1)((ex_com, 1) \<mapsto> r')" "get_room_user_ids r' = {8, 7}"
    unfolding ids ex_users by blast
  then have "r' = ex_room2" using ex_rooms(2) by simp
  moreover have "full_flag ex_room2" by code_simp
  ultimately show ?thesis using r' by blast
qed

text \<open>C9: \<open>leave_room\<close> never fails for a member of a room: it returns the users that remain
  and tells whether the room is gone, which is the case exactly when nobody remains.  Otherwise the room
  keeps the other members, and its owner stays the same unless the owner left: then it is the first
  member of the succession list that is still in the room, and if there is none a randomly drawn
  member.  Other rooms are not touched.\<close>

theorem leave_room_spec:
  assumes "\<And>n. 0 < n \<Longrightarrow> rnd n < n" and "reach rm_step RoomManager_new rm"
    and "rm_rooms rm (c, i) = Some r" and "u \<in> get_room_user_ids r"
  shows "\<exists>rm'. leave_room rnd rm c i u = (Ok (get_room_user_ids r - {u} = {}, get_room_user_ids r - {u}), rm') \<and>
    (if get_room_user_ids r - {u} = {} then rm_rooms rm' = (rm_rooms rm)((c, i) := None)
     else \<exists>r'. rm_rooms rm' = (rm_rooms rm)((c, i) \<mapsto> r') \<and> get_room_user_ids r' = get_room_user_ids r - {u} \<and>
       bt_keys (r_users r') = filter (\<lambda>k. k \<noteq> find_user r u) (bt_keys (r_users r)) \<and>
       r_owner r' = (if find_user r u = r_owner r
                     then next_owner rnd (r\<lparr> r_users := bt_remove (find_user r u) (r_users r) \<rparr>) else r_owner r) \<and>
       r_owner r' \<in> set (bt_keys (r_users r')))"
proof -
  obtain rm' where l: "leave_room rnd rm c i u = (Ok (get_room_user_ids r - {u} = {}, get_room_user_ids r - {u}), rm')"
    and d: "leave_done rnd rm c i u r rm'"
    by (rule leave_room_ok [OF assms(1) rms.reach_inv [OF assms(2)] assms(3,4)])
  have "r_owner r' \<in> set (bt_keys (r_users r'))" if "rm_rooms rm' (c, i) = Some r'" for r'
    using rm_inv_room(1) [OF _ that] d by (simp add: leave_done_def Let_def room_inv_def owner_ok_def)
  then show ?thesis
    using l d unfolding leave_done_def Let_def by (metis (no_types, lifting) fun_upd_same)
qed

theorem leave_room_spec_witness:
  "\<exists>rm'. leave_room (\<lambda>_. 0) ex_rm2 ex_com 1 7 = (Ok (False, {8}), rm') \<and> (\<exists>r'. rm_rooms rm' (ex_com, 1) = Some r' \<and>
     get_room_user_ids r' = {8})"
  using leave_room_spec [OF _ ex_reach2 ex_rooms(2), of "\<lambda>_. 0" 7] by (auto simp: ex_users)

section \<open>Which slot a joiner gets\<close>

text \<open>C12: asking a room for a public or private slot grants the lowest numbered free slot of that
  kind and marks it; when there is none the answer is \<open>RoomFull\<close> and the room is unchanged.  It never
  panics on a room whose slot table has the size of the room.\<close>

theorem req_slot_lowest_free:
  assumes "slots_ok r"
  shows "(\<exists>m r'. req_slot r priv = (Ok m, r') \<and> 1 \<le> slot_of m \<and> slot_of m \<le> unat (r_max_slot r) \<and>
        \<not> r_slots r ! (slot_of m - 1) \<and> is_slot_private r (slot_of m) = priv \<and>
        (\<forall>j. 1 \<le> j \<longrightarrow> j < slot_of m \<longrightarrow> r_slots r ! (j - 1) \<or> is_slot_private r j \<noteq> priv) \<and>
        r_slots r' = (r_slots r)[slot_of m - 1 := True] \<and> r_users r' = r_users r) \<or>
    (req_slot r priv = (Err RoomFull, r) \<and>
      (\<forall>j. 1 \<le> j \<longrightarrow> j \<le> unat (r_max_slot r) \<longrightarrow> r_slots r ! (j - 1) \<or> is_slot_private r j \<noteq> priv))"
proof (cases rule: req_slot_cases [OF assms, of priv])
  case (1 m r')
  note low = lowest_slot_Some [OF assms, THEN iffD1, OF 1(3)]
  show ?thesis
    using low takes_slotD [OF 1(2)] 1(1) assms by (intro disjI1 exI [of _ m] exI [of _ r']) (auto simp: slots_ok_def)
next
  case 2
  have "r_slots r ! (j - 1) \<or> is_slot_private r j \<noteq> priv" if "1 \<le> j" "j \<le> unat (r_max_slot r)" for j
    using 2(2) that by (auto simp: lowest_slot_def find_None_iff less_Suc_eq_le simp del: upt_Suc)
  then show ?thesis using 2(1) by blast
qed

theorem req_slot_lowest_free_witness:
  "slots_ok ex_room1 \<and> ((\<exists>m r'. req_slot ex_room1 False = (Ok m, r') \<and> \<not> r_slots ex_room1 ! (slot_of m - 1)) \<or>
     req_slot ex_room1 False = (Err RoomFull, ex_room1))"
proof -
  have "slots_ok ex_room1" by code_simp
  then show ?thesis using req_slot_lowest_free [of ex_room1 False] by blast
qed

text \<open>C13: what a password protects in the allocation of slots.  In a room with groups a granted slot lies among the slots of
  one group, and if that group asks for a password, the caller sent the password of the room.  In a room without groups the
  caller sent no password or that of the room, and sent that of the room if the slot is private for the allocation, that is
  for the test \<open>is_slot_private\<close> of the mask against the number 64 minus the slot.  (These are not the slots that the
  description of the room reports as private, by the bits of the mask.)\<close>

theorem slot_needs_password:
  assumes "get_a_slot r l p = (Ok (g, m), r')" and "slots_ok r"
  shows "if r_group_config r = []
    then g = 0 \<and> (p = None \<or> p = r_room_password r) \<and> (is_slot_private r (slot_of m) \<longrightarrow> p = r_room_password r)
    else \<exists>i < length (r_group_config r). g = of_nat (i + 1) \<and> group_first (r_group_config r) i \<le> slot_of m \<and>
      slot_of m < group_first (r_group_config r) i + unat (g_slot_num (r_group_config r ! i)) \<and>
      (g_with_password (r_group_config r ! i) \<longrightarrow> p = r_room_password r)"
proof (cases "r_group_config r = []")
  case True
  show ?thesis by (rule get_a_slot_plain [OF True assms(2), of l p]) (use assms True in auto)
next
  case False
  show ?thesis
  proof (rule get_a_slot_group [OF False assms(1)])
    fix i cur
    assume j: "join_group r i cur = (Ok (g, m), r')" and i: "i < length (r_group_config r)" and cur: "1 \<le> cur"
      "cur = group_first (r_group_config r) i" and "g_with_password (r_group_config r ! i) \<longrightarrow> p = r_room_password r"
    then show ?thesis using join_group_Ok(2-4) [OF j assms(2) i cur(1)] False by auto
  qed simp
qed

text \<open>A room whose second slot is private for the allocation, and one whose second group has a password.\<close>

definition ex_private_room :: Room where
  "ex_private_room = ex_room1\<lparr> r_password_slot_mask := 62, r_room_password := Some [1] \<rparr>"

definition ex_group_room :: Room where
  "ex_group_room = ex_room1\<lparr> r_room_password := Some [1], r_group_config :=
     [\<lparr> g_slot_num = 1, g_fixed_label = True, g_label = Some [1], g_with_password = False, g_group_id = 1, g_num_members = 1 \<rparr>,
      \<lparr> g_slot_num = 1, g_fixed_label = True, g_label = Some [2], g_with_password = True, g_group_id = 2, g_num_members = 0 \<rparr>] \<rparr>"

theorem slot_needs_password_witness:
  "(\<exists>g m r'. get_a_slot ex_private_room None (Some [1]) = (Ok (g, m), r') \<and> slot_of m = 2 \<and> is_slot_private ex_private_room 2 \<and>
      Some [1] = r_room_password ex_private_room) \<and>
   (\<exists>g m r' i. get_a_slot ex_group_room (Some [2]) (Some [1]) = (Ok (g, m), r') \<and> g = of_nat (i + 1) \<and>
      group_first (r_group_config ex_group_room) i \<le> slot_of m \<and> i < length (r_group_config ex_group_room) \<and>
      (g_with_password (r_group_config ex_group_room ! i) \<longrightarrow> Some [1] = r_room_password ex_group_room))"
proof
  have "fst (get_a_slot ex_private_room None (Some [1])) = Ok (0, 33)" by code_simp
  then obtain r' where r': "get_a_slot ex_private_room None (Some [1]) = (Ok (0, 33), r')" by (metis prod.collapse)
  have f: "slots_ok ex_private_room" "r_group_config ex_private_room = []" "slot_of 33 = 2" "is_slot_private ex_private_room 2"
    by code_simp+
  with slot_needs_password [OF r' f(1)] r'
  show "\<exists>g m r'. get_a_slot ex_private_room None (Some [1]) = (Ok (g, m), r') \<and> slot_of m = 2 \<and> is_slot_private ex_private_room 2 \<and>
      Some [1] = r_room_password ex_private_room" by auto
next
  have "fst (get_a_slot ex_group_room (Some [2]) (Some [1])) = Ok (2, 33)" by code_simp
  then obtain r' where r': "get_a_slot ex_group_room (Some [2]) (Some [1]) = (Ok (2, 33), r')" by (metis prod.collapse)
  have f: "slots_ok ex_group_room" "r_group_config ex_group_room \<noteq> []" by code_simp+
  from slot_needs_password [OF r' f(1)] f(2) r'
  show "\<exists>g m r' i. get_a_slot ex_group_room (Some [2]) (Some [1]) = (Ok (g, m), r') \<and> g = of_nat (i + 1) \<and>
      group_first (r_group_config ex_group_room) i \<le> slot_of m \<and> i < length (r_group_config ex_group_room) \<and>
      (g_with_password (r_group_config ex_group_room ! i) \<longrightarrow> Some [1] = r_room_password ex_group_room)" by auto
qed

section \<open>Who may change what\<close>

text \<open>C14: no request can set or clear the full flag of a room: \<open>set_roomdata_internal\<close>, from
  whatever user and with whatever flag filter, leaves the full flag of every room as it was.\<close>

theorem full_flag_protected:
  assumes "reach rm_step RoomManager_new rm"
  shows "map_option full_flag (rm_rooms (snd (set_roomdata_internal codec now rm c req u)) k) =
    map_option full_flag (rm_rooms rm k)"
proof (cases "rm_rooms rm (c, sri_room_id req)")
  case None
  then show ?thesis by (simp add: set_roomdata_internal_def room_exists_def)
next
  case (Some r)
  have "attrs_ok r" using rm_inv_room(1) [OF rms.reach_inv [OF assms] Some] by (simp add: room_inv_def)
  then have "full_flag (snd (set_internal_room codec now req u m r)) = full_flag r" for m
    using set_internal_room_keeps same_membersD(7) by blast
  then show ?thesis
    using Some
    by (simp add: set_roomdata_internal_def room_exists_def get_room_def get_member_id_def ok_or_def bind_st_place
        put_room_def split: option.splits)
qed

theorem full_flag_protected_witness:
  "map_option full_flag (rm_rooms (snd (set_roomdata_internal ex_codec 0 ex_rm2 ex_com
      \<lparr> sri_room_id = 1, sri_flag_filter = 0xFFFFFFFF, sri_flag_attr = 0, sri_room_bin_attr_internal = [],
        sri_password_config = [], sri_password_slot_mask = [], sri_owner_privilege_rank = [] \<rparr> 7)) (ex_com, 1)) =
    Some True"
proof -
  have "full_flag ex_room2" by code_simp
  then show ?thesis using full_flag_protected [OF ex_reach2] ex_rooms(2) by simp
qed

text \<open>C15: only the owner of a room can change its external data: a call of
  \<open>set_roomdata_external\<close> by anyone else is answered with \<open>NotFound\<close> (not a member) or
  \<open>Unauthorized\<close> (a member) and changes nothing.\<close>

theorem set_external_owner_only:
  assumes "rm_rooms rm (c, se_room_id req) = Some r" and "member_of u (r_users r) \<noteq> Some (r_owner r)"
  shows "set_roomdata_external rm c req u =
    (Err (if u \<in> get_room_user_ids r then Unauthorized else NotFound), rm)"
proof (cases "member_of u (r_users r)")
  case None
  then have "u \<notin> get_room_user_ids r" by (simp add: get_room_user_ids_image member_of_None)
  with None assms(1) show ?thesis
    by (simp add: set_roomdata_external_def room_exists_def get_room_def get_member_id_def)
next
  case (Some m)
  then have "u \<in> get_room_user_ids r" by (metis get_room_user_ids_image member_of_None option.distinct(1))
  with Some assms show ?thesis
    by (simp add: set_roomdata_external_def room_exists_def get_room_def get_member_id_def get_owner_def)
qed

theorem set_external_owner_only_witness:
  "set_roomdata_external ex_rm2 ex_com \<lparr> se_room_id = 1, se_room_searchable_int_attr_external = [],
     se_room_searchable_bin_attr_external = [], se_room_bin_attr_external = [] \<rparr> 8 = (Err Unauthorized, ex_rm2)"
proof -
  have "member_of 8 (r_users ex_room2) \<noteq> Some (r_owner ex_room2)" by code_simp
  then show ?thesis
    using set_external_owner_only [of ex_rm2 ex_com "\<lparr> se_room_id = 1, se_room_searchable_int_attr_external = [],
      se_room_searchable_bin_attr_external = [], se_room_bin_attr_external = [] \<rparr>" ex_room2 8] ex_rooms ex_users by simp
qed

text \<open>C16: a member that does not own the room can change, through \<open>set_roomdata_internal\<close>,
  nothing but the internal binary attributes: flags, group passwords, slot mask, owner succession, members
  and everything else of the room stay the same.\<close>

theorem set_internal_member_limited:
  assumes "rm_rooms rm (c, sri_room_id req) = Some r" and "member_of u (r_users r) \<noteq> Some (r_owner r)"
  shows "\<exists>attrs. rm_rooms (snd (set_roomdata_internal codec now rm c req u)) =
    (rm_rooms rm)((c, sri_room_id req) \<mapsto> r\<lparr> r_bin_attr_internal := attrs \<rparr>)"
proof (cases "member_of u (r_users r)")
  case None
  with assms(1) show ?thesis
    by (intro exI [of _ "r_bin_attr_internal r"])
       (simp add: set_roomdata_internal_def room_exists_def get_room_def get_member_id_def fun_upd_idem)
next
  case (Some m)
  have loop: "\<exists>attrs. snd (bin_attr_internal_loop now m pbs new r) = r\<lparr> r_bin_attr_internal := attrs \<rparr>" for pbs new
  proof (induction pbs arbitrary: new r)
    case Nil
    show ?case by (rule exI [of _ "r_bin_attr_internal r"]) simp
  next
    case (Cons pb pbs)
    show ?case
    proof (cases "RoomBinAttrInternal_from_protobuf now pb m")
      case (Ok a)
      then show ?thesis using Cons.IH [of new r] Cons.IH [of _ "r\<lparr> r_bin_attr_internal := _ \<rparr>"] by (auto simp: Let_def)
    qed (auto intro: exI [of _ "r_bin_attr_internal r"])
  qed
  have "get_owner r \<noteq> m" using assms(2) Some by (auto simp: get_owner_def)
  moreover obtain res r1 where l: "bin_attr_internal_loop now m (sri_room_bin_attr_internal req) [] r = (res, r1)" by fastforce
  ultimately have "snd (set_internal_room codec now req u m r) = r1"
    by (cases res) (simp_all add: set_internal_room_def)
  moreover obtain attrs where "r1 = r\<lparr> r_bin_attr_internal := attrs \<rparr>"
    using loop [of "sri_room_bin_attr_internal req" "[]"] l by auto
  ultimately show ?thesis
    using assms(1) Some
    by (intro exI [of _ attrs])
       (simp add: set_roomdata_internal_def room_exists_def get_room_def get_member_id_def bind_st_place put_room_def)
qed

theorem set_internal_member_limited_witness:
  "\<exists>attrs. rm_rooms (snd (set_roomdata_internal ex_codec 0 ex_rm2 ex_com
      \<lparr> sri_room_id = 1, sri_flag_filter = 0xFFFFFFFF, sri_flag_attr = 0x10000000, sri_room_bin_attr_internal = [],
        sri_password_config = [], sri_password_slot_mask = [5], sri_owner_privilege_rank = [Uint16 33] \<rparr> 8)) =
    (rm_rooms ex_rm2)((ex_com, 1) \<mapsto> ex_room2\<lparr> r_bin_attr_internal := attrs \<rparr>)"
proof -
  have "member_of 8 (r_users ex_room2) \<noteq> Some (r_owner ex_room2)" by code_simp
  then show ?thesis
    using set_internal_member_limited [of ex_rm2 ex_com "\<lparr> sri_room_id = 1, sri_flag_filter = 0xFFFFFFFF,
        sri_flag_attr = 0x10000000, sri_room_bin_attr_internal = [], sri_password_config = [],
        sri_password_slot_mask = [5], sri_owner_privilege_rank = [Uint16 33] \<rparr>" ex_room2 8 ex_codec 0] ex_rooms by simp
qed

text \<open>C17: a member can change the team or the attributes of another member only as the owner of the
  room; otherwise the answer is \<open>Unauthorized\<close> and nothing changes.\<close>

theorem set_member_data_authorized:
  assumes "rm_rooms rm (c, smi_room_id req) = Some r" and "member_of u (r_users r) = Some m"
    and "Uint16_opt_get_verified (smi_member_id req) = Ok target" and "target \<noteq> 0" and "target \<noteq> m"
    and "m \<noteq> r_owner r"
  shows "set_roommemberdata_internal codec now rm c req u = (Err Unauthorized, rm)"
  using assms
  by (simp add: set_roommemberdata_internal_def room_exists_def get_room_def set_member_room_def get_member_id_def
      put_room_def fun_upd_idem)

theorem set_member_data_authorized_witness:
  "set_roommemberdata_internal ex_codec 0 ex_rm2 ex_com \<lparr> smi_room_id = 1, smi_member_id = Some (Uint16 16),
     smi_team_id = Some (Uint8 3), smi_room_member_bin_attr_internal = [] \<rparr> 8 = (Err Unauthorized, ex_rm2)"
proof (rule set_member_data_authorized [where m = 33 and target = 16 and r = ex_room2])
  show "member_of 8 (r_users ex_room2) = Some 33" by code_simp
qed (simp_all add: ex_rooms ex_users Uint16_opt_get_verified_def Uint16_get_verified_def)

end
