(* ===== verification/Search_Properties.thy ===== *)
theory Search_Properties
  imports Room_Properties
begin

text \<open>
  The properties of the room search, and what a few unusual requests do to a room: searches with
  ordering filters, malformed joins, slot masks and groups without label.
\<close>

section \<open>Search\<close>

lemma matching_rooms_Ok:
  assumes "matching_rooms p rm c ids = Ok found" and "\<And>i r. rm_rooms rm (c, i) = Some r \<Longrightarrow> r_room_id r = i"
  shows "map r_room_id found = filter (\<lambda>i. \<exists>r. rm_rooms rm (c, i) = Some r \<and> p r = Ok True) ids"
    and "\<forall>r \<in> set found. \<exists>i. rm_rooms rm (c, i) = Some r"
  using assms
  by (induction ids arbitrary: found) (auto simp: get_room_def unwrap_def split: option.splits if_splits)

lemma matching_rooms_not_Panic:
  assumes "\<And>i. i \<in> set ids \<Longrightarrow> rm_rooms rm (c, i) \<noteq> None" and "\<And>r. p r \<noteq> Panic"
  shows "matching_rooms p rm c ids \<noteq> Panic"
  using assms by (induction ids) (auto simp: get_room_def unwrap_def split: option.splits)

lemma to_RoomDataExternal_room_id: "to_RoomDataExternal r opt inc = Ok d \<Longrightarrow> rde_room_id d = r_room_id r"
  by (cases "inc_loop r inc") (auto simp: to_RoomDataExternal_def)

lemma traverse_Ok_map:
  assumes "traverse f xs = Ok ys" and "\<And>x y. f x = Ok y \<Longrightarrow> g y = h x"
  shows "map g ys = map h xs"
  using assms by (induction xs arbitrary: ys) auto

lemma search_startindex_pos: "0 < unat (search_startindex req)"
  by (simp add: search_startindex_def unat_gt_0)

lemma search_max_le: "unat (search_max req) \<le> 20"
  by (simp add: search_max_def word_less_nat_alt)

lemma search_page_Ok:
  assumes "search_page (\<lambda>room. to_RoomDataExternal room opt) req found = Ok rooms"
  shows "map rde_room_id rooms =
    take (unat (search_max req)) (drop (unat (search_startindex req) - 1) (map r_room_id found))"
proof (cases "unat (search_startindex req) \<le> length found")
  case True
  then obtain inc where "traverse (\<lambda>room. to_RoomDataExternal room opt inc)
      (take (min (length found - (unat (search_startindex req) - 1)) (unat (search_max req)))
        (drop (unat (search_startindex req) - 1) found)) = Ok rooms"
    using assms by (auto simp: search_page_def Let_def)
  then have "map rde_room_id rooms = map r_room_id
      (take (min (length found - (unat (search_startindex req) - 1)) (unat (search_max req)))
        (drop (unat (search_startindex req) - 1) found))"
    by (rule traverse_Ok_map) (rule to_RoomDataExternal_room_id)
  then show ?thesis by (simp add: take_map drop_map min_def)
next
  case False
  then show ?thesis using assms search_startindex_pos [of req] by (simp add: search_page_def Let_def)
qed

lemma search_page_not_Panic:
  assumes "\<And>r inc. r \<in> set found \<Longrightarrow> describe r inc \<noteq> Panic"
  shows "search_page describe req found \<noteq> Panic"
proof -
  have "traverse Uint16_get_verified (srr_attr_id req) \<noteq> Panic"
    by (rule traverse_not_Panic) (simp add: Uint16_get_verified_def)
  moreover have "traverse (\<lambda>r. describe r inc) (take n (drop k found)) \<noteq> Panic" for inc n k
    using assms by (intro traverse_not_Panic) (meson in_set_dropD in_set_takeD)
  ultimately show ?thesis by (auto simp: search_page_def Let_def)
qed

lemma search_page_Nil_not_Panic [simp]: "search_page describe req [] \<noteq> Panic"
  by (rule search_page_not_Panic) simp

text \<open>C28: what a room must be to match a search: not hidden, with the flags the request asks for under
  its filter (the NAT restriction flag ignored), and satisfying every integer and every binary filter.\<close>

theorem is_match_spec:
  "is_match r req = Ok True \<longleftrightarrow>
    \<not> bit (r_flag_attr r) 28 \<and>
    (r_flag_attr r AND (srr_flag_filter req AND NOT ROOM_FLAG_ATTR_NAT_TYPE_RESTRICTION)) =
      srr_flag_attr req AND NOT ROOM_FLAG_ATTR_NAT_TYPE_RESTRICTION \<and>
    list_all (int_filter_sat r) (srr_int_filter req) \<and> list_all (bin_filter_sat r) (srr_bin_filter req)"
proof -
  have hidden: "(r_flag_attr r AND ROOM_FLAG_ATTR_HIDDEN) \<noteq> 0 \<longleftrightarrow> bit (r_flag_attr r) 28"
  proof -
    have "(ROOM_FLAG_ATTR_HIDDEN :: u32) = push_bit 28 1" by (simp add: push_bit_eq_mult)
    then show ?thesis by (simp add: bit_iff_and_push_bit_not_eq_0)
  qed
  have "is_match_all r req = Ok True \<longleftrightarrow>
      list_all (int_filter_sat r) (srr_int_filter req) \<and> list_all (bin_filter_sat r) (srr_bin_filter req)"
    by (auto simp: is_match_all_def list_all_iff simp flip: match_int_filters_True match_bin_filters_True)
  then show ?thesis unfolding is_match_via_all hidden by auto
qed

definition ex_search :: SearchRoomRequest where
  "ex_search = \<lparr> srr_option = 7, srr_world_id = 1, srr_lobby_id = 0, srr_range_filter_start_index = 0,
     srr_range_filter_max = 0, srr_flag_filter = 0, srr_flag_attr = 0, srr_int_filter = [], srr_bin_filter = [],
     srr_attr_id = [Uint16 0x4C] \<rparr>"

text \<open>C29: a search of a world that succeeds lists the rooms of that world in the searcher's game that
  match the request, each once and no others: it reports their number, and answers with the page of at
  most twenty of them that the request's range selects.  The only assumption on the hash sets is that
  their iteration enumerates them without repetition.\<close>

theorem search_room_spec:
  assumes "reach rm_step RoomManager_new rm" and "srr_world_id req \<noteq> 0"
    and "\<And>s. set (hash_order s) = s \<and> distinct (hash_order s)"
    and "search_room codec hash_order rm c req = Ok reply"
  shows "\<exists>ids rooms. distinct ids \<and>
    set ids = {i. \<exists>r. rm_rooms rm (c, i) = Some r \<and> r_lobby_id r = 0 \<and> r_world_id r = srr_world_id req
                    \<and> is_match r req = Ok True} \<and>
    map rde_room_id rooms = take (unat (search_max req)) (drop (unat (search_startindex req) - 1) ids) \<and>
    length rooms \<le> 20 \<and>
    reply = enc_SearchRoomResponse codec
      \<lparr> srs_start_index = search_startindex req, srs_total = of_nat (length ids), srs_rooms = rooms \<rparr>"
proof -
  have inv: "rm_inv rm" by (rule rms.reach_inv [OF assms(1)])
  define wset where "wset = world_set rm (c, srr_world_id req)"
  have world: "i \<in> wset \<longleftrightarrow>
      (\<exists>r. rm_rooms rm (c, i) = Some r \<and> r_lobby_id r = 0 \<and> r_world_id r = srr_world_id req)" for i
    unfolding wset_def by (rule rm_inv_world [OF inv])
  have empty: "hash_order {} = []" using assms(3) [of "{}"] by simp
  have "(case search_list rm c req of None \<Rightarrow> Ok []
        | Some l \<Rightarrow> matching_rooms (\<lambda>room. is_match room req) rm c (hash_order l)) =
      matching_rooms (\<lambda>room. is_match room req) rm c (hash_order wset)"
    using assms(2) by (simp add: search_list_def wset_def world_set_def empty split: option.split)
  then obtain found rooms where
      found: "matching_rooms (\<lambda>room. is_match room req) rm c (hash_order wset) = Ok found"
      and rooms: "search_page (\<lambda>room. to_RoomDataExternal room (srr_option req)) req found = Ok rooms"
      and reply: "reply = enc_SearchRoomResponse codec
        \<lparr> srs_start_index = search_startindex req, srs_total = of_nat (length found), srs_rooms = rooms \<rparr>"
    using assms(4) by (auto simp: search_room_def)
  define ids where "ids = map r_room_id found"
  have ids: "ids = filter (\<lambda>i. \<exists>r. rm_rooms rm (c, i) = Some r \<and> is_match r req = Ok True) (hash_order wset)"
    unfolding ids_def by (rule matching_rooms_Ok(1) [OF found rm_inv_room(2) [OF inv]])
  have "distinct ids" unfolding ids using assms(3) [of wset] by simp
  moreover have "set ids = {i. \<exists>r. rm_rooms rm (c, i) = Some r \<and> r_lobby_id r = 0 \<and> r_world_id r = srr_world_id req
                    \<and> is_match r req = Ok True}"
    unfolding ids using assms(3) [of wset] world by auto
  moreover have page: "map rde_room_id rooms = take (unat (search_max req)) (drop (unat (search_startindex req) - 1) ids)"
    unfolding ids_def by (rule search_page_Ok [OF rooms])
  moreover have "length rooms \<le> 20"
    using arg_cong [OF page, of length] search_max_le [of req] by simp
  moreover have "reply = enc_SearchRoomResponse codec
      \<lparr> srs_start_index = search_startindex req, srs_total = of_nat (length ids), srs_rooms = rooms \<rparr>"
    by (simp add: reply ids_def)
  ultimately show ?thesis by blast
qed

theorem search_room_spec_witness:
  "\<exists>ids rooms. distinct ids \<and>
    set ids = {i. \<exists>r. rm_rooms ex_rm2 (ex_com, i) = Some r \<and> r_lobby_id r = 0 \<and> r_world_id r = 1
                    \<and> is_match r ex_search = Ok True} \<and>
    map rde_room_id rooms = take 20 (drop 0 ids) \<and> length rooms \<le> 20 \<and>
    [] = enc_SearchRoomResponse ex_codec
      \<lparr> srs_start_index = 1, srs_total = of_nat (length ids), srs_rooms = rooms \<rparr>"
proof -
  define ho :: "u64 set \<Rightarrow> u64 list" where "ho = sorted_list_of_set"
  have law: "set (ho s) = s \<and> distinct (ho s)" for s by (simp add: ho_def)
  have "search_list ex_rm2 ex_com ex_search = Some {1}" by code_simp
  moreover have "matching_rooms (\<lambda>room. is_match room ex_search) ex_rm2 ex_com [1] = Ok [ex_room2]" by code_simp
  moreover have "is_ok (search_page (\<lambda>room. to_RoomDataExternal room 7) ex_search [ex_room2])" by code_simp
  moreover have "srr_option ex_search = 7" by (simp add: ex_search_def)
  moreover have "enc_SearchRoomResponse ex_codec x = []" for x by (simp add: ex_codec_def)
  ultimately have ok: "search_room ex_codec ho ex_rm2 ex_com ex_search = Ok []"
    by (auto simp: search_room_def ho_def simp del: matching_rooms.simps elim: is_ok.elims)
  have world: "srr_world_id ex_search \<noteq> 0" "srr_world_id ex_search = 1" "unat (search_max ex_search) = 20"
    "unat (search_startindex ex_search) - 1 = 0" "search_startindex ex_search = 1" by code_simp+
  show ?thesis using search_room_spec [OF ex_reach2 world(1) law ok] unfolding world(2-5) unat_1 diff_self_eq_0 .
qed

text \<open>A search panics only in the loop over the rooms: no listed room is missing and every room can be described.\<close>

lemma listed_rooms:
  assumes "rm_inv rm" and "search_list rm c req = Some l" and "i \<in> l"
  shows "rm_rooms rm (c, i) \<noteq> None"
  using assms(2,3) rm_inv_world [OF assms(1), of i c "srr_world_id req"] rm_inv_lobby [OF assms(1), of i c "srr_lobby_id req"]
  by (auto simp: search_list_def world_set_def lobby_set_def split: if_splits)

lemma matching_rooms_page:
  assumes "rm_inv rm" and "matching_rooms p rm c ids = Ok found"
  shows "search_page (\<lambda>room. to_RoomDataExternal room opt) req found \<noteq> Panic"
    and "search_page (\<lambda>room. to_RoomDataExternalAll room opt) req found \<noteq> Panic"
proof -
  have "room_inv r" if "r \<in> set found" for r
    using matching_rooms_Ok(2) [OF assms(2) rm_inv_room(2) [OF assms(1), where c = c]] that rm_inv_room(1) [OF assms(1)] by blast
  then show "search_page (\<lambda>room. to_RoomDataExternal room opt) req found \<noteq> Panic"
    "search_page (\<lambda>room. to_RoomDataExternalAll room opt) req found \<noteq> Panic"
    using to_RoomDataExternal_ok to_RoomDataExternalAll_ok by (auto intro!: search_page_not_Panic) (metis res.distinct(3))+
qed

lemma search_panics_in_loop:
  assumes "rm_inv rm"
  shows "search_room codec hash_order rm c req = Panic \<longleftrightarrow>
      (\<exists>l. search_list rm c req = Some l \<and> matching_rooms (\<lambda>room. is_match room req) rm c (hash_order l) = Panic)"
    and "search_room_all codec hash_order rm c req = Panic \<longleftrightarrow>
      (\<exists>l. search_list rm c req = Some l \<and> matching_rooms (\<lambda>room. is_match_all room req) rm c (hash_order l) = Panic)"
  using matching_rooms_page [OF assms]
  by (cases "search_list rm c req"; auto simp: search_room_def search_room_all_def)+

text \<open>C30: a search never panics in a reachable state, as long as no binary filter uses an ordering
  operator: no listed room is missing and every matching room can be described.\<close>

theorem search_room_never_panics:
  assumes "reach rm_step RoomManager_new rm" and "\<And>s. set (hash_order s) = s"
    and "\<And>f. f \<in> set (srr_bin_filter req) \<Longrightarrow> \<not> bin_filter_ordering f"
  shows "search_room codec hash_order rm c req \<noteq> Panic \<and> search_room_all codec hash_order rm c req \<noteq> Panic"
proof -
  have inv: "rm_inv rm" by (rule rms.reach_inv [OF assms(1)])
  have "is_match r req \<noteq> Panic" "is_match_all r req \<noteq> Panic" for r
    using is_match_not_Panic is_match_all_not_Panic assms(3) by blast+
  then have "matching_rooms p rm c (hash_order l) \<noteq> Panic"
    if "search_list rm c req = Some l" "p = (\<lambda>room. is_match room req) \<or> p = (\<lambda>room. is_match_all room req)" for l p
    using that listed_rooms [OF inv that(1)] assms(2) by (intro matching_rooms_not_Panic) auto
  then show ?thesis unfolding search_panics_in_loop [OF inv] by blast
qed

theorem search_room_never_panics_witness:
  "search_room ex_codec (\<lambda>s. if s = {1} then [1] else sorted_list_of_set s) ex_rm2 ex_com ex_search \<noteq> Panic \<and>
   search_room_all ex_codec (\<lambda>s. if s = {1} then [1] else sorted_list_of_set s) ex_rm2 ex_com ex_search \<noteq> Panic"
  by (rule search_room_never_panics [OF ex_reach2]) (auto simp: ex_search_def)

text \<open>
  When the loop over the rooms panics, for a request all of whose filters can be read.  A binary filter panics on an ordering
  operator for the searchable attribute, and it is reached if all the filters before it hold.
\<close>

definition filters_readable :: "SearchRoomRequest \<Rightarrow> bool" where
  "filters_readable req \<longleftrightarrow>
    (\<forall>f \<in> set (srr_int_filter req). is_ok (Uint8_opt_get_verified (isf_search_operator f)) \<and>
      (case isf_attr f of None \<Rightarrow> True | Some attr \<Rightarrow> is_ok (Uint16_opt_get_verified (ia_id attr)))) \<and>
    (\<forall>f \<in> set (srr_bin_filter req). is_ok (Uint8_opt_get_verified (bsf_search_operator f)) \<and>
      (case bsf_attr f of None \<Rightarrow> True | Some attr \<Rightarrow> is_ok (Uint16_opt_get_verified (ba_id attr))))"

definition bin_filter_panics :: "BinSearchFilter \<Rightarrow> bool" where
  "bin_filter_panics f \<longleftrightarrow> bin_filter_ordering f \<and>
    (\<exists>attr. bsf_attr f = Some attr \<and> Uint16_opt_get_verified (ba_id attr) = Ok ROOM_SEARCHABLE_BIN_ATTR_EXTERNAL_1_ID)"

definition filters_panic :: "Room \<Rightarrow> SearchRoomRequest \<Rightarrow> bool" where
  "filters_panic r req \<longleftrightarrow> (\<forall>f \<in> set (srr_int_filter req). int_filter_sat r f) \<and>
    (\<exists>before f after. srr_bin_filter req = before @ f # after \<and> (\<forall>g \<in> set before. bin_filter_sat r g) \<and> bin_filter_panics f)"

lemma first_panic_Cons:
  "(\<exists>before f after. x # xs = before @ f # after \<and> (\<forall>g \<in> set before. sat g) \<and> P f) \<longleftrightarrow>
    P x \<or> sat x \<and> (\<exists>before f after. xs = before @ f # after \<and> (\<forall>g \<in> set before. sat g) \<and> P f)"
  (is "?l \<longleftrightarrow> ?r")
proof
  assume ?l
  then obtain before f "after" where l: "x # xs = before @ f # after" "\<forall>g \<in> set before. sat g" "P f" by blast
  then show ?r by (cases before) auto
next
  assume ?r
  then show ?l
  proof
    assume "P x"
    then show ?l by (intro exI [of _ "[]"] exI [of _ x] exI [of _ xs]) simp
  next
    assume "sat x \<and> (\<exists>before f after. xs = before @ f # after \<and> (\<forall>g \<in> set before. sat g) \<and> P f)"
    then obtain before f "after" where "sat x" "xs = before @ f # after" "\<forall>g \<in> set before. sat g" "P f" by blast
    then show ?l by (intro exI [of _ "x # before"] exI [of _ f] exI [of _ "after"]) simp
  qed
qed

lemma match_bin_filters_Panic:
  assumes "\<forall>f \<in> set fs. is_ok (Uint8_opt_get_verified (bsf_search_operator f)) \<and>
    (case bsf_attr f of None \<Rightarrow> True | Some attr \<Rightarrow> is_ok (Uint16_opt_get_verified (ba_id attr)))"
  shows "(match_bin_filters r fs = Panic \<longleftrightarrow>
      (\<exists>before f after. fs = before @ f # after \<and> (\<forall>g \<in> set before. bin_filter_sat r g) \<and> bin_filter_panics f)) \<and>
    (\<forall>e. match_bin_filters r fs \<noteq> Err e)"
  using assms
proof (induction fs)
  case (Cons f fs)
  obtain op where op: "Uint8_opt_get_verified (bsf_search_operator f) = Ok op"
    using Cons.prems by (cases "Uint8_opt_get_verified (bsf_search_operator f)") auto
  note IH = Cons.IH [OF ballI, OF Cons.prems [THEN bspec], OF list.set_intros(2)]
  show ?case
  proof (cases "bsf_attr f")
    case None
    then have "bin_filter_sat r f" "\<not> bin_filter_panics f" by (simp_all add: op bin_filter_sat_def bin_filter_panics_def)
    with None IH show ?thesis unfolding first_panic_Cons by (simp add: op)
  next
    case (Some attr)
    then obtain ident where ident: "Uint16_opt_get_verified (ba_id attr) = Ok ident"
      using Cons.prems by (cases "Uint16_opt_get_verified (ba_id attr)") auto
    have sat: "bin_filter_sat r f \<longleftrightarrow> ident = 0x54 \<and> (op = 1 \<and> bin_prefix_equal r (ba_data attr) \<or> op = 2 \<and> \<not> bin_prefix_equal r (ba_data attr))"
      and pan: "bin_filter_panics f \<longleftrightarrow> ident = 0x54 \<and> (op = 3 \<or> op = 4 \<or> op = 5 \<or> op = 6)"
      by (auto simp: op Some ident bin_filter_sat_def bin_filter_panics_def bin_filter_ordering_def)
    show ?thesis
      unfolding first_panic_Cons sat pan using IH by (auto simp: op Some ident)
  qed
qed simp

lemma match_int_filters_not_Err:
  assumes "\<forall>f \<in> set fs. is_ok (Uint8_opt_get_verified (isf_search_operator f)) \<and>
    (case isf_attr f of None \<Rightarrow> True | Some attr \<Rightarrow> is_ok (Uint16_opt_get_verified (ia_id attr)))"
  shows "match_int_filters r fs \<noteq> Err e"
  using assms
proof (induction fs)
  case (Cons f fs)
  obtain op where "Uint8_opt_get_verified (isf_search_operator f) = Ok op"
    using Cons.prems by (cases "Uint8_opt_get_verified (isf_search_operator f)") auto
  moreover have "is_ok (Uint16_opt_get_verified (ia_id attr))" if "isf_attr f = Some attr" for attr using Cons.prems that by simp
  ultimately show ?case
    using Cons by (cases "isf_attr f") (auto split: option.splits if_splits elim!: is_ok.elims simp del: operator_from_u8.simps)
qed simp

lemma is_match_all_Panic:
  assumes "filters_readable req"
  shows "is_match_all r req = Panic \<longleftrightarrow> filters_panic r req" and "is_match_all r req \<noteq> Err e"
proof -
  have bins: "match_bin_filters r (srr_bin_filter req) = Panic \<longleftrightarrow> (\<exists>before f after. srr_bin_filter req = before @ f # after \<and>
      (\<forall>g \<in> set before. bin_filter_sat r g) \<and> bin_filter_panics f)" "match_bin_filters r (srr_bin_filter req) \<noteq> Err e'" for e'
    using match_bin_filters_Panic [of "srr_bin_filter req" r] assms by (auto simp: filters_readable_def)
  have ints: "match_int_filters r (srr_int_filter req) \<noteq> Err e'" for e'
    using assms by (intro match_int_filters_not_Err) (simp add: filters_readable_def)
  then obtain b where b: "match_int_filters r (srr_int_filter req) = Ok b"
    by (cases "match_int_filters r (srr_int_filter req)") auto
  have "b \<longleftrightarrow> (\<forall>f \<in> set (srr_int_filter req). int_filter_sat r f)" unfolding match_int_filters_True [symmetric] by (simp add: b)
  with b bins show "is_match_all r req = Panic \<longleftrightarrow> filters_panic r req" "is_match_all r req \<noteq> Err e"
    by (auto simp: is_match_all_def filters_panic_def)
qed

lemma matching_rooms_Panic:
  assumes "\<And>i. i \<in> set ids \<Longrightarrow> rm_rooms rm (c, i) \<noteq> None" and "\<And>r e. p r \<noteq> Err e"
  shows "matching_rooms p rm c ids = Panic \<longleftrightarrow> (\<exists>i \<in> set ids. \<exists>r. rm_rooms rm (c, i) = Some r \<and> p r = Panic)"
    and "matching_rooms p rm c ids \<noteq> Err e"
proof -
  have "(matching_rooms p rm c ids = Panic \<longleftrightarrow> (\<exists>i \<in> set ids. \<exists>r. rm_rooms rm (c, i) = Some r \<and> p r = Panic)) \<and>
      matching_rooms p rm c ids \<noteq> Err e"
    using assms(1)
  proof (induction ids)
    case (Cons i ids)
    from Cons.prems [of i] obtain r where "rm_rooms rm (c, i) = Some r" by auto
    with Cons assms(2) [of r] show ?case
      by (cases "p r"; cases "matching_rooms p rm c ids") (auto simp: get_room_def unwrap_def)
  qed simp
  then show "matching_rooms p rm c ids = Panic \<longleftrightarrow> (\<exists>i \<in> set ids. \<exists>r. rm_rooms rm (c, i) = Some r \<and> p r = Panic)"
    "matching_rooms p rm c ids \<noteq> Err e" by simp_all
qed

text \<open>The rooms whose filters the ordinary search looks at: not hidden, and with the flags of the request.\<close>

definition flags_match :: "Room \<Rightarrow> SearchRoomRequest \<Rightarrow> bool" where
  "flags_match r req \<longleftrightarrow> (r_flag_attr r AND ROOM_FLAG_ATTR_HIDDEN) = 0 \<and>
    (r_flag_attr r AND (srr_flag_filter req AND NOT ROOM_FLAG_ATTR_NAT_TYPE_RESTRICTION)) =
      srr_flag_attr req AND NOT ROOM_FLAG_ATTR_NAT_TYPE_RESTRICTION"

text \<open>C31: when a search panics.  In a reachable state and for a request whose filters can all be read, \<open>search_room_all\<close> panics
  exactly if the searched world or lobby has a room that satisfies all integer filters and all binary filters up to one that
  asks for an ordering of the searchable attribute (operators 3 to 6, attribute \<^verbatim>\<open>0x54\<close>), instead of answering that the operator is
  unsupported; \<open>search_room\<close> panics exactly if there is such a room that is also not hidden and has the flags of the request.\<close>

theorem search_ordering_filter_panics:
  assumes "reach rm_step RoomManager_new rm" and "\<And>s. set (hash_order s) = s" and "filters_readable req"
  shows "(search_room_all codec hash_order rm c req = Panic \<longleftrightarrow>
      (\<exists>l i r. search_list rm c req = Some l \<and> i \<in> l \<and> rm_rooms rm (c, i) = Some r \<and> filters_panic r req)) \<and>
    (search_room codec hash_order rm c req = Panic \<longleftrightarrow>
      (\<exists>l i r. search_list rm c req = Some l \<and> i \<in> l \<and> rm_rooms rm (c, i) = Some r \<and> flags_match r req \<and> filters_panic r req))"
proof -
  have inv: "rm_inv rm" by (rule rms.reach_inv [OF assms(1)])
  have m: "is_match r req = Panic \<longleftrightarrow> flags_match r req \<and> filters_panic r req" "is_match r req \<noteq> Err e" for r e
    using is_match_all_Panic [OF assms(3), of r] by (auto simp: is_match_via_all flags_match_def)
  have loop: "matching_rooms p rm c (hash_order l) = Panic \<longleftrightarrow> (\<exists>i \<in> l. \<exists>r. rm_rooms rm (c, i) = Some r \<and> p r = Panic)"
    if "search_list rm c req = Some l" "\<And>r e. p r \<noteq> Err e" for l p
    using matching_rooms_Panic(1) [of "hash_order l" rm c p] listed_rooms [OF inv that(1)] that(2) assms(2) by simp
  show ?thesis
    unfolding search_panics_in_loop [OF inv]
    using loop [of _ "\<lambda>r. is_match r req"] loop [of _ "\<lambda>r. is_match_all r req"] m is_match_all_Panic [OF assms(3)]
    by (cases "search_list rm c req") auto
qed

theorem search_ordering_filter_panics_witness:
  "search_room_all ex_codec (\<lambda>s. if s = {1} then [1] else sorted_list_of_set s) ex_rm2 ex_com
    (ex_search\<lparr> srr_bin_filter := [\<lparr> bsf_search_operator = Some (Uint8 3),
       bsf_attr = Some \<lparr> ba_id = Some (Uint16 0x54), ba_data = [] \<rparr> \<rparr>] \<rparr>) = Panic"
proof -
  let ?f = "\<lparr> bsf_search_operator = Some (Uint8 3), bsf_attr = Some \<lparr> ba_id = Some (Uint16 0x54), ba_data = [] \<rparr> \<rparr>"
  let ?req = "ex_search\<lparr> srr_bin_filter := [?f] \<rparr>"
  have "filters_readable ?req" by code_simp
  moreover have "search_list ex_rm2 ex_com ?req = Some {1}" by code_simp
  moreover have "filters_panic ex_room2 ?req"
  proof -
    have "bin_filter_panics ?f"
      by (simp add: bin_filter_panics_def bin_filter_ordering_def Uint8_opt_get_verified_def Uint8_get_verified_def
          Uint16_opt_get_verified_def Uint16_get_verified_def)
    moreover have "srr_bin_filter ?req = [] @ ?f # []" "srr_int_filter ?req = []" by (simp_all add: ex_search_def)
    ultimately show ?thesis unfolding filters_panic_def by fastforce
  qed
  moreover have "set (if s = {1} then [1] else sorted_list_of_set s) = s" for s :: "u64 set" by simp
  ultimately show ?thesis
    using search_ordering_filter_panics [OF ex_reach2, of "\<lambda>s. if s = {1} then [1] else sorted_list_of_set s" ?req ex_codec ex_com]
      ex_rooms(2) by blast
qed

section \<open>Unusual requests\<close>

text \<open>C32: a join request for a room that is not full, with or without groups, whose label and password are absent or have the
  right size, that is given a slot and is then found malformed answers with the error but leaves its slot occupied: the room has the same members as before and the
  slot, which was free, can no longer be given away.\<close>

theorem malformed_join_keeps_slot:
  fixes req :: JoinRoomRequest
  defines "label \<equiv> if jr_join_room_group_label req = [] then None else Some (jr_join_room_group_label req)"
    and "password \<equiv> if jr_room_password req = [] then None else Some (jr_room_password req)"
  assumes "rm_rooms rm (c, jr_room_id req) = Some r" and "slots_ok r" and "\<not> full_flag r"
    and "length (jr_join_room_group_label req) \<in> {0, GROUP_LABEL_SIZE}" and "length (jr_room_password req) \<in> {0, SESSION_PASSWORD_SIZE}"
    and "get_a_slot r label password = (Ok (g, m), r1)" and "from_JoinRoomRequest now req sig = Err e"
  shows "join_room codec now rm c req cinfo sig = (Err e, put_room rm c (jr_room_id req) r1) \<and> r_users r1 = r_users r \<and>
    1 \<le> slot_of m \<and> slot_of m \<le> unat (r_max_slot r) \<and> \<not> r_slots r ! (slot_of m - 1) \<and>
    r_slots r1 = (r_slots r)[slot_of m - 1 := True]"
proof -
  have sizes: "(if length (jr_join_room_group_label req) = GROUP_LABEL_SIZE then Some (jr_join_room_group_label req) else None) = label"
    "(if length (jr_room_password req) = SESSION_PASSWORD_SIZE then Some (jr_room_password req) else None) = password"
    "\<not> (jr_join_room_group_label req \<noteq> [] \<and> length (jr_join_room_group_label req) \<noteq> GROUP_LABEL_SIZE)"
    "\<not> (jr_room_password req \<noteq> [] \<and> length (jr_room_password req) \<noteq> SESSION_PASSWORD_SIZE)"
    using assms(6,7) by (auto simp: label_def password_def)
  have "join_room codec now rm c req cinfo sig = (Err e, put_room rm c (jr_room_id req) r1)"
    using assms(3,5) unfolding join_room_def Let_def sizes
    by (simp add: get_room_def unwrap_def full_flag_def sizes assms(8,9) del: de_Morgan_conj)
  moreover have "takes_slot r m r1" by (rule get_a_slot_Ok(1) [OF assms(8,4)])
  ultimately show ?thesis using assms(4) by (auto simp: takes_slot_def slots_ok_def)
qed

theorem malformed_join_keeps_slot_witness:
  "\<exists>r1. join_room ex_codec 0 ex_rm1 ex_com (ex_join\<lparr> jr_team_id := None \<rparr>) (ex_cinfo 8) ClientSharedSignalingInfo_new =
      (Err Malformed, put_room ex_rm1 ex_com 1 r1) \<and>
    r_users r1 = r_users ex_room1 \<and> r_slots r1 = (r_slots ex_room1)[2 - 1 := True] \<and> \<not> r_slots ex_room1 ! (2 - 1)"
proof -
  let ?req = "ex_join\<lparr> jr_team_id := None \<rparr>"
  have ok: "slots_ok ex_room1" "\<not> full_flag ex_room1" and s: "slot_of 33 = 2"
    and err: "from_JoinRoomRequest 0 ?req ClientSharedSignalingInfo_new = Err Malformed" by code_simp+
  have "fst (get_a_slot ex_room1 None None) = Ok (0, 33)" by code_simp
  then obtain r1 where "get_a_slot ex_room1 None None = (Ok (0, 33), r1)" by (metis prod.collapse)
  moreover have "rm_rooms ex_rm1 (ex_com, jr_room_id ?req) = Some ex_room1" by (simp add: ex_join_def ex_rooms)
  ultimately show ?thesis
    using malformed_join_keeps_slot [of ex_rm1 ex_com ?req ex_room1 0 33 r1 0 ClientSharedSignalingInfo_new Malformed ex_codec
        "ex_cinfo 8"] ok err unfolding s by (simp add: ex_join_def) blast
qed

text \<open>The slot mask is read in two ways.  The description of a room counts slot \<open>i + 1\<close> as private when
  bit \<open>63 - i\<close> of the mask is set; the allocation tests the mask against the number \<open>64 - slot\<close> instead
  of that bit.  A mask that declares any single one of the first 57 slots private therefore makes no
  slot private for the allocation.\<close>

theorem private_slot_not_reserved:
  assumes "r_password_slot_mask r = slot_mask_bit i" and "i < 57" and "slot \<le> 64"
  shows "(r_password_slot_mask r AND slot_mask_bit i) \<noteq> 0 \<and> \<not> is_slot_private r slot"
proof -
  have i: "slot_mask_bit i = push_bit (63 - i) 1" using assms(2) by (simp add: slot_mask_bit_def nat_diff_distrib)
  have small: "\<not> bit (64 - of_nat slot :: u64) (63 - i)"
  proof -
    have "(64 - of_nat slot :: u64) = of_nat (64 - slot)" using assms(3) by (simp add: of_nat_diff)
    moreover have "(2 :: nat) ^ 7 \<le> 2 ^ (63 - i)" by (rule power_increasing) (use assms(2) in simp_all)
    then have "64 - slot < 2 ^ (63 - i)" by (simp del: power_increasing_iff)
    then have "\<not> bit (64 - slot) (63 - i)" by (simp add: bit_iff_odd)
    ultimately show ?thesis by (simp add: bit_of_nat_iff)
  qed
  have "bit (slot_mask_bit i) (63 - i)" using assms(2) by (simp add: i bit_simps)
  moreover have "slot_mask_bit i AND (64 - of_nat slot) = 0"
    by (rule bit_word_eqI) (use small in \<open>auto simp: i bit_simps\<close>)
  ultimately show ?thesis using assms(1) by (auto simp: is_slot_private_def)
qed

theorem private_slot_not_reserved_witness:
  "(slot_mask_bit 0 AND slot_mask_bit 0) \<noteq> 0 \<and> \<not> is_slot_private (ex_room1\<lparr> r_password_slot_mask := slot_mask_bit 0 \<rparr>) 1"
  using private_slot_not_reserved [of "ex_room1\<lparr> r_password_slot_mask := slot_mask_bit 0 \<rparr>" 0 1] by simp

text \<open>Joining with a label no group has goes to a group without label, whose label is never set and
  whose size is not checked: when the slots of that group are all taken, the join panics, even while
  another group of the room has free slots.\<close>

theorem labelless_group_full_panics:
  assumes "r_group_config r = [g0, g1]" and "g_label g0 = Some l0" and "l0 \<noteq> l" and "g_label g1 = None"
    and "\<not> g_with_password g1"
    and "list_all (\<lambda>i. i \<le> length (r_slots r) \<and> r_slots r ! (i - 1))
      [Suc (unat (g_slot_num g0))..<Suc (unat (g_slot_num g0)) + unat (g_slot_num g1)]"
  shows "fst (get_a_slot r (Some l) p) = Panic"
proof -
  have scan: "scan_slots (\<lambda>i. True) slots is = Ok None"
    if "list_all (\<lambda>i. 1 \<le> i \<and> i \<le> length slots \<and> slots ! (i - 1)) is" for slots "is"
    using that by (induction "is") (auto simp: index_res_def)
  have "scan_slots (\<lambda>i. True) (r_slots r)
      [Suc (unat (g_slot_num g0))..<Suc (unat (g_slot_num g0)) + unat (g_slot_num g1)] = Ok None"
    using assms(6) by (intro scan) (auto simp: list_all_iff)
  then show ?thesis
    using assms(1-5) by (simp add: get_a_slot_def join_group_def req_specific_slots_def Let_def)
qed

theorem labelless_group_full_panics_witness:
  "fst (get_a_slot (ex_room1\<lparr> r_slots := [True, False, True],
      r_group_config := [\<lparr> g_slot_num = 2, g_fixed_label = True, g_label = Some [1], g_with_password = False, g_group_id = 1, g_num_members = 1 \<rparr>,
        \<lparr> g_slot_num = 1, g_fixed_label = False, g_label = None, g_with_password = False, g_group_id = 2, g_num_members = 1 \<rparr>] \<rparr>)
      (Some [2]) None) = Panic"
  by (rule labelless_group_full_panics
        [where ?g0.0 = "\<lparr> g_slot_num = 2, g_fixed_label = True, g_label = Some [1], g_with_password = False, g_group_id = 1, g_num_members = 1 \<rparr>"
           and ?g1.0 = "\<lparr> g_slot_num = 1, g_fixed_label = False, g_label = None, g_with_password = False, g_group_id = 2, g_num_members = 1 \<rparr>"
           and ?l0.0 = "[1]"])
     (simp_all add: upt_rec)

end
