(* ===== verification/Stream_Extractor.thy ===== *)
theory Stream_Extractor
  imports Client_Types
begin

text \<open>
  The reader of request packets, \<^verbatim>\<open>server/stream_extractor.rs\<close>, and the byte encodings the server writes.
  A \<^verbatim>\<open>StreamExtractor\<close> walks over the bytes of a packet and remembers whether any read failed.  The
  lemmas show that the error flag is sticky, that without an error the cursor stays inside the packet,
  and that what the server encodes is what the reader gives back.
\<close>

section \<open>Integers and strings as bytes\<close>

text \<open>The value of little-endian bytes, and \<^verbatim>\<open>to_le_bytes\<close> of a value that has \<^verbatim>\<open>n\<close> bytes.\<close>

fun le_value :: "bytes \<Rightarrow> nat" where
  "le_value [] = 0"
| "le_value (b # bs) = unat b + 256 * le_value bs"

fun le_encode :: "nat \<Rightarrow> nat \<Rightarrow> bytes" where
  "le_encode 0 v = []"
| "le_encode (Suc n) v = of_nat (v mod 256) # le_encode n (v div 256)"

definition to_le_bytes :: "'a::len word \<Rightarrow> bytes" where
  "to_le_bytes w = le_encode (LENGTH('a) div 8) (unat w)"

text \<open>
  \<^verbatim>\<open>as_bytes\<close> of a string of characters below 256: one byte up to 127, two bytes of UTF-8 above.
\<close>

definition utf8_char :: "char \<Rightarrow> bytes" where
  "utf8_char c = (let n = of_char c :: nat in
     if n < 128 then [of_nat n] else [of_nat (192 + n div 64), of_nat (128 + n mod 64)])"

definition as_bytes :: "string \<Rightarrow> bytes" where
  "as_bytes s = concat (map utf8_char s)"

lemma le_value_encode: "le_value (le_encode n v) = v mod 256 ^ n"
proof (induction n arbitrary: v)
  case (Suc n)
  have "unat (of_nat (v mod 256) :: u8) = v mod 256" by (simp add: unat_of_nat)
  with Suc show ?case by (simp add: mod_mult2_eq)
qed simp

lemma length_le_encode [simp]: "length (le_encode n v) = n"
  by (induction n arbitrary: v) simp_all

lemma length_to_le_bytes [simp]: "length (to_le_bytes (w :: 'a::len word)) = LENGTH('a) div 8"
  by (simp add: to_le_bytes_def)

lemma le_value_bound: "le_value bs < 256 ^ length bs"
proof (induction bs)
  case (Cons b bs)
  then show ?case using unat_lt8 [of b] by simp
qed simp

lemma le_encode_value: "le_encode (length bs) (le_value bs) = bs"
proof (induction bs)
  case (Cons b bs)
  have "unat b + 256 * le_value bs = unat b + le_value bs * 256" by simp
  then show ?case using Cons unat_lt8 [of b] by simp
qed simp

text \<open>A word whose width is a whole number of bytes is recovered from its bytes.\<close>

lemma of_nat_le_value [simp]:
  assumes "8 dvd LENGTH('a)"
  shows "of_nat (le_value (to_le_bytes (w :: 'a::len word))) = w"
proof -
  have "256 ^ (LENGTH('a) div 8) = (2 :: nat) ^ (8 * (LENGTH('a) div 8))" by (simp add: power_mult)
  also have "\<dots> = 2 ^ LENGTH('a)" using assms by simp
  finally show ?thesis
    by (simp add: to_le_bytes_def le_value_encode)
qed

lemma as_bytes_Nil [simp]: "as_bytes [] = []"
  by (simp add: as_bytes_def)

lemma as_bytes_Cons: "as_bytes (c # s) = utf8_char c @ as_bytes s"
  by (simp add: as_bytes_def)

definition ascii :: "string \<Rightarrow> bool" where
  "ascii s \<longleftrightarrow> list_all (\<lambda>c. 0 < (of_char c :: nat) \<and> (of_char c :: nat) < 128) s"

lemma as_bytes_ascii: "ascii s \<Longrightarrow> as_bytes s = map (\<lambda>c. of_nat (of_char c)) s"
  by (induction s) (simp_all add: as_bytes_Cons ascii_def utf8_char_def)

section \<open>The reader\<close>

record StreamExtractor =
  x_vec :: bytes
  x_i :: usize
  x_error :: bool

definition StreamExtractor_new :: "bytes \<Rightarrow> StreamExtractor" where
  "StreamExtractor_new vec = \<lparr> x_vec = vec, x_i = 0, x_error = False \<rparr>"

text \<open>\<^verbatim>\<open>get::<T>\<close> for an unsigned integer type \<^verbatim>\<open>T\<close>.\<close>

definition get_int :: "StreamExtractor \<Rightarrow> 'a::len word \<times> StreamExtractor" where
  "get_int s =
    (let size = LENGTH('a) div 8 in
     if x_i s + size > length (x_vec s) then (0, s\<lparr> x_error := True \<rparr>)
     else (of_nat (le_value (take size (drop (x_i s) (x_vec s)))), s\<lparr> x_i := x_i s + size \<rparr>))"

text \<open>\<^verbatim>\<open>get_string\<close>: the loop up to the terminating zero, then the step over it.\<close>

function string_loop :: "bytes \<Rightarrow> usize \<Rightarrow> string \<Rightarrow> string \<times> usize" where
  "string_loop vec i res_s =
    (if i < length vec \<and> vec ! i \<noteq> 0
     then string_loop vec (i + 1) (res_s @ [char_of (unat (vec ! i))])
     else (res_s, i))"
  by pat_completeness auto
termination by (relation "measure (\<lambda>(vec, i, _). length vec - i)") auto

declare string_loop.simps [simp del]

definition get_string :: "bool \<Rightarrow> StreamExtractor \<Rightarrow> string \<times> StreamExtractor" where
  "get_string allow_empty s =
    (let (res_s, i) = string_loop (x_vec s) (x_i s) [];
         s1 = s\<lparr> x_i := i + 1 \<rparr>
     in (res_s, if x_i s1 > length (x_vec s1) \<or> (\<not> allow_empty \<and> res_s = []) then s1\<lparr> x_error := True \<rparr> else s1))"

definition get_rawdata :: "StreamExtractor \<Rightarrow> bytes \<times> StreamExtractor" where
  "get_rawdata s =
    (let (len, s1) = get_int s;
         size = unat (len :: u32)
     in if size + x_i s1 > length (x_vec s1) then ([], s1\<lparr> x_error := True \<rparr>)
        else (take size (drop (x_i s1) (x_vec s1)), s1\<lparr> x_i := x_i s1 + size \<rparr>))"

fun get_bytes :: "nat \<Rightarrow> StreamExtractor \<Rightarrow> bytes \<times> StreamExtractor" where
  "get_bytes 0 s = ([], s)"
| "get_bytes (Suc n) s = (let (b, s1) = get_int s; (bs, s2) = get_bytes n s1 in (b # bs, s2))"

definition is_ascii_digit :: "u8 \<Rightarrow> bool" where
  "is_ascii_digit c \<longleftrightarrow> 48 \<le> c \<and> c \<le> 57"

definition is_ascii_uppercase :: "u8 \<Rightarrow> bool" where
  "is_ascii_uppercase c \<longleftrightarrow> 65 \<le> c \<and> c \<le> 90"

definition com_id_shape :: "ComId \<Rightarrow> bool" where
  "com_id_shape com_id \<longleftrightarrow>
    list_all (\<lambda>c. is_ascii_uppercase c \<or> is_ascii_digit c) (take 9 com_id) \<and> com_id ! 9 = 95 \<and>
    list_all is_ascii_digit (take 2 (drop 10 com_id))"

definition get_com_id :: "StreamExtractor \<Rightarrow> ComId \<times> StreamExtractor" where
  "get_com_id s =
    (let (com_id, s1) =
           (if x_i s + COMMUNICATION_ID_SIZE > length (x_vec s)
            then (replicate COMMUNICATION_ID_SIZE 0, s\<lparr> x_error := True \<rparr>)
            else get_bytes COMMUNICATION_ID_SIZE s)
     in (com_id, if com_id_shape com_id then s1 else s1\<lparr> x_error := True \<rparr>))"

text \<open>
  \<^verbatim>\<open>get_protobuf\<close> with the decoder of the message type, which is generated code: it gives nothing
  on bytes that are not an encoding.
\<close>

definition get_protobuf :: "(bytes \<Rightarrow> 'm option) \<Rightarrow> StreamExtractor \<Rightarrow> 'm option \<times> StreamExtractor" where
  "get_protobuf decode s =
    (let (len, s1) = get_int s;
         size = unat (len :: u32)
     in if size + x_i s1 > length (x_vec s1) then (None, s1\<lparr> x_error := True \<rparr>)
        else (decode (take size (drop (x_i s1) (x_vec s1))), s1\<lparr> x_i := x_i s1 + size \<rparr>))"

text \<open>\<^verbatim>\<open>Client::get_pb\<close> and \<^verbatim>\<open>Client::add_data_packet\<close> of \<^verbatim>\<open>server/client.rs\<close>.\<close>

definition get_pb :: "(bytes \<Rightarrow> 'm option) \<Rightarrow> StreamExtractor \<Rightarrow> 'm result \<times> StreamExtractor" where
  "get_pb decode s =
    (let (pb_req, s1) = get_protobuf decode s in
     case pb_req of
       Some m \<Rightarrow> (if x_error s1 then Err Malformed else Ok m, s1)
     | None \<Rightarrow> (Err Malformed, s1))"

definition add_data_packet :: "bytes \<Rightarrow> bytes \<Rightarrow> bytes" where
  "add_data_packet reply data = reply @ to_le_bytes (of_nat (length data) :: u32) @ data"

section \<open>Progress\<close>

text \<open>
  What every read keeps: the packet, the errors seen so far, the direction of the cursor, and that
  without an error the cursor does not leave the packet.
\<close>

definition read_on :: "StreamExtractor \<Rightarrow> StreamExtractor \<Rightarrow> bool" where
  "read_on s s' \<longleftrightarrow> x_vec s' = x_vec s \<and> x_i s \<le> x_i s' \<and> (x_error s \<longrightarrow> x_error s') \<and>
    (x_i s \<le> length (x_vec s) \<longrightarrow> x_i s' \<le> length (x_vec s) \<or> x_error s')"

lemma read_on_refl [simp]: "read_on s s"
  by (simp add: read_on_def)

lemma read_on_trans: "read_on s s' \<Longrightarrow> read_on s' s'' \<Longrightarrow> read_on s s''"
  by (auto simp: read_on_def)

lemma read_on_error [simp]: "read_on s (s'\<lparr> x_error := True \<rparr>) \<longleftrightarrow> x_vec s' = x_vec s \<and> x_i s \<le> x_i s'"
  by (auto simp: read_on_def)

lemma string_loop_takeWhile:
  "string_loop vec i acc =
    (acc @ map (\<lambda>b. char_of (unat b)) (takeWhile (\<lambda>b. b \<noteq> 0) (drop i vec)),
     i + length (takeWhile (\<lambda>b. b \<noteq> 0) (drop i vec)))"
proof (induction vec i acc rule: string_loop.induct)
  case (1 vec i res_s)
  show ?case
  proof (cases "i < length vec \<and> vec ! i \<noteq> 0")
    case True
    then have "drop i vec = vec ! i # drop (i + 1) vec" by (simp add: Cons_nth_drop_Suc)
    with True 1 show ?thesis by (subst string_loop.simps) simp
  next
    case False
    then have "takeWhile (\<lambda>b. b \<noteq> 0) (drop i vec) = []"
      by (cases "i < length vec") (simp_all flip: Cons_nth_drop_Suc)
    with False show ?thesis by (subst string_loop.simps) (auto simp del: takeWhile_eq_Nil_iff)
  qed
qed

lemma get_int_read_on: "read_on s (snd (get_int s))"
  by (simp add: get_int_def read_on_def Let_def)

lemma get_string_read_on: "read_on s (snd (get_string e s))"
  by (simp add: get_string_def string_loop_takeWhile Let_def read_on_def)

lemma get_bytes_read_on: "read_on s (snd (get_bytes n s))"
proof (induction n arbitrary: s)
  case (Suc n)
  obtain b :: u8 and s1 where g: "get_int s = (b, s1)" by fastforce
  have "read_on s s1" using get_int_read_on [where 'a = 8, of s] by (simp add: g)
  moreover have "read_on s1 (snd (get_bytes n s1))" by (rule Suc)
  ultimately show ?case by (auto simp: g Let_def split: prod.split intro: read_on_trans)
qed simp

lemma get_com_id_read_on: "read_on s (snd (get_com_id s))"
proof -
  obtain bs s1 where g: "get_bytes COMMUNICATION_ID_SIZE s = (bs, s1)" by fastforce
  then have "read_on s s1" using get_bytes_read_on [of s COMMUNICATION_ID_SIZE] by simp
  then show ?thesis by (auto simp: get_com_id_def g read_on_def)
qed

lemma get_sized_read_on:
  assumes "get_int s = (len :: u32, s1)"
  shows "read_on s (s1\<lparr> x_error := True \<rparr>)"
    and "n + x_i s1 \<le> length (x_vec s1) \<Longrightarrow> read_on s (s1\<lparr> x_i := x_i s1 + n \<rparr>)"
  using get_int_read_on [where 'a = 32, of s] assms by (auto simp: read_on_def)

lemma get_rawdata_read_on: "read_on s (snd (get_rawdata s))"
  using get_sized_read_on by (auto simp: get_rawdata_def Let_def split: prod.split)

lemma get_protobuf_read_on: "read_on s (snd (get_protobuf d s))"
  using get_sized_read_on by (auto simp: get_protobuf_def Let_def split: prod.split)

lemma get_pb_read_on: "read_on s (snd (get_pb d s))"
  using get_protobuf_read_on [of s d] by (auto simp: get_pb_def Let_def split: prod.splits option.splits)

section \<open>Reading what was written\<close>

text \<open>
  The contract between a writer and the reader of one field of a packet.  The reader stands before
  the bytes of the field, whatever surrounds them, and ends behind them with the written value.
\<close>

definition reader_at :: "bytes \<Rightarrow> bytes \<Rightarrow> StreamExtractor" where
  "reader_at before after = \<lparr> x_vec = before @ after, x_i = length before, x_error = False \<rparr>"

locale packet_field =
  fixes reading :: "StreamExtractor \<Rightarrow> 'v \<times> StreamExtractor"
    and writing :: "'v \<Rightarrow> bytes"
    and valid :: "'v \<Rightarrow> bool"
  assumes read_write: "valid v \<Longrightarrow> reading (reader_at before (writing v @ after)) = (v, reader_at (before @ writing v) after)"
begin

lemma write_inj: "valid v \<Longrightarrow> valid w \<Longrightarrow> writing v = writing w \<Longrightarrow> v = w"
  using read_write [of v "[]" "[]"] read_write [of w "[]" "[]"] by simp

lemma read_first: "valid v \<Longrightarrow> reading (StreamExtractor_new (writing v @ after)) = (v, reader_at (writing v) after)"
  using read_write [of v "[]" after] by (simp add: StreamExtractor_new_def reader_at_def)

lemma read_last:
  "valid v \<Longrightarrow> reading (reader_at before (writing v)) = (v, reader_at (before @ writing v) [])"
  using read_write [of v before "[]"] by simp

end

text \<open>Two fields in a row are again a field.\<close>

definition read_both ::
    "(StreamExtractor \<Rightarrow> 'a \<times> StreamExtractor) \<Rightarrow> (StreamExtractor \<Rightarrow> 'b \<times> StreamExtractor)
      \<Rightarrow> StreamExtractor \<Rightarrow> ('a \<times> 'b) \<times> StreamExtractor" where
  "read_both f g s = (let (a, s1) = f s; (b, s2) = g s1 in ((a, b), s2))"

locale packet_pair = fst: packet_field reading1 writing1 valid1 + snd: packet_field reading2 writing2 valid2
  for reading1 :: "StreamExtractor \<Rightarrow> 'a \<times> StreamExtractor" and writing1 valid1
    and reading2 :: "StreamExtractor \<Rightarrow> 'b \<times> StreamExtractor" and writing2 valid2
begin

lemma read_write_both:
  "valid1 a \<Longrightarrow> valid2 b \<Longrightarrow>
    read_both reading1 reading2 (reader_at before (writing1 a @ writing2 b @ after)) =
      ((a, b), reader_at (before @ writing1 a @ writing2 b) after)"
  by (simp add: read_both_def fst.read_write snd.read_write)

end

sublocale packet_pair \<subseteq> both: packet_field "read_both reading1 reading2" "\<lambda>(a, b). writing1 a @ writing2 b"
  "\<lambda>(a, b). valid1 a \<and> valid2 b"
  by unfold_locales (auto simp: read_write_both)

section \<open>The fields of the protocol\<close>

lemma get_int_write:
  assumes "8 dvd LENGTH('a)"
  shows "get_int (reader_at before (to_le_bytes (w :: 'a::len word) @ after)) =
    (w, reader_at (before @ to_le_bytes w) after)"
  using assms by (simp add: get_int_def reader_at_def)

lemma get_bytes_write: "get_bytes (length bs) (reader_at before (bs @ after)) = (bs, reader_at (before @ bs) after)"
proof (induction bs arbitrary: before)
  case (Cons b bs)
  have "to_le_bytes b = [b]" using unat_lt8 [of b] by (simp add: to_le_bytes_def)
  then have "get_int (reader_at before (b # bs @ after)) = (b, reader_at (before @ [b]) (bs @ after))"
    using get_int_write [of before b "bs @ after"] by simp
  with Cons [of "before @ [b]"] show ?case by simp
qed (simp add: reader_at_def)

interpretation u16_field: packet_field get_int "to_le_bytes :: u16 \<Rightarrow> bytes" "\<lambda>_. True"
  by unfold_locales (simp add: get_int_write)

interpretation u32_field: packet_field get_int "to_le_bytes :: u32 \<Rightarrow> bytes" "\<lambda>_. True"
  by unfold_locales (simp add: get_int_write)

interpretation u64_field: packet_field get_int "to_le_bytes :: u64 \<Rightarrow> bytes" "\<lambda>_. True"
  by unfold_locales (simp add: get_int_write)

text \<open>A string of ASCII characters with its terminating zero.\<close>

lemma char_of_unat_of_char: "(of_char c :: nat) < 128 \<Longrightarrow> char_of (unat (of_nat (of_char c) :: u8)) = c"
  by (simp add: unat_of_nat take_bit_nat_eq_self)

lemma string_field_read:
  assumes "ascii v"
  shows "map (\<lambda>b. char_of (unat b)) (takeWhile (\<lambda>b. b \<noteq> 0) (as_bytes v @ 0 # after)) = v"
    and "length (takeWhile (\<lambda>b. b \<noteq> 0) (as_bytes v @ 0 # after)) = length (as_bytes v)"
proof -
  have "(of_nat (of_char c) :: u8) \<noteq> 0" if "c \<in> set v" for c
  proof -
    have "unat (of_nat (of_char c) :: u8) = of_char c" "0 < (of_char c :: nat)"
      using that assms by (simp_all add: ascii_def list_all_iff unat_of_nat take_bit_nat_eq_self)
    then show ?thesis by (metis less_irrefl unat_0)
  qed
  then have "takeWhile (\<lambda>b. b \<noteq> 0) (as_bytes v @ 0 # after) = as_bytes v"
    using assms by (auto simp: as_bytes_ascii takeWhile_append)
  then show "map (\<lambda>b. char_of (unat b)) (takeWhile (\<lambda>b. b \<noteq> 0) (as_bytes v @ 0 # after)) = v"
    and "length (takeWhile (\<lambda>b. b \<noteq> 0) (as_bytes v @ 0 # after)) = length (as_bytes v)"
    using assms by (simp_all add: as_bytes_ascii map_idI char_of_unat_of_char ascii_def list_all_iff)
qed

definition string_field :: "string \<Rightarrow> bytes" where
  "string_field s = as_bytes s @ [0]"

interpretation str_field: packet_field "get_string False" string_field "\<lambda>s. ascii s \<and> s \<noteq> []"
proof unfold_locales
  fix v :: string and before "after" :: bytes
  assume v: "ascii v \<and> v \<noteq> []"
  show "get_string False (reader_at before (string_field v @ after)) = (v, reader_at (before @ string_field v) after)"
    using v string_field_read [of v after]
    by (simp add: get_string_def string_loop_takeWhile reader_at_def string_field_def Let_def)
qed

interpretation str0_field: packet_field "get_string True" string_field ascii
proof unfold_locales
  fix v :: string and before "after" :: bytes
  assume v: "ascii v"
  show "get_string True (reader_at before (string_field v @ after)) = (v, reader_at (before @ string_field v) after)"
    using string_field_read [OF v, of "after"]
    by (simp add: get_string_def string_loop_takeWhile reader_at_def string_field_def Let_def)
qed

interpretation data_field: packet_field get_rawdata "add_data_packet []" "\<lambda>d. length d < 2 ^ 32"
proof unfold_locales
  fix v before "after" :: bytes
  assume "length v < 2 ^ 32"
  then have len: "unat (of_nat (length v) :: u32) = length v" by (simp add: unat_of_nat take_bit_nat_eq_self)
  show "get_rawdata (reader_at before (add_data_packet [] v @ after)) = (v, reader_at (before @ add_data_packet [] v) after)"
    by (simp add: get_rawdata_def add_data_packet_def get_int_write len) (simp add: reader_at_def Let_def)
qed

interpretation com_id_field: packet_field get_com_id "\<lambda>c. c" "\<lambda>c. length c = COMMUNICATION_ID_SIZE \<and> com_id_shape c"
proof unfold_locales
  fix v before "after" :: bytes
  assume v: "length v = COMMUNICATION_ID_SIZE \<and> com_id_shape v"
  then have "get_bytes COMMUNICATION_ID_SIZE (reader_at before (v @ after)) = (v, reader_at (before @ v) after)"
    using get_bytes_write [of v] by simp
  with v show "get_com_id (reader_at before (v @ after)) = (v, reader_at (before @ v) after)"
    by (simp add: get_com_id_def reader_at_def)
qed

lemma get_pb_write:
  assumes "decode data = Some m" and "length data < 2 ^ 32"
  shows "get_pb decode (reader_at before (add_data_packet [] data @ after)) =
    (Ok m, reader_at (before @ add_data_packet [] data) after)"
proof -
  have len: "unat (of_nat (length data) :: u32) = length data"
    using assms(2) by (simp add: unat_of_nat take_bit_nat_eq_self)
  have "get_protobuf decode (reader_at before (add_data_packet [] data @ after)) =
      (Some m, reader_at (before @ add_data_packet [] data) after)"
    using assms(1) by (simp add: get_protobuf_def add_data_packet_def get_int_write len) (simp add: reader_at_def Let_def)
  then show ?thesis by (simp add: get_pb_def) (simp add: reader_at_def)
qed

end
