(* ===== verification/Packets.thy ===== *)
theory Packets
  imports Stream_Extractor
begin

text \<open>
  The packets of the protocol: the header every packet starts with, the command and notification
  numbers (\<^verbatim>\<open>server/client.rs\<close>), the notifications the server builds
  (\<^verbatim>\<open>server/client/notifications.rs\<close>), the presence block, and the frame of a reply.  The lemmas show
  that what the server frames is what a reader of the header finds.
\<close>

section \<open>Numbers\<close>

definition HEADER_SIZE :: u32 where
  "HEADER_SIZE = 15"

definition MAX_PACKET_SIZE :: u32 where
  "MAX_PACKET_SIZE = 0x800000"

datatype PacketType = Request | Reply | Notification | ServerInfo

fun packet_type_u8 :: "PacketType \<Rightarrow> u8" where
  "packet_type_u8 Request = 0"
| "packet_type_u8 Reply = 1"
| "packet_type_u8 Notification = 2"
| "packet_type_u8 ServerInfo = 3"

datatype CommandType =
    Login | Terminate | Create | Delete | SendToken | SendResetToken | ResetPassword | ResetState
  | AddFriend | RemoveFriend | AddBlock | RemoveBlock | GetServerList | GetWorldList | CreateRoom
  | JoinRoom | LeaveRoom | SearchRoom | GetRoomDataExternalList | SetRoomDataExternal
  | GetRoomDataInternal | SetRoomDataInternal | GetRoomMemberDataInternal | SetRoomMemberDataInternal
  | SetUserInfo | PingRoomOwner | SendRoomMessage | RequestSignalingInfos | RequestTicket
  | SendMessage | GetBoardInfos | RecordScore | RecordScoreData | GetScoreData | GetScoreRange
  | GetScoreFriends | GetScoreNpid | GetNetworkTime | TusSetMultiSlotVariable
  | TusGetMultiSlotVariable | TusGetMultiUserVariable | TusGetFriendsVariable | TusAddAndGetVariable
  | TusTryAndSetVariable | TusDeleteMultiSlotVariable | TusSetData | TusGetData
  | TusGetMultiSlotDataStatus | TusGetMultiUserDataStatus | TusGetFriendsDataStatus
  | TusDeleteMultiSlotData | SetPresence | CreateRoomGUI | JoinRoomGUI | LeaveRoomGUI | GetRoomListGUI
  | SetRoomSearchFlagGUI | GetRoomSearchFlagGUI | SetRoomInfoGUI | GetRoomInfoGUI | QuickMatchGUI
  | SearchJoinRoomGUI | GetRoomMemberDataExternalList | UpdateDomainBans | TerminateServer
  | UpdateServersCfg | BanUser | DelUser | SearchRoomAll

text \<open>\<^verbatim>\<open>FromPrimitive::from_u16\<close>: the variants count up from 0, and again from 0x100.\<close>

definition command_from_u16 :: "u16 \<Rightarrow> CommandType option" where
  "command_from_u16 n = map_of
    [(0, Login), (1, Terminate), (2, Create), (3, Delete), (4, SendToken), (5, SendResetToken),
     (6, ResetPassword), (7, ResetState), (8, AddFriend), (9, RemoveFriend), (10, AddBlock),
     (11, RemoveBlock), (12, GetServerList), (13, GetWorldList), (14, CreateRoom), (15, JoinRoom),
     (16, LeaveRoom), (17, SearchRoom), (18, GetRoomDataExternalList), (19, SetRoomDataExternal),
     (20, GetRoomDataInternal), (21, SetRoomDataInternal), (22, GetRoomMemberDataInternal),
     (23, SetRoomMemberDataInternal), (24, SetUserInfo), (25, PingRoomOwner),
     (26, SendRoomMessage), (27, RequestSignalingInfos), (28, RequestTicket), (29, SendMessage),
     (30, GetBoardInfos), (31, RecordScore), (32, RecordScoreData), (33, GetScoreData),
     (34, GetScoreRange), (35, GetScoreFriends), (36, GetScoreNpid), (37, GetNetworkTime),
     (38, TusSetMultiSlotVariable), (39, TusGetMultiSlotVariable), (40, TusGetMultiUserVariable),
     (41, TusGetFriendsVariable), (42, TusAddAndGetVariable), (43, TusTryAndSetVariable),
     (44, TusDeleteMultiSlotVariable), (45, TusSetData), (46, TusGetData),
     (47, TusGetMultiSlotDataStatus), (48, TusGetMultiUserDataStatus),
     (49, TusGetFriendsDataStatus), (50, TusDeleteMultiSlotData), (51, SetPresence),
     (52, CreateRoomGUI), (53, JoinRoomGUI), (54, LeaveRoomGUI), (55, GetRoomListGUI),
     (56, SetRoomSearchFlagGUI), (57, GetRoomSearchFlagGUI), (58, SetRoomInfoGUI),
     (59, GetRoomInfoGUI), (60, QuickMatchGUI), (61, SearchJoinRoomGUI),
     (62, GetRoomMemberDataExternalList), (256, UpdateDomainBans), (257, TerminateServer),
     (258, UpdateServersCfg), (259, BanUser), (260, DelUser), (261, SearchRoomAll)] n"

datatype NotificationType =
    UserJoinedRoom | UserLeftRoom | RoomDestroyed | UpdatedRoomDataInternal
  | UpdatedRoomMemberDataInternal | FriendQuery | FriendNew | FriendLost | FriendStatus
  | RoomMessageReceived | MessageReceived | FriendPresenceChanged | SignalingHelper
  | MemberJoinedRoomGUI | MemberLeftRoomGUI | RoomDisappearedGUI | RoomOwnerChangedGUI | UserKickedGUI
  | QuickMatchCompleteGUI

fun notification_u16 :: "NotificationType \<Rightarrow> u16" where
  "notification_u16 UserJoinedRoom = 0"
| "notification_u16 UserLeftRoom = 1"
| "notification_u16 RoomDestroyed = 2"
| "notification_u16 UpdatedRoomDataInternal = 3"
| "notification_u16 UpdatedRoomMemberDataInternal = 4"
| "notification_u16 FriendQuery = 5"
| "notification_u16 FriendNew = 6"
| "notification_u16 FriendLost = 7"
| "notification_u16 FriendStatus = 8"
| "notification_u16 RoomMessageReceived = 9"
| "notification_u16 MessageReceived = 10"
| "notification_u16 FriendPresenceChanged = 11"
| "notification_u16 SignalingHelper = 12"
| "notification_u16 MemberJoinedRoomGUI = 13"
| "notification_u16 MemberLeftRoomGUI = 14"
| "notification_u16 RoomDisappearedGUI = 15"
| "notification_u16 RoomOwnerChangedGUI = 16"
| "notification_u16 UserKickedGUI = 17"
| "notification_u16 QuickMatchCompleteGUI = 18"

fun error_u8 :: "ErrorType \<Rightarrow> u8" where
  "error_u8 NoError = 0"
| "error_u8 Malformed = 1"
| "error_u8 Invalid = 2"
| "error_u8 InvalidInput = 3"
| "error_u8 TooSoon = 4"
| "error_u8 LoginError = 5"
| "error_u8 LoginAlreadyLoggedIn = 6"
| "error_u8 LoginInvalidUsername = 7"
| "error_u8 LoginInvalidPassword = 8"
| "error_u8 LoginInvalidToken = 9"
| "error_u8 CreationError = 10"
| "error_u8 CreationExistingUsername = 11"
| "error_u8 CreationBannedEmailProvider = 12"
| "error_u8 CreationExistingEmail = 13"
| "error_u8 RoomMissing = 14"
| "error_u8 RoomAlreadyJoined = 15"
| "error_u8 RoomFull = 16"
| "error_u8 RoomPasswordMismatch = 17"
| "error_u8 RoomPasswordMissing = 18"
| "error_u8 RoomGroupNoJoinLabel = 19"
| "error_u8 RoomGroupFull = 20"
| "error_u8 RoomGroupJoinLabelNotFound = 21"
| "error_u8 RoomGroupMaxSlotMismatch = 22"
| "error_u8 Unauthorized = 23"
| "error_u8 DbFail = 24"
| "error_u8 EmailFail = 25"
| "error_u8 NotFound = 26"
| "error_u8 Blocked = 27"
| "error_u8 AlreadyFriend = 28"
| "error_u8 ScoreNotBest = 29"
| "error_u8 ScoreInvalid = 30"
| "error_u8 ScoreHasData = 31"
| "error_u8 CondFail = 32"
| "error_u8 Unsupported = 33"

section \<open>Headers\<close>

record PacketHeader =
  ph_type :: u8
  ph_command :: u16
  ph_size :: u32
  ph_id :: u64

definition packet_header :: "PacketType \<Rightarrow> u16 \<Rightarrow> u32 \<Rightarrow> u64 \<Rightarrow> bytes" where
  "packet_header t command packet_size packet_id =
    [packet_type_u8 t] @ to_le_bytes command @ to_le_bytes packet_size @ to_le_bytes packet_id"

text \<open>The header as \<^verbatim>\<open>Client::process\<close> takes it apart.\<close>

definition parse_header :: "bytes \<Rightarrow> PacketHeader" where
  "parse_header header_data =
    \<lparr> ph_type = header_data ! 0,
      ph_command = of_nat (le_value (take 2 (drop 1 header_data))),
      ph_size = of_nat (le_value (take 4 (drop 3 header_data))),
      ph_id = of_nat (le_value (take 8 (drop 7 header_data))) \<rparr>"

lemma length_packet_header [simp]: "length (packet_header t c n i) = 15"
  by (simp add: packet_header_def)

lemma parse_packet_header:
  "parse_header (packet_header t c n i @ rest) =
    \<lparr> ph_type = packet_type_u8 t, ph_command = c, ph_size = n, ph_id = i \<rparr>"
  by (simp add: parse_header_def packet_header_def)

section \<open>Notifications\<close>

definition create_notification :: "NotificationType \<Rightarrow> bytes \<Rightarrow> bytes" where
  "create_notification n_type data =
    (let final_size = length data + unat HEADER_SIZE in
     packet_header Notification (notification_u16 n_type) (of_nat final_size) 0 @ data)"

definition create_friend_status_notification :: "string \<Rightarrow> u64 \<Rightarrow> bool \<Rightarrow> bytes" where
  "create_friend_status_notification npid timestamp online =
    create_notification FriendStatus ([if online then 1 else 0] @ to_le_bytes timestamp @ as_bytes npid @ [0])"

definition create_new_friend_notification :: "string \<Rightarrow> bool \<Rightarrow> bytes" where
  "create_new_friend_notification npid online =
    create_notification FriendNew ([if online then 1 else 0] @ as_bytes npid @ [0])"

text \<open>The presence block of \<^verbatim>\<open>ClientSharedPresence::dump\<close>.\<close>

record ClientSharedPresence =
  pr_communication_id :: ComId
  pr_title :: string
  pr_status :: string
  pr_comment :: string
  pr_data :: bytes

definition ClientSharedPresence_new :: "ComId \<Rightarrow> string \<Rightarrow> string \<Rightarrow> string \<Rightarrow> bytes \<Rightarrow> ClientSharedPresence" where
  "ClientSharedPresence_new communication_id title status comment data =
    \<lparr> pr_communication_id = communication_id, pr_title = title, pr_status = status, pr_comment = comment,
      pr_data = data \<rparr>"

definition presence_dump :: "ClientSharedPresence \<Rightarrow> bytes" where
  "presence_dump p = pr_communication_id p @ as_bytes (pr_title p) @ [0] @ as_bytes (pr_status p) @ [0]
    @ as_bytes (pr_comment p) @ [0] @ to_le_bytes (of_nat (length (pr_data p)) :: u32) @ pr_data p"

definition presence_dump_empty :: bytes where
  "presence_dump_empty = [0, 0, 0, 0, 0, 0, 0, 0, 0, 95, 48, 48] @ [0] @ [0] @ [0] @ to_le_bytes (0 :: u32)"

section \<open>Replies\<close>

text \<open>
  The reply of \<^verbatim>\<open>interpret_command\<close>: the prefix written before the command runs, the body the command
  appends, and the length and the result filled in afterwards.
\<close>

definition reply_start :: "u16 \<Rightarrow> u64 \<Rightarrow> bytes" where
  "reply_start command packet_id = packet_header Reply command HEADER_SIZE packet_id @ [error_u8 NoError]"

definition reply_finish :: "ErrorType \<Rightarrow> bytes \<Rightarrow> bytes" where
  "reply_finish e reply =
    (take 3 reply @ to_le_bytes (of_nat (length reply) :: u32) @ drop 7 reply)[unat HEADER_SIZE := error_u8 e]"

lemma unat_HEADER_SIZE [simp]: "unat HEADER_SIZE = 15"
  by (simp add: HEADER_SIZE_def)

lemma reply_finish_start:
  "reply_finish e (reply_start command packet_id @ body) =
    packet_header Reply command (of_nat (16 + length body)) packet_id @ [error_u8 e] @ body"
  by (simp add: reply_finish_def reply_start_def packet_header_def list_update_append add.commute)

lemma create_notification_frame:
  "length (create_notification t d) = 15 + length d"
  "parse_header (create_notification t d) =
    \<lparr> ph_type = 2, ph_command = notification_u16 t, ph_size = of_nat (15 + length d), ph_id = 0 \<rparr>"
  "drop 15 (create_notification t d) = d"
  by (simp_all add: create_notification_def parse_packet_header add.commute)

end
