(* ===== verification/Packet_Properties.thy ===== *)
theory Packet_Properties
  imports Packets
begin

text \<open>
  The properties of the packet layer: a request handler that reads fields can neither leave the packet
  nor lose an error, and what the server frames can be taken apart again.
\<close>

section \<open>Sequences of reads\<close>

text \<open>The reads the handlers make, in any order and number (the cursor does not depend on the type of a message).\<close>

inductive read_step :: "StreamExtractor \<Rightarrow> StreamExtractor \<Rightarrow> bool" where
  read_u8: "read_step s (snd (get_int s :: u8 \<times> _))"
| read_u16: "read_step s (snd (get_int s :: u16 \<times> _))"
| read_u32: "read_step s (snd (get_int s :: u32 \<times> _))"
| read_u64: "read_step s (snd (get_int s :: u64 \<times> _))"
| read_string: "read_step s (snd (get_string allow_empty s))"
| read_rawdata: "read_step s (snd (get_rawdata s))"
| read_com_id: "read_step s (snd (get_com_id s))"
| read_pb: "read_step s (snd (get_pb (decode :: bytes \<Rightarrow> bytes option) s))"

lemmas reads_on = get_int_read_on get_string_read_on get_rawdata_read_on get_com_id_read_on get_pb_read_on

lemma read_step_on: "read_step s s' \<Longrightarrow> read_on s s'"
  by (induction rule: read_step.induct) (rule reads_on)+

interpretation rds: invariant_system "StreamExtractor_new vec" read_step "read_on (StreamExtractor_new vec)" for vec
  by unfold_locales (simp, blast intro: read_on_trans read_step_on)

text \<open>C23: after any sequence of reads on a packet the bytes are those of the packet, and either an error is
  recorded, which then stays recorded whatever is read next, or the cursor is inside the packet.\<close>

theorem reads_stay_in_packet:
  assumes "reach read_step (StreamExtractor_new vec) s"
  shows "x_vec s = vec \<and> (x_error s \<or> x_i s \<le> length vec) \<and> (\<forall>s'. read_step s s' \<longrightarrow> x_error s \<longrightarrow> x_error s')"
  using rds.reach_inv [OF assms] read_step_on by (auto simp: read_on_def StreamExtractor_new_def)

theorem reads_stay_in_packet_witness:
  "x_error (snd (get_int (StreamExtractor_new [1, 2]) :: u32 \<times> StreamExtractor)) \<or>
   x_i (snd (get_int (StreamExtractor_new [1, 2]) :: u32 \<times> StreamExtractor)) \<le> length [1 :: u8, 2]"
proof -
  have "reach read_step (StreamExtractor_new [1, 2]) (snd (get_int (StreamExtractor_new [1, 2]) :: u32 \<times> _))"
    by (rule reach.more, rule reach.start, rule read_u32)
  from reads_stay_in_packet [OF this] show ?thesis by blast
qed

text \<open>C24: reading a string always ends.  It returns the bytes up to the first zero, steps over that zero, and
  reports an error exactly when there was one before, no zero is left in the packet, or the string is
  empty where it must not be.\<close>

theorem get_string_spec:
  assumes "x_i s \<le> length (x_vec s)"
  shows "get_string allow_empty s =
    (let txt = takeWhile (\<lambda>b. b \<noteq> 0) (drop (x_i s) (x_vec s)) in
     (map (\<lambda>b. char_of (unat b)) txt,
      s\<lparr> x_i := x_i s + length txt + 1,
         x_error := x_error s \<or> 0 \<notin> set (drop (x_i s) (x_vec s)) \<or> (\<not> allow_empty \<and> txt = []) \<rparr>))"
proof -
  let ?d = "drop (x_i s) (x_vec s)"
  let ?t = "takeWhile (\<lambda>b. b \<noteq> 0) ?d"
  have len: "length (takeWhile (\<lambda>b. b \<noteq> 0) d) = length d \<longleftrightarrow> 0 \<notin> set d" for d :: bytes
    by (induction d) auto
  have "length ?t \<le> length ?d" by (rule length_takeWhile_le)
  then have "length (x_vec s) < x_i s + length ?t + 1 \<longleftrightarrow> length ?t = length ?d" using assms by auto
  then show ?thesis
    using len [of ?d] by (auto simp: get_string_def string_loop_takeWhile Let_def)
qed

theorem get_string_spec_witness:
  "get_string False (StreamExtractor_new [104, 105, 0, 7]) = (''hi'', \<lparr> x_vec = [104, 105, 0, 7], x_i = 3, x_error = False \<rparr>)"
  using get_string_spec [of "StreamExtractor_new [104, 105, 0, 7]" False]
  by (simp add: StreamExtractor_new_def char_of_def bit_0)

section \<open>Frames\<close>

text \<open>A string without a NUL, written as UTF-8 and read byte by byte.\<close>

definition read_back :: "string \<Rightarrow> string" where
  "read_back s = map (\<lambda>b. char_of (unat b)) (as_bytes s)"

definition nul_free :: "string \<Rightarrow> bool" where
  "nul_free s \<longleftrightarrow> list_all (\<lambda>c. 0 < (of_char c :: nat)) s"

lemma read_back_ascii: "ascii s \<Longrightarrow> read_back s = s"
  by (simp add: read_back_def as_bytes_ascii map_idI char_of_unat_of_char ascii_def list_all_iff)

lemma utf8_char_nonzero:
  assumes "0 < (of_char c :: nat)" and "b \<in> set (utf8_char c)"
  shows "b \<noteq> 0"
proof -
  define n where "n = (of_char c :: nat)"
  have "n < 256" unfolding n_def by (rule nat_of_char_less_256)
  then have "192 + n div 64 < 256" "128 + n mod 64 < 256" by simp_all
  moreover have "b = of_nat n \<and> n < 128 \<or> b = of_nat (192 + n div 64) \<or> b = of_nat (128 + n mod 64)"
    using assms(2) by (auto simp: utf8_char_def Let_def n_def split: if_splits)
  moreover have "0 < n" "0 < 192 + n div 64" "0 < 128 + n mod 64" using assms(1) by (simp_all add: n_def)
  ultimately have "\<exists>k. b = of_nat k \<and> 0 < k \<and> k < 256" using \<open>n < 256\<close> by blast
  then obtain k where k: "b = of_nat k" "0 < k" "k < 256" by blast
  then have "unat b = k" by (simp add: unat_of_nat take_bit_nat_eq_self)
  with k(2) show ?thesis by auto
qed

lemma get_string_written:
  assumes "nul_free s"
  shows "get_string True (reader_at before (string_field s @ after)) = (read_back s, reader_at (before @ string_field s) after)"
proof -
  have "b \<noteq> 0" if "b \<in> set (as_bytes s)" for b
    using that assms utf8_char_nonzero by (auto simp: as_bytes_def nul_free_def list_all_iff)
  then have "takeWhile (\<lambda>b. b \<noteq> 0) (as_bytes s @ 0 # after) = as_bytes s" by (auto simp: takeWhile_append)
  then show ?thesis
    by (simp add: get_string_def string_loop_takeWhile reader_at_def string_field_def read_back_def Let_def)
qed

text \<open>C25: a presence block the server sends to the friends of a player reads back field by field, with nothing left over.  The
  communication id has its shape, the data is below 4 GiB, and the title, the status and the comment contain no NUL.  The id
  and the data read back as they are; each text, written as UTF-8 and read byte by byte, reads back as the characters of its
  bytes, which is the text itself if it is ASCII.\<close>

theorem presence_round_trip:
  assumes "length (pr_communication_id p) = COMMUNICATION_ID_SIZE" and "com_id_shape (pr_communication_id p)"
    and "nul_free (pr_title p)" and "nul_free (pr_status p)" and "nul_free (pr_comment p)" and "length (pr_data p) < 2 ^ 32"
  shows "(let (com_id, s1) = get_com_id (StreamExtractor_new (presence_dump p));
              (title, s2) = get_string True s1; (status, s3) = get_string True s2;
              (comment, s4) = get_string True s3; (data, s5) = get_rawdata s4
          in (ClientSharedPresence_new com_id title status comment data, s5)) =
    (p\<lparr> pr_title := read_back (pr_title p), pr_status := read_back (pr_status p), pr_comment := read_back (pr_comment p) \<rparr>,
     reader_at (presence_dump p) []) \<and>
    (ascii (pr_title p) \<and> ascii (pr_status p) \<and> ascii (pr_comment p) \<longrightarrow>
      p\<lparr> pr_title := read_back (pr_title p), pr_status := read_back (pr_status p), pr_comment := read_back (pr_comment p) \<rparr> = p)"
proof -
  have dump: "presence_dump p = pr_communication_id p @ string_field (pr_title p) @ string_field (pr_status p) @
      string_field (pr_comment p) @ add_data_packet [] (pr_data p)"
    by (simp add: presence_dump_def string_field_def add_data_packet_def)
  show ?thesis
    using assms unfolding dump
    by (simp add: com_id_field.read_first get_string_written data_field.read_last ClientSharedPresence_new_def read_back_ascii)
qed

definition ex_presence :: ClientSharedPresence where
  "ex_presence = ClientSharedPresence_new [78, 80, 87, 82, 48, 48, 48, 48, 49, 95, 48, 48] ''Game'' ''online'' [CHR 0xE9] [1, 2]"

theorem presence_round_trip_witness:
  "(let (com_id, s1) = get_com_id (StreamExtractor_new (presence_dump ex_presence));
        (title, s2) = get_string True s1; (status, s3) = get_string True s2;
        (comment, s4) = get_string True s3; (data, s5) = get_rawdata s4
    in (ClientSharedPresence_new com_id title status comment data, s5)) =
   (ex_presence\<lparr> pr_comment := [CHR 0xC3, CHR 0xA9] \<rparr>, reader_at (presence_dump ex_presence) [])"
proof -
  have "length (pr_communication_id ex_presence) = COMMUNICATION_ID_SIZE" "com_id_shape (pr_communication_id ex_presence)"
    "nul_free (pr_title ex_presence)" "nul_free (pr_status ex_presence)" "nul_free (pr_comment ex_presence)" by code_simp+
  moreover have "length (pr_data ex_presence) < 2 ^ 32" by (simp add: ex_presence_def ClientSharedPresence_new_def)
  ultimately have "(let (com_id, s1) = get_com_id (StreamExtractor_new (presence_dump ex_presence));
        (title, s2) = get_string True s1; (status, s3) = get_string True s2;
        (comment, s4) = get_string True s3; (data, s5) = get_rawdata s4
    in (ClientSharedPresence_new com_id title status comment data, s5)) =
   (ex_presence\<lparr> pr_title := read_back (pr_title ex_presence), pr_status := read_back (pr_status ex_presence),
      pr_comment := read_back (pr_comment ex_presence) \<rparr>, reader_at (presence_dump ex_presence) [])"
    using presence_round_trip [of ex_presence] by blast
  moreover have "ex_presence\<lparr> pr_title := read_back (pr_title ex_presence), pr_status := read_back (pr_status ex_presence),
      pr_comment := read_back (pr_comment ex_presence) \<rparr> = ex_presence\<lparr> pr_comment := [CHR 0xC3, CHR 0xA9] \<rparr>" by code_simp
  ultimately show ?thesis by simp
qed

text \<open>C26: a notification carries its type, a zero packet id and, for a body below 4 GiB, its own length in the
  header, with the body behind the header; a friend's status notification gives back the online flag, the
  time and the name.\<close>

theorem notification_round_trip:
  assumes "length d < 2 ^ 32 - 15" and "ascii npid" and "npid \<noteq> []"
  shows "parse_header (create_notification t d) =
      \<lparr> ph_type = packet_type_u8 Notification, ph_command = notification_u16 t,
        ph_size = of_nat (length (create_notification t d)), ph_id = 0 \<rparr> \<and>
    unat (ph_size (parse_header (create_notification t d))) = length (create_notification t d) \<and>
    drop 15 (create_notification t d) = d \<and>
    (let (flag :: u8, s1) = get_int (StreamExtractor_new (drop 15 (create_friend_status_notification npid ts online)));
         (time :: u64, s2) = get_int s1; (name, s3) = get_string False s2
     in (flag = 1, time, name, x_error s3)) = (online, ts, npid, False)"
proof -
  have size: "unat (of_nat (15 + length d) :: u32) = 15 + length d"
    using assms(1) by (simp only: unat_of_nat) (simp add: take_bit_nat_eq_self)
  have b: "to_le_bytes (b :: u8) = [b]" for b using unat_lt8 [of b] by (simp add: to_le_bytes_def)
  have new: "StreamExtractor_new (b # rest) = reader_at [] (to_le_bytes (b :: u8) @ rest)" for b rest
    by (simp add: StreamExtractor_new_def reader_at_def b)
  have "(let (flag :: u8, s1) = get_int (StreamExtractor_new (drop 15 (create_friend_status_notification npid ts online)));
           (time :: u64, s2) = get_int s1; (name, s3) = get_string False s2
       in (flag = 1, time, name, x_error s3)) = (online, ts, npid, False)"
    using assms(2,3) str_field.read_last [of npid]
    by (simp add: create_friend_status_notification_def create_notification_frame(3) new get_int_write
        u64_field.read_write flip: string_field_def) (simp add: reader_at_def)
  with size show ?thesis by (simp add: create_notification_frame)
qed

theorem notification_round_trip_witness:
  "parse_header (create_notification FriendLost [1, 0]) =
     \<lparr> ph_type = packet_type_u8 Notification, ph_command = notification_u16 FriendLost,
       ph_size = of_nat (length (create_notification FriendLost [1, 0])), ph_id = 0 \<rparr> \<and>
   (let (flag :: u8, s1) = get_int (StreamExtractor_new (drop 15 (create_friend_status_notification ''bob'' 5 True)));
        (time :: u64, s2) = get_int s1; (name, s3) = get_string False s2
    in (flag = 1, time, name, x_error s3)) = (True, 5, ''bob'', False)"
proof -
  have "ascii ''bob''" by code_simp
  then show ?thesis using notification_round_trip [of "[1, 0]" "''bob''" FriendLost 5 True] by simp
qed

text \<open>C27: a finished reply is a packet whose header repeats the command and the packet number of the request
  and states the length of the whole packet; the result code stands right behind the header and the
  body the command wrote behind that.\<close>

theorem reply_frame:
  assumes "length body < 2 ^ 32 - 16"
  shows "parse_header (reply_finish e (reply_start command packet_id @ body)) =
      \<lparr> ph_type = packet_type_u8 Reply, ph_command = command,
        ph_size = of_nat (length (reply_finish e (reply_start command packet_id @ body))), ph_id = packet_id \<rparr> \<and>
    unat (ph_size (parse_header (reply_finish e (reply_start command packet_id @ body)))) = 16 + length body \<and>
    drop 15 (reply_finish e (reply_start command packet_id @ body)) = error_u8 e # body"
proof -
  have "unat (of_nat (16 + length body) :: u32) = 16 + length body"
    using assms by (simp only: unat_of_nat) (simp add: take_bit_nat_eq_self)
  then show ?thesis by (simp add: reply_finish_start parse_packet_header add.commute)
qed

theorem reply_frame_witness:
  "drop 15 (reply_finish NotFound (reply_start 17 5 @ [9])) = error_u8 NotFound # [9]"
  using reply_frame [of "[9]" NotFound 17 5] by simp

end
