(* ===== verification/Ordering.thy ===== *)
theory Ordering
  imports Prelude
begin

text \<open>
  Comparators and searching in sorted vectors, as the standard library of Rust has them:
  \<^verbatim>\<open>std::cmp::Ordering\<close>, \<^verbatim>\<open>slice::binary_search_by\<close>, \<^verbatim>\<open>Vec::insert\<close> and \<^verbatim>\<open>Vec::remove\<close>.  The locale is the
  contract a comparator fulfils; in it the binary search is shown to find the place of an element,
  and insertion at that place to keep a vector sorted.
\<close>

datatype Ordering = Less | Equal | Greater

fun ord_reverse :: "Ordering \<Rightarrow> Ordering" where
  "ord_reverse Less = Greater"
| "ord_reverse Equal = Equal"
| "ord_reverse Greater = Less"

text \<open>\<^verbatim>\<open>Ord::cmp\<close> of the integer types.\<close>

definition ord_cmp :: "'a::linorder \<Rightarrow> 'a \<Rightarrow> Ordering" where
  "ord_cmp a b = (if a < b then Less else if a = b then Equal else Greater)"

lemma ord_cmp_iff [simp]:
  "ord_cmp a b = Less \<longleftrightarrow> a < b" "ord_cmp a b = Equal \<longleftrightarrow> a = b" "ord_cmp a b = Greater \<longleftrightarrow> b < a"
  by (auto simp: ord_cmp_def)

lemma ord_reverse_eq [simp]:
  "ord_reverse o1 = Less \<longleftrightarrow> o1 = Greater" "ord_reverse o1 = Equal \<longleftrightarrow> o1 = Equal" "ord_reverse o1 = Greater \<longleftrightarrow> o1 = Less"
  by (cases o1; simp)+

section \<open>Vectors\<close>

definition insert_at :: "nat \<Rightarrow> 'a \<Rightarrow> 'a list \<Rightarrow> 'a list" where
  "insert_at i x xs = take i xs @ x # drop i xs"

definition remove_at :: "nat \<Rightarrow> 'a list \<Rightarrow> 'a list" where
  "remove_at i xs = take i xs @ drop (i + 1) xs"

lemma length_insert_at [simp]: "length (insert_at i x xs) = Suc (length xs)"
  by (simp add: insert_at_def)

lemma set_insert_at [simp]: "set (insert_at i x xs) = insert x (set xs)"
  by (simp add: insert_at_def) (metis append_take_drop_id set_append)

lemma insert_at_nth:
  assumes "i \<le> length xs" and "j \<le> length xs"
  shows "insert_at i x xs ! j = (if j < i then xs ! j else if j = i then x else xs ! (j - 1))"
  using assms by (auto simp: insert_at_def nth_append min_def nth_Cons')

lemma length_remove_at [simp]: "i < length xs \<Longrightarrow> length (remove_at i xs) = length xs - 1"
  by (simp add: remove_at_def)

lemma remove_at_nth:
  assumes "i < length xs" and "j < length xs - 1"
  shows "remove_at i xs ! j = (if j < i then xs ! j else xs ! (j + 1))"
  using assms by (auto simp: remove_at_def nth_append min_def)

text \<open>Removing a position of a vector with distinct keys removes the entry of that key.\<close>

lemma remove_at_filter:
  assumes "i < length xs" and "distinct (map k xs)"
  shows "remove_at i xs = filter (\<lambda>e. k e \<noteq> k (xs ! i)) xs"
proof -
  have xs: "xs = take i xs @ xs ! i # drop (i + 1) xs" using assms(1) by (simp add: id_take_nth_drop)
  then have "distinct (map k (take i xs @ xs ! i # drop (i + 1) xs))" using assms(2) by simp
  then have "filter (\<lambda>e. k e \<noteq> k (xs ! i)) (take i xs @ xs ! i # drop (i + 1) xs) = remove_at i xs"
    by (auto simp: remove_at_def image_iff intro!: arg_cong2 [where f = "(@)"] filter_True)
  then show ?thesis using xs by metis
qed

section \<open>Binary search\<close>

text \<open>The loop of \<^verbatim>\<open>binary_search_by\<close>, on the outcome of the comparison at every index.\<close>

function search_loop :: "(nat \<Rightarrow> Ordering) \<Rightarrow> nat \<Rightarrow> nat \<Rightarrow> nat" where
  "search_loop f base len =
    (if len > 1 then
       let half = len div 2; mid = base + half
       in search_loop f (if f mid = Greater then base else mid) (len - half)
     else base)"
  by pat_completeness auto
termination by (relation "measure (\<lambda>(_, _, len). len)") auto

declare search_loop.simps [simp del]

definition binary_search_by :: "('a \<Rightarrow> Ordering) \<Rightarrow> 'a list \<Rightarrow> (nat, nat) res" where
  "binary_search_by f xs =
    (if xs = [] then Err 0
     else
       let base = search_loop (\<lambda>i. f (xs ! i)) 0 (length xs)
       in case f (xs ! base) of
            Equal \<Rightarrow> Ok base
          | Less \<Rightarrow> Err (base + 1)
          | Greater \<Rightarrow> Err base)"

text \<open>
  If the elements that do not compare greater are the first \<^verbatim>\<open>p\<close>, the loop ends at the last of them
  (or at the start, when there is none).
\<close>

lemma search_loop_last:
  assumes "\<And>i. i < n \<Longrightarrow> f i \<noteq> Greater \<longleftrightarrow> i < p" and "p \<le> n"
    and "base + len \<le> n" and "0 < len" and "p \<le> base + len" and "base = 0 \<or> base < p"
  shows "search_loop f base len = p - 1"
  using assms(3-6)
proof (induction len arbitrary: base rule: less_induct)
  case (less len)
  show ?case
  proof (cases "1 < len")
    case True
    define half where "half = len div 2"
    have half: "0 < half" "half < len" using True by (auto simp: half_def)
    have mid: "f (base + half) \<noteq> Greater \<longleftrightarrow> base + half < p" using assms(1) less.prems half by simp
    have "search_loop f (if f (base + half) = Greater then base else base + half) (len - half) = p - 1"
    proof (cases "f (base + half) = Greater")
      case True
      with mid half less.prems show ?thesis by (simp add: less.IH half_def)
    next
      case False
      with mid half less.prems show ?thesis by (simp add: less.IH half_def)
    qed
    then show ?thesis using True unfolding half_def by (subst search_loop.simps) (simp add: Let_def)
  next
    case False
    then show ?thesis using less.prems by (subst search_loop.simps) auto
  qed
qed

text \<open>\<^verbatim>\<open>sorted_by f xs\<close>: first the elements that compare less, then the equal, then the greater ones.\<close>

definition sorted_by :: "('a \<Rightarrow> Ordering) \<Rightarrow> 'a list \<Rightarrow> bool" where
  "sorted_by f xs \<longleftrightarrow> sorted_wrt (\<lambda>x y. (f x = Greater \<longrightarrow> f y = Greater) \<and> (f y = Less \<longrightarrow> f x = Less)) xs"

lemma sorted_by_Cons:
  "sorted_by f (x # xs) \<longleftrightarrow>
    (\<forall>y \<in> set xs. (f x = Greater \<longrightarrow> f y = Greater) \<and> (f y = Less \<longrightarrow> f x = Less)) \<and> sorted_by f xs"
  by (simp add: sorted_by_def)

lemma sorted_by_nth:
  assumes "sorted_by f xs" and "i < length xs"
  shows "f (xs ! i) \<noteq> Greater \<longleftrightarrow> i < length (filter (\<lambda>x. f x \<noteq> Greater) xs)"
  using assms
proof (induction xs arbitrary: i)
  case (Cons x xs)
  show ?case
  proof (cases "f x = Greater")
    case True
    then have all: "\<And>y. y \<in> set (x # xs) \<Longrightarrow> f y = Greater" using Cons.prems by (auto simp: sorted_by_Cons)
    moreover have "(x # xs) ! i \<in> set (x # xs)" using Cons.prems(2) by (rule nth_mem)
    ultimately have "f ((x # xs) ! i) = Greater" by blast
    moreover have "filter (\<lambda>x. f x \<noteq> Greater) (x # xs) = []" using all by (intro filter_False) blast
    ultimately show ?thesis by (simp only: list.size) simp
  next
    case False
    with Cons show ?thesis by (cases i) (simp_all add: sorted_by_Cons)
  qed
qed simp

lemma binary_search_by_cases:
  assumes "sorted_by f xs"
  defines "p \<equiv> length (filter (\<lambda>x. f x \<noteq> Greater) xs)"
  shows "binary_search_by f xs = (if 0 < p \<and> f (xs ! (p - 1)) = Equal then Ok (p - 1) else Err p)"
proof (cases "xs = []")
  case False
  have nth: "f (xs ! i) \<noteq> Greater \<longleftrightarrow> i < p" if "i < length xs" for i
    unfolding p_def by (rule sorted_by_nth [OF assms(1) that])
  have "p \<le> length xs" by (simp add: p_def)
  then have loop: "search_loop (\<lambda>i. f (xs ! i)) 0 (length xs) = p - 1"
    using nth False by (intro search_loop_last [where n = "length xs"]) auto
  have "f (xs ! (p - 1)) = Greater \<longleftrightarrow> p = 0" using nth [of "p - 1"] \<open>p \<le> length xs\<close> False by (cases p) auto
  then show ?thesis using False by (auto simp: binary_search_by_def loop Let_def split: Ordering.split)
qed (simp add: binary_search_by_def p_def)

lemma binary_search_by_absent:
  assumes "sorted_by f xs" and "\<And>x. x \<in> set xs \<Longrightarrow> f x \<noteq> Equal"
  shows "binary_search_by f xs = Err (length (filter (\<lambda>x. f x = Less) xs))"
proof -
  let ?p = "length (filter (\<lambda>x. f x \<noteq> Greater) xs)"
  have "f x \<noteq> Greater \<longleftrightarrow> f x = Less" if "x \<in> set xs" for x using assms(2) [OF that] by (cases "f x") simp_all
  then have less: "filter (\<lambda>x. f x \<noteq> Greater) xs = filter (\<lambda>x. f x = Less) xs" by (simp cong: filter_cong)
  have "?p \<le> length xs" by simp
  then have "f (xs ! (?p - 1)) \<noteq> Equal" if "0 < ?p"
    using that by (intro assms(2) nth_mem) (simp only: less_imp_diff_less diff_less zero_less_one order_less_le_trans)
  then show ?thesis unfolding binary_search_by_cases [OF assms(1)] less by auto
qed

lemma binary_search_by_present:
  assumes "sorted_by f xs" and "x \<in> set xs" and "f x = Equal"
  shows "\<exists>i. binary_search_by f xs = Ok i"
proof -
  let ?p = "length (filter (\<lambda>x. f x \<noteq> Greater) xs)"
  obtain j where j: "j < length xs" "f (xs ! j) = Equal" using assms(2,3) by (metis in_set_conv_nth)
  then have jp: "j < ?p" using sorted_by_nth [OF assms(1) j(1)] by simp
  then have "?p - 1 < length xs" using length_filter_le [of "\<lambda>x. f x \<noteq> Greater" xs] by linarith
  then have "f (xs ! (?p - 1)) \<noteq> Greater" using sorted_by_nth [OF assms(1), of "?p - 1"] jp by linarith
  moreover have "f (xs ! (?p - 1)) \<noteq> Less"
  proof (cases "j = ?p - 1")
    case False
    then have "j < ?p - 1" using jp by linarith
    from sorted_wrt_nth_less [OF assms(1) [unfolded sorted_by_def] this \<open>?p - 1 < length xs\<close>]
    show ?thesis using j(2) by auto
  qed (use j in simp)
  ultimately have "f (xs ! (?p - 1)) = Equal" by (cases "f (xs ! (?p - 1))") auto
  with jp show ?thesis unfolding binary_search_by_cases [OF assms(1)] by auto
qed

lemma search_loop_bound: "0 < len \<Longrightarrow> base \<le> search_loop f base len \<and> search_loop f base len < base + len"
proof (induction len arbitrary: base rule: less_induct)
  case (less len)
  show ?case
  proof (cases "1 < len")
    case True
    define half where "half = len div 2"
    have half: "0 < half" "half < len" using True by (auto simp: half_def)
    have "search_loop f base len = search_loop f (if f (base + half) = Greater then base else base + half) (len - half)"
      using True unfolding half_def by (subst search_loop.simps) (simp add: Let_def)
    then show ?thesis using less.IH [of "len - half" base] less.IH [of "len - half" "base + half"] half by auto
  next
    case False
    then show ?thesis using less.prems by (subst (1 2) search_loop.simps) auto
  qed
qed

text \<open>
  A vector that is not sorted by \<^verbatim>\<open>f\<close> but still begins with elements that compare less and ends with elements that
  compare greater: the search ends between the two parts.
\<close>

lemma search_loop_between:
  assumes "\<And>i. i < lo \<Longrightarrow> f i = Less" and "\<And>i. hi \<le> i \<Longrightarrow> i < n \<Longrightarrow> f i = Greater" and "lo \<le> hi"
    and "base + len \<le> n" and "0 < len" and "lo \<le> base + len" and "base = 0 \<or> base < hi"
  shows "search_loop f base len < n \<and> lo \<le> Suc (search_loop f base len) \<and>
    (search_loop f base len = 0 \<or> search_loop f base len < hi)"
  using assms(4-7)
proof (induction len arbitrary: base rule: less_induct)
  case (less len)
  show ?case
  proof (cases "1 < len")
    case True
    define half where "half = len div 2"
    have half: "0 < half" "half < len" "half \<le> len - half" using True by (auto simp: half_def)
    have loop: "search_loop f base len = search_loop f (if f (base + half) = Greater then base else base + half) (len - half)"
      using True unfolding half_def by (subst search_loop.simps) (simp add: Let_def)
    show ?thesis
    proof (cases "f (base + half) = Greater")
      case True
      then have "lo \<le> base + half" using assms(1) [of "base + half"] by (cases "base + half < lo") simp_all
      with True half less.prems show ?thesis unfolding loop by (simp add: less.IH)
    next
      case False
      then have "base + half < hi" using assms(2) [of "base + half"] half less.prems by (cases "hi \<le> base + half") simp_all
      with False half less.prems show ?thesis unfolding loop by (simp add: less.IH)
    qed
  next
    case False
    then show ?thesis using less.prems by (subst (1 2 3 4) search_loop.simps) auto
  qed
qed

lemma binary_search_by_between:
  assumes "\<And>i. i < lo \<Longrightarrow> f (xs ! i) = Less" and "\<And>i. hi \<le> i \<Longrightarrow> i < length xs \<Longrightarrow> f (xs ! i) = Greater"
    and "lo \<le> hi" and "hi \<le> length xs" and "binary_search_by f xs = Err p"
  shows "lo \<le> p" and "p \<le> hi"
proof -
  have "lo \<le> p \<and> p \<le> hi"
  proof (cases "xs = []")
    case False
    define b where "b = search_loop (\<lambda>i. f (xs ! i)) 0 (length xs)"
    have b: "b < length xs" "lo \<le> Suc b" "b = 0 \<or> b < hi"
      using search_loop_between [where f = "\<lambda>i. f (xs ! i)" and n = "length xs" and base = 0 and len = "length xs", OF assms(1,2,3)]
        assms(3,4) False by (auto simp: b_def)
    have bs: "binary_search_by f xs = (case f (xs ! b) of Equal \<Rightarrow> Ok b | Less \<Rightarrow> Err (b + 1) | Greater \<Rightarrow> Err b)"
      using False by (simp add: binary_search_by_def Let_def flip: b_def)
    show ?thesis
    proof (cases "f (xs ! b)")
      case Less
      then have "b < hi" using assms(2) [of b] b(1) by (cases "hi \<le> b") simp_all
      with Less b show ?thesis using assms(5) bs by simp
    next
      case Greater
      then have "lo \<le> b" using assms(1) [of b] by (cases "b < lo") simp_all
      with Greater b show ?thesis using assms(5) bs by auto
    qed (use assms(5) bs in simp)
  qed (use assms(3-5) in \<open>simp add: binary_search_by_def\<close>)
  then show "lo \<le> p" "p \<le> hi" by simp_all
qed

lemma binary_search_by_result:
  obtains (found) i where "binary_search_by f xs = Ok i" "i < length xs" "f (xs ! i) = Equal"
  | (place) p where "binary_search_by f xs = Err p"
proof (cases "xs = []")
  case False
  define b where "b = search_loop (\<lambda>i. f (xs ! i)) 0 (length xs)"
  have "b < length xs"
    using search_loop_bound [of "length xs" 0] False by (simp add: b_def)
  moreover have "binary_search_by f xs = (case f (xs ! b) of Equal \<Rightarrow> Ok b | Less \<Rightarrow> Err (b + 1) | Greater \<Rightarrow> Err b)"
    using False by (simp add: binary_search_by_def Let_def flip: b_def)
  ultimately show thesis using that by (cases "f (xs ! b)") auto
qed (use that in \<open>simp add: binary_search_by_def\<close>)

section \<open>Vectors in the order of a key\<close>

lemma sorted_key_nth:
  fixes k :: "'a \<Rightarrow> 'k::linorder"
  assumes "sorted (map k xs)" and "\<And>a b. a \<le> b \<Longrightarrow> P b \<Longrightarrow> P a" and "i < length xs"
  shows "P (k (xs ! i)) \<longleftrightarrow> i < length (filter (\<lambda>x. P (k x)) xs)"
  using assms(1,3)
proof (induction xs arbitrary: i)
  case (Cons x xs)
  show ?case
  proof (cases "P (k x)")
    case False
    then have "\<not> P (k y)" if "y \<in> set (x # xs)" for y using that Cons.prems(1) assms(2) [of "k x" "k y"] by auto
    then have "filter (\<lambda>x. P (k x)) (x # xs) = []" "\<not> P (k ((x # xs) ! i))"
      using nth_mem [OF Cons.prems(2)] unfolding filter_empty_conv by blast+
    then show ?thesis by (simp del: filter.simps)
  qed (use Cons in \<open>cases i; simp\<close>)
qed simp

lemma sorted_key_place:
  fixes k :: "'a \<Rightarrow> 'k::linorder"
  assumes "sorted (map k xs)" and "i < length xs"
  shows "k (xs ! i) < v \<longleftrightarrow> i < length (filter (\<lambda>x. k x < v) xs)" and "k (xs ! i) \<le> v \<longleftrightarrow> i < length (filter (\<lambda>x. k x \<le> v) xs)"
  by (rule sorted_key_nth [OF assms(1) _ assms(2)], erule (1) le_less_trans)
     (rule sorted_key_nth [OF assms(1) _ assms(2)], erule (1) order_trans)

lemma insert_at_sorted_key:
  fixes k :: "'a \<Rightarrow> 'k::linorder"
  assumes "sorted (map k xs)" and "length (filter (\<lambda>e. k e < k x) xs) \<le> p" and "p \<le> length (filter (\<lambda>e. k e \<le> k x) xs)"
  shows "sorted (map k (insert_at p x xs))"
proof -
  have len: "p \<le> length xs" using assms(3) length_filter_le order_trans by blast
  have before: "k y \<le> k x" if y: "y \<in> set (take p xs)" for y
  proof -
    obtain i where "i < p" "y = xs ! i" using y len by (auto simp: in_set_conv_nth)
    then show ?thesis using sorted_key_place(2) [OF assms(1), of i "k x"] assms(3) len by auto
  qed
  have after: "k x \<le> k y" if y: "y \<in> set (drop p xs)" for y
  proof -
    obtain i where "p \<le> i" "i < length xs" "y = xs ! i"
      using y by (auto simp: in_set_conv_nth) (metis le_add1 less_diff_conv add.commute)
    then show ?thesis using sorted_key_place(1) [OF assms(1), of i "k x"] assms(2) by auto
  qed
  have "k y \<le> k z" if "y \<in> set (take p xs)" "z \<in> set (drop p xs)" for y z
    using before [OF that(1)] after [OF that(2)] by (rule order_trans)
  moreover have "sorted (map k (take p xs))" "sorted (map k (drop p xs))"
    using assms(1) by (simp_all add: sorted_wrt_take sorted_wrt_drop flip: take_map drop_map)
  ultimately show ?thesis using before after by (auto simp: insert_at_def sorted_append)
qed

section \<open>Comparators\<close>

text \<open>The reference for a sorted insertion: what compares less stays before the element.\<close>

definition place_sorted :: "('a \<Rightarrow> Ordering) \<Rightarrow> 'a \<Rightarrow> 'a list \<Rightarrow> 'a list" where
  "place_sorted f x xs = filter (\<lambda>p. f p = Less) xs @ x # filter (\<lambda>p. f p \<noteq> Less) xs"

lemma sorted_by_split:
  assumes "sorted_by f xs"
  shows "take (length (filter (\<lambda>p. f p = Less) xs)) xs = filter (\<lambda>p. f p = Less) xs"
    and "drop (length (filter (\<lambda>p. f p = Less) xs)) xs = filter (\<lambda>p. f p \<noteq> Less) xs"
  using assms
proof (induction xs)
  case (Cons x xs)
  {
    case 1
    then show ?case
    proof (cases "f x = Less")
      case False
      then have "filter (\<lambda>p. f p = Less) xs = []" using 1 by (auto simp: sorted_by_Cons filter_empty_conv)
      with False show ?thesis by simp
    qed (use Cons.IH(1) in \<open>simp add: sorted_by_Cons\<close>)
  next
    case 2
    then show ?case
    proof (cases "f x = Less")
      case False
      then have no: "\<And>y. y \<in> set xs \<Longrightarrow> f y \<noteq> Less" using 2 by (auto simp: sorted_by_Cons)
      then have "filter (\<lambda>p. f p = Less) xs = []" "filter (\<lambda>p. f p \<noteq> Less) xs = xs" by (auto simp: filter_empty_conv)
      with False show ?thesis by simp
    qed (use Cons.IH(2) in \<open>simp add: sorted_by_Cons\<close>)
  }
qed simp_all

lemma insert_at_place:
  assumes "sorted_by f xs"
  shows "insert_at (length (filter (\<lambda>p. f p = Less) xs)) x xs = place_sorted f x xs"
  by (simp add: insert_at_def place_sorted_def sorted_by_split [OF assms])

locale total_comparator =
  fixes cmp :: "'a \<Rightarrow> 'a \<Rightarrow> Ordering"
  assumes cmp_reverse: "cmp y x = ord_reverse (cmp x y)"
    and cmp_trans: "cmp x y \<noteq> Greater \<Longrightarrow> cmp y z \<noteq> Greater \<Longrightarrow> cmp x z \<noteq> Greater"
begin

lemma cmp_refl: "cmp x x = Equal"
  by (metis Ordering.distinct(1) Ordering.distinct(3) Ordering.exhaust cmp_reverse ord_reverse.simps(1,3))

lemma cmp_Greater: "cmp x y = Greater \<longleftrightarrow> cmp y x = Less"
  by (simp add: cmp_reverse [of x y])

lemma less_le_trans: "cmp x y = Less \<Longrightarrow> cmp y z \<noteq> Greater \<Longrightarrow> cmp x z = Less"
  using cmp_trans [of x y z] cmp_trans [of y z x] cmp_reverse [of z x] cmp_reverse [of y x]
  by (cases "cmp x z") auto

lemma le_less_trans: "cmp x y \<noteq> Greater \<Longrightarrow> cmp y z = Less \<Longrightarrow> cmp x z = Less"
  using cmp_trans [of x y z] cmp_trans [of z x y] cmp_reverse [of z x] cmp_reverse [of z y]
  by (cases "cmp x z") auto

definition ranked :: "'a list \<Rightarrow> bool" where
  "ranked xs \<longleftrightarrow> sorted_wrt (\<lambda>x y. cmp x y = Less) xs"

lemma ranked_sorted_by: "ranked xs \<Longrightarrow> sorted_by (\<lambda>p. cmp p x) xs"
  unfolding ranked_def sorted_by_def
proof (erule sorted_wrt_mono_rel [rotated])
  fix p q
  assume "cmp p q = Less"
  then show "(cmp p x = Greater \<longrightarrow> cmp q x = Greater) \<and> (cmp q x = Less \<longrightarrow> cmp p x = Less)"
    using less_le_trans [of x p q] less_le_trans [of p q x] cmp_Greater [of p x] cmp_Greater [of q x] by auto
qed

lemma place_ranked:
  assumes "ranked xs" and "\<And>p. p \<in> set xs \<Longrightarrow> cmp p x \<noteq> Equal"
  shows "ranked (place_sorted (\<lambda>p. cmp p x) x xs)"
proof -
  have after: "cmp x p = Less" if "p \<in> set xs" "cmp p x \<noteq> Less" for p
    using assms(2) [OF that(1)] that(2) cmp_reverse [of x p] by (cases "cmp p x") simp_all
  have across: "cmp p q = Less" if "cmp p x = Less" "q \<in> set xs" "cmp q x \<noteq> Less" for p q
    using less_le_trans [of p x q] after [OF that(2,3)] that(1) by simp
  show ?thesis
    using assms(1) by (simp add: ranked_def place_sorted_def sorted_wrt_append sorted_wrt_filter after across)
qed

lemma binary_search_ranked:
  assumes "ranked xs" and "\<And>p. p \<in> set xs \<Longrightarrow> cmp p x \<noteq> Equal"
  shows "binary_search_by (\<lambda>p. cmp p x) xs = Err (length (filter (\<lambda>p. cmp p x = Less) xs))"
  using assms by (intro binary_search_by_absent ranked_sorted_by)

end

end
