(* ===== verification/Score_Cache.thy ===== *)
theory Score_Cache
  imports Ordering Client_Types
begin

text \<open>
  The cache of the score boards, \<^verbatim>\<open>server/score_cache.rs\<close>: one table per board with the scores in rank
  order, an index from player and character to rank, and the names of the ranked players.  The
  board and score records are those of \<^verbatim>\<open>server/database/db_score.rs\<close>.
\<close>

section \<open>Data\<close>

record DbBoardInfo =
  bi_rank_limit :: u32
  bi_update_mode :: u32
  bi_sort_mode :: u32
  bi_upload_num_limit :: u32
  bi_upload_size_limit :: u32

definition DbBoardInfo_default :: DbBoardInfo where
  "DbBoardInfo_default = \<lparr> bi_rank_limit = 500, bi_update_mode = 0, bi_sort_mode = 0, bi_upload_num_limit = 60,
     bi_upload_size_limit = 50000000 \<rparr>"

record DbScoreInfo =
  sc_user_id :: i64
  sc_character_id :: i32
  sc_score :: i64
  sc_comment :: "string option"
  sc_game_info :: "bytes option"
  sc_data_id :: "u64 option"
  sc_timestamp :: u64

type_synonym npid_lookup = "i64 \<rightharpoonup> (i32 \<rightharpoonup> usize)"

record ScoreTableCache =
  st_sorted_scores :: "DbScoreInfo list"
  st_npid_lookup :: npid_lookup
  st_table_info :: DbBoardInfo
  st_last_insert :: u64

record ScoreUserCache =
  su_npid :: string
  su_online_name :: string

type_synonym TableDescription = "string \<times> u32"

record ScoresCache =
  ca_tables :: "TableDescription \<rightharpoonup> ScoreTableCache"
  ca_users :: "i64 \<rightharpoonup> ScoreUserCache"

record ScoreRankDataCache =
  rd_npid :: string
  rd_online_name :: string
  rd_pcid :: i32
  rd_rank :: u32
  rd_score :: i64
  rd_has_gamedata :: bool
  rd_timestamp :: u64

definition ScoreRankDataCache_default :: ScoreRankDataCache where
  "ScoreRankDataCache_default = \<lparr> rd_npid = [], rd_online_name = [], rd_pcid = 0, rd_rank = 0, rd_score = 0,
     rd_has_gamedata = False, rd_timestamp = 0 \<rparr>"

record GetScoreResultCache =
  gs_scores :: "ScoreRankDataCache list"
  gs_comments :: "string list option"
  gs_infos :: "bytes list option"
  gs_timestamp :: u64
  gs_total_records :: u32

section \<open>The order of the scores\<close>

definition score_cmp :: "u32 \<Rightarrow> DbScoreInfo \<Rightarrow> DbScoreInfo \<Rightarrow> Ordering" where
  "score_cmp sort_mode a b =
    (let ret_value = (if sort_mode = 0 then Less else Greater) in
     case ord_cmp (sc_score a) (sc_score b) of
       Greater \<Rightarrow> ret_value
     | Less \<Rightarrow> ord_reverse ret_value
     | Equal \<Rightarrow> (case ord_cmp (sc_timestamp a) (sc_timestamp b) of
                  Less \<Rightarrow> Less
                | Greater \<Rightarrow> Greater
                | Equal \<Rightarrow> ord_cmp (sc_user_id b) (sc_user_id a)))"

section \<open>Tables\<close>

definition ScoreTableCache_from_db :: "DbBoardInfo \<Rightarrow> ScoreTableCache" where
  "ScoreTableCache_from_db db_info =
    \<lparr> st_sorted_scores = [], st_npid_lookup = Map.empty, st_table_info = db_info, st_last_insert = 0 \<rparr>"

definition ScoresCache_new :: ScoresCache where
  "ScoresCache_new = \<lparr> ca_tables = Map.empty, ca_users = Map.empty \<rparr>"

definition get_table :: "ScoresCache \<Rightarrow> ComId \<Rightarrow> u32 \<Rightarrow> ScoreTableCache option" where
  "get_table cache com_id board_id = ca_tables cache (com_id_to_string com_id, board_id)"

definition get_table_or_insert ::
    "ScoresCache \<Rightarrow> ComId \<Rightarrow> u32 \<Rightarrow> DbBoardInfo \<Rightarrow> ScoreTableCache \<times> ScoresCache" where
  "get_table_or_insert cache com_id board_id db_info =
    (let table_desc = (com_id_to_string com_id, board_id) in
     case ca_tables cache table_desc of
       Some table \<Rightarrow> (table, cache)
     | None \<Rightarrow>
         let table = ScoreTableCache_from_db db_info
         in (table, cache\<lparr> ca_tables := (ca_tables cache)(table_desc \<mapsto> table) \<rparr>))"

definition put_table :: "ScoresCache \<Rightarrow> ComId \<Rightarrow> u32 \<Rightarrow> ScoreTableCache \<Rightarrow> ScoresCache" where
  "put_table cache com_id board_id table =
    cache\<lparr> ca_tables := (ca_tables cache)((com_id_to_string com_id, board_id) \<mapsto> table) \<rparr>"

definition add_user :: "ScoresCache \<Rightarrow> i64 \<Rightarrow> string \<Rightarrow> string \<Rightarrow> ScoresCache" where
  "add_user cache user_id npid online_name =
    (if ca_users cache user_id \<noteq> None then cache
     else cache\<lparr> ca_users := (ca_users cache)(user_id \<mapsto> \<lparr> su_npid = npid, su_online_name = online_name \<rparr>) \<rparr>)"

text \<open>\<^verbatim>\<open>npid_lookup[&user][&character]\<close>, a write to it and the removal of a character.\<close>

definition lookup_rank :: "npid_lookup \<Rightarrow> i64 \<Rightarrow> i32 \<Rightarrow> usize option" where
  "lookup_rank m user_id character_id = Option.bind (m user_id) (\<lambda>chars. chars character_id)"

definition lookup_insert :: "i64 \<Rightarrow> i32 \<Rightarrow> usize \<Rightarrow> npid_lookup \<Rightarrow> npid_lookup" where
  "lookup_insert user_id character_id i m =
    m(user_id \<mapsto> (case m user_id of Some chars \<Rightarrow> chars | None \<Rightarrow> Map.empty)(character_id \<mapsto> i))"

definition lookup_set :: "DbScoreInfo \<Rightarrow> usize \<Rightarrow> npid_lookup \<Rightarrow> unit result \<times> npid_lookup" where
  "lookup_set s i m =
    (case m (sc_user_id s) of
       None \<Rightarrow> (Panic, m)
     | Some chars \<Rightarrow>
         if chars (sc_character_id s) = None then (Panic, m)
         else (Ok (), m(sc_user_id s \<mapsto> chars(sc_character_id s \<mapsto> i))))"

section \<open>Recording a score\<close>

text \<open>
  \<^verbatim>\<open>insert_score\<close> step by step.  First the old score of the player is taken out of the table and the
  insertion time is set.
\<close>

definition take_out :: "u64 \<Rightarrow> DbScoreInfo \<Rightarrow> ScoreTableCache \<Rightarrow> usize option result \<times> ScoreTableCache" where
  "take_out now score table =
    (case lookup_rank (st_npid_lookup table) (sc_user_id score) (sc_character_id score) of
       None \<Rightarrow> (Ok None, table\<lparr> st_last_insert := now \<rparr>)
     | Some pos \<Rightarrow>
         if pos < length (st_sorted_scores table)
         then (Ok (Some pos), table\<lparr> st_sorted_scores := remove_at pos (st_sorted_scores table), st_last_insert := now \<rparr>)
         else (Panic, table))"

text \<open>The new score is entered if there is room for it or it is better than the last one.\<close>

definition is_ranked :: "DbScoreInfo \<Rightarrow> ScoreTableCache \<Rightarrow> bool result" where
  "is_ranked score table =
    (let scores = st_sorted_scores table; info = st_table_info table in
     if length scores < unat (bi_rank_limit info) then Ok True
     else if scores = [] then Panic
     else Ok (score_cmp (bi_sort_mode info) score (last scores) = Less))"

definition enter_score :: "DbScoreInfo \<Rightarrow> ScoreTableCache \<Rightarrow> usize result \<times> ScoreTableCache" where
  "enter_score score table =
    (case binary_search_by (\<lambda>probe. score_cmp (bi_sort_mode (st_table_info table)) probe score) (st_sorted_scores table) of
       Err insert_pos \<Rightarrow>
         (Ok insert_pos, table\<lparr> st_sorted_scores := insert_at insert_pos score (st_sorted_scores table),
           st_npid_lookup := lookup_insert (sc_user_id score) (sc_character_id score) insert_pos (st_npid_lookup table) \<rparr>)
     | _ \<Rightarrow> (Panic, table))"

text \<open>Then the ranks behind it are written again, and the last score is dropped if there is one too many.\<close>

definition reindex :: "usize option \<Rightarrow> usize \<Rightarrow> ScoreTableCache \<Rightarrow> unit result \<times> ScoreTableCache" where
  "reindex initial_pos insert_pos table =
    (let scores = st_sorted_scores table;
         reorder_start = (case initial_pos of Some pos \<Rightarrow> min pos (insert_pos + 1) | None \<Rightarrow> insert_pos + 1)
     in case fold_st (\<lambda>i. lookup_set (scores ! i) i) [reorder_start..<length scores] (st_npid_lookup table) of
          (r, m) \<Rightarrow> (r, table\<lparr> st_npid_lookup := m \<rparr>))"

definition trim_table :: "ScoreTableCache \<Rightarrow> unit result \<times> ScoreTableCache" where
  "trim_table table =
    (let scores = st_sorted_scores table in
     if length scores > unat (bi_rank_limit (st_table_info table)) then
       let user_id = sc_user_id (last scores); char_id = sc_character_id (last scores);
           table1 = table\<lparr> st_sorted_scores := remove_at (length scores - 1) scores \<rparr>
       in case st_npid_lookup table user_id of
            None \<Rightarrow> (Panic, table1)
          | Some chars \<Rightarrow>
              (Ok (), table1\<lparr> st_npid_lookup := (st_npid_lookup table)(user_id \<mapsto> chars(char_id := None)) \<rparr>)
     else (Ok (), table))"

definition insert_score ::
    "u64 \<Rightarrow> ScoresCache \<Rightarrow> DbBoardInfo \<Rightarrow> ComId \<Rightarrow> u32 \<Rightarrow> DbScoreInfo \<Rightarrow> string \<Rightarrow> string \<Rightarrow> u32 result \<times> ScoresCache" where
  "insert_score now cache db_info com_id board_id score npid online_name =
    (let (table, cache1) = get_table_or_insert cache com_id board_id db_info in
     bind_st (take_out now score table) (\<lambda>initial_pos table1.
     bind_st (is_ranked score table1, table1) (\<lambda>ranked table1.
       if ranked then
         bind_st (enter_score score table1) (\<lambda>insert_pos table2.
           let cache2 = add_user cache1 (sc_user_id score) npid online_name in
           bind_st (then_st (reindex initial_pos insert_pos table2) (\<lambda>_. trim_table)) (\<lambda>_ table3.
             (Ok (of_nat (insert_pos + 1)), put_table cache2 com_id board_id table3))
           (put_table cache2 com_id board_id))
         (put_table cache1 com_id board_id)
       else (Ok (bi_rank_limit (st_table_info table1) + 1), put_table cache1 com_id board_id table1))
     (put_table cache1 com_id board_id))
     (put_table cache1 com_id board_id))"

section \<open>Reading\<close>

definition rank_data :: "ScoresCache \<Rightarrow> DbScoreInfo \<Rightarrow> usize \<Rightarrow> ScoreRankDataCache result" where
  "rank_data cache cur_score index =
    bind_res (unwrap (ca_users cache (sc_user_id cur_score))) (\<lambda>cur_user.
      Ok \<lparr> rd_npid = su_npid cur_user, rd_online_name = su_online_name cur_user, rd_pcid = sc_character_id cur_score,
           rd_rank = of_nat index, rd_score = sc_score cur_score, rd_has_gamedata = sc_data_id cur_score \<noteq> None,
           rd_timestamp = sc_timestamp cur_score \<rparr>)"

definition get_score_range ::
    "ScoresCache \<Rightarrow> ComId \<Rightarrow> u32 \<Rightarrow> u32 \<Rightarrow> u32 \<Rightarrow> bool \<Rightarrow> bool \<Rightarrow> GetScoreResultCache result \<times> ScoresCache" where
  "get_score_range cache com_id board_id start_rank num_ranks with_comment with_gameinfo =
    (let (table, cache1) = get_table_or_insert cache com_id board_id DbBoardInfo_default;
         scores = st_sorted_scores table;
         start_index = unat (start_rank - 1);
         end_index = min (start_index + unat num_ranks) (length scores);
         cur_scores = map (\<lambda>i. scores ! i) [start_index..<end_index]
     in (bind_res (traverse (\<lambda>i. rank_data cache1 (scores ! i) i) [start_index..<end_index]) (\<lambda>vec_scores.
           Ok \<lparr> gs_scores = vec_scores,
                gs_comments = (if with_comment then Some (map (\<lambda>s. case_option [] id (sc_comment s)) cur_scores) else None),
                gs_infos = (if with_gameinfo then Some (map (\<lambda>s. case_option [] id (sc_game_info s)) cur_scores) else None),
                gs_timestamp = st_last_insert table, gs_total_records = of_nat (length scores) \<rparr>), cache1))"

text \<open>The entry for one player of \<^verbatim>\<open>get_score_ids\<close>: score, comment and game information.\<close>

definition score_of_id ::
    "ScoresCache \<Rightarrow> ScoreTableCache \<Rightarrow> i64 \<times> i32 \<Rightarrow> (ScoreRankDataCache \<times> string \<times> bytes) result" where
  "score_of_id cache table npid =
    (case lookup_rank (st_npid_lookup table) (fst npid) (snd npid) of
       None \<Rightarrow> Ok (ScoreRankDataCache_default, [], [])
     | Some index \<Rightarrow>
         bind_res (unwrap (ca_users cache (fst npid))) (\<lambda>cur_user.
         bind_res (index_res (st_sorted_scores table) index) (\<lambda>cur_score.
           Ok (\<lparr> rd_npid = su_npid cur_user, rd_online_name = su_online_name cur_user,
                 rd_pcid = sc_character_id cur_score, rd_rank = of_nat index, rd_score = sc_score cur_score,
                 rd_has_gamedata = sc_data_id cur_score \<noteq> None, rd_timestamp = sc_timestamp cur_score \<rparr>,
               case_option [] id (sc_comment cur_score), case_option [] id (sc_game_info cur_score)))))"

definition get_score_ids ::
    "ScoresCache \<Rightarrow> ComId \<Rightarrow> u32 \<Rightarrow> (i64 \<times> i32) list \<Rightarrow> bool \<Rightarrow> bool \<Rightarrow> GetScoreResultCache result \<times> ScoresCache" where
  "get_score_ids cache com_id board_id npids with_comment with_gameinfo =
    (let (table, cache1) = get_table_or_insert cache com_id board_id DbBoardInfo_default
     in (bind_res (traverse (score_of_id cache1 table) npids) (\<lambda>entries.
           Ok \<lparr> gs_scores = map fst entries,
                gs_comments = (if with_comment then Some (map (fst \<circ> snd) entries) else None),
                gs_infos = (if with_gameinfo then Some (map (snd \<circ> snd) entries) else None),
                gs_timestamp = st_last_insert table,
                gs_total_records = of_nat (length (st_sorted_scores table)) \<rparr>), cache1))"

section \<open>Game data of a score\<close>

definition contains_score_with_no_data ::
    "ScoresCache \<Rightarrow> ComId \<Rightarrow> i64 \<Rightarrow> i32 \<Rightarrow> u32 \<Rightarrow> i64 \<Rightarrow> unit result \<times> ScoresCache" where
  "contains_score_with_no_data cache com_id user_id character_id board_id score =
    (let (table, cache1) = get_table_or_insert cache com_id board_id DbBoardInfo_default
     in (case lookup_rank (st_npid_lookup table) user_id character_id of
           None \<Rightarrow> Err NotFound
         | Some rank \<Rightarrow>
             bind_res (index_res (st_sorted_scores table) rank) (\<lambda>the_score.
               if sc_score the_score \<noteq> score then Err ScoreInvalid
               else if sc_data_id the_score \<noteq> None then Err ScoreHasData
               else Ok ()), cache1))"

definition set_game_data :: "ScoresCache \<Rightarrow> ComId \<Rightarrow> i64 \<Rightarrow> i32 \<Rightarrow> u32 \<Rightarrow> u64 \<Rightarrow> unit result \<times> ScoresCache" where
  "set_game_data cache com_id user_id character_id board_id data_id =
    (let (table, cache1) = get_table_or_insert cache com_id board_id DbBoardInfo_default
     in case lookup_rank (st_npid_lookup table) user_id character_id of
          None \<Rightarrow> (Err NotFound, cache1)
        | Some rank \<Rightarrow>
            if rank < length (st_sorted_scores table) then
              (Ok (), put_table cache1 com_id board_id
                 (table\<lparr> st_sorted_scores := (st_sorted_scores table)
                    [rank := (st_sorted_scores table ! rank)\<lparr> sc_data_id := Some data_id \<rparr>] \<rparr>))
            else (Panic, cache1))"

definition get_game_data_id :: "ScoresCache \<Rightarrow> ComId \<Rightarrow> i64 \<Rightarrow> i32 \<Rightarrow> u32 \<Rightarrow> u64 result \<times> ScoresCache" where
  "get_game_data_id cache com_id user_id character_id board_id =
    (let (table, cache1) = get_table_or_insert cache com_id board_id DbBoardInfo_default
     in (case lookup_rank (st_npid_lookup table) user_id character_id of
           None \<Rightarrow> Err NotFound
         | Some rank \<Rightarrow>
             bind_res (index_res (st_sorted_scores table) rank) (\<lambda>the_score. ok_or NotFound (sc_data_id the_score)), cache1))"

section \<open>Filling the cache at start\<close>

text \<open>The index \<^verbatim>\<open>initialize_score\<close> builds over the scores of a board read from the database.\<close>

definition build_lookup :: "DbScoreInfo list \<Rightarrow> npid_lookup" where
  "build_lookup sorted_scores =
    fold (\<lambda>(index, score). lookup_insert (sc_user_id score) (sc_character_id score) index)
      (enumerate 0 sorted_scores) Map.empty"

definition load_table :: "u64 \<Rightarrow> DbBoardInfo \<Rightarrow> DbScoreInfo list \<Rightarrow> ScoreTableCache" where
  "load_table now table_info sorted_scores =
    \<lparr> st_sorted_scores = sorted_scores, st_npid_lookup = build_lookup sorted_scores, st_table_info = table_info,
      st_last_insert = now \<rparr>"

definition load_user :: "i64 \<times> string \<times> string \<Rightarrow> ScoresCache \<Rightarrow> ScoresCache" where
  "load_user u cache = cache\<lparr> ca_users := (ca_users cache)(fst u \<mapsto> \<lparr> su_npid = fst (snd u), su_online_name = snd (snd u) \<rparr>) \<rparr>"

text \<open>
  \<^verbatim>\<open>initialize_score\<close> once the database has answered: the boards with their scores, and the names of
  the players listed there.
\<close>

definition initialize_score ::
    "u64 \<Rightarrow> (TableDescription \<times> DbBoardInfo \<times> DbScoreInfo list) list \<Rightarrow> (i64 \<times> string \<times> string) list \<Rightarrow> ScoresCache" where
  "initialize_score now tables vec_userinfo =
    fold load_user vec_userinfo
      (fold (\<lambda>(desc, info, scores) cache. cache\<lparr> ca_tables := (ca_tables cache)(desc \<mapsto> load_table now info scores) \<rparr>)
        tables ScoresCache_new)"

end
