(* ===== verification/Score_Inv.thy ===== *)
theory Score_Inv
  imports Score_Cache "HOL-Library.Product_Lexorder"
begin

text \<open>
  The invariant of a score table and what recording a score does to it.  A table is ordered by value and
  time, its index gives every listed player and character their rank and nothing else, and it is never
  longer than the board allows.  Scores of one value and one time may stand in any order: the cache orders
  them by descending user, the query that loads them at the start by ascending user.  Recording a score
  amounts to taking the old score of the player out, placing the new one by rank and cutting the list at its
  limit.
\<close>

section \<open>The order is a comparator\<close>

lemma score_cmp_not_Greater:
  "score_cmp m x y \<noteq> Greater \<longleftrightarrow>
    (if m = 0 then sc_score y < sc_score x else sc_score x < sc_score y) \<or>
    sc_score x = sc_score y \<and>
      (sc_timestamp x < sc_timestamp y \<or> sc_timestamp x = sc_timestamp y \<and> sc_user_id y \<le> sc_user_id x)"
  by (simp add: score_cmp_def ord_cmp_def)

interpretation score_order: total_comparator "score_cmp m" for m
proof unfold_locales
  fix x y z :: DbScoreInfo
  show "score_cmp m y x = ord_reverse (score_cmp m x y)"
    by (simp add: score_cmp_def ord_cmp_def) (meson order_less_asym)
  show "score_cmp m x y \<noteq> Greater \<Longrightarrow> score_cmp m y z \<noteq> Greater \<Longrightarrow> score_cmp m x z \<noteq> Greater"
    unfolding score_cmp_not_Greater by (cases "m = 0") auto
qed

text \<open>Value and time of a score, the better one first: the order without its last criterion, the user.\<close>

definition standing :: "u32 \<Rightarrow> DbScoreInfo \<Rightarrow> int \<times> int" where
  "standing m s = (if m = 0 then - sc_score s else sc_score s, uint (sc_timestamp s))"

lemma score_cmp_standing:
  "score_cmp m x y = Less \<Longrightarrow> standing m x \<le> standing m y"
  "score_cmp m x y = Greater \<Longrightarrow> standing m y \<le> standing m x"
  "standing m x < standing m y \<Longrightarrow> score_cmp m x y = Less"
  "standing m y < standing m x \<Longrightarrow> score_cmp m x y = Greater"
  "score_cmp m x y = Equal \<longleftrightarrow> standing m x = standing m y \<and> sc_user_id x = sc_user_id y"
  by (auto simp: score_cmp_def standing_def ord_cmp_def word_less_def word_uint_eq_iff split: if_splits)

lemma ranked_sorted_standing: "score_order.ranked m xs \<Longrightarrow> sorted (map (standing m) xs)"
  unfolding score_order.ranked_def sorted_map by (erule sorted_wrt_mono_rel [rotated]) (rule score_cmp_standing(1))

section \<open>The index\<close>

definition score_key :: "DbScoreInfo \<Rightarrow> i64 \<times> i32" where
  "score_key s = (sc_user_id s, sc_character_id s)"

abbreviation rank_of :: "npid_lookup \<Rightarrow> i64 \<times> i32 \<Rightarrow> usize option" where
  "rank_of m k \<equiv> lookup_rank m (fst k) (snd k)"

definition index_ok :: "DbScoreInfo list \<Rightarrow> npid_lookup \<Rightarrow> bool" where
  "index_ok scores m \<longleftrightarrow> (\<forall>k i. rank_of m k = Some i \<longleftrightarrow> i < length scores \<and> score_key (scores ! i) = k)"

lemma index_okD: "index_ok scores m \<Longrightarrow> rank_of m k = Some i \<longleftrightarrow> i < length scores \<and> score_key (scores ! i) = k"
  by (simp add: index_ok_def)

lemma index_ok_distinct: "index_ok scores m \<Longrightarrow> distinct (map score_key scores)"
  unfolding distinct_conv_nth
proof (intro allI impI)
  fix i j
  assume ok: "index_ok scores m" and ij: "i < length (map score_key scores)" "j < length (map score_key scores)" "i \<noteq> j"
  show "map score_key scores ! i \<noteq> map score_key scores ! j"
  proof
    assume eq: "map score_key scores ! i = map score_key scores ! j"
    have "rank_of m (score_key (scores ! i)) = Some i" "rank_of m (score_key (scores ! i)) = Some j"
      using ij eq by (simp_all only: index_okD [OF ok] length_map nth_map)
    with ij(3) show False by simp
  qed
qed

lemma index_ok_None: "index_ok scores m \<Longrightarrow> rank_of m k = None \<longleftrightarrow> k \<notin> score_key ` set scores"
proof
  assume ok: "index_ok scores m" and none: "rank_of m k = None"
  show "k \<notin> score_key ` set scores"
  proof
    assume "k \<in> score_key ` set scores"
    then obtain i where "i < length scores" "score_key (scores ! i) = k" by (auto simp: in_set_conv_nth)
    then have "rank_of m k = Some i" using index_okD [OF ok] by blast
    with none show False by simp
  qed
next
  assume ok: "index_ok scores m" and k: "k \<notin> score_key ` set scores"
  show "rank_of m k = None"
  proof (cases "rank_of m k")
    case (Some i)
    then have "i < length scores" "score_key (scores ! i) = k" using index_okD [OF ok] by blast+
    with k show ?thesis by auto
  qed
qed

lemma rank_of_lookup_insert [simp]:
  "rank_of (lookup_insert u c i m) k = (if k = (u, c) then Some i else rank_of m k)"
  by (cases k) (simp add: lookup_rank_def lookup_insert_def split: option.split)

lemma lookup_set_ok:
  assumes "rank_of m (score_key s) \<noteq> None"
  obtains m' where "lookup_set s i m = (Ok (), m')"
    "\<And>k. rank_of m' k = (if k = score_key s then Some i else rank_of m k)"
proof -
  obtain chars j where c: "m (sc_user_id s) = Some chars" "chars (sc_character_id s) = Some j"
    using assms by (auto simp: lookup_rank_def score_key_def bind_eq_None_conv)
  let ?m = "m(sc_user_id s \<mapsto> chars(sc_character_id s \<mapsto> i))"
  have "lookup_set s i m = (Ok (), ?m)" by (simp add: lookup_set_def c)
  moreover have "rank_of ?m k = (if k = score_key s then Some i else rank_of m k)" for k
    by (cases k) (simp add: lookup_rank_def score_key_def c)
  ultimately show thesis by (rule that)
qed

lemma reindex_loop:
  assumes "\<And>i. i \<in> set is \<Longrightarrow> rank_of m (score_key (scores ! i)) \<noteq> None"
    and "inj_on (\<lambda>i. score_key (scores ! i)) (set is)" and "distinct is"
  shows "\<exists>m'. fold_st (\<lambda>i. lookup_set (scores ! i) i) is m = (Ok (), m') \<and>
    (\<forall>i \<in> set is. rank_of m' (score_key (scores ! i)) = Some i) \<and>
    (\<forall>k. k \<notin> (\<lambda>i. score_key (scores ! i)) ` set is \<longrightarrow> rank_of m' k = rank_of m k)"
  using assms
proof (induction "is" arbitrary: m)
  case (Cons i "is")
  obtain m1 where m1: "lookup_set (scores ! i) i m = (Ok (), m1)"
    "\<And>k. rank_of m1 k = (if k = score_key (scores ! i) then Some i else rank_of m k)"
    by (rule lookup_set_ok [OF Cons.prems(1) [OF list.set_intros(1)], of i]) (rule that)
  have "rank_of m1 (score_key (scores ! j)) \<noteq> None" if "j \<in> set is" for j
    using Cons.prems(1) [of j] that by (simp add: m1(2))
  moreover have "inj_on (\<lambda>i. score_key (scores ! i)) (set is)" "distinct is" using Cons.prems(2,3) by simp_all
  ultimately obtain m' where m': "fold_st (\<lambda>i. lookup_set (scores ! i) i) is m1 = (Ok (), m')"
    "\<forall>j \<in> set is. rank_of m' (score_key (scores ! j)) = Some j"
    "\<forall>k. k \<notin> (\<lambda>i. score_key (scores ! i)) ` set is \<longrightarrow> rank_of m' k = rank_of m1 k"
    using Cons.IH [of m1] by blast
  have fresh: "score_key (scores ! i) \<notin> (\<lambda>i. score_key (scores ! i)) ` set is"
    using Cons.prems(2,3) by (simp add: image_iff)
  have "rank_of m' k = rank_of m k" if "k \<notin> (\<lambda>i. score_key (scores ! i)) ` set (i # is)" for k
    using m'(3) that by (simp add: m1(2))
  moreover have "rank_of m' (score_key (scores ! j)) = Some j" if "j \<in> set (i # is)" for j
    using that m'(2,3) fresh by (cases "j = i") (simp_all add: m1(2))
  ultimately show ?case using m'(1) by (intro exI [of _ m']) (simp add: m1(1))
qed simp

section \<open>Entering a score\<close>

text \<open>
  The table between the steps: \<^verbatim>\<open>S\<close> the scores before, \<^verbatim>\<open>S1\<close> without the old score of the player, \<^verbatim>\<open>p\<close> the
  position the new score gets.
\<close>

definition without_key :: "DbScoreInfo \<Rightarrow> DbScoreInfo list \<Rightarrow> DbScoreInfo list" where
  "without_key s scores = filter (\<lambda>e. score_key e \<noteq> score_key s) scores"

lemma take_out_ok:
  assumes "index_ok (st_sorted_scores t) (st_npid_lookup t)"
  shows "take_out now s t =
    (Ok (rank_of (st_npid_lookup t) (score_key s)),
     t\<lparr> st_sorted_scores := without_key s (st_sorted_scores t), st_last_insert := now \<rparr>)"
proof (cases "rank_of (st_npid_lookup t) (score_key s)")
  case None
  then have "without_key s (st_sorted_scores t) = st_sorted_scores t"
    using index_ok_None [OF assms] by (auto simp: without_key_def image_iff intro!: filter_True)
  with None show ?thesis by (simp add: take_out_def score_key_def)
next
  case (Some pos)
  then have pos: "pos < length (st_sorted_scores t)" "score_key (st_sorted_scores t ! pos) = score_key s"
    using index_okD [OF assms] by blast+
  then have "remove_at pos (st_sorted_scores t) = without_key s (st_sorted_scores t)"
    using remove_at_filter [OF pos(1) index_ok_distinct [OF assms]] by (simp add: without_key_def)
  with Some pos show ?thesis by (simp add: take_out_def score_key_def)
qed

lemma set_without_key: "set (without_key s scores) = {e \<in> set scores. score_key e \<noteq> score_key s}"
  by (simp add: without_key_def)

lemma without_key_keys: "score_key s \<notin> score_key ` set (without_key s scores)"
  by (auto simp: set_without_key)

lemma distinct_without_key: "distinct (map score_key scores) \<Longrightarrow> distinct (map score_key (without_key s scores))"
  by (simp add: without_key_def distinct_map_filter)

lemma distinct_insert_at: "distinct (insert_at p x xs) \<longleftrightarrow> x \<notin> set xs \<and> distinct xs"
proof -
  have "distinct (ys @ x # zs) \<longleftrightarrow> x \<notin> set (ys @ zs) \<and> distinct (ys @ zs)" for ys zs by auto
  from this [of "take p xs" "drop p xs"] show ?thesis unfolding insert_at_def append_take_drop_id .
qed

lemma map_insert_at: "map f (insert_at p x xs) = insert_at p (f x) (map f xs)"
  by (simp add: insert_at_def take_map drop_map)

text \<open>Before the old and the new position the scores are where they were.\<close>

lemma without_key_nth:
  assumes "index_ok scores m" and "case rank_of m (score_key s) of Some pos \<Rightarrow> i < pos | None \<Rightarrow> True"
    and "i < length (without_key s scores)"
  shows "i < length scores" and "without_key s scores ! i = scores ! i"
proof -
  have *: "i < length scores \<and> without_key s scores ! i = scores ! i"
  proof (cases "rank_of m (score_key s)")
    case None
    then have "without_key s scores = scores"
      using index_ok_None [OF assms(1)] by (auto simp: without_key_def image_iff intro!: filter_True)
    with assms(3) show ?thesis by simp
  next
    case (Some pos)
    then have pos: "pos < length scores" "score_key (scores ! pos) = score_key s" using index_okD [OF assms(1)] by blast+
    then have "without_key s scores = remove_at pos scores"
      using remove_at_filter [OF pos(1) index_ok_distinct [OF assms(1)]] by (simp add: without_key_def)
    with Some pos assms(2) show ?thesis by (simp add: remove_at_nth)
  qed
  then show "i < length scores" "without_key s scores ! i = scores ! i" by blast+
qed

lemma reindex_ok:
  assumes ok: "index_ok scores m" and p: "p \<le> length (without_key s scores)"
    and t: "st_sorted_scores t = insert_at p s (without_key s scores)"
      "st_npid_lookup t = lookup_insert (sc_user_id s) (sc_character_id s) p m"
  obtains m' where "reindex (rank_of m (score_key s)) p t = (Ok (), t\<lparr> st_npid_lookup := m' \<rparr>)"
    "index_ok (st_sorted_scores t) m'"
proof -
  define S1 where "S1 = without_key s scores"
  define S2 where "S2 = insert_at p s S1"
  define L2 where "L2 = lookup_insert (sc_user_id s) (sc_character_id s) p m"
  define start where "start = (case rank_of m (score_key s) of Some pos \<Rightarrow> min pos (p + 1) | None \<Rightarrow> p + 1)"
  have key: "(sc_user_id s, sc_character_id s) = score_key s" by (simp add: score_key_def)
  have L2: "rank_of L2 k = (if k = score_key s then Some p else rank_of m k)" for k
    unfolding L2_def rank_of_lookup_insert key ..
  have keys: "score_key ` set S2 = insert (score_key s) (score_key ` set S1)" by (simp add: S2_def)
  have dist: "distinct (map score_key S2)"
    using distinct_without_key [OF index_ok_distinct [OF ok], of s] without_key_keys [of s scores]
    by (simp add: S2_def S1_def map_insert_at distinct_insert_at)
  have inj: "inj_on (\<lambda>i. score_key (S2 ! i)) {..<length S2}"
    using dist by (auto simp: inj_on_def distinct_conv_nth)
  have old: "rank_of m k \<noteq> None" if "k \<in> score_key ` set S1" for k
    using that index_ok_None [OF ok, of k] by (auto simp: S1_def set_without_key)
  have known: "rank_of L2 (score_key (S2 ! i)) \<noteq> None" if "i < length S2" for i
  proof -
    have "score_key (S2 ! i) \<in> score_key ` set S2" using that by simp
    then show ?thesis using old [of "score_key (S2 ! i)"] unfolding keys L2 by auto
  qed
  have range: "inj_on (\<lambda>i. score_key (S2 ! i)) (set [start..<length S2])" by (rule inj_on_subset [OF inj]) auto
  have "rank_of L2 (score_key (S2 ! i)) \<noteq> None" if "i \<in> set [start..<length S2]" for i
    using known that by simp
  from reindex_loop [OF this range distinct_upt]
  obtain m' where m': "fold_st (\<lambda>i. lookup_set (S2 ! i) i) [start..<length S2] L2 = (Ok (), m')"
    "\<forall>i \<in> set [start..<length S2]. rank_of m' (score_key (S2 ! i)) = Some i"
    "\<forall>k. k \<notin> (\<lambda>i. score_key (S2 ! i)) ` set [start..<length S2] \<longrightarrow> rank_of m' k = rank_of L2 k"
    by blast
  have there: "rank_of m' (score_key (S2 ! i)) = Some i" if i: "i < length S2" for i
  proof (cases "start \<le> i")
    case True
    then show ?thesis using m'(2) i by simp
  next
    case False
    have "score_key (S2 ! i) \<notin> (\<lambda>i. score_key (S2 ! i)) ` set [start..<length S2]"
      using False i inj by (auto dest: inj_onD)
    then have eq: "rank_of m' (score_key (S2 ! i)) = rank_of L2 (score_key (S2 ! i))" using m'(3) by blast
    have ip: "i \<le> p" and pos: "case rank_of m (score_key s) of Some pos \<Rightarrow> i < pos | None \<Rightarrow> True"
      using False by (auto simp: start_def split: option.splits)
    show ?thesis
    proof (cases "i = p")
      case True
      then have "S2 ! i = s" using p by (simp add: S2_def S1_def insert_at_nth)
      then show ?thesis using True eq L2 [of "score_key s"] by simp
    next
      case False
      then have i1: "i < length S1" "S2 ! i = S1 ! i" using ip p by (auto simp: S2_def S1_def insert_at_nth)
      then have "i < length scores" "S2 ! i = scores ! i" using without_key_nth [OF ok pos] by (auto simp: S1_def)
      then have "rank_of m (score_key (S2 ! i)) = Some i" using index_okD [OF ok] by simp
      moreover have "score_key (S2 ! i) \<noteq> score_key s"
        using i1 without_key_keys [of s scores] by (metis S1_def imageI nth_mem)
      ultimately show ?thesis by (simp add: eq L2)
    qed
  qed
  have only: "k \<in> score_key ` set S2" if "rank_of m' k = Some i" for k i
  proof (rule ccontr)
    assume k: "k \<notin> score_key ` set S2"
    then have "k \<notin> (\<lambda>i. score_key (S2 ! i)) ` set [start..<length S2]" by auto
    then have "rank_of L2 k = Some i" using m'(3) that by simp
    then have "rank_of m k = Some i" using k unfolding keys L2 by (auto split: if_splits)
    then have "i < length scores" "score_key (scores ! i) = k" using index_okD [OF ok] by blast+
    then show False using k unfolding keys by (auto simp: S1_def set_without_key)
  qed
  have "index_ok S2 m'"
    unfolding index_ok_def
  proof (intro allI iffI)
    fix k i
    assume some: "rank_of m' k = Some i"
    obtain j where "j < length S2" "score_key (S2 ! j) = k" using only [OF some] by (auto simp: in_set_conv_nth)
    then show "i < length S2 \<and> score_key (S2 ! i) = k" using there [of j] some by auto
  qed (use there in auto)
  moreover have "reindex (rank_of m (score_key s)) p t = (Ok (), t\<lparr> st_npid_lookup := m' \<rparr>)"
    using m'(1) by (simp add: reindex_def t S1_def [symmetric] S2_def [symmetric] L2_def [symmetric] start_def [symmetric] Let_def)
  ultimately show thesis using that by (simp add: t S1_def S2_def)
qed

section \<open>The limit\<close>

lemma remove_at_last: "xs \<noteq> [] \<Longrightarrow> remove_at (length xs - Suc 0) xs = butlast xs"
  by (simp add: remove_at_def butlast_conv_take)

lemma index_ok_butlast:
  assumes "index_ok scores m" and "scores \<noteq> []"
    and "\<And>k. rank_of m' k = (if k = score_key (last scores) then None else rank_of m k)"
  shows "index_ok (butlast scores) m'"
  unfolding index_ok_def
proof (intro allI)
  fix k i
  have last: "last scores = scores ! (length scores - 1)" by (rule last_conv_nth [OF assms(2)])
  have dist: "score_key (scores ! j) \<noteq> score_key (last scores)" if "j < length scores - 1" for j
    using index_ok_distinct [OF assms(1)] that unfolding last by (auto simp: distinct_conv_nth)
  have "rank_of m' k = Some i \<longleftrightarrow> k \<noteq> score_key (last scores) \<and> i < length scores \<and> score_key (scores ! i) = k"
    by (simp add: assms(3) index_okD [OF assms(1)])
  also have "\<dots> \<longleftrightarrow> i < length scores - 1 \<and> score_key (scores ! i) = k"
  proof (cases "i = length scores - 1")
    case True
    then show ?thesis unfolding last by auto
  next
    case False
    then show ?thesis using dist [of i] by auto
  qed
  also have "\<dots> \<longleftrightarrow> i < length (butlast scores) \<and> score_key (butlast scores ! i) = k" by (auto simp: nth_butlast)
  finally show "rank_of m' k = Some i \<longleftrightarrow> i < length (butlast scores) \<and> score_key (butlast scores ! i) = k" .
qed

lemma trim_table_ok:
  assumes ok: "index_ok (st_sorted_scores t) (st_npid_lookup t)"
    and len: "length (st_sorted_scores t) \<le> Suc (unat (bi_rank_limit (st_table_info t)))"
  obtains m' where "trim_table t = (Ok (), t\<lparr> st_sorted_scores :=
        take (unat (bi_rank_limit (st_table_info t))) (st_sorted_scores t), st_npid_lookup := m' \<rparr>)"
    "index_ok (take (unat (bi_rank_limit (st_table_info t))) (st_sorted_scores t)) m'"
proof (cases "length (st_sorted_scores t) > unat (bi_rank_limit (st_table_info t))")
  case False
  then show thesis using ok by (intro that [of "st_npid_lookup t"]) (simp_all add: trim_table_def)
next
  case True
  let ?S = "st_sorted_scores t" and ?m = "st_npid_lookup t"
  have ne: "?S \<noteq> []" using True by auto
  have cut: "take (unat (bi_rank_limit (st_table_info t))) ?S = butlast ?S"
  proof -
    have "length ?S - 1 = unat (bi_rank_limit (st_table_info t))" using True len by linarith
    then show ?thesis by (simp add: butlast_conv_take)
  qed
  have "rank_of ?m (score_key (last ?S)) \<noteq> None" using ne by (simp add: index_ok_None [OF ok])
  then obtain chars where c: "?m (sc_user_id (last ?S)) = Some chars"
    by (auto simp: lookup_rank_def score_key_def bind_eq_None_conv)
  let ?m' = "?m(sc_user_id (last ?S) \<mapsto> chars(sc_character_id (last ?S) := None))"
  have "rank_of ?m' k = (if k = score_key (last ?S) then None else rank_of ?m k)" for k
    by (cases k) (simp add: lookup_rank_def score_key_def c)
  then have "index_ok (butlast ?S) ?m'" by (rule index_ok_butlast [OF ok ne])
  moreover have "trim_table t = (Ok (), t\<lparr> st_sorted_scores := butlast ?S, st_npid_lookup := ?m' \<rparr>)"
    using True ne by (simp add: trim_table_def c remove_at_last Let_def)
  ultimately show thesis unfolding cut [symmetric] by (rule that [rotated])
qed

section \<open>Recording a score\<close>

definition table_inv :: "ScoreTableCache \<Rightarrow> bool" where
  "table_inv t \<longleftrightarrow> index_ok (st_sorted_scores t) (st_npid_lookup t) \<and>
    sorted (map (standing (bi_sort_mode (st_table_info t))) (st_sorted_scores t)) \<and>
    length (st_sorted_scores t) \<le> unat (bi_rank_limit (st_table_info t))"

abbreviation others :: "DbScoreInfo \<Rightarrow> ScoreTableCache \<Rightarrow> DbScoreInfo list" where
  "others s t \<equiv> without_key s (st_sorted_scores t)"

abbreviation table_cmp :: "ScoreTableCache \<Rightarrow> DbScoreInfo \<Rightarrow> DbScoreInfo \<Rightarrow> Ordering" where
  "table_cmp t \<equiv> score_cmp (bi_sort_mode (st_table_info t))"

text \<open>
  The places a score may get: behind all the scores with a better value or time, and before all those with a worse one.
\<close>

definition rank_place :: "DbScoreInfo \<Rightarrow> ScoreTableCache \<Rightarrow> nat \<Rightarrow> bool" where
  "rank_place s t p \<longleftrightarrow> (let st = standing (bi_sort_mode (st_table_info t)) in
    length (filter (\<lambda>e. st e < st s) (others s t)) \<le> p \<and> p \<le> length (filter (\<lambda>e. st e \<le> st s) (others s t)))"

text \<open>The table a score recorded at a place leads to, and the scores that are better in the order of the cache.\<close>

definition board_after :: "nat \<Rightarrow> DbScoreInfo \<Rightarrow> ScoreTableCache \<Rightarrow> DbScoreInfo list" where
  "board_after p s t = take (unat (bi_rank_limit (st_table_info t))) (insert_at p s (others s t))"

definition better_scores :: "DbScoreInfo \<Rightarrow> ScoreTableCache \<Rightarrow> DbScoreInfo list" where
  "better_scores s t = filter (\<lambda>p. table_cmp t p s = Less) (others s t)"

text \<open>No other listed score compares equal to the new one: the same score, time and player.\<close>

definition no_tie :: "DbScoreInfo \<Rightarrow> ScoreTableCache \<Rightarrow> bool" where
  "no_tie s t \<longleftrightarrow> (\<forall>e \<in> set (others s t). table_cmp t e s \<noteq> Equal)"

text \<open>There is room for the score, or it is better than the last one that is listed.\<close>

definition enters :: "DbScoreInfo \<Rightarrow> ScoreTableCache \<Rightarrow> bool" where
  "enters s t \<longleftrightarrow> length (others s t) < unat (bi_rank_limit (st_table_info t)) \<or>
    others s t \<noteq> [] \<and> table_cmp t s (last (others s t)) = Less"

lemma no_tieD: "no_tie s t \<Longrightarrow> e \<in> set (others s t) \<Longrightarrow> table_cmp t e s \<noteq> Equal"
  by (simp add: no_tie_def)

lemma ranked_without_key: "score_order.ranked m scores \<Longrightarrow> score_order.ranked m (without_key s scores)"
  by (simp add: score_order.ranked_def without_key_def sorted_wrt_filter)

lemma sorted_without_key: "sorted (map f scores) \<Longrightarrow> sorted (map f (without_key s scores))"
  by (simp add: without_key_def sorted_filter)

lemma length_without_key: "length (without_key s scores) \<le> length scores"
  by (simp add: without_key_def)

lemma without_key_unlisted: "index_ok scores m \<Longrightarrow> rank_of m (score_key s) = None \<Longrightarrow> without_key s scores = scores"
  using index_ok_None [of scores m "score_key s"] by (auto simp: without_key_def image_iff intro!: filter_True)

lemma rank_place_length: "rank_place s t p \<Longrightarrow> p \<le> length (others s t)"
  unfolding rank_place_def Let_def by (meson length_filter_le order_trans)

lemma set_board_after: "set (board_after p s t) \<subseteq> insert s (set (st_sorted_scores t))"
  unfolding board_after_def by (rule order_trans [OF set_take_subset]) (auto simp: without_key_def)

text \<open>On a board in the order of the cache the place is that of the order, and the order is kept.\<close>

lemma ranked_board_after:
  assumes "score_order.ranked (bi_sort_mode (st_table_info t)) (st_sorted_scores t)" and "no_tie s t"
  shows "score_order.ranked (bi_sort_mode (st_table_info t)) (board_after (length (better_scores s t)) s t)"
proof -
  note rk = ranked_without_key [OF assms(1), of s]
  show ?thesis
    using score_order.place_ranked [OF rk no_tieD [OF assms(2)]]
    unfolding board_after_def better_scores_def insert_at_place [OF score_order.ranked_sorted_by [OF rk]] score_order.ranked_def
    by (rule sorted_wrt_take)
qed

text \<open>A score that does not enter a full table is no better than all of it, and its player is not listed.\<close>

lemma not_ranked:
  assumes inv: "table_inv t" and out: "\<not> enters s t" and limit: "0 < unat (bi_rank_limit (st_table_info t))"
  shows "others s t = st_sorted_scores t" and "length (st_sorted_scores t) = unat (bi_rank_limit (st_table_info t))"
    and "rank_place s t (length (st_sorted_scores t))"
    and "score_order.ranked (bi_sort_mode (st_table_info t)) (st_sorted_scores t) \<Longrightarrow> no_tie s t \<Longrightarrow>
      better_scores s t = st_sorted_scores t"
proof -
  let ?S = "st_sorted_scores t" and ?st = "standing (bi_sort_mode (st_table_info t))"
  have len: "length ?S \<le> unat (bi_rank_limit (st_table_info t))" using inv by (simp add: table_inv_def)
  have full: "unat (bi_rank_limit (st_table_info t)) \<le> length (others s t)" using out by (auto simp: enters_def)
  then have "length (others s t) = length ?S" using len length_without_key [of s ?S] by simp
  then have "score_key e \<noteq> score_key s" if "e \<in> set ?S" for e
    using length_filter_less [OF that, of "\<lambda>e. score_key e \<noteq> score_key s"] by (auto simp: without_key_def)
  then show same: "others s t = ?S" by (simp add: without_key_def)
  then show "length ?S = unat (bi_rank_limit (st_table_info t))" using full len by simp
  then have ne: "?S \<noteq> []" using limit by auto
  have last: "table_cmp t s (last ?S) \<noteq> Less" using out ne by (auto simp: enters_def same)
  have "?st e \<le> ?st s" if "e \<in> set ?S" for e
  proof -
    have "sorted (map ?st (butlast ?S @ [last ?S]))" using inv ne by (simp add: table_inv_def)
    moreover have "e \<in> set (butlast ?S @ [last ?S])" using that ne by simp
    ultimately have "?st e \<le> ?st (last ?S)" by (auto simp: sorted_append)
    moreover have "\<not> ?st s < ?st (last ?S)" using last score_cmp_standing(3) by blast
    ultimately show ?thesis by simp
  qed
  then have "filter (\<lambda>e. ?st e \<le> ?st s) ?S = ?S" by simp
  then show "rank_place s t (length ?S)" by (simp add: rank_place_def same)
  show "better_scores s t = ?S" if rk: "score_order.ranked (bi_sort_mode (st_table_info t)) ?S" and tie: "no_tie s t"
  proof -
    have before: "table_cmp t (last ?S) s = Less"
      using no_tieD [OF tie, of "last ?S"] ne same last score_order.cmp_Greater [of _ "last ?S" s]
      by (cases "table_cmp t (last ?S) s") simp_all
    have "table_cmp t e s = Less" if "e \<in> set ?S" for e
    proof -
      have "sorted_wrt (\<lambda>x y. table_cmp t x y = Less) (butlast ?S @ [last ?S])" using rk ne by (simp add: score_order.ranked_def)
      moreover have "e \<in> set (butlast ?S @ [last ?S])" using that ne by simp
      ultimately have "e = last ?S \<or> table_cmp t e (last ?S) = Less" by (auto simp: sorted_wrt_append)
      with before score_order.less_le_trans [of _ e "last ?S" s] show ?thesis by auto
    qed
    then show ?thesis by (simp add: better_scores_def same)
  qed
qed

lemma board_after_end:
  "others s t = st_sorted_scores t \<Longrightarrow> length (st_sorted_scores t) = unat (bi_rank_limit (st_table_info t)) \<Longrightarrow>
    board_after (length (st_sorted_scores t)) s t = st_sorted_scores t"
  by (simp add: board_after_def insert_at_def)

text \<open>The binary search ends at a place for the score, or on a tie.\<close>

lemma search_place:
  assumes "table_inv t" and "binary_search_by (\<lambda>e. table_cmp t e s) (others s t) = Err p"
  shows "rank_place s t p"
proof -
  let ?S1 = "others s t" and ?st = "standing (bi_sort_mode (st_table_info t))"
  let ?lo = "length (filter (\<lambda>e. ?st e < ?st s) ?S1)" and ?hi = "length (filter (\<lambda>e. ?st e \<le> ?st s) ?S1)"
  have srt: "sorted (map ?st ?S1)" using assms(1) by (simp add: table_inv_def sorted_without_key)
  have lo: "table_cmp t (?S1 ! i) s = Less" if i: "i < ?lo" for i
    using sorted_key_place(1) [OF srt order.strict_trans2 [OF i length_filter_le], of "?st s"] i by (intro score_cmp_standing(3)) simp
  have hi: "table_cmp t (?S1 ! i) s = Greater" if "?hi \<le> i" "i < length ?S1" for i
    using that sorted_key_place(2) [OF srt, of i "?st s"] by (intro score_cmp_standing(4)) (simp add: not_le)
  have "length (filter (\<lambda>e. ?st e < ?st s) (filter (\<lambda>e. ?st e \<le> ?st s) ?S1)) \<le> ?hi" by (rule length_filter_le)
  moreover have "filter (\<lambda>e. ?st e < ?st s) (filter (\<lambda>e. ?st e \<le> ?st s) ?S1) = filter (\<lambda>e. ?st e < ?st s) ?S1"
    by (auto simp: filter_filter intro: filter_cong)
  ultimately have "?lo \<le> ?hi" by simp
  from binary_search_by_between [where f = "\<lambda>e. table_cmp t e s", OF lo hi this length_filter_le assms(2)]
  show ?thesis by (simp add: rank_place_def)
qed

text \<open>The table part of \<^const>\<open>insert_score\<close> when the score is entered.\<close>

lemma enter_score_ok:
  assumes inv: "table_inv t" and bs: "binary_search_by (\<lambda>e. table_cmp t e s) (others s t) = Err p"
    and t1_def: "t1 = t\<lparr> st_sorted_scores := others s t, st_last_insert := now \<rparr>"
  obtains t2 t3 where "enter_score s t1 = (Ok p, t2)"
    "then_st (reindex (rank_of (st_npid_lookup t) (score_key s)) p t2) (\<lambda>_. trim_table) = (Ok (), t3)"
    "st_sorted_scores t3 = board_after p s t" "table_inv t3" "st_table_info t3 = st_table_info t" "st_last_insert t3 = now"
proof -
  let ?S1 = "others s t" and ?st = "standing (bi_sort_mode (st_table_info t))"
  note place = search_place [OF inv bs]
  have ok: "index_ok (st_sorted_scores t) (st_npid_lookup t)" and srt: "sorted (map ?st ?S1)"
    using inv sorted_without_key by (auto simp: table_inv_def)
  have room: "length ?S1 \<le> unat (bi_rank_limit (st_table_info t))"
    using inv length_without_key [of s "st_sorted_scores t"] by (simp add: table_inv_def)
  define t2 where "t2 = t1\<lparr> st_sorted_scores := insert_at p s ?S1,
    st_npid_lookup := lookup_insert (sc_user_id s) (sc_character_id s) p (st_npid_lookup t) \<rparr>"
  have enter: "enter_score s t1 = (Ok p, t2)" by (simp add: enter_score_def t1_def t2_def bs)
  obtain m where m: "reindex (rank_of (st_npid_lookup t) (score_key s)) p t2 = (Ok (), t2\<lparr> st_npid_lookup := m \<rparr>)"
    "index_ok (st_sorted_scores t2) m"
    by (rule reindex_ok [OF ok rank_place_length [OF place], of t2]) (auto simp: t2_def t1_def)
  obtain m3 where t3: "trim_table (t2\<lparr> st_npid_lookup := m \<rparr>) = (Ok (), t2\<lparr> st_sorted_scores :=
        take (unat (bi_rank_limit (st_table_info t))) (st_sorted_scores t2), st_npid_lookup := m3 \<rparr>)"
    "index_ok (take (unat (bi_rank_limit (st_table_info t))) (st_sorted_scores t2)) m3"
    by (rule trim_table_ok [of "t2\<lparr> st_npid_lookup := m \<rparr>"]) (use m(2) room in \<open>auto simp: t2_def t1_def\<close>)
  define t3 where "t3 = t2\<lparr> st_sorted_scores := board_after p s t, st_npid_lookup := m3 \<rparr>"
  have after: "take (unat (bi_rank_limit (st_table_info t))) (st_sorted_scores t2) = board_after p s t"
    by (simp add: t2_def board_after_def)
  have "sorted (map ?st (board_after p s t))"
    using insert_at_sorted_key [OF srt, of s p] place
    by (simp add: board_after_def rank_place_def Let_def sorted_wrt_take flip: take_map)
  then have inv3: "table_inv t3"
    using t3(2) unfolding after by (simp add: table_inv_def t3_def t2_def t1_def board_after_def)
  have "then_st (reindex (rank_of (st_npid_lookup t) (score_key s)) p t2) (\<lambda>_. trim_table) = (Ok (), t3)"
    using t3(1) unfolding after by (simp add: m(1) t3_def)
  from that [OF enter this _ inv3] show thesis by (simp add: t3_def t2_def t1_def)
qed

section \<open>The cache\<close>

definition cache_inv :: "ScoresCache \<Rightarrow> bool" where
  "cache_inv cache \<longleftrightarrow> (\<forall>d t. ca_tables cache d = Some t \<longrightarrow>
    table_inv t \<and> (\<forall>e \<in> set (st_sorted_scores t). ca_users cache (sc_user_id e) \<noteq> None))"

lemma index_ok_Nil [simp]: "index_ok [] Map.empty"
  by (simp add: index_ok_def lookup_rank_def)

lemma table_inv_new [simp]: "table_inv (ScoreTableCache_from_db info)"
  by (simp add: table_inv_def ScoreTableCache_from_db_def)

lemma cache_inv_table:
  assumes "cache_inv cache" and "get_table_or_insert cache c b info = (t, cache1)"
  shows "table_inv t" and "cache_inv cache1" and "ca_tables cache1 (com_id_to_string c, b) = Some t"
    and "ca_users cache1 = ca_users cache"
    and "\<And>e. e \<in> set (st_sorted_scores t) \<Longrightarrow> ca_users cache (sc_user_id e) \<noteq> None"
  using assms
  by (auto simp: cache_inv_def get_table_or_insert_def Let_def ScoreTableCache_from_db_def split: option.splits if_splits)
     (auto simp: table_inv_def)

lemma put_table_inv:
  assumes "cache_inv cache" and "table_inv t"
    and "\<And>e. e \<in> set (st_sorted_scores t) \<Longrightarrow> ca_users cache (sc_user_id e) \<noteq> None"
  shows "cache_inv (put_table cache c b t)"
  using assms by (simp add: cache_inv_def put_table_def)

lemma add_user_inv: "cache_inv cache \<Longrightarrow> cache_inv (add_user cache u n o1)"
  by (auto simp: cache_inv_def add_user_def)

lemma add_user_users:
  "ca_users (add_user cache u n o1) v = None \<longleftrightarrow> v \<noteq> u \<and> ca_users cache v = None"
  by (auto simp: add_user_def)

text \<open>
  Recording a score on a table in its invariant.  Either it is recorded at a place for it, or the request panics, with the
  old score of the player taken out and the index untouched; this happens only on a tie or on a board without ranks.
\<close>

lemma is_ranked_cases:
  assumes "table_inv t" and "t1 = t\<lparr> st_sorted_scores := others s t, st_last_insert := now \<rparr>"
  shows "is_ranked s t1 = (if unat (bi_rank_limit (st_table_info t)) = 0 then Panic else Ok (enters s t))"
proof (cases "others s t = []")
  case True
  then show ?thesis by (auto simp: is_ranked_def enters_def assms(2))
next
  case False
  then have "0 < unat (bi_rank_limit (st_table_info t))"
    using assms(1) length_without_key [of s "st_sorted_scores t"] by (cases "others s t") (auto simp: table_inv_def)
  with False show ?thesis by (auto simp: is_ranked_def enters_def assms(2) Let_def)
qed

lemma insert_score_cases:
  assumes inv: "cache_inv cache" and get: "get_table_or_insert cache c b info = (t, cache1)"
  obtains (recorded) p t' cache' where
    "insert_score now cache info c b s n o1 = (Ok (of_nat (Suc p)), cache')" "rank_place s t p"
    "ca_tables cache' = (ca_tables cache1)((com_id_to_string c, b) \<mapsto> t')" "st_sorted_scores t' = board_after p s t"
    "st_table_info t' = st_table_info t" "st_last_insert t' = now" "cache_inv cache'"
    "score_order.ranked (bi_sort_mode (st_table_info t)) (st_sorted_scores t) \<Longrightarrow> no_tie s t \<Longrightarrow>
      p = length (better_scores s t)"
    "0 < bi_rank_limit (st_table_info t)"
    "score_order.ranked (bi_sort_mode (st_table_info t)) (st_sorted_scores t) \<Longrightarrow> no_tie s t \<or> \<not> enters s t"
  | (panic) "insert_score now cache info c b s n o1 =
      (Panic, put_table cache1 c b (t\<lparr> st_sorted_scores := others s t, st_last_insert := now \<rparr>))"
    "bi_rank_limit (st_table_info t) = 0 \<or> enters s t \<and> \<not> no_tie s t"
proof -
  note tab = cache_inv_table [OF inv get]
  let ?r = "rank_of (st_npid_lookup t) (score_key s)" and ?f = "\<lambda>e. table_cmp t e s"
  define t1 where "t1 = t\<lparr> st_sorted_scores := others s t, st_last_insert := now \<rparr>"
  have out: "take_out now s t = (Ok ?r, t1)"
    unfolding t1_def using take_out_ok tab(1) by (simp add: table_inv_def)
  note ranked = is_ranked_cases [OF tab(1) t1_def]
  show thesis
  proof (cases "unat (bi_rank_limit (st_table_info t)) = 0")
    case True
    then show thesis
      by (intro panic) (simp_all add: insert_score_def get out ranked unat_eq_zero flip: t1_def)
  next
    case False
    then have limit: "0 < unat (bi_rank_limit (st_table_info t))" "0 < bi_rank_limit (st_table_info t)"
      by (simp_all add: word_less_nat_alt)
    show thesis
    proof (cases "enters s t")
      case enters: True
      from binary_search_by_result [of ?f "others s t"] show thesis
      proof cases
        case (found i)
        then have "\<not> no_tie s t" unfolding no_tie_def using nth_mem by blast
        moreover have "enter_score s t1 = (Panic, t1)" by (simp add: enter_score_def t1_def found(1))
        ultimately show thesis
          using enters False by (intro panic) (simp_all add: insert_score_def get out ranked flip: t1_def)
      next
        case (place p)
        obtain t2 t3 where t3: "enter_score s t1 = (Ok p, t2)"
          "then_st (reindex ?r p t2) (\<lambda>_. trim_table) = (Ok (), t3)"
          "st_sorted_scores t3 = board_after p s t" "table_inv t3" "st_table_info t3 = st_table_info t" "st_last_insert t3 = now"
          by (rule enter_score_ok [OF tab(1) place t1_def])
        define cache' where "cache' = put_table (add_user cache1 (sc_user_id s) n o1) c b t3"
        have "insert_score now cache info c b s n o1 = (Ok (of_nat (Suc p)), cache')"
          unfolding insert_score_def get using enters False by (simp add: out ranked t3(1,2) cache'_def Let_def)
        moreover have "cache_inv cache'"
          unfolding cache'_def
        proof (rule put_table_inv [OF add_user_inv [OF tab(2)] t3(4)])
          fix e
          assume "e \<in> set (st_sorted_scores t3)"
          then have "e = s \<or> e \<in> set (st_sorted_scores t)" using set_board_after [of p s t] by (auto simp: t3(3))
          then show "ca_users (add_user cache1 (sc_user_id s) n o1) (sc_user_id e) \<noteq> None"
            unfolding add_user_users using tab(4,5) by auto
        qed
        moreover have "p = length (better_scores s t)"
          if "score_order.ranked (bi_sort_mode (st_table_info t)) (st_sorted_scores t)" "no_tie s t"
          using score_order.binary_search_ranked [OF ranked_without_key [OF that(1)] no_tieD [OF that(2)]] place
          by (simp add: better_scores_def)
        moreover have "no_tie s t"
          if rk: "score_order.ranked (bi_sort_mode (st_table_info t)) (st_sorted_scores t)"
          using binary_search_by_present [OF score_order.ranked_sorted_by [OF ranked_without_key [OF rk]]] place
          by (fastforce simp: no_tie_def)
        ultimately show thesis
          by (intro recorded [of p cache' t3]) (simp_all add: search_place [OF tab(1) place] t3 limit cache'_def put_table_def add_user_def)
      qed
    next
      case False
      note same = not_ranked [OF tab(1) False limit(1)]
      let ?p = "length (st_sorted_scores t)"
      have t1: "t1 = t\<lparr> st_last_insert := now \<rparr>" by (simp add: t1_def same(1))
      define cache' where "cache' = put_table cache1 c b t1"
      have "bi_rank_limit (st_table_info t) + 1 = of_nat (Suc ?p)" by (simp add: same(2))
      then have "insert_score now cache info c b s n o1 = (Ok (of_nat (Suc ?p)), cache')"
        unfolding insert_score_def get using False limit(1) by (simp add: out ranked cache'_def) (simp add: t1)
      moreover have "cache_inv cache'"
        unfolding cache'_def using tab by (intro put_table_inv) (simp_all add: t1 table_inv_def)
      ultimately show thesis
        using same(3,4) board_after_end [OF same(1,2)] limit(2) False
        by (intro recorded [of ?p cache' t1]) (simp_all add: cache'_def put_table_def t1)
    qed
  qed
qed

end
