(* ===== verification/Gui_Rooms.thy ===== *)
theory Gui_Rooms
  imports Room_Manager Packets
begin

text \<open>
  The rooms of the older matching interface, \<^verbatim>\<open>server/gui_room_manager.rs\<close>: the messages it exchanges,
  one room, and the manager that keeps the rooms of all games with its indices by game and by user.

  A hash map of members is the list of its entries by user; the order in which the code iterates a hash
  map or a hash set is an argument (\<^verbatim>\<open>iter\<close>), and so are the message encoders and the random choice of a
  new owner (\<^verbatim>\<open>rnd n\<close> stands for \<^verbatim>\<open>gen_range(0..n)\<close>).
\<close>

section \<open>Messages\<close>

record MatchingSearchCondition =
  mc_attr_type :: u32
  mc_attr_id :: u32
  mc_comp_op :: u32
  mc_comp_value :: u32

record MatchingAttr =
  ma_attr_type :: u32
  ma_attr_id :: u32
  ma_num :: u32
  ma_data :: bytes

record CreateRoomGuiRequest =
  cg_total_slots :: u32
  cg_private_slots :: u32
  cg_privilege_grant :: bool
  cg_stealth :: bool
  cg_game_attrs :: "MatchingAttr list"

record GuiUserInfo =
  gu_info :: "UserInfo option"
  gu_owner :: bool

record MatchingRoomStatus =
  ms_id :: bytes
  ms_members :: "GuiUserInfo list"
  ms_kick_actor :: string
  ms_opt :: bytes

record GetRoomListGuiRequest =
  gl_range_start :: u32
  gl_range_max :: u32
  gl_conds :: "MatchingSearchCondition list"
  gl_attrs :: "MatchingAttr list"

record MatchingRoom =
  mr_id :: bytes
  mr_attr :: "MatchingAttr list"

record MatchingRoomList =
  ml_start :: u32
  ml_total :: u32
  ml_rooms :: "MatchingRoom list"

record MatchingGuiRoomId =
  gi_id :: bytes

record SetRoomSearchFlagGui =
  sf_roomid :: bytes
  sf_stealth :: bool

record QuickMatchGuiRequest =
  qm_conds :: "MatchingSearchCondition list"
  qm_available_num :: u32

record SearchJoinRoomGuiRequest =
  sj_conds :: "MatchingSearchCondition list"
  sj_attrs :: "MatchingAttr list"

record MatchingSearchJoinRoomInfo =
  mj_room :: "MatchingRoomStatus option"
  mj_attr :: "MatchingAttr list"

record gui_codec =
  enc_MatchingRoomStatus :: "MatchingRoomStatus \<Rightarrow> bytes"
  enc_MatchingGuiRoomId :: "MatchingGuiRoomId \<Rightarrow> bytes"
  enc_MatchingRoomList :: "MatchingRoomList \<Rightarrow> bytes"
  enc_MatchingRoom :: "MatchingRoom \<Rightarrow> bytes"
  enc_MatchingSearchJoinRoomInfo :: "MatchingSearchJoinRoomInfo \<Rightarrow> bytes"

section \<open>Attributes and members\<close>

abbreviation (input) ATTR_TYPE_BASIC_NUM :: u32 where "ATTR_TYPE_BASIC_NUM \<equiv> 2"
abbreviation (input) ATTR_TYPE_GAME_BIN :: u32 where "ATTR_TYPE_GAME_BIN \<equiv> 3"
abbreviation (input) ATTR_TYPE_GAME_NUM :: u32 where "ATTR_TYPE_GAME_NUM \<equiv> 4"
abbreviation (input) ATTR_ID_ROOM_SEARCH_FLAG :: u32 where "ATTR_ID_ROOM_SEARCH_FLAG \<equiv> 7"

record GuiRoomBinAttr =
  gb_data :: bytes
  gb_cur_size :: usize

definition GuiRoomBinAttr_default :: "nat \<Rightarrow> GuiRoomBinAttr" where
  "GuiRoomBinAttr_default N = \<lparr> gb_data = replicate N 0, gb_cur_size = 0 \<rparr>"

definition GuiRoomBinAttr_from_protobuf :: "nat \<Rightarrow> MatchingAttr \<Rightarrow> GuiRoomBinAttr" where
  "GuiRoomBinAttr_from_protobuf N pb =
    (let cur_size = min (length (ma_data pb)) N
     in \<lparr> gb_data = take cur_size (ma_data pb) @ drop cur_size (replicate N 0), gb_cur_size = cur_size \<rparr>)"

definition bin_gen_MatchingAttr :: "GuiRoomBinAttr \<Rightarrow> u32 \<Rightarrow> MatchingAttr" where
  "bin_gen_MatchingAttr b attr_id =
    \<lparr> ma_attr_type = ATTR_TYPE_GAME_BIN, ma_attr_id = attr_id, ma_num = 0, ma_data = take (gb_cur_size b) (gb_data b) \<rparr>"

record GuiRoomMember =
  gm_npid :: string
  gm_online_name :: string
  gm_avatar_url :: string
  gm_owner :: bool

definition GuiRoomMember_from_clientinfo :: "ClientInfo \<Rightarrow> bool \<Rightarrow> GuiRoomMember" where
  "GuiRoomMember_from_clientinfo cinfo owner =
    \<lparr> gm_npid = ci_npid cinfo, gm_online_name = ci_online_name cinfo, gm_avatar_url = ci_avatar_url cinfo,
      gm_owner = owner \<rparr>"

definition GuiRoomMember_to_protobuf :: "GuiRoomMember \<Rightarrow> GuiUserInfo" where
  "GuiRoomMember_to_protobuf m =
    \<lparr> gu_info = Some \<lparr> ui_np_id = gm_npid m, ui_online_name = gm_online_name m, ui_avatar_url = gm_avatar_url m \<rparr>,
      gu_owner = gm_owner m \<rparr>"

type_synonym GuiRoomId = bytes
type_synonym gui_members = "(i64, GuiRoomMember) btree"

record hash_iter =
  it_members :: "gui_members \<Rightarrow> gui_members"
  it_rooms :: "GuiRoomId set \<Rightarrow> GuiRoomId list"

section \<open>A room\<close>

record GuiRoom =
  gr_total_slots :: u32
  gr_private_slots :: u32
  gr_privilege_grant :: bool
  gr_stealth :: bool
  gr_members :: gui_members
  gr_num_attrs :: "u32 list"
  gr_big_bin_attrs :: "GuiRoomBinAttr list"
  gr_small_bin_attrs :: "GuiRoomBinAttr list"
  gr_communication_id :: ComId
  gr_quickmatch_room :: bool

definition set_attr :: "MatchingAttr \<Rightarrow> GuiRoom \<Rightarrow> GuiRoom" where
  "set_attr attr room =
    (let i = ma_attr_id attr in
     if ma_attr_type attr = ATTR_TYPE_GAME_BIN then
       if i = 1 \<or> i = 2 then
         room\<lparr> gr_big_bin_attrs := (gr_big_bin_attrs room)[unat (i - 1) := GuiRoomBinAttr_from_protobuf 256 attr] \<rparr>
       else if 3 \<le> i \<and> i \<le> 16 then
         room\<lparr> gr_small_bin_attrs := (gr_small_bin_attrs room)[unat (i - 3) := GuiRoomBinAttr_from_protobuf 64 attr] \<rparr>
       else room
     else if ma_attr_type attr = ATTR_TYPE_GAME_NUM then
       if 1 \<le> i \<and> i \<le> 16 then room\<lparr> gr_num_attrs := (gr_num_attrs room)[unat (i - 1) := ma_num attr] \<rparr> else room
     else room)"

definition GuiRoom_from_protobuf :: "CreateRoomGuiRequest \<Rightarrow> ComId \<Rightarrow> GuiRoom" where
  "GuiRoom_from_protobuf pb com_id =
    (let total_slots = min (cg_total_slots pb) 64;
         private_slots = min (min (cg_private_slots pb) 64) total_slots;
         room = \<lparr> gr_total_slots = total_slots, gr_private_slots = private_slots,
                  gr_privilege_grant = cg_privilege_grant pb, gr_stealth = cg_stealth pb, gr_members = [],
                  gr_num_attrs = replicate 16 0, gr_big_bin_attrs = replicate 2 (GuiRoomBinAttr_default 256),
                  gr_small_bin_attrs = replicate 14 (GuiRoomBinAttr_default 64), gr_communication_id = com_id,
                  gr_quickmatch_room = False \<rparr>
     in fold set_attr (cg_game_attrs pb) room)"

definition set_quickmatch_cond :: "MatchingSearchCondition \<Rightarrow> GuiRoom \<Rightarrow> GuiRoom" where
  "set_quickmatch_cond cond room =
    (if mc_attr_type cond = ATTR_TYPE_GAME_NUM \<and> 1 \<le> mc_attr_id cond \<and> mc_attr_id cond \<le> 16 \<and> mc_comp_op cond = 0
     then room\<lparr> gr_num_attrs := (gr_num_attrs room)[unat (mc_attr_id cond - 1) := mc_comp_value cond] \<rparr>
     else room)"

definition from_quickmatch_protobuf :: "QuickMatchGuiRequest \<Rightarrow> ComId \<Rightarrow> GuiRoom" where
  "from_quickmatch_protobuf pb com_id =
    (let room = \<lparr> gr_total_slots = min (qm_available_num pb) 64, gr_private_slots = 0,
                  gr_privilege_grant = True, gr_stealth = False, gr_members = [],
                  gr_num_attrs = replicate 16 0, gr_big_bin_attrs = replicate 2 (GuiRoomBinAttr_default 256),
                  gr_small_bin_attrs = replicate 14 (GuiRoomBinAttr_default 64), gr_communication_id = com_id,
                  gr_quickmatch_room = True \<rparr>
     in fold set_quickmatch_cond (qm_conds pb) room)"

definition add_member :: "ClientInfo \<Rightarrow> bool \<Rightarrow> GuiRoom \<Rightarrow> GuiRoom" where
  "add_member cinfo owner room =
    room\<lparr> gr_members := bt_insert (ci_user_id cinfo) (GuiRoomMember_from_clientinfo cinfo owner) (gr_members room) \<rparr>"

text \<open>A member filter that is absent or zero selects every member.\<close>

definition gen_MatchingRoomStatus ::
    "hash_iter \<Rightarrow> GuiRoom \<Rightarrow> GuiRoomId \<Rightarrow> i64 option \<Rightarrow> GuiRoomMember option \<Rightarrow> MatchingRoomStatus" where
  "gen_MatchingRoomStatus iter room room_id member_filter extra_member =
    (let members = (case member_filter of
           Some user_id \<Rightarrow>
             if user_id \<noteq> 0 then
               (case bt_get (gr_members room) user_id of Some m \<Rightarrow> [GuiRoomMember_to_protobuf m] | None \<Rightarrow> [])
             else map (GuiRoomMember_to_protobuf \<circ> snd) (it_members iter (gr_members room))
         | None \<Rightarrow> map (GuiRoomMember_to_protobuf \<circ> snd) (it_members iter (gr_members room)));
         extra = (case extra_member of Some m \<Rightarrow> [GuiRoomMember_to_protobuf m] | None \<Rightarrow> [])
     in \<lparr> ms_id = room_id, ms_members = members @ extra, ms_kick_actor = [], ms_opt = [] \<rparr>)"

definition basic_num_attr :: "GuiRoom \<Rightarrow> u32 \<Rightarrow> u32 option" where
  "basic_num_attr room attr_id =
    (if attr_id = 1 then Some (gr_total_slots room)
     else if attr_id = 2 then Some (gr_private_slots room)
     else if attr_id = 3 \<or> attr_id = 4 then Some (of_nat (length (gr_members room)))
     else if attr_id = 5 then Some 0
     else if attr_id = 6 then Some (if gr_privilege_grant room then 1 else 0)
     else if attr_id = ATTR_ID_ROOM_SEARCH_FLAG then Some (if gr_stealth room then 1 else 0)
     else None)"

definition gen_MatchingAttr :: "GuiRoom \<Rightarrow> u32 \<Rightarrow> u32 \<Rightarrow> MatchingAttr option" where
  "gen_MatchingAttr room attr_type attr_id =
    (if attr_type = ATTR_TYPE_BASIC_NUM then
       map_option (\<lambda>num. \<lparr> ma_attr_type = attr_type, ma_attr_id = attr_id, ma_num = num, ma_data = [] \<rparr>)
         (basic_num_attr room attr_id)
     else if attr_type = ATTR_TYPE_GAME_BIN then
       if attr_id = 1 \<or> attr_id = 2 then Some (bin_gen_MatchingAttr (gr_big_bin_attrs room ! unat (attr_id - 1)) attr_id)
       else if 3 \<le> attr_id \<and> attr_id \<le> 16
         then Some (bin_gen_MatchingAttr (gr_small_bin_attrs room ! unat (attr_id - 3)) attr_id)
       else None
     else if attr_type = ATTR_TYPE_GAME_NUM then
       if attr_id = 0 \<or> attr_id > 16 then None
       else Some \<lparr> ma_attr_type = attr_type, ma_attr_id = attr_id,
                   ma_num = gr_num_attrs room ! unat (attr_id - 1), ma_data = [] \<rparr>
     else None)"

definition attr_keys :: "MatchingAttr list \<Rightarrow> (u32 \<times> u32) list" where
  "attr_keys attrs = map (\<lambda>a. (ma_attr_type a, ma_attr_id a)) attrs"

definition gen_MatchingSearchJoinRoomInfo ::
    "hash_iter \<Rightarrow> GuiRoom \<Rightarrow> GuiRoomId \<Rightarrow> i64 option \<Rightarrow> GuiRoomMember option \<Rightarrow> MatchingAttr list
      \<Rightarrow> MatchingSearchJoinRoomInfo" where
  "gen_MatchingSearchJoinRoomInfo iter room room_id member_filter extra_member attrs =
    \<lparr> mj_room = Some (gen_MatchingRoomStatus iter room room_id member_filter extra_member),
      mj_attr = List.map_filter (\<lambda>(t, i). gen_MatchingAttr room t i) (attr_keys attrs) \<rparr>"

definition gen_MatchingRoom :: "GuiRoom \<Rightarrow> GuiRoomId \<Rightarrow> (u32 \<times> u32) list \<Rightarrow> MatchingRoom" where
  "gen_MatchingRoom room room_id attrs =
    \<lparr> mr_id = room_id, mr_attr = List.map_filter (\<lambda>(t, i). gen_MatchingAttr room t i) attrs \<rparr>"

definition match_value :: "u32 \<Rightarrow> u32 \<Rightarrow> u32 \<Rightarrow> bool" where
  "match_value v cmp_value cmp_op \<longleftrightarrow>
    (if cmp_op = 0 then v = cmp_value
     else if cmp_op = 1 then v \<noteq> cmp_value
     else if cmp_op = 2 then v < cmp_value
     else if cmp_op = 3 then v \<le> cmp_value
     else if cmp_op = 4 then v > cmp_value
     else if cmp_op = 5 then v \<ge> cmp_value
     else False)"

text \<open>One condition of a search; a condition the interface does not know is skipped.\<close>

definition cond_holds :: "GuiRoom \<Rightarrow> MatchingSearchCondition \<Rightarrow> bool" where
  "cond_holds room cond \<longleftrightarrow>
    (if mc_attr_type cond = ATTR_TYPE_BASIC_NUM then
       mc_attr_id cond \<noteq> 1 \<or> match_value (gr_total_slots room) (mc_comp_value cond) (mc_comp_op cond)
     else if mc_attr_type cond = ATTR_TYPE_GAME_NUM then
       mc_attr_id cond = 0 \<or> mc_attr_id cond > 8 \<or>
       match_value (gr_num_attrs room ! unat (mc_attr_id cond - 1)) (mc_comp_value cond) (mc_comp_op cond)
     else True)"

definition gui_is_match :: "GuiRoom \<Rightarrow> MatchingSearchCondition list \<Rightarrow> bool \<Rightarrow> bool" where
  "gui_is_match room conds check_full \<longleftrightarrow>
    (if gr_quickmatch_room room \<or> gr_stealth room then False
     else if check_full \<and> length (gr_members room) = unat (gr_total_slots room) then False
     else list_all (cond_holds room) conds)"

definition quickmatch_cond_holds :: "GuiRoom \<Rightarrow> MatchingSearchCondition \<Rightarrow> bool" where
  "quickmatch_cond_holds room cond \<longleftrightarrow>
    mc_attr_type cond \<noteq> ATTR_TYPE_GAME_NUM \<or> mc_attr_id cond = 0 \<or> mc_attr_id cond > 8 \<or>
    (mc_comp_op cond \<noteq> 0 \<and> mc_comp_op cond \<noteq> 1) \<or>
    match_value (gr_num_attrs room ! unat (mc_attr_id cond - 1)) (mc_comp_value cond) (mc_comp_op cond)"

definition is_quickmatch :: "GuiRoom \<Rightarrow> QuickMatchGuiRequest \<Rightarrow> bool" where
  "is_quickmatch room req \<longleftrightarrow>
    (if \<not> gr_quickmatch_room room \<or> gr_stealth room \<or> gr_total_slots room \<noteq> qm_available_num req then False
     else list_all (quickmatch_cond_holds room) (qm_conds req))"

section \<open>The manager\<close>

record GuiRoomManager =
  gm_cur_room_id :: u64
  gm_rooms :: "GuiRoomId \<rightharpoonup> GuiRoom"
  gm_comid_rooms :: "ComId \<rightharpoonup> GuiRoomId set"
  gm_user_rooms :: "i64 \<rightharpoonup> GuiRoomId set"

definition GuiRoomManager_new :: GuiRoomManager where
  "GuiRoomManager_new =
    \<lparr> gm_cur_room_id = 1, gm_rooms = Map.empty, gm_comid_rooms = Map.empty, gm_user_rooms = Map.empty \<rparr>"

definition GUI_ROOM_ID_SIZE :: nat where
  "GUI_ROOM_ID_SIZE = 28"

definition pb_vec_to_room_id :: "bytes \<Rightarrow> GuiRoomId result" where
  "pb_vec_to_room_id pb_vec = (if length pb_vec = GUI_ROOM_ID_SIZE then Ok pb_vec else Err Malformed)"

text \<open>\<^verbatim>\<open>{:016X}\<close> of a 64 bit number: sixteen hexadecimal digits.\<close>

definition hex_digit :: "nat \<Rightarrow> char" where
  "hex_digit d = char_of (if d < 10 then 48 + d else 55 + d)"

fun hex_pad :: "nat \<Rightarrow> nat \<Rightarrow> string" where
  "hex_pad 0 v = []"
| "hex_pad (Suc n) v = hex_pad n (v div 16) @ [hex_digit (v mod 16)]"

definition generate_room_id :: "u64 \<Rightarrow> ComId \<Rightarrow> GuiRoomId result \<times> u64" where
  "generate_room_id cur_room_id com_id =
    (let room_id = as_bytes (com_id_to_string com_id @ hex_pad 16 (unat cur_room_id)) in
     if length room_id = GUI_ROOM_ID_SIZE then (Ok room_id, cur_room_id + 1) else (Panic, cur_room_id))"

definition insert_room :: "ComId \<Rightarrow> GuiRoomId \<Rightarrow> GuiRoom \<Rightarrow> GuiRoomManager \<Rightarrow> GuiRoomManager" where
  "insert_room com_id room_id room gm =
    gm\<lparr> gm_rooms := (gm_rooms gm)(room_id \<mapsto> room),
        gm_comid_rooms := entry_insert com_id room_id (gm_comid_rooms gm) \<rparr>"

text \<open>The room is changed before the assertion on the user's set is checked.\<close>

definition add_member_to_room ::
    "GuiRoomId \<Rightarrow> ClientInfo \<Rightarrow> bool \<Rightarrow> GuiRoom \<Rightarrow> GuiRoomManager \<Rightarrow> GuiRoom result \<times> GuiRoomManager" where
  "add_member_to_room room_id cinfo owner room gm =
    (let room1 = add_member cinfo owner room;
         known = (case gm_user_rooms gm (ci_user_id cinfo) of Some s \<Rightarrow> room_id \<in> s | None \<Rightarrow> False);
         gm1 = gm\<lparr> gm_rooms := (gm_rooms gm)(room_id \<mapsto> room1),
                   gm_user_rooms := entry_insert (ci_user_id cinfo) room_id (gm_user_rooms gm) \<rparr>
     in (if known then Panic else Ok room1, gm1))"

text \<open>The loops over the rooms of a game: the first room that satisfies a test, and all of them.\<close>

fun find_gui_room :: "(GuiRoom \<Rightarrow> bool) \<Rightarrow> (GuiRoomId \<rightharpoonup> GuiRoom) \<Rightarrow> GuiRoomId list \<Rightarrow> (GuiRoomId \<times> GuiRoom) option result" where
  "find_gui_room p rooms [] = Ok None"
| "find_gui_room p rooms (room_id # ids) =
    bind_res (unwrap (rooms room_id)) (\<lambda>room.
      if p room then Ok (Some (room_id, room)) else find_gui_room p rooms ids)"

fun matching_gui_rooms :: "(GuiRoom \<Rightarrow> bool) \<Rightarrow> (GuiRoomId \<rightharpoonup> GuiRoom) \<Rightarrow> GuiRoomId list \<Rightarrow> (GuiRoomId \<times> GuiRoom) list result" where
  "matching_gui_rooms p rooms [] = Ok []"
| "matching_gui_rooms p rooms (room_id # ids) =
    bind_res (unwrap (rooms room_id)) (\<lambda>room.
    bind_res (matching_gui_rooms p rooms ids) (\<lambda>rest.
      Ok (if p room then (room_id, room) # rest else rest)))"

definition game_rooms :: "hash_iter \<Rightarrow> GuiRoomManager \<Rightarrow> ComId \<Rightarrow> GuiRoomId list" where
  "game_rooms iter gm com_id = (case gm_comid_rooms gm com_id of Some s \<Rightarrow> it_rooms iter s | None \<Rightarrow> [])"

definition member_ids :: "GuiRoom \<Rightarrow> i64 set" where
  "member_ids room = fst ` set (gr_members room)"

text \<open>The room that takes the player of a quick match: one that fits, or a new one.\<close>

definition quickmatch_room ::
    "hash_iter \<Rightarrow> GuiRoomManager \<Rightarrow> ComId \<Rightarrow> QuickMatchGuiRequest \<Rightarrow> ClientInfo
      \<Rightarrow> (GuiRoomId \<times> GuiRoom) result \<times> GuiRoomManager" where
  "quickmatch_room iter gm com_id req cinfo =
    then_st (find_gui_room (\<lambda>room. is_quickmatch room req) (gm_rooms gm) (game_rooms iter gm com_id), gm) (\<lambda>found gm.
      case found of
        Some (room_id, room) \<Rightarrow>
          then_st (add_member_to_room room_id cinfo False room gm) (\<lambda>room gm. (Ok (room_id, room), gm))
      | None \<Rightarrow>
          bind_st (generate_room_id (gm_cur_room_id gm) com_id) (\<lambda>room_id cur.
            let room = from_quickmatch_protobuf req com_id;
                gm1 = insert_room com_id room_id room (gm\<lparr> gm_cur_room_id := cur \<rparr>)
            in then_st (add_member_to_room room_id cinfo True room gm1) (\<lambda>room gm. (Ok (room_id, room), gm)))
          (\<lambda>cur. gm\<lparr> gm_cur_room_id := cur \<rparr>))"

text \<open>A room that is complete is hidden, and its members are told.\<close>

definition complete_quickmatch ::
    "gui_codec \<Rightarrow> hash_iter \<Rightarrow> ClientInfo \<Rightarrow> GuiRoomId \<Rightarrow> GuiRoom \<Rightarrow> GuiRoomManager
      \<Rightarrow> (i64 set \<times> bytes) option \<times> GuiRoomManager" where
  "complete_quickmatch codec iter cinfo room_id room gm =
    (if length (gr_members room) = unat (gr_total_slots room) then
       let room1 = room\<lparr> gr_stealth := True \<rparr>;
           others = member_ids room1 - {ci_user_id cinfo};
           status = gen_MatchingRoomStatus iter room1 room_id None None
       in (Some (others, enc_MatchingRoomStatus codec status), gm\<lparr> gm_rooms := (gm_rooms gm)(room_id \<mapsto> room1) \<rparr>)
     else (None, gm))"

definition quickmatch_gui ::
    "gui_codec \<Rightarrow> hash_iter \<Rightarrow> GuiRoomManager \<Rightarrow> ComId \<Rightarrow> QuickMatchGuiRequest \<Rightarrow> ClientInfo
      \<Rightarrow> (bytes \<times> (i64 set \<times> bytes) option) result \<times> GuiRoomManager" where
  "quickmatch_gui codec iter gm com_id req cinfo =
    then_st (quickmatch_room iter gm com_id req cinfo) (\<lambda>(room_id, room) gm.
      let (notification_infos, gm1) = complete_quickmatch codec iter cinfo room_id room gm
      in (Ok (enc_MatchingGuiRoomId codec \<lparr> gi_id = room_id \<rparr>, notification_infos), gm1))"

definition create_room_gui ::
    "gui_codec \<Rightarrow> hash_iter \<Rightarrow> GuiRoomManager \<Rightarrow> ComId \<Rightarrow> CreateRoomGuiRequest \<Rightarrow> ClientInfo
      \<Rightarrow> bytes result \<times> GuiRoomManager" where
  "create_room_gui codec iter gm com_id req cinfo =
    bind_st (generate_room_id (gm_cur_room_id gm) com_id) (\<lambda>room_id cur.
      let room = GuiRoom_from_protobuf req com_id;
          gm1 = insert_room com_id room_id room (gm\<lparr> gm_cur_room_id := cur \<rparr>)
      in then_st (add_member_to_room room_id cinfo True room gm1) (\<lambda>room gm.
           (Ok (enc_MatchingRoomStatus codec (gen_MatchingRoomStatus iter room room_id None None)), gm)))
    (\<lambda>cur. gm\<lparr> gm_cur_room_id := cur \<rparr>)"

definition join_room_gui ::
    "gui_codec \<Rightarrow> hash_iter \<Rightarrow> GuiRoomManager \<Rightarrow> GuiRoomId \<Rightarrow> ClientInfo
      \<Rightarrow> (bytes \<times> i64 set \<times> bytes) result \<times> GuiRoomManager" where
  "join_room_gui codec iter gm room_id cinfo =
    (case gm_rooms gm room_id of
       None \<Rightarrow> (Err RoomMissing, gm)
     | Some room \<Rightarrow>
         if length (gr_members room) = unat (gr_total_slots room) then (Err RoomFull, gm)
         else if bt_get (gr_members room) (ci_user_id cinfo) \<noteq> None then (Err RoomAlreadyJoined, gm)
         else then_st (add_member_to_room room_id cinfo False room gm) (\<lambda>room1 gm1.
           (Ok (enc_MatchingRoomStatus codec (gen_MatchingRoomStatus iter room1 room_id None None),
                member_ids room,
                enc_MatchingRoomStatus codec
                  (gen_MatchingRoomStatus iter room1 room_id (Some (ci_user_id cinfo)) None)), gm1)))"

text \<open>
  \<^verbatim>\<open>assert!(comid_rooms.get_mut(..).unwrap().remove(room_id)); assert!(rooms.remove(room_id).is_some())\<close>,
  and \<^verbatim>\<open>user_rooms.get_mut(&user).unwrap().remove(room_id)\<close>.
\<close>

definition drop_gui_room :: "ComId \<Rightarrow> GuiRoomId \<Rightarrow> GuiRoomManager \<Rightarrow> unit result \<times> GuiRoomManager" where
  "drop_gui_room com_id room_id gm =
    (case gm_comid_rooms gm com_id of
       None \<Rightarrow> (Panic, gm)
     | Some s \<Rightarrow>
         let gm1 = gm\<lparr> gm_comid_rooms := (gm_comid_rooms gm)(com_id \<mapsto> s - {room_id}) \<rparr> in
         if room_id \<notin> s then (Panic, gm1)
         else (if gm_rooms gm1 room_id = None then Panic else Ok (), gm1\<lparr> gm_rooms := (gm_rooms gm1)(room_id := None) \<rparr>))"

definition forget_user :: "GuiRoomId \<Rightarrow> i64 \<Rightarrow> GuiRoomManager \<Rightarrow> unit result \<times> GuiRoomManager" where
  "forget_user room_id user gm =
    (case gm_user_rooms gm user of
       None \<Rightarrow> (Panic, gm)
     | Some s \<Rightarrow> (Ok (), gm\<lparr> gm_user_rooms := (gm_user_rooms gm)(user \<mapsto> s - {room_id}) \<rparr>))"

definition leave_room_gui ::
    "gui_codec \<Rightarrow> hash_iter \<Rightarrow> (nat \<Rightarrow> nat) \<Rightarrow> GuiRoomManager \<Rightarrow> GuiRoomId \<Rightarrow> ClientInfo
      \<Rightarrow> (bytes \<times> i64 set \<times> (NotificationType \<times> bytes) list) result \<times> GuiRoomManager" where
  "leave_room_gui codec iter rnd gm room_id cinfo =
    (case gm_rooms gm room_id of
       None \<Rightarrow> (Err RoomMissing, gm)
     | Some room \<Rightarrow>
       (case bt_get (gr_members room) (ci_user_id cinfo) of
          None \<Rightarrow> (Err NotFound, gm)
        | Some member_left \<Rightarrow>
            let room1 = room\<lparr> gr_members := bt_remove (ci_user_id cinfo) (gr_members room) \<rparr>;
                gm1 = gm\<lparr> gm_rooms := (gm_rooms gm)(room_id \<mapsto> room1) \<rparr>
            in then_st (forget_user room_id (ci_user_id cinfo) gm1) (\<lambda>_ gm2.
              let users = member_ids room1;
                  status = (\<lambda>room f e. enc_MatchingRoomStatus codec (gen_MatchingRoomStatus iter room room_id f e));
                  reply = status room1 (Some 0) None
              in if gr_members room1 = [] then
                   then_st (drop_gui_room (gr_communication_id room1) room_id gm2) (\<lambda>_ gm3. (Ok (reply, {}, []), gm3))
                 else if gm_owner member_left then
                   let left = member_left\<lparr> gm_owner := False \<rparr> in
                   if \<not> gr_privilege_grant room1 then
                     then_st (fold_st (forget_user room_id) (bt_keys (it_members iter (gr_members room1))) gm2) (\<lambda>_ gm3.
                     then_st (drop_gui_room (gr_communication_id room1) room_id gm3) (\<lambda>_ gm4.
                       (Ok (reply, users, [(RoomDisappearedGUI, status room1 (Some 0) None)]), gm4)))
                   else
                     then_st (index_res (it_members iter (gr_members room1)) (rnd (length (gr_members room1))), gm2)
                       (\<lambda>(new_owner, _) gm2.
                         let room2 = room1\<lparr> gr_members := bt_modify new_owner (\<lambda>m. m\<lparr> gm_owner := True \<rparr>) (gr_members room1) \<rparr>
                         in (Ok (reply, users,
                               [(RoomOwnerChangedGUI, status room2 (Some new_owner) (Some left)),
                                (MemberLeftRoomGUI, status room2 (Some 0) (Some left))]),
                             gm2\<lparr> gm_rooms := (gm_rooms gm2)(room_id \<mapsto> room2) \<rparr>))
                 else (Ok (reply, users, [(MemberLeftRoomGUI, status room1 (Some 0) (Some member_left))]), gm2))))"

definition gui_range_start :: "GetRoomListGuiRequest \<Rightarrow> u32" where
  "gui_range_start req = (if gl_range_start req = 0 then 1 else gl_range_start req)"

definition gui_range_max :: "GetRoomListGuiRequest \<Rightarrow> u32" where
  "gui_range_max req = (if gl_range_max req = 0 \<or> gl_range_max req > 20 then 20 else gl_range_max req)"

definition get_room_list_gui ::
    "gui_codec \<Rightarrow> hash_iter \<Rightarrow> GuiRoomManager \<Rightarrow> ComId \<Rightarrow> GetRoomListGuiRequest \<Rightarrow> bytes result" where
  "get_room_list_gui codec iter gm com_id req =
    bind_res (matching_gui_rooms (\<lambda>room. gui_is_match room (gl_conds req) False) (gm_rooms gm) (game_rooms iter gm com_id))
      (\<lambda>found.
        let range_start = gui_range_start req;
            rooms = (if length found \<ge> unat range_start then
                       let start = unat range_start - 1;
                           num_to_get = min (length found - start) (unat (gui_range_max req))
                       in map (\<lambda>(room_id, room). gen_MatchingRoom room room_id (attr_keys (gl_attrs req)))
                            (take num_to_get (drop start found))
                     else [])
        in Ok (enc_MatchingRoomList codec \<lparr> ml_start = range_start, ml_total = of_nat (length found), ml_rooms = rooms \<rparr>))"

definition search_join_gui ::
    "gui_codec \<Rightarrow> hash_iter \<Rightarrow> GuiRoomManager \<Rightarrow> ComId \<Rightarrow> SearchJoinRoomGuiRequest \<Rightarrow> ClientInfo
      \<Rightarrow> (bytes \<times> i64 set \<times> bytes) result \<times> GuiRoomManager" where
  "search_join_gui codec iter gm com_id req cinfo =
    then_st (find_gui_room (\<lambda>room. gui_is_match room (sj_conds req) True) (gm_rooms gm) (game_rooms iter gm com_id), gm)
      (\<lambda>found gm.
        case found of
          None \<Rightarrow> (Err NotFound, gm)
        | Some (room_id, room) \<Rightarrow>
            then_st (add_member_to_room room_id cinfo False room gm) (\<lambda>room1 gm1.
              (Ok (enc_MatchingSearchJoinRoomInfo codec
                     (gen_MatchingSearchJoinRoomInfo iter room1 room_id None None (sj_attrs req)),
                   member_ids room,
                   enc_MatchingRoomStatus codec
                     (gen_MatchingRoomStatus iter room1 room_id (Some (ci_user_id cinfo)) None)), gm1)))"

definition gui_get_rooms_by_user :: "GuiRoomManager \<Rightarrow> i64 \<Rightarrow> GuiRoomId set option" where
  "gui_get_rooms_by_user gm user = gm_user_rooms gm user"

definition get_room_and_check_ownership :: "GuiRoomManager \<Rightarrow> GuiRoomId \<Rightarrow> i64 \<Rightarrow> GuiRoom result" where
  "get_room_and_check_ownership gm room_id req_user_id =
    bind_res (ok_or RoomMissing (gm_rooms gm room_id)) (\<lambda>room.
    bind_res (ok_or NotFound (bt_get (gr_members room) req_user_id)) (\<lambda>m.
      if \<not> gm_owner m then Err Unauthorized else Ok room))"

definition set_search_flag :: "GuiRoomManager \<Rightarrow> GuiRoomId \<Rightarrow> bool \<Rightarrow> i64 \<Rightarrow> unit result \<times> GuiRoomManager" where
  "set_search_flag gm room_id stealth req_user_id =
    then_st (get_room_and_check_ownership gm room_id req_user_id, gm) (\<lambda>room gm.
      (Ok (), if \<not> gr_quickmatch_room room
              then gm\<lparr> gm_rooms := (gm_rooms gm)(room_id \<mapsto> room\<lparr> gr_stealth := stealth \<rparr>) \<rparr> else gm))"

definition get_search_flag :: "gui_codec \<Rightarrow> GuiRoomManager \<Rightarrow> GuiRoomId \<Rightarrow> bytes result" where
  "get_search_flag codec gm room_id =
    bind_res (ok_or NotFound (gm_rooms gm room_id)) (\<lambda>room.
      Ok (enc_MatchingRoom codec (gen_MatchingRoom room room_id [(ATTR_TYPE_BASIC_NUM, ATTR_ID_ROOM_SEARCH_FLAG)])))"

definition set_room_info_gui :: "GuiRoomManager \<Rightarrow> GuiRoomId \<Rightarrow> MatchingAttr list \<Rightarrow> i64 \<Rightarrow> unit result \<times> GuiRoomManager" where
  "set_room_info_gui gm room_id attrs req_user_id =
    then_st (get_room_and_check_ownership gm room_id req_user_id, gm) (\<lambda>room gm.
      (Ok (), gm\<lparr> gm_rooms := (gm_rooms gm)(room_id \<mapsto> fold set_attr attrs room) \<rparr>))"

definition get_room_info_gui :: "gui_codec \<Rightarrow> GuiRoomManager \<Rightarrow> GuiRoomId \<Rightarrow> MatchingAttr list \<Rightarrow> bytes result" where
  "get_room_info_gui codec gm room_id attrs =
    bind_res (ok_or RoomMissing (gm_rooms gm room_id)) (\<lambda>room.
      Ok (enc_MatchingRoom codec (gen_MatchingRoom room room_id (attr_keys attrs))))"

end
