(* ===== verification/Cmd_Messages.thy ===== *)
theory Cmd_Messages
  imports Room_Data Gui_Rooms
begin

text \<open>
  The messages of the command handlers that the managers do not know, from
  \<^verbatim>\<open>server/stream_extractor/np2_structs.proto\<close>.  Their encoders and decoders are generated from that file and are
  arguments here; a message with a single field is passed as that field.
\<close>

section \<open>Rooms, sessions and messages\<close>

record SetUserInfo =
  sui_server_id :: "Uint16 option"
  sui_user_bin_attr :: "BinAttr list"

record LeaveRoomRequest =
  lrr_room_id :: u64
  lrr_opt_data :: "PresenceOptionData option"

record SendRoomMessageRequest =
  srm_room_id :: u64
  srm_cast_type :: "Uint8 option"
  srm_dst :: "Uint16 list"
  srm_msg :: bytes
  srm_option :: "Uint8 option"

record RoomMessageInfo =
  rmi_filtered :: bool
  rmi_cast_type :: "Uint8 option"
  rmi_dst :: "Uint16 list"
  rmi_src_member :: "UserInfo option"
  rmi_msg :: bytes

record GetPingInfoResponse =
  gpi_server_id :: "Uint16 option"
  gpi_world_id :: u32
  gpi_room_id :: u64
  gpi_rtt :: u32

record RoomUpdateInfo =
  rui_event_cause :: "Uint8 option"
  rui_error_code :: i32
  rui_opt_data :: "PresenceOptionData option"

record MatchingSignalingInfo =
  msi_npid :: string
  msi_addr :: "SignalingAddr option"

record SendMessageRequest =
  smr_message :: bytes
  smr_npids :: "string list"

record MessageDetails =
  md_communication_id :: string
  md_msg_id :: u64
  md_main_type :: "Uint16 option"
  md_sub_type :: "Uint16 option"
  md_msg_features :: u32
  md_subject :: string
  md_body :: string
  md_data :: bytes

record SetPresenceRequest =
  spr_title :: string
  spr_status :: string
  spr_comment :: string
  spr_data :: bytes

record cmd_codec =
  enc_RoomMemberUpdateInfo :: "RoomMemberUpdateInfo \<Rightarrow> bytes"
  enc_RoomUpdateInfo :: "RoomUpdateInfo \<Rightarrow> bytes"
  enc_GetPingInfoResponse :: "GetPingInfoResponse \<Rightarrow> bytes"
  enc_RoomMessageInfo :: "RoomMessageInfo \<Rightarrow> bytes"
  enc_MatchingSignalingInfo :: "MatchingSignalingInfo \<Rightarrow> bytes"
  enc_SignalingAddr :: "SignalingAddr \<Rightarrow> bytes"
  dec_CreateJoinRoomRequest :: "bytes \<Rightarrow> CreateJoinRoomRequest option"
  dec_JoinRoomRequest :: "bytes \<Rightarrow> JoinRoomRequest option"
  dec_LeaveRoomRequest :: "bytes \<Rightarrow> LeaveRoomRequest option"
  dec_SearchRoomRequest :: "bytes \<Rightarrow> SearchRoomRequest option"
  dec_GetRoomDataExternalListRequest :: "bytes \<Rightarrow> GetRoomDataExternalListRequest option"
  dec_SetRoomDataExternalRequest :: "bytes \<Rightarrow> SetRoomDataExternalRequest option"
  dec_GetRoomDataInternalRequest :: "bytes \<Rightarrow> GetRoomDataInternalRequest option"
  dec_SetRoomDataInternalRequest :: "bytes \<Rightarrow> SetRoomDataInternalRequest option"
  dec_GetRoomMemberDataInternalRequest :: "bytes \<Rightarrow> GetRoomMemberDataInternalRequest option"
  dec_SetRoomMemberDataInternalRequest :: "bytes \<Rightarrow> SetRoomMemberDataInternalRequest option"
  dec_SendRoomMessageRequest :: "bytes \<Rightarrow> SendRoomMessageRequest option"
  dec_SetUserInfo :: "bytes \<Rightarrow> SetUserInfo option"
  dec_SendMessageRequest :: "bytes \<Rightarrow> SendMessageRequest option"
  dec_MessageDetails :: "bytes \<Rightarrow> MessageDetails option"
  dec_SetPresenceRequest :: "bytes \<Rightarrow> SetPresenceRequest option"
  dec_CreateRoomGuiRequest :: "bytes \<Rightarrow> CreateRoomGuiRequest option"
  dec_MatchingGuiRoomId :: "bytes \<Rightarrow> MatchingGuiRoomId option"
  dec_GetRoomListGuiRequest :: "bytes \<Rightarrow> GetRoomListGuiRequest option"
  dec_SetRoomSearchFlagGui :: "bytes \<Rightarrow> SetRoomSearchFlagGui option"
  dec_MatchingRoom :: "bytes \<Rightarrow> MatchingRoom option"
  dec_QuickMatchGuiRequest :: "bytes \<Rightarrow> QuickMatchGuiRequest option"
  dec_SearchJoinRoomGuiRequest :: "bytes \<Rightarrow> SearchJoinRoomGuiRequest option"

section \<open>Scores\<close>

record RecordScoreRequest =
  rsr_board_id :: u32
  rsr_pc_id :: i32
  rsr_score :: i64
  rsr_comment :: string
  rsr_data :: bytes

record GetScoreRangeRequest =
  gsr_board_id :: u32
  gsr_start_rank :: u32
  gsr_num_ranks :: u32
  gsr_with_comment :: bool
  gsr_with_game_info :: bool

record GetScoreNpIdRequest =
  gsn_board_id :: u32
  gsn_npids :: "(string \<times> i32) list"
  gsn_with_comment :: bool
  gsn_with_game_info :: bool

record GetScoreFriendsRequest =
  gsf_board_id :: u32
  gsf_include_self :: bool
  gsf_max :: u32
  gsf_with_comment :: bool
  gsf_with_game_info :: bool

record ScoreRankData =
  srd_np_id :: string
  srd_online_name :: string
  srd_pc_id :: i32
  srd_rank :: u32
  srd_score :: i64
  srd_has_game_data :: bool
  srd_record_date :: u64

record GetScoreResponse =
  gsp_rank_array :: "ScoreRankData list"
  gsp_comment_array :: "string list"
  gsp_info_array :: "bytes list"
  gsp_last_sort_date :: u64
  gsp_total_record :: u32

record RecordScoreGameDataRequest =
  rsg_board_id :: u32
  rsg_pc_id :: i32
  rsg_score :: i64

record GetScoreGameDataRequest =
  gsg_board_id :: u32
  gsg_np_id :: string
  gsg_pc_id :: i32

text \<open>\<^verbatim>\<open>BoardInfo\<close> has the fields of the settings of a board, in their order.\<close>

record score_codec =
  enc_BoardInfo :: "u32 \<Rightarrow> u32 \<Rightarrow> u32 \<Rightarrow> u32 \<Rightarrow> u32 \<Rightarrow> bytes"
  enc_GetScoreResponse :: "GetScoreResponse \<Rightarrow> bytes"
  dec_RecordScoreRequest :: "bytes \<Rightarrow> RecordScoreRequest option"
  dec_RecordScoreGameDataRequest :: "bytes \<Rightarrow> RecordScoreGameDataRequest option"
  dec_GetScoreGameDataRequest :: "bytes \<Rightarrow> GetScoreGameDataRequest option"
  dec_GetScoreRangeRequest :: "bytes \<Rightarrow> GetScoreRangeRequest option"
  dec_GetScoreFriendsRequest :: "bytes \<Rightarrow> GetScoreFriendsRequest option"
  dec_GetScoreNpIdRequest :: "bytes \<Rightarrow> GetScoreNpIdRequest option"

section \<open>Title user storage\<close>

record TusUser =
  tu_vuser :: bool
  tu_npid :: string

record TusVariable =
  tvr_owner_id :: string
  tvr_has_data :: bool
  tvr_last_changed_date :: u64
  tvr_last_changed_author_id :: string
  tvr_variable :: i64
  tvr_old_variable :: i64

record TusSetMultiSlotVariableRequest =
  tsv_user :: "TusUser option"
  tsv_slot_id_array :: "i32 list"
  tsv_variable_array :: "i64 list"

text \<open>Four requests name a user and slots, two name users and a slot, and two ask for the entries of friends.\<close>

record TusSlotsRequest =
  tsr_user :: "TusUser option"
  tsr_slot_id_array :: "i32 list"

record TusUsersRequest =
  tur_users :: "TusUser list"
  tur_slot_id :: i32

record TusFriendsRequest =
  tfr_slot_id :: i32
  tfr_include_self :: bool
  tfr_sort_type :: i32
  tfr_array_num :: u32

record TusAddAndGetVariableRequest =
  tag_user :: "TusUser option"
  tag_slot_id :: i32
  tag_in_variable :: i64
  tag_is_last_changed_date :: "u64 list"
  tag_is_last_changed_author_id :: string

record TusTryAndSetVariableRequest =
  tts_user :: "TusUser option"
  tts_slot_id :: i32
  tts_ope_type :: i32
  tts_variable :: i64
  tts_is_last_changed_date :: "u64 list"
  tts_is_last_changed_author_id :: string
  tts_compare_value :: "i64 list"

record TusSetDataRequest =
  tsd_user :: "TusUser option"
  tsd_slot_id :: i32
  tsd_data :: bytes
  tsd_info :: bytes
  tsd_is_last_changed_date :: "u64 list"
  tsd_is_last_changed_author_id :: string

record TusDataStatus =
  tds_owner_id :: string
  tds_has_data :: bool
  tds_last_changed_date :: u64
  tds_last_changed_author_id :: string
  tds_info :: bytes

record TusGetDataRequest =
  tgd_user :: "TusUser option"
  tgd_slot_id :: i32

record tus_codec =
  enc_TusVarResponse :: "TusVariable list \<Rightarrow> bytes"
  enc_TusVariable :: "TusVariable \<Rightarrow> bytes"
  enc_TusData :: "TusDataStatus option \<Rightarrow> bytes \<Rightarrow> bytes"
  enc_TusDataStatusResponse :: "TusDataStatus list \<Rightarrow> bytes"
  dec_TusSetMultiSlotVariableRequest :: "bytes \<Rightarrow> TusSetMultiSlotVariableRequest option"
  dec_TusGetMultiSlotVariableRequest :: "bytes \<Rightarrow> TusSlotsRequest option"
  dec_TusGetMultiUserVariableRequest :: "bytes \<Rightarrow> TusUsersRequest option"
  dec_TusGetFriendsVariableRequest :: "bytes \<Rightarrow> TusFriendsRequest option"
  dec_TusAddAndGetVariableRequest :: "bytes \<Rightarrow> TusAddAndGetVariableRequest option"
  dec_TusTryAndSetVariableRequest :: "bytes \<Rightarrow> TusTryAndSetVariableRequest option"
  dec_TusDeleteMultiSlotVariableRequest :: "bytes \<Rightarrow> TusSlotsRequest option"
  dec_TusSetDataRequest :: "bytes \<Rightarrow> TusSetDataRequest option"
  dec_TusGetDataRequest :: "bytes \<Rightarrow> TusGetDataRequest option"
  dec_TusGetMultiSlotDataStatusRequest :: "bytes \<Rightarrow> TusSlotsRequest option"
  dec_TusGetMultiUserDataStatusRequest :: "bytes \<Rightarrow> TusUsersRequest option"
  dec_TusGetFriendsDataStatusRequest :: "bytes \<Rightarrow> TusFriendsRequest option"
  dec_TusDeleteMultiSlotDataRequest :: "bytes \<Rightarrow> TusSlotsRequest option"

end
