(* ===== verification/Game_Services.thy ===== *)
theory Game_Services
  imports Np2_Structs
begin

text \<open>
  Two services beside the rooms: the adjusted search of one game
  (\<^verbatim>\<open>server/game_specific_matchmaking.rs\<close>) and the counters of players per game
  (\<^verbatim>\<open>server/game_tracker.rs\<close>).
\<close>

section \<open>The adjusted search of NPWR02973\<close>

definition NPWR02973_00 :: ComId where
  "NPWR02973_00 = [78, 80, 87, 82, 48, 50, 57, 55, 51, 95, 48, 48]"

abbreviation (input) RANK_LOWER_FILTER_INDEX :: usize where "RANK_LOWER_FILTER_INDEX \<equiv> 3"
abbreviation (input) RANK_UPPER_FILTER_INDEX :: usize where "RANK_UPPER_FILTER_INDEX \<equiv> 4"
abbreviation (input) FIRST_DAN_MAX_RANK :: u32 where "FIRST_DAN_MAX_RANK \<equiv> 10"

text \<open>\<^verbatim>\<open>int_filter.get(i)?.attr.as_ref()?.num\<close> and a write to that number.\<close>

definition filter_num :: "SearchRoomRequest \<Rightarrow> usize \<Rightarrow> u32 option" where
  "filter_num req i =
    (if i < length (srr_int_filter req) then map_option ia_num (isf_attr (srr_int_filter req ! i)) else None)"

definition set_filter_num :: "usize \<Rightarrow> u32 \<Rightarrow> SearchRoomRequest \<Rightarrow> SearchRoomRequest" where
  "set_filter_num i num req =
    req\<lparr> srr_int_filter := (srr_int_filter req)[i := (srr_int_filter req ! i)
      \<lparr> isf_attr := map_option (\<lambda>a. a\<lparr> ia_num := num \<rparr>) (isf_attr (srr_int_filter req ! i)) \<rparr>] \<rparr>"

definition saturating_add :: "u32 \<Rightarrow> u32 \<Rightarrow> u32" where
  "saturating_add a b = (if a + b < a then - 1 else a + b)"

definition saturating_sub :: "u32 \<Rightarrow> u32 \<Rightarrow> u32" where
  "saturating_sub a b = (if a < b then 0 else a - b)"

definition build_npwr02973_adjusted_request :: "ComId \<Rightarrow> SearchRoomRequest \<Rightarrow> SearchRoomRequest option" where
  "build_npwr02973_adjusted_request com_id search_req =
    (if com_id \<noteq> NPWR02973_00 then None
     else
       Option.bind (filter_num search_req RANK_LOWER_FILTER_INDEX) (\<lambda>lower.
       Option.bind (filter_num search_req RANK_UPPER_FILTER_INDEX) (\<lambda>upper.
         if lower > upper then None
         else
           let rank = lower + (upper - lower) div 2 in
           if rank \<le> FIRST_DAN_MAX_RANK then None
           else
             let adjusted_lower = min (saturating_add lower 2) rank;
                 adjusted_upper = max (saturating_sub upper 2) rank
             in if (adjusted_lower, adjusted_upper) = (lower, upper) then None
                else Some (set_filter_num RANK_UPPER_FILTER_INDEX adjusted_upper
                             (set_filter_num RANK_LOWER_FILTER_INDEX adjusted_lower search_req)))))"

text \<open>The documented adjustment, on numbers that do not overflow: two ranks towards the midpoint, clamped there.\<close>

definition dan_range :: "nat \<Rightarrow> nat \<Rightarrow> nat \<times> nat" where
  "dan_range lower upper = (let mid = (lower + upper) div 2 in (min (lower + 2) mid, max (upper - 2) mid))"

lemma unat_saturating: "unat (saturating_add a 2) = min (unat a + 2) (2 ^ 32 - 1)" "unat (saturating_sub a 2) = unat a - 2"
proof -
  have "unat a < 2 ^ 32" using unat_lt32 [of a] by simp
  moreover have "unat (- 1 :: u32) = 2 ^ 32 - 1" by (simp add: unsigned_minus_1_eq_mask mask_eq_exp_minus_1)
  moreover have "unat (a + 2) = (unat a + 2) mod 2 ^ 32" by (simp add: unat_word_ariths)
  ultimately show "unat (saturating_add a 2) = min (unat a + 2) (2 ^ 32 - 1)"
    by (auto simp: saturating_add_def word_less_nat_alt mod_if)
  show "unat (saturating_sub a 2) = unat a - 2"
    by (auto simp: saturating_sub_def word_less_nat_alt unat_sub word_le_nat_alt)
qed

lemma unat_min: "unat (min a b :: u32) = min (unat a) (unat b)" and unat_max: "unat (max a b :: u32) = max (unat a) (unat b)"
  by (simp_all add: min_def max_def word_le_nat_alt)

lemma unat_midpoint:
  assumes "(lower :: u32) \<le> upper"
  shows "unat (lower + (upper - lower) div 2) = (unat lower + unat upper) div 2"
proof -
  have le: "unat lower \<le> unat upper" "unat upper < 2 ^ 32"
    using assms unat_lt32 [of upper] by (simp_all add: word_le_nat_alt)
  have d: "unat ((upper - lower) div 2) = (unat upper - unat lower) div 2" using assms by (simp add: unat_div unat_sub)
  have "unat lower + (unat upper - unat lower) div 2 < 2 ^ 32" using le by linarith
  then have "unat (lower + (upper - lower) div 2) = unat lower + (unat upper - unat lower) div 2"
    by (simp add: unat_add_lem [THEN iffD1] d)
  then show ?thesis using le by linarith
qed

text \<open>C39: the search of this game is adjusted as documented.  It is changed exactly when both rank filters are present,
  the range is not a single rank and its midpoint lies above the first dan; then the two numbers are the documented
  ones, with no overflow at either end, and nothing else of the request changes.\<close>

theorem adjusted_request_spec:
  "build_npwr02973_adjusted_request c req =
    (case (filter_num req 3, filter_num req 4) of
       (Some lower, Some upper) \<Rightarrow>
         if c = NPWR02973_00 \<and> lower < upper \<and> 10 < (unat lower + unat upper) div 2 then
           (case dan_range (unat lower) (unat upper) of
              (l, u) \<Rightarrow> Some (set_filter_num 4 (of_nat u) (set_filter_num 3 (of_nat l) req)))
         else None
     | _ \<Rightarrow> None)"
proof (cases "filter_num req 3"; cases "filter_num req 4"; cases "c = NPWR02973_00")
  fix lower upper
  assume f: "filter_num req 3 = Some lower" "filter_num req 4 = Some upper" and c: "c = NPWR02973_00"
  let ?rank = "lower + (upper - lower) div 2"
  show ?thesis
  proof (cases "lower \<le> upper")
    case True
    have m: "unat ?rank = (unat lower + unat upper) div 2" by (rule unat_midpoint [OF True])
    have le: "unat lower \<le> unat upper" "unat upper < 2 ^ 32"
      using True unat_lt32 [of upper] by (simp_all add: word_le_nat_alt)
    have l: "unat (min (saturating_add lower 2) ?rank) = fst (dan_range (unat lower) (unat upper))"
    proof -
      have "(unat lower + unat upper) div 2 \<le> 2 ^ 32 - 1" using le by linarith
      then show ?thesis by (simp add: unat_min unat_saturating m dan_range_def Let_def min.assoc min.absorb2)
    qed
    have u: "unat (max (saturating_sub upper 2) ?rank) = snd (dan_range (unat lower) (unat upper))"
      by (simp add: unat_max unat_saturating m dan_range_def Let_def)
    have same: "(min (saturating_add lower 2) ?rank, max (saturating_sub upper 2) ?rank) = (lower, upper) \<longleftrightarrow> \<not> lower < upper"
      unfolding prod.inject word_unat_eq_iff l u word_less_nat_alt using le by (auto simp: dan_range_def Let_def)
    have w: "min (saturating_add lower 2) ?rank = of_nat (fst (dan_range (unat lower) (unat upper)))"
      "max (saturating_sub upper 2) ?rank = of_nat (snd (dan_range (unat lower) (unat upper)))"
      unfolding l [symmetric] u [symmetric] by simp_all
    have r: "?rank \<le> 10 \<longleftrightarrow> \<not> 10 < (unat lower + unat upper) div 2" by (simp add: word_le_nat_alt m not_less)
    have "build_npwr02973_adjusted_request c req =
        (if ?rank \<le> 10 \<or> (min (saturating_add lower 2) ?rank, max (saturating_sub upper 2) ?rank) = (lower, upper) then None
         else Some (set_filter_num 4 (max (saturating_sub upper 2) ?rank)
                      (set_filter_num 3 (min (saturating_add lower 2) ?rank) req)))"
    proof -
      have ifs: "(if A then x else if B then x else y) = (if A \<or> B then x else y)" for A B and x y :: "'z" by simp
      have "\<not> lower > upper" using True by simp
      then show ?thesis
        by (simp only: build_npwr02973_adjusted_request_def Let_def c f bind.bind_lunit ifs simp_thms)
    qed
    then show ?thesis unfolding same r unfolding w using c f by (simp add: split_def)
  next
    case False
    then have "upper < lower" "\<not> lower < upper" by simp_all
    with f c show ?thesis by (simp add: build_npwr02973_adjusted_request_def)
  qed
qed (simp_all add: build_npwr02973_adjusted_request_def)

section \<open>Counters of players\<close>

text \<open>\<^verbatim>\<open>AtomicI64::fetch_add\<close> wraps at 64 bits.\<close>

definition fetch_add :: "i64 \<Rightarrow> i64 \<Rightarrow> i64" where
  "fetch_add a d = signed_take_bit 63 (a + d)"

record GameInfo =
  gi_num_users :: i64
  gi_name_hints :: "string set"

record GameTracker =
  gt_num_users :: i64
  gt_psn_games :: "ComId \<rightharpoonup> GameInfo"
  gt_ticket_games :: "string \<rightharpoonup> i64"

definition GameTracker_new :: GameTracker where
  "GameTracker_new = \<lparr> gt_num_users = 0, gt_psn_games = Map.empty, gt_ticket_games = Map.empty \<rparr>"

definition add_gamename_hint :: "ComId \<Rightarrow> string \<Rightarrow> GameTracker \<Rightarrow> GameTracker" where
  "add_gamename_hint com_id name_hint gt =
    (case gt_psn_games gt com_id of
       None \<Rightarrow> gt
     | Some info \<Rightarrow> gt\<lparr> gt_psn_games := (gt_psn_games gt)(com_id \<mapsto> info\<lparr> gi_name_hints := insert name_hint (gi_name_hints info) \<rparr>) \<rparr>)"

definition increase_num_users :: "GameTracker \<Rightarrow> GameTracker" where
  "increase_num_users gt = gt\<lparr> gt_num_users := fetch_add (gt_num_users gt) 1 \<rparr>"

definition decrease_num_users :: "GameTracker \<Rightarrow> GameTracker" where
  "decrease_num_users gt = gt\<lparr> gt_num_users := fetch_add (gt_num_users gt) (- 1) \<rparr>"

definition add_value_psn :: "ComId \<Rightarrow> i64 \<Rightarrow> GameTracker \<Rightarrow> GameTracker" where
  "add_value_psn com_id to_add gt =
    (let info = (case gt_psn_games gt com_id of Some info \<Rightarrow> info | None \<Rightarrow> \<lparr> gi_num_users = 0, gi_name_hints = {} \<rparr>)
     in gt\<lparr> gt_psn_games := (gt_psn_games gt)(com_id \<mapsto> info\<lparr> gi_num_users := fetch_add (gi_num_users info) to_add \<rparr>) \<rparr>)"

definition increase_count_psn :: "ComId \<Rightarrow> GameTracker \<Rightarrow> GameTracker" where
  "increase_count_psn com_id = add_value_psn com_id 1"

definition decrease_count_psn :: "ComId \<Rightarrow> GameTracker \<Rightarrow> GameTracker" where
  "decrease_count_psn com_id = add_value_psn com_id (- 1)"

definition add_value_ticket :: "string \<Rightarrow> i64 \<Rightarrow> GameTracker \<Rightarrow> GameTracker" where
  "add_value_ticket service_id to_add gt =
    (let n = (case gt_ticket_games gt service_id of Some n \<Rightarrow> n | None \<Rightarrow> 0)
     in gt\<lparr> gt_ticket_games := (gt_ticket_games gt)(service_id \<mapsto> fetch_add n to_add) \<rparr>)"

definition increase_count_ticket :: "string \<Rightarrow> GameTracker \<Rightarrow> GameTracker" where
  "increase_count_ticket service_id = add_value_ticket service_id 1"

definition decrease_count_ticket :: "string \<Rightarrow> GameTracker \<Rightarrow> GameTracker" where
  "decrease_count_ticket service_id = add_value_ticket service_id (- 1)"

text \<open>The counters as functions, zero where there is none yet.\<close>

definition psn_count :: "GameTracker \<Rightarrow> ComId \<Rightarrow> int" where
  "psn_count gt com_id = (case gt_psn_games gt com_id of Some info \<Rightarrow> gi_num_users info | None \<Rightarrow> 0)"

definition ticket_count :: "GameTracker \<Rightarrow> string \<Rightarrow> int" where
  "ticket_count gt service_id = (case gt_ticket_games gt service_id of Some n \<Rightarrow> n | None \<Rightarrow> 0)"

lemma fetch_add_exact: "- (2 ^ 63) \<le> a + d \<Longrightarrow> a + d < 2 ^ 63 \<Longrightarrow> fetch_add a d = a + d"
  by (simp add: fetch_add_def signed_take_bit_int_eq_self)

lemma psn_count_add: "psn_count (add_value_psn c d gt) k = (if k = c then fetch_add (psn_count gt c) d else psn_count gt k)"
  by (auto simp: psn_count_def add_value_psn_def Let_def split: option.split)

lemma psn_count_hint [simp]: "psn_count (add_gamename_hint c h gt) k = psn_count gt k"
  by (auto simp: psn_count_def add_gamename_hint_def split: option.split)

lemma ticket_count_add:
  "ticket_count (add_value_ticket c d gt) k = (if k = c then fetch_add (ticket_count gt c) d else ticket_count gt k)"
  by (auto simp: ticket_count_def add_value_ticket_def Let_def split: option.split)

lemma psn_count_other [simp]:
  "psn_count (add_value_ticket s d gt) = psn_count gt" "psn_count (increase_num_users gt) = psn_count gt"
  "psn_count (decrease_num_users gt) = psn_count gt"
  by (simp_all add: fun_eq_iff psn_count_def add_value_ticket_def increase_num_users_def decrease_num_users_def Let_def)

lemma ticket_count_other [simp]:
  "ticket_count (add_value_psn c d gt) = ticket_count gt" "ticket_count (add_gamename_hint c h gt) = ticket_count gt"
  "ticket_count (increase_num_users gt) = ticket_count gt" "ticket_count (decrease_num_users gt) = ticket_count gt"
  by (simp_all add: fun_eq_iff ticket_count_def add_value_psn_def add_gamename_hint_def increase_num_users_def
      decrease_num_users_def Let_def split: option.split)

end
