(* ===== verification/Sql_Tables.thy ===== *)
theory Sql_Tables
  imports Client_Types
begin

text \<open>
  The statements of SQLite the server uses, on tables as lists of rows in row order.  A query for one row gives the
  first that fits; \<^verbatim>\<open>INSERT ... ON CONFLICT ... DO UPDATE ... WHERE ... RETURNING\<close> is one operation, the upsert.
  Whether a statement runs at all is decided by the environment: \<^verbatim>\<open>sql name\<close> tells it for the operation \<^verbatim>\<open>name\<close>.
\<close>

type_synonym sql = "string \<Rightarrow> bool"

datatype DbError =
    DbInternal | DbInvalid | DbEmpty | DbWrongPass | DbWrongToken | DbExistingUsername | DbExistingEmail | DbScoreNotBest

type_synonym 'a db_result = "(DbError, 'a) res"

definition update_where :: "('r \<Rightarrow> bool) \<Rightarrow> ('r \<Rightarrow> 'r) \<Rightarrow> 'r list \<Rightarrow> 'r list" where
  "update_where P f t = map (\<lambda>r. if P r then f r else r) t"

definition delete_where :: "('r \<Rightarrow> bool) \<Rightarrow> 'r list \<Rightarrow> 'r list" where
  "delete_where P t = filter (\<lambda>r. \<not> P r) t"

definition count_where :: "('r \<Rightarrow> bool) \<Rightarrow> 'r list \<Rightarrow> nat" where
  "count_where P t = length (filter P t)"

text \<open>The returned row, if the statement changed one, and the table.\<close>

definition upsert :: "('r \<Rightarrow> 'k) \<Rightarrow> ('r \<Rightarrow> 'r) \<Rightarrow> ('r \<Rightarrow> bool) \<Rightarrow> 'r \<Rightarrow> 'r list \<Rightarrow> 'r option \<times> 'r list" where
  "upsert key upd cond row t =
    (case find (\<lambda>r. key r = key row) t of
       None \<Rightarrow> (Some row, t @ [row])
     | Some old \<Rightarrow>
         if cond old then (Some (upd old), update_where (\<lambda>r. key r = key row) upd t) else (None, t))"

definition replace_into :: "('r \<Rightarrow> 'k) \<Rightarrow> 'r \<Rightarrow> 'r list \<Rightarrow> 'r list" where
  "replace_into key row t = delete_where (\<lambda>r. key r = key row) t @ [row]"

text \<open>A query for one row, and a statement whose failure is an internal error.\<close>

definition query_row :: "sql \<Rightarrow> string \<Rightarrow> 'a option \<Rightarrow> 'a db_result" where
  "query_row sql name row = (if sql name then ok_or DbEmpty row else Err DbInternal)"

definition execute :: "sql \<Rightarrow> string \<Rightarrow> 'd \<Rightarrow> 'd \<Rightarrow> unit db_result \<times> 'd" where
  "execute sql name new old = (if sql name then (Ok (), new) else (Err DbInternal, old))"

section \<open>Lookups in keyed tables\<close>

definition row_of :: "('r \<Rightarrow> 'k) \<Rightarrow> 'r list \<Rightarrow> 'k \<Rightarrow> 'r option" where
  "row_of key t k = find (\<lambda>r. key r = k) t"

lemma find_append: "find P (xs @ ys) = (case find P xs of Some x \<Rightarrow> Some x | None \<Rightarrow> find P ys)"
  by (induction xs) auto

lemma find_NoneD: "find P xs = None \<Longrightarrow> x \<in> set xs \<Longrightarrow> \<not> P x"
  by (simp add: find_None_iff)

lemma find_SomeD: "find P xs = Some x \<Longrightarrow> x \<in> set xs \<and> P x"
  by (auto simp: find_Some_iff)

lemma row_of_Some: "row_of key t k = Some r \<Longrightarrow> r \<in> set t \<and> key r = k"
  unfolding row_of_def by (auto dest: find_SomeD)

lemma row_of_None: "row_of key t k = None \<longleftrightarrow> k \<notin> key ` set t"
  by (auto simp: row_of_def find_None_iff)

lemma row_of_unique:
  assumes "distinct (map key t)" and "r \<in> set t"
  shows "row_of key t (key r) = Some r"
  using assms by (induction t) (auto simp: row_of_def)

text \<open>An update that leaves the keys alone changes the rows it selects and no other.\<close>

lemma keys_update_where: "(\<And>r. P r \<Longrightarrow> key (f r) = key r) \<Longrightarrow> map key (update_where P f t) = map key t"
  by (simp add: update_where_def)

lemma set_update_where: "set (update_where P f t) = (\<lambda>r. if P r then f r else r) ` set t"
  by (simp add: update_where_def)

lemma row_of_update:
  assumes "\<And>r. P r \<Longrightarrow> key (f r) = key r"
  shows "row_of key (update_where P f t) k = map_option (\<lambda>r. if P r then f r else r) (row_of key t k)"
  using assms by (induction t) (auto simp: row_of_def update_where_def)

lemma row_of_delete:
  assumes "\<And>r. key r = k \<Longrightarrow> \<not> P r"
  shows "row_of key (delete_where P t) k = row_of key t k"
  using assms by (induction t) (auto simp: row_of_def delete_where_def)

lemma set_delete_where [simp]: "set (delete_where P t) = {r \<in> set t. \<not> P r}"
  by (auto simp: delete_where_def)

lemma distinct_delete: "distinct (map key t) \<Longrightarrow> distinct (map key (delete_where P t))"
  by (simp add: delete_where_def distinct_map_filter)

lemma row_of_snoc: "row_of key (t @ [r]) k = (case row_of key t k of Some x \<Rightarrow> Some x | None \<Rightarrow> if key r = k then Some r else None)"
  by (auto simp: row_of_def find_append split: option.splits)

lemma row_of_replace: "row_of key (replace_into key r t) k = (if k = key r then Some r else row_of key t k)"
proof (cases "k = key r")
  case True
  then have "row_of key (delete_where (\<lambda>x. key x = key r) t) k = None" by (auto simp: row_of_None)
  with True show ?thesis by (simp add: replace_into_def row_of_snoc)
next
  case False
  then have "row_of key (delete_where (\<lambda>x. key x = key r) t) k = row_of key t k" by (intro row_of_delete) auto
  with False show ?thesis by (simp add: replace_into_def row_of_snoc split: option.split)
qed

lemma distinct_replace: "distinct (map key t) \<Longrightarrow> distinct (map key (replace_into key r t))"
  by (auto simp: replace_into_def distinct_delete)

lemma count_where_pos: "count_where P t \<noteq> 0 \<longleftrightarrow> (\<exists>r \<in> set t. P r)"
  by (induction t) (auto simp: count_where_def)

subsection \<open>The contract of a keyed table\<close>

text \<open>
  What the operations on one row rely on: the primary key identifies the row, and the change an upsert makes to a
  row keeps its key.  The lemmas say what an upsert returns and what a lookup finds afterwards.
\<close>

locale keyed_table =
  fixes key :: "'r \<Rightarrow> 'k"
    and upd :: "'r \<Rightarrow> 'r \<Rightarrow> 'r"
  assumes key_upd: "key (upd new old) = key old"
begin

lemma upsert_returns:
  "fst (upsert key (upd new) cond new t) =
    (case row_of key t (key new) of
       None \<Rightarrow> Some new
     | Some old \<Rightarrow> if cond old then Some (upd new old) else None)"
  by (simp add: upsert_def row_of_def split: option.split)

lemma upsert_lookup:
  "row_of key (snd (upsert key (upd new) cond new t)) k =
    (if k = key new
     then (case row_of key t k of
             None \<Rightarrow> Some new
           | Some old \<Rightarrow> Some (if cond old then upd new old else old))
     else row_of key t k)"
proof (cases "find (\<lambda>r. key r = key new) t")
  case None
  then show ?thesis by (auto simp: upsert_def row_of_def find_append split: option.split)
next
  case (Some old)
  then have "key old = key new" by (auto dest: find_SomeD)
  moreover have "map_option (\<lambda>r. if key r = key new then upd new r else r) (row_of key t k) = row_of key t k" if "k \<noteq> key new"
    using that by (cases "row_of key t k") (auto dest: row_of_Some)
  ultimately show ?thesis
    using Some by (auto simp: upsert_def row_of_update key_upd row_of_def [of key t "key new"])
qed

lemma upsert_distinct:
  "distinct (map key t) \<Longrightarrow> distinct (map key (snd (upsert key (upd new) cond new t)))"
  by (auto simp: upsert_def keys_update_where key_upd find_None_iff split: option.split)

lemma upsert_other:
  "r \<in> set t \<Longrightarrow> key r \<noteq> key new \<Longrightarrow> r \<in> set (snd (upsert key (upd new) cond new t))"
  by (auto simp: upsert_def set_update_where split: option.split)

lemma upsert_from:
  "r \<in> set (snd (upsert key (upd new) cond new t)) \<Longrightarrow> r \<in> set t \<or> key r = key new"
  by (auto simp: upsert_def set_update_where key_upd split: option.splits if_splits)

end

end
