(* ===== verification/Text.thy ===== *)
theory Text
  imports Stream_Extractor
begin

text \<open>
  The string functions of the standard library that the configuration files, the account commands and the data
  directories are read with: \<^verbatim>\<open>trim\<close>, \<^verbatim>\<open>split\<close>, \<^verbatim>\<open>lines\<close>, ASCII case folding, and the parsing and printing of
  unsigned integers.  A string is a list of characters below 256.
\<close>

section \<open>Characters\<close>

abbreviation code :: "char \<Rightarrow> nat" where
  "code c \<equiv> of_char c"

text \<open>\<^verbatim>\<open>char::is_whitespace\<close> on the characters below 256.\<close>

definition is_whitespace :: "char \<Rightarrow> bool" where
  "is_whitespace c \<longleftrightarrow> 9 \<le> code c \<and> code c \<le> 13 \<or> code c = 32 \<or> code c = 0x85 \<or> code c = 0xA0"

definition is_digit :: "char \<Rightarrow> bool" where
  "is_digit c \<longleftrightarrow> 48 \<le> code c \<and> code c \<le> 57"

definition is_ascii_alphanumeric :: "char \<Rightarrow> bool" where
  "is_ascii_alphanumeric c \<longleftrightarrow> is_digit c \<or> 65 \<le> code c \<and> code c \<le> 90 \<or> 97 \<le> code c \<and> code c \<le> 122"

definition ascii_lower :: "char \<Rightarrow> char" where
  "ascii_lower c = (if 65 \<le> code c \<and> code c \<le> 90 then char_of (code c + 32) else c)"

definition to_ascii_lowercase :: "string \<Rightarrow> string" where
  "to_ascii_lowercase = map ascii_lower"

definition eq_ignore_ascii_case :: "string \<Rightarrow> string \<Rightarrow> bool" where
  "eq_ignore_ascii_case s t \<longleftrightarrow> to_ascii_lowercase s = to_ascii_lowercase t"

section \<open>Cutting a string\<close>

definition trim :: "string \<Rightarrow> string" where
  "trim s = rev (dropWhile is_whitespace (rev (dropWhile is_whitespace s)))"

fun split_on :: "char \<Rightarrow> string \<Rightarrow> string list" where
  "split_on c [] = [[]]"
| "split_on c (x # s) = (if x = c then [] # split_on c s else (x # hd (split_on c s)) # tl (split_on c s))"

text \<open>\<^verbatim>\<open>splitn(2, c)\<close> and \<^verbatim>\<open>split_once(c)\<close>.\<close>

definition splitn2 :: "char \<Rightarrow> string \<Rightarrow> string list" where
  "splitn2 c s =
    (case dropWhile (\<lambda>x. x \<noteq> c) s of [] \<Rightarrow> [s] | _ # rest \<Rightarrow> [takeWhile (\<lambda>x. x \<noteq> c) s, rest])"

definition split_once :: "char \<Rightarrow> string \<Rightarrow> (string \<times> string) option" where
  "split_once c s =
    (case dropWhile (\<lambda>x. x \<noteq> c) s of [] \<Rightarrow> None | _ # rest \<Rightarrow> Some (takeWhile (\<lambda>x. x \<noteq> c) s, rest))"

text \<open>\<^verbatim>\<open>split("=>")\<close>.\<close>

fun split_arrow :: "string \<Rightarrow> string list" where
  "split_arrow [] = [[]]"
| "split_arrow [x] = [[x]]"
| "split_arrow (x # y # s) =
    (if x = CHR ''='' \<and> y = CHR ''>'' then [] # split_arrow s
     else (x # hd (split_arrow (y # s))) # tl (split_arrow (y # s)))"

text \<open>\<^verbatim>\<open>lines\<close>: cut at line feeds, a carriage return before one is dropped, and so is an empty last piece.\<close>

definition strip_cr :: "string \<Rightarrow> string" where
  "strip_cr l = (if l \<noteq> [] \<and> code (last l) = 13 then butlast l else l)"

definition lines :: "string \<Rightarrow> string list" where
  "lines s = (let ps = split_on (char_of (10 :: nat)) s in map strip_cr (butlast ps) @ (if last ps = [] then [] else [last ps]))"

text \<open>The lines of a configuration file that are neither empty nor comments.\<close>

definition is_skipped_line :: "string \<Rightarrow> bool" where
  "is_skipped_line l \<longleftrightarrow> trim l = [] \<or> hd (trim l) = CHR ''#''"

section \<open>Numbers\<close>

fun digits_value :: "string \<Rightarrow> nat" where
  "digits_value [] = 0"
| "digits_value s = digits_value (butlast s) * 10 + (code (last s) - 48)"

text \<open>\<^verbatim>\<open>parse::<T>()\<close> for an unsigned type: an optional plus sign and digits, and the value fits the type.\<close>

definition parse_uint :: "string \<Rightarrow> 'a::len word option" where
  "parse_uint s =
    (let d = (case s of c # t \<Rightarrow> if c = CHR ''+'' then t else s | [] \<Rightarrow> []) in
     if d \<noteq> [] \<and> list_all is_digit d \<and> digits_value d < 2 ^ LENGTH('a) then Some (of_nat (digits_value d)) else None)"

fun all_some :: "'a option list \<Rightarrow> 'a list option" where
  "all_some [] = Some []"
| "all_some (None # xs) = None"
| "all_some (Some x # xs) = map_option (Cons x) (all_some xs)"

fun print_nat :: "nat \<Rightarrow> string" where
  "print_nat n = (if n < 10 then [char_of (48 + n)] else print_nat (n div 10) @ [char_of (48 + n mod 10)])"

declare print_nat.simps [simp del]

text \<open>\<^verbatim>\<open>{:020}\<close>.\<close>

definition print_padded :: "nat \<Rightarrow> nat \<Rightarrow> string" where
  "print_padded w n = (let s = print_nat n in replicate (w - length s) CHR ''0'' @ s)"

lemma split_on_not_Nil [simp]: "split_on c s \<noteq> []"
  by (induction s) auto

lemma code_char_of [simp]: "n < 256 \<Longrightarrow> code (char_of n) = n"
  by simp

lemma digits_value_snoc [simp]: "digits_value (s @ [c]) = digits_value s * 10 + (code c - 48)"
  by (cases s) (simp_all add: butlast_append)

lemma print_nat_digits: "print_nat n \<noteq> [] \<and> list_all is_digit (print_nat n)"
proof (induction n rule: print_nat.induct)
  case (1 n)
  show ?case
  proof (cases "n < 10")
    case False
    then show ?thesis using 1 by (simp add: is_digit_def print_nat.simps [of n])
  qed (simp add: is_digit_def print_nat.simps [of n])
qed

lemma digits_value_print: "digits_value (print_nat n) = n"
proof (induction n rule: print_nat.induct)
  case (1 n)
  show ?case
  proof (cases "n < 10")
    case False
    then show ?thesis using 1 by (simp add: print_nat.simps [of n])
  qed (simp add: print_nat.simps [of n])
qed

lemma digits_value_zeros [simp]: "digits_value (replicate k CHR ''0'' @ s) = digits_value s"
proof (induction s rule: rev_induct)
  case Nil
  have "digits_value (replicate k CHR ''0'') = 0"
    by (induction k) (simp_all flip: replicate_append_same)
  then show ?case by simp
next
  case (snoc c s)
  then show ?case using digits_value_snoc [of "replicate k CHR ''0'' @ s" c] by simp
qed

lemma parse_print_padded:
  assumes "n < 2 ^ LENGTH('a)"
  shows "parse_uint (print_padded w n) = Some (of_nat n :: 'a::len word)"
proof -
  let ?s = "print_padded w n"
  have digits: "?s \<noteq> []" "list_all is_digit ?s"
    using print_nat_digits [of n] by (auto simp: print_padded_def Let_def list_all_iff is_digit_def)
  then have "hd ?s \<noteq> CHR ''+''" by (cases ?s) (auto simp: is_digit_def)
  then have "(case ?s of c # t \<Rightarrow> if c = CHR ''+'' then t else ?s | [] \<Rightarrow> []) = ?s"
    using digits(1) by (cases ?s) auto
  moreover have "digits_value ?s = n" by (simp add: print_padded_def Let_def digits_value_print)
  ultimately show ?thesis using assms digits by (simp add: parse_uint_def Let_def)
qed

end
