(* ===== verification/Config.thy ===== *)
theory Config
  imports Text
begin

text \<open>
  The configuration of the server, \<^verbatim>\<open>main.rs\<close>, and the directories of uploaded data, \<^verbatim>\<open>server/utils.rs\<close>.  The
  contents of the configuration files are arguments, absent when a file cannot be read.
\<close>

section \<open>Names of users\<close>

abbreviation (input) DELETED_USER_USERNAME :: string where "DELETED_USER_USERNAME \<equiv> ''DeletedUser''"

definition is_valid_client_username :: "string \<Rightarrow> bool" where
  "is_valid_client_username npid \<longleftrightarrow>
    length (as_bytes npid) \<ge> 3 \<and> length (as_bytes npid) \<le> 16 \<and>
    list_all (\<lambda>x. is_ascii_alphanumeric x \<or> x = CHR ''-'' \<or> x = CHR ''_'') npid \<and> npid \<noteq> DELETED_USER_USERNAME"

section \<open>The configuration\<close>

text \<open>
  \<^verbatim>\<open>ticket_signature_info\<close> is kept as the signing function that its key and digest stand for, and a log level as
  its number.
\<close>

record Config =
  cf_create_missing :: bool
  cf_verbosity :: nat
  cf_host_ipv4 :: string
  cf_host_ipv6 :: string
  cf_port :: string
  cf_email_url :: string
  cf_banned_domains :: "string set"
  cf_server_redirs :: "ComId \<rightharpoonup> ComId"
  cf_ticket_signature_info :: "(bytes \<Rightarrow> bytes option) option"
  cf_stat_server_host_and_port :: "(string \<times> string) option"
  cf_stat_server_path :: string
  cf_stat_server_cache_life :: u32
  cf_api_server_host_and_port :: "(string \<times> string) option"
  cf_api_server_api_key :: string
  cf_admins_list :: "string list"

text \<open>What the configuration takes from libraries: the log levels, and the key on disk joined with a named digest.\<close>

record cfg_env =
  ce_info :: nat
  ce_parse_level :: "string \<Rightarrow> nat option"
  ce_signer :: "string \<Rightarrow> (bytes \<Rightarrow> bytes option) option"

definition Config_new :: "cfg_env \<Rightarrow> Config" where
  "Config_new ce =
    \<lparr> cf_create_missing = True, cf_verbosity = ce_info ce, cf_host_ipv4 = ''0.0.0.0'', cf_host_ipv6 = ''0:0:0:0:0:0:0:0'',
      cf_port = ''31313'', cf_email_url = [], cf_banned_domains = {}, cf_server_redirs = Map.empty,
      cf_ticket_signature_info = None, cf_stat_server_host_and_port = None, cf_stat_server_path = ''rpcn_stats'',
      cf_stat_server_cache_life = 0, cf_api_server_host_and_port = None, cf_api_server_api_key = [],
      cf_admins_list = [] \<rparr>"

type_synonym config_data = "string \<rightharpoonup> string"

definition config_line :: "string \<Rightarrow> (string \<times> string) option" where
  "config_line l =
    (if is_skipped_line l then None
     else case splitn2 CHR ''='' (trim l) of [name, v] \<Rightarrow> Some (name, v) | _ \<Rightarrow> None)"

definition parse_config :: "string \<Rightarrow> config_data" where
  "parse_config buf_file = map_of (rev (List.map_filter config_line (lines buf_file)))"

definition set_bool :: "config_data \<Rightarrow> string \<Rightarrow> bool \<Rightarrow> bool" where
  "set_bool config_data name d_bool =
    (case config_data name of
       Some s \<Rightarrow> if eq_ignore_ascii_case s ''true'' then True
                 else if eq_ignore_ascii_case s ''false'' then False else d_bool
     | None \<Rightarrow> d_bool)"

definition set_string :: "config_data \<Rightarrow> string \<Rightarrow> string \<Rightarrow> string" where
  "set_string config_data name d_str = (case config_data name of Some s \<Rightarrow> s | None \<Rightarrow> d_str)"

definition set_u32 :: "config_data \<Rightarrow> string \<Rightarrow> u32 \<Rightarrow> u32" where
  "set_u32 config_data name d_u32 =
    (case config_data name of
       Some s \<Rightarrow> (case parse_uint s of Some v \<Rightarrow> v | None \<Rightarrow> d_u32)
     | None \<Rightarrow> d_u32)"

definition set_verbosity :: "cfg_env \<Rightarrow> config_data \<Rightarrow> nat \<Rightarrow> nat" where
  "set_verbosity ce config_data d_verbosity =
    (case config_data ''Verbosity'' of
       Some s \<Rightarrow> (case ce_parse_level ce s of Some level \<Rightarrow> level | None \<Rightarrow> d_verbosity)
     | None \<Rightarrow> d_verbosity)"

definition set_admins_list :: "config_data \<Rightarrow> string list \<Rightarrow> string list" where
  "set_admins_list config_data d_list =
    (case config_data ''AdminsList'' of
       Some s \<Rightarrow>
         if s = [] then d_list
         else let admins_list = map trim (split_on CHR '','' s) in
              if list_ex (\<lambda>username. \<not> is_valid_client_username username) admins_list then d_list else admins_list
     | None \<Rightarrow> d_list)"

text \<open>Host and port of an optional server: both must be given.\<close>

definition host_and_port :: "config_data \<Rightarrow> string \<Rightarrow> string \<Rightarrow> (string \<times> string) option \<Rightarrow> (string \<times> string) option" where
  "host_and_port config_data host_name port_name current =
    (let host = set_string config_data host_name []; port = set_string config_data port_name [] in
     if host = [] \<or> port = [] then current else Some (host, port))"

definition set_signing :: "cfg_env \<Rightarrow> config_data \<Rightarrow> Config \<Rightarrow> Config" where
  "set_signing ce config_data c =
    (if set_bool config_data ''SignTickets'' False then
       (case ce_signer ce (set_string config_data ''SignTicketsDigest'' []) of
          Some sign \<Rightarrow> c\<lparr> cf_ticket_signature_info := Some sign \<rparr>
        | None \<Rightarrow> c)
     else c)"

definition set_stat_server :: "config_data \<Rightarrow> Config \<Rightarrow> Config" where
  "set_stat_server config_data c =
    (if set_bool config_data ''StatServer'' False then
       c\<lparr> cf_stat_server_path := set_string config_data ''StatServerPath'' (cf_stat_server_path c),
          cf_stat_server_cache_life := set_u32 config_data ''StatServerCacheLife'' (cf_stat_server_cache_life c),
          cf_stat_server_host_and_port :=
            host_and_port config_data ''StatServerHost'' ''StatServerPort'' (cf_stat_server_host_and_port c) \<rparr>
     else c)"

definition set_api_server :: "config_data \<Rightarrow> Config \<Rightarrow> Config" where
  "set_api_server config_data c =
    (if set_bool config_data ''ApiServer'' False then
       c\<lparr> cf_api_server_api_key := set_string config_data ''ApiServerApiKey'' (cf_api_server_api_key c),
          cf_api_server_host_and_port :=
            host_and_port config_data ''ApiServerHost'' ''ApiServerPort'' (cf_api_server_host_and_port c) \<rparr>
     else c)"

text \<open>\<^verbatim>\<open>load_config_file\<close>: whether it succeeded, and the configuration with what was set until then.\<close>

definition load_config_file :: "cfg_env \<Rightarrow> string option \<Rightarrow> Config \<Rightarrow> bool \<times> Config" where
  "load_config_file ce file c =
    (case file of
       None \<Rightarrow> (False, c)
     | Some buf_file \<Rightarrow>
         let d = parse_config buf_file;
             c1 = c\<lparr> cf_create_missing := set_bool d ''CreateMissing'' (cf_create_missing c),
                     cf_verbosity := set_verbosity ce d (cf_verbosity c),
                     cf_host_ipv4 := set_string d ''Host'' (cf_host_ipv4 c),
                     cf_host_ipv6 := set_string d ''HostIPv6'' (cf_host_ipv6 c),
                     cf_port := set_string d ''Port'' (cf_port c) \<rparr>
         in if (case d ''EmailValidated'' of Some s \<Rightarrow> eq_ignore_ascii_case s ''true'' | None \<Rightarrow> False) then (False, c1)
            else let c2 = c1\<lparr> cf_email_url := set_string d ''EmailUrl'' (cf_email_url c1) \<rparr>;
                     c3 = set_api_server d (set_stat_server d (set_signing ce d c2))
                 in (True, c3\<lparr> cf_admins_list := set_admins_list d (cf_admins_list c3) \<rparr>))"

definition is_create_missing :: "Config \<Rightarrow> bool" where
  "is_create_missing c = cf_create_missing c"

definition is_email_validated :: "Config \<Rightarrow> bool" where
  "is_email_validated c \<longleftrightarrow> cf_email_url c \<noteq> []"

definition load_domains_banlist :: "string option \<Rightarrow> Config \<Rightarrow> Config" where
  "load_domains_banlist file c =
    (case file of
       Some buf_file \<Rightarrow> c\<lparr> cf_banned_domains := set (map (\<lambda>x. to_ascii_lowercase (trim x)) (lines buf_file)) \<rparr>
     | None \<Rightarrow> c)"

definition is_banned_domain :: "Config \<Rightarrow> string \<Rightarrow> bool" where
  "is_banned_domain c domain \<longleftrightarrow> domain \<in> cf_banned_domains c"

definition redirection_line :: "string \<Rightarrow> (ComId \<times> ComId) option" where
  "redirection_line line =
    (case map (\<lambda>x. as_bytes (trim x)) (split_arrow (trim line)) of
       [from_id, to_id] \<Rightarrow>
         if line = [] \<or> hd line = CHR ''#'' \<or> length from_id \<noteq> COMMUNICATION_ID_SIZE \<or> length to_id \<noteq> COMMUNICATION_ID_SIZE
         then None else Some (from_id, to_id)
     | _ \<Rightarrow> None)"

definition load_server_redirections :: "string option \<Rightarrow> Config \<Rightarrow> Config" where
  "load_server_redirections file c =
    (case file of
       Some buf_file \<Rightarrow> c\<lparr> cf_server_redirs := map_of (rev (List.map_filter redirection_line (lines buf_file))) \<rparr>
     | None \<Rightarrow> c)"

definition get_server_redirection :: "Config \<Rightarrow> ComId \<Rightarrow> ComId" where
  "get_server_redirection c com_id = (case cf_server_redirs c com_id of Some redir \<Rightarrow> redir | None \<Rightarrow> com_id)"

section \<open>Directories of uploaded data\<close>

text \<open>
  The names of the files of a directory, absent where the name is not valid Unicode or the entry cannot be read.
  Uploaded data is stored under its number, and the counter of a directory starts behind the largest number in it.
\<close>

definition file_id :: "string \<Rightarrow> string \<Rightarrow> u64 option" where
  "file_id file_extension filename =
    (case split_once CHR ''.'' filename of
       None \<Rightarrow> None
     | Some (file_prefix, file_suffix) \<Rightarrow> if file_suffix \<noteq> file_extension then None else parse_uint file_prefix)"

definition get_ids_from_directory :: "string \<Rightarrow> string option list \<Rightarrow> u64 list" where
  "get_ids_from_directory file_extension files =
    List.map_filter (\<lambda>f. Option.bind f (file_id file_extension)) files"

definition create_data_directory :: "string \<Rightarrow> string option list \<Rightarrow> u64" where
  "create_data_directory file_extension files =
    (case get_ids_from_directory file_extension files of [] \<Rightarrow> 0 | i # is \<Rightarrow> fold max is i) + 1"

definition id_to_name :: "string \<Rightarrow> u64 \<Rightarrow> string" where
  "id_to_name file_extension i = print_padded 20 (unat i) @ ''.'' @ file_extension"

lemma file_id_name: "file_id ext (id_to_name ext i) = Some i"
proof -
  have "code c \<noteq> 46" if "c \<in> set (print_padded 20 (unat i))" for c
    using that print_nat_digits [of "unat i"]
    by (auto simp: print_padded_def Let_def list_all_iff is_digit_def)
  then have "\<forall>c \<in> set (print_padded 20 (unat i)). c \<noteq> CHR ''.''" by fastforce
  then have "dropWhile (\<lambda>x. x \<noteq> CHR ''.'') (id_to_name ext i) = ''.'' @ ext"
    and "takeWhile (\<lambda>x. x \<noteq> CHR ''.'') (id_to_name ext i) = print_padded 20 (unat i)"
    by (simp_all add: id_to_name_def dropWhile_append2 takeWhile_append2)
  moreover have "unat i < 2 ^ LENGTH(64)" by (rule unsigned_less)
  ultimately show ?thesis
    using parse_print_padded [where 'a = 64, of "unat i" 20] by (simp add: file_id_def split_once_def)
qed

lemma fold_max_ge: "(i :: 'a::linorder) \<le> fold max is i \<and> (\<forall>j \<in> set is. j \<le> fold max is i)"
proof (induction "is" arbitrary: i)
  case (Cons j js)
  from Cons [of "max j i"] show ?case by (auto simp: max.commute)
qed simp

text \<open>The first number a start of the server hands out is larger than that of every file of the directory.\<close>

lemma create_data_directory_fresh:
  assumes "i \<in> set (get_ids_from_directory ext files)" and "create_data_directory ext files \<noteq> 0"
  shows "i < create_data_directory ext files"
proof (cases "get_ids_from_directory ext files")
  case (Cons j js)
  have "i \<le> fold max js j" using assms(1) fold_max_ge [of j js] Cons by auto
  moreover have "fold max js j < fold max js j + 1"
    using assms(2) Cons by (intro word_less_succ) (auto simp: create_data_directory_def)
  ultimately show ?thesis by (simp add: create_data_directory_def Cons)
qed (use assms in simp)

end
