(* ===== verification/Database.thy ===== *)
theory Database
  imports Sql_Tables Config Score_Cache
begin

text \<open>
  The database, \<^verbatim>\<open>server/database.rs\<close>: the tables as records, with the keys and foreign keys of their
  declarations, and every operation on accounts, friends, servers and worlds.  The tables of the scores and of the
  title user storage have theories of their own.

  Foreign keys are enforced (the bundled SQLite is built with them on): a row that refers to an account that does
  not exist is not inserted, and a deleted account takes its rows with it where the declaration says so.
\<close>

section \<open>Tables\<close>

record Account =
  ac_user_id :: i64
  ac_username :: string
  ac_hash :: bytes
  ac_salt :: bytes
  ac_online_name :: string
  ac_avatar_url :: string
  ac_email :: string
  ac_email_check :: string
  ac_token :: string
  ac_reset_token :: "string option"
  ac_admin :: bool
  ac_stat_agent :: bool
  ac_banned :: bool

record UserRelationship =
  fr_user_id_1 :: i64
  fr_user_id_2 :: i64
  fr_status_user_1 :: u8
  fr_status_user_2 :: u8

record AccountTimestamp =
  at_user_id :: i64
  at_creation :: u32
  at_last_login :: "u32 option"
  at_token_last_sent :: "u32 option"
  at_reset_emit :: "u32 option"

text \<open>
  A number column holds an integer, or a floating point number once an addition in SQL has left the range of 64
  bits.  All the floating point numbers that arise are whole numbers.
\<close>

datatype sql_number = SqlInt i64 | SqlReal int

record 'o TusVar =
  tv_owner :: 'o
  tv_com_id :: ComId
  tv_slot :: i32
  tv_value :: sql_number
  tv_timestamp :: u64
  tv_author :: i64

record 'o TusDataRow =
  tr_owner :: 'o
  tr_com_id :: ComId
  tr_slot :: i32
  tr_data_id :: u64
  tr_info :: bytes
  tr_timestamp :: u64
  tr_author :: i64

record ScoreRow =
  sr_table :: TableDescription
  sr_score :: DbScoreInfo

record Database =
  db_account :: "Account list"
  db_next_id :: i64
  db_friendship :: "UserRelationship list"
  db_account_timestamp :: "AccountTimestamp list"
  db_server :: "(string \<times> u16) list"
  db_world :: "(string \<times> u16 \<times> u32) list"
  db_lobby :: "(string \<times> u32 \<times> u64) list"
  db_score_table :: "(TableDescription \<times> DbBoardInfo) list"
  db_score :: "ScoreRow list"
  db_tus_var :: "i64 TusVar list"
  db_tus_var_vuser :: "string TusVar list"
  db_tus_data :: "i64 TusDataRow list"
  db_tus_data_vuser :: "string TusDataRow list"
  db_username_hash :: "(bytes \<times> u32) list"
  db_email_hash :: "(bytes \<times> u32) list"
  db_username_salt :: "bytes option"
  db_email_salt :: "bytes option"

text \<open>Hashing, random bytes, the clock and the statements that fail come from outside.\<close>

record DbEnv =
  de_sql :: sql
  de_hash :: "bytes \<Rightarrow> bytes \<Rightarrow> bytes option"
  de_salt :: bytes
  de_token :: bytes
  de_seconds :: u32

definition account_exists :: "Database \<Rightarrow> i64 \<Rightarrow> bool" where
  "account_exists db user_id \<longleftrightarrow> list_ex (\<lambda>a. ac_user_id a = user_id) (db_account db)"

text \<open>The administrators named in the configuration get their rights when the server starts.\<close>

definition set_admin_rights :: "sql \<Rightarrow> string list \<Rightarrow> Database \<Rightarrow> Database" where
  "set_admin_rights sql admin_list db =
    (if admin_list \<noteq> [] \<and> sql ''set_admin'' then
       db\<lparr> db_account := update_where (\<lambda>a. ac_username a \<in> set admin_list) (\<lambda>a. a\<lparr> ac_admin := True \<rparr>) (db_account db) \<rparr>
     else db)"

section \<open>Passwords and tokens\<close>

definition hash_password :: "DbEnv \<Rightarrow> string \<Rightarrow> (bytes \<times> bytes) db_result" where
  "hash_password de password =
    bind_res (unwrap (de_hash de (as_bytes password) (de_salt de))) (\<lambda>hash. Ok (hash, de_salt de))"

definition hex_upper :: "nat \<Rightarrow> char" where
  "hex_upper n = ''0123456789ABCDEF'' ! n"

definition generate_token :: "DbEnv \<Rightarrow> string" where
  "generate_token de = concat (map (\<lambda>t. [hex_upper (unat t div 16), hex_upper (unat t mod 16)]) (de_token de))"

section \<open>Servers of the configuration\<close>

definition lobby_list :: "string \<Rightarrow> u64 list option" where
  "lobby_list s = (if trim s = [] then Some [] else all_some (map parse_uint (split_on CHR '','' (trim s))))"

definition servers_line :: "string \<Rightarrow> (string \<times> u16 \<times> u32 \<times> u64 list) option" where
  "servers_line l =
    (if is_skipped_line l then None
     else case map trim (split_on CHR ''|'' (trim l)) of
       [com_id, server, world, lobbies] \<Rightarrow>
         if length (as_bytes com_id) \<noteq> COMMUNICATION_ID_SIZE then None
         else (case (parse_uint server, parse_uint world, lobby_list lobbies) of
                 (Some server, Some world, Some lobbies) \<Rightarrow> Some (com_id, server, world, lobbies)
               | _ \<Rightarrow> None)
     | _ \<Rightarrow> None)"

definition insert_server :: "sql \<Rightarrow> string \<Rightarrow> u16 \<Rightarrow> Database \<Rightarrow> unit db_result \<times> Database" where
  "insert_server sql com_id server_id db =
    (if \<not> sql ''insert_server'' \<or> (com_id, server_id) \<in> set (db_server db) then (Err DbInternal, db)
     else (Ok (), db\<lparr> db_server := db_server db @ [(com_id, server_id)] \<rparr>))"

definition insert_world :: "sql \<Rightarrow> string \<Rightarrow> u16 \<Rightarrow> u32 \<Rightarrow> Database \<Rightarrow> unit db_result \<times> Database" where
  "insert_world sql com_id server_id world_id db =
    (if \<not> sql ''insert_world'' \<or> list_ex (\<lambda>(c, _, w). c = com_id \<and> w = world_id) (db_world db) \<or>
        (com_id, server_id) \<notin> set (db_server db)
     then (Err DbInternal, db)
     else (Ok (), db\<lparr> db_world := db_world db @ [(com_id, server_id, world_id)] \<rparr>))"

definition insert_lobby :: "sql \<Rightarrow> string \<Rightarrow> u32 \<Rightarrow> u64 \<Rightarrow> Database \<Rightarrow> unit db_result \<times> Database" where
  "insert_lobby sql com_id world_id lobby_id db =
    (if \<not> sql ''insert_lobby'' \<or> unat lobby_id \<ge> 2 ^ 63 \<or>
        list_ex (\<lambda>(c, _, l). c = com_id \<and> l = lobby_id) (db_lobby db) \<or>
        \<not> list_ex (\<lambda>(c, _, w). c = com_id \<and> w = world_id) (db_world db)
     then (Err DbInternal, db)
     else (Ok (), db\<lparr> db_lobby := db_lobby db @ [(com_id, world_id, lobby_id)] \<rparr>))"

definition update_servers_cfg :: "sql \<Rightarrow> string option \<Rightarrow> Database \<Rightarrow> unit db_result \<times> Database" where
  "update_servers_cfg sql file db =
    (case file of
       None \<Rightarrow> (Err DbInternal, db)
     | Some buf_file \<Rightarrow>
         (Ok (), fold (\<lambda>(com_id, server, world, lobbies) db.
              fold (\<lambda>lobby db. snd (insert_lobby sql com_id world lobby db)) lobbies
                (snd (insert_world sql com_id server world (snd (insert_server sql com_id server db)))))
            (List.map_filter servers_line (lines buf_file)) db))"

section \<open>Cleaning up\<close>

definition get_timestamp_days :: "DbEnv \<Rightarrow> u32" where
  "get_timestamp_days de = de_seconds de div (60 * 60 * 24)"

definition cleanup_expired_hashes :: "DbEnv \<Rightarrow> Database \<Rightarrow> (nat \<times> nat) db_result \<times> Database" where
  "cleanup_expired_hashes de db =
    (if get_timestamp_days de < 3 * 30 then (Err DbInternal, db)
     else
       let timestamp = get_timestamp_days de - 3 * 30;
           old = (\<lambda>(_, hash_date). hash_date < timestamp);
           db1 = db\<lparr> db_username_hash := delete_where old (db_username_hash db) \<rparr>;
           db2 = db1\<lparr> db_email_hash := delete_where old (db_email_hash db1) \<rparr>
       in if \<not> de_sql de ''username_hash_cleanup'' then (Err DbInternal, db)
          else if \<not> de_sql de ''email_hash_cleanup'' then (Err DbInternal, db1)
          else (Ok (count_where old (db_username_hash db), count_where old (db_email_hash db1)), db2))"

text \<open>
  Deleting accounts: friendships, time stamps, owned title user storage and scores go with them; the statement
  fails when storage of somebody else still names one of them as its last author.
\<close>

definition delete_accounts :: "i64 set \<Rightarrow> Database \<Rightarrow> Database option" where
  "delete_accounts ids db =
    (let db1 = db\<lparr>
           db_account := delete_where (\<lambda>a. ac_user_id a \<in> ids) (db_account db),
           db_friendship := delete_where (\<lambda>f. fr_user_id_1 f \<in> ids \<or> fr_user_id_2 f \<in> ids) (db_friendship db),
           db_account_timestamp := delete_where (\<lambda>t. at_user_id t \<in> ids) (db_account_timestamp db),
           db_tus_var := delete_where (\<lambda>r. tv_owner r \<in> ids) (db_tus_var db),
           db_tus_data := delete_where (\<lambda>r. tr_owner r \<in> ids) (db_tus_data db),
           db_score := delete_where (\<lambda>r. sc_user_id (sr_score r) \<in> ids) (db_score db) \<rparr>
     in if list_ex (\<lambda>r. tv_author r \<in> ids) (db_tus_var db1) \<or> list_ex (\<lambda>r. tr_author r \<in> ids) (db_tus_data db1) \<or>
           list_ex (\<lambda>r. tv_author r \<in> ids) (db_tus_var_vuser db1) \<or> list_ex (\<lambda>r. tr_author r \<in> ids) (db_tus_data_vuser db1)
        then None else Some db1)"

definition cleanup_never_used_accounts :: "DbEnv \<Rightarrow> Database \<Rightarrow> nat db_result \<times> Database" where
  "cleanup_never_used_accounts de db =
    (if de_seconds de < 60 * 60 * 24 * 30 then (Err DbInternal, db)
     else if \<not> de_sql de ''stale_accounts'' then (Err DbInternal, db)
     else
       let timestamp = de_seconds de - 60 * 60 * 24 * 30;
           stale = map at_user_id (filter (\<lambda>t. at_creation t < timestamp \<and> at_last_login t = None) (db_account_timestamp db));
           ids = set stale;
           db1 = db\<lparr> db_account_timestamp := delete_where (\<lambda>t. at_user_id t \<in> ids) (db_account_timestamp db) \<rparr>;
           db2 = db1\<lparr> db_friendship := delete_where (\<lambda>f. fr_user_id_1 f \<in> ids \<or> fr_user_id_2 f \<in> ids) (db_friendship db1) \<rparr>
       in if stale = [] then (Ok 0, db)
          else if \<not> de_sql de ''stale_account_timestamp'' then (Err DbInternal, db)
          else if \<not> de_sql de ''stale_friendship'' then (Err DbInternal, db1)
          else if \<not> de_sql de ''stale_account'' then (Err DbInternal, db2)
          else case delete_accounts ids db2 of
            None \<Rightarrow> (Err DbInternal, db2)
          | Some db3 \<Rightarrow> (Ok (length stale), db3))"

section \<open>Names of deleted users\<close>

definition salted_hash :: "DbEnv \<Rightarrow> bytes option \<Rightarrow> string \<Rightarrow> bytes db_result" where
  "salted_hash de salt s =
    (case salt of
       None \<Rightarrow> Err DbInternal
     | Some salt \<Rightarrow> ok_or DbInternal (de_hash de (as_bytes s) salt))"

definition hash_username :: "DbEnv \<Rightarrow> Database \<Rightarrow> string \<Rightarrow> bytes db_result" where
  "hash_username de db username =
    (if de_sql de ''get_username_salt'' then salted_hash de (db_username_salt db) username else Err DbInternal)"

definition hash_email :: "DbEnv \<Rightarrow> Database \<Rightarrow> string \<Rightarrow> bytes db_result" where
  "hash_email de db email_check =
    (if de_sql de ''get_email_salt'' then salted_hash de (db_email_salt db) email_check else Err DbInternal)"

definition check_username_vs_deleted :: "DbEnv \<Rightarrow> Database \<Rightarrow> string \<Rightarrow> unit db_result" where
  "check_username_vs_deleted de db username =
    bind_res (hash_username de db username) (\<lambda>username_hash.
      if \<not> de_sql de ''count_username_hash'' then Err DbInternal
      else if count_where (\<lambda>h. fst h = username_hash) (db_username_hash db) \<noteq> 0 then Err DbExistingUsername
      else Ok ())"

definition check_email_vs_deleted :: "DbEnv \<Rightarrow> Database \<Rightarrow> string \<Rightarrow> unit db_result" where
  "check_email_vs_deleted de db email_check =
    bind_res (hash_email de db email_check) (\<lambda>email_hash.
      if \<not> de_sql de ''count_email_hash'' then Err DbInternal
      else if count_where (\<lambda>h. fst h = email_hash) (db_email_hash db) \<noteq> 0 then Err DbExistingEmail
      else Ok ())"

section \<open>Accounts\<close>

definition get_user_id :: "sql \<Rightarrow> Database \<Rightarrow> string \<Rightarrow> i64 db_result" where
  "get_user_id sql db npid =
    query_row sql ''get_user_id'' (map_option ac_user_id (find (\<lambda>a. ac_username a = npid) (db_account db)))"

definition get_deleted_user_id :: "sql \<Rightarrow> Database \<Rightarrow> i64 db_result" where
  "get_deleted_user_id sql db =
    (case get_user_id sql db DELETED_USER_USERNAME of Ok i \<Rightarrow> Ok i | Err _ \<Rightarrow> Err DbInternal | Panic \<Rightarrow> Panic)"

text \<open>
  The uniqueness of names ignores ASCII case, that of addresses does not.  The numbers of accounts are never used again, and
  end with the largest integer of 64 bits.
\<close>

definition insert_account :: "sql \<Rightarrow> Account \<Rightarrow> Database \<Rightarrow> unit db_result \<times> Database" where
  "insert_account sql account db =
    (if \<not> sql ''insert_account'' \<or> db_next_id db \<ge> 2 ^ 63 then (Err DbInternal, db)
     else if list_ex (\<lambda>a. eq_ignore_ascii_case (ac_username a) (ac_username account)) (db_account db)
     then (Err DbExistingUsername, db)
     else if list_ex (\<lambda>a. ac_email_check a = ac_email_check account) (db_account db) then (Err DbExistingEmail, db)
     else (Ok (), db\<lparr> db_account := db_account db @ [account\<lparr> ac_user_id := db_next_id db \<rparr>],
                      db_next_id := db_next_id db + 1 \<rparr>))"

definition insert_timestamp :: "sql \<Rightarrow> AccountTimestamp \<Rightarrow> Database \<Rightarrow> unit db_result \<times> Database" where
  "insert_timestamp sql t db =
    (if \<not> sql ''insert_account_timestamp'' \<or> list_ex (\<lambda>x. at_user_id x = at_user_id t) (db_account_timestamp db) \<or>
        \<not> account_exists db (at_user_id t)
     then (Err DbInternal, db)
     else (Ok (), db\<lparr> db_account_timestamp := db_account_timestamp db @ [t] \<rparr>))"

definition db_add_user ::
    "DbEnv \<Rightarrow> Database \<Rightarrow> string \<Rightarrow> string \<Rightarrow> string \<Rightarrow> string \<Rightarrow> string \<Rightarrow> string \<Rightarrow> bool \<Rightarrow> string db_result \<times> Database" where
  "db_add_user de db username password online_name avatar_url email email_check is_admin =
    then_st (check_username_vs_deleted de db username, db) (\<lambda>_ db.
    then_st (check_email_vs_deleted de db email_check, db) (\<lambda>_ db.
    then_st (hash_password de password, db) (\<lambda>(hash, salt) db.
      let token_str = generate_token de;
          account = \<lparr> ac_user_id = 0, ac_username = username, ac_hash = hash, ac_salt = salt, ac_online_name = online_name,
                      ac_avatar_url = avatar_url, ac_email = email, ac_email_check = email_check, ac_token = token_str,
                      ac_reset_token = None, ac_admin = is_admin, ac_stat_agent = False, ac_banned = False \<rparr>
      in then_st (insert_account (de_sql de) account db) (\<lambda>_ db.
           case get_user_id (de_sql de) db username of
             Ok user_id \<Rightarrow>
               then_st (insert_timestamp (de_sql de)
                   \<lparr> at_user_id = user_id, at_creation = de_seconds de, at_last_login = None, at_token_last_sent = None,
                     at_reset_emit = None \<rparr> db) (\<lambda>_ db. (Ok token_str, db))
           | _ \<Rightarrow> (Panic, db)))))"

definition insert_hash :: "bytes \<Rightarrow> u32 \<Rightarrow> (bytes \<times> u32) list \<Rightarrow> (bytes \<times> u32) list" where
  "insert_hash hash day hashes = (if list_ex (\<lambda>h. fst h = hash) hashes then hashes else hashes @ [(hash, day)])"

definition remember_deleted :: "DbEnv \<Rightarrow> bytes \<Rightarrow> bytes \<Rightarrow> Database \<Rightarrow> Database" where
  "remember_deleted de username_hash email_hash db =
    (let day = get_timestamp_days de;
         db1 = (if de_sql de ''insert_username_hash''
                then db\<lparr> db_username_hash := insert_hash username_hash day (db_username_hash db) \<rparr> else db)
     in if de_sql de ''insert_email_hash''
        then db1\<lparr> db_email_hash := insert_hash email_hash day (db_email_hash db1) \<rparr> else db1)"

text \<open>The title user storage a deleted user wrote last passes to the account that stands for deleted users.\<close>

definition pass_var :: "i64 \<Rightarrow> i64 \<Rightarrow> 'o TusVar list \<Rightarrow> 'o TusVar list" where
  "pass_var from_id to_id t = update_where (\<lambda>r. tv_author r = from_id) (\<lambda>r. r\<lparr> tv_author := to_id \<rparr>) t"

definition pass_data :: "i64 \<Rightarrow> i64 \<Rightarrow> 'o TusDataRow list \<Rightarrow> 'o TusDataRow list" where
  "pass_data from_id to_id t = update_where (\<lambda>r. tr_author r = from_id) (\<lambda>r. r\<lparr> tr_author := to_id \<rparr>) t"

definition delete_user :: "DbEnv \<Rightarrow> Database \<Rightarrow> i64 \<Rightarrow> string \<Rightarrow> string \<Rightarrow> unit db_result \<times> Database" where
  "delete_user de db user_id username email_check =
    (if username = DELETED_USER_USERNAME then (Err DbInternal, db)
     else
       then_st (hash_username de db username, db) (\<lambda>username_hash db.
       then_st (hash_email de db email_check, db) (\<lambda>email_hash db.
       then_st (get_deleted_user_id (de_sql de) db, db) (\<lambda>deleted_userid db.
         let db1 = remember_deleted de username_hash email_hash db in
         then_st (execute (de_sql de) ''pass_tus_var''
             (db1\<lparr> db_tus_var := pass_var user_id deleted_userid (db_tus_var db1) \<rparr>) db1) (\<lambda>_ db2.
         then_st (execute (de_sql de) ''pass_tus_data''
             (db2\<lparr> db_tus_data := pass_data user_id deleted_userid (db_tus_data db2) \<rparr>) db2) (\<lambda>_ db3.
         then_st (execute (de_sql de) ''pass_tus_var_vuser''
             (db3\<lparr> db_tus_var_vuser := pass_var user_id deleted_userid (db_tus_var_vuser db3) \<rparr>) db3) (\<lambda>_ db4.
         then_st (execute (de_sql de) ''pass_tus_data_vuser''
             (db4\<lparr> db_tus_data_vuser := pass_data user_id deleted_userid (db_tus_data_vuser db4) \<rparr>) db4) (\<lambda>_ db5.
           if \<not> de_sql de ''delete_account'' then (Err DbInternal, db5)
           else case delete_accounts {user_id} db5 of
             None \<Rightarrow> (Err DbInternal, db5)
           | Some db6 \<Rightarrow> (Ok (), db6)))))))))"

definition update_account :: "(Account \<Rightarrow> bool) \<Rightarrow> (Account \<Rightarrow> Account) \<Rightarrow> Database \<Rightarrow> Database" where
  "update_account P f db = db\<lparr> db_account := update_where P f (db_account db) \<rparr>"

definition update_user_password :: "DbEnv \<Rightarrow> Database \<Rightarrow> i64 \<Rightarrow> string \<Rightarrow> string \<Rightarrow> unit db_result \<times> Database" where
  "update_user_password de db user_id old_token new_password =
    then_st (hash_password de new_password, db) (\<lambda>(hash, salt) db.
      execute (de_sql de) ''update_user_password''
        (update_account (\<lambda>a. ac_user_id a = user_id \<and> ac_reset_token a = Some old_token)
           (\<lambda>a. a\<lparr> ac_hash := hash, ac_salt := salt, ac_reset_token := Some (generate_token de) \<rparr>) db) db)"

definition update_password_token :: "DbEnv \<Rightarrow> Database \<Rightarrow> i64 \<Rightarrow> string db_result \<times> Database" where
  "update_password_token de db user_id =
    (let token_str = generate_token de in
     then_st (execute (de_sql de) ''update_password_token''
         (update_account (\<lambda>a. ac_user_id a = user_id) (\<lambda>a. a\<lparr> ac_reset_token := Some token_str \<rparr>) db) db)
       (\<lambda>_ db. (Ok token_str, db)))"

definition check_user :: "DbEnv \<Rightarrow> Database \<Rightarrow> string \<Rightarrow> string \<Rightarrow> string \<Rightarrow> bool \<Rightarrow> Account db_result" where
  "check_user de db username password token check_token =
    bind_res (query_row (de_sql de) ''check_user'' (find (\<lambda>a. ac_username a = username) (db_account db))) (\<lambda>res.
      if check_token \<and> ac_token res \<noteq> token then Err DbWrongToken
      else bind_res (unwrap (de_hash de (as_bytes password) (ac_salt res))) (\<lambda>hash.
        if hash \<noteq> ac_hash res then Err DbWrongPass else Ok res))"

definition check_email :: "sql \<Rightarrow> Database \<Rightarrow> string \<Rightarrow> string \<Rightarrow> (i64 \<times> string) db_result" where
  "check_email sql db username email =
    query_row sql ''check_email'' (map_option (\<lambda>a. (ac_user_id a, ac_email a))
      (find (\<lambda>a. ac_username a = username \<and> ac_email_check a = email) (db_account db)))"

definition check_reset_token :: "sql \<Rightarrow> Database \<Rightarrow> string \<Rightarrow> string \<Rightarrow> i64 db_result" where
  "check_reset_token sql db username reset_token =
    query_row sql ''check_reset_token'' (map_option ac_user_id
      (find (\<lambda>a. ac_username a = username \<and> ac_reset_token a = Some reset_token) (db_account db)))"

definition get_username :: "sql \<Rightarrow> Database \<Rightarrow> i64 \<Rightarrow> string db_result" where
  "get_username sql db user_id =
    query_row sql ''get_username'' (map_option ac_username (find (\<lambda>a. ac_user_id a = user_id) (db_account db)))"

definition get_email_check :: "sql \<Rightarrow> Database \<Rightarrow> i64 \<Rightarrow> string db_result" where
  "get_email_check sql db user_id =
    query_row sql ''get_email_check'' (map_option ac_email_check (find (\<lambda>a. ac_user_id a = user_id) (db_account db)))"

definition get_username_and_online_name_from_user_ids ::
    "sql \<Rightarrow> Database \<Rightarrow> i64 set \<Rightarrow> (i64 \<times> string \<times> string) list db_result" where
  "get_username_and_online_name_from_user_ids sql db user_list =
    (if sql ''get_usernames'' then
       Ok (map (\<lambda>a. (ac_user_id a, ac_username a, ac_online_name a)) (filter (\<lambda>a. ac_user_id a \<in> user_list) (db_account db)))
     else Err DbInternal)"

section \<open>Servers and worlds\<close>

definition create_server :: "sql \<Rightarrow> Database \<Rightarrow> ComId \<Rightarrow> u16 \<Rightarrow> unit db_result \<times> Database" where
  "create_server sql db com_id server_id =
    (if server_id \<noteq> 1 then (Err DbInternal, db) else insert_server sql (com_id_to_string com_id) server_id db)"

definition list_servers :: "sql \<Rightarrow> Database \<Rightarrow> ComId \<Rightarrow> u16 list db_result" where
  "list_servers sql db com_id =
    (if sql ''select_server'' then Ok (map snd (filter (\<lambda>s. fst s = com_id_to_string com_id) (db_server db))) else Panic)"

definition get_server_list :: "sql \<Rightarrow> Database \<Rightarrow> ComId \<Rightarrow> bool \<Rightarrow> u16 list db_result \<times> Database" where
  "get_server_list sql db com_id create_missing =
    then_st (list_servers sql db com_id, db) (\<lambda>servers db.
      if servers = [] \<and> create_missing then
        then_st (create_server sql db com_id 1) (\<lambda>_ db. (list_servers sql db com_id, db))
      else (Ok servers, db))"

definition list_worlds :: "sql \<Rightarrow> Database \<Rightarrow> ComId \<Rightarrow> u16 \<Rightarrow> u32 list db_result" where
  "list_worlds sql db com_id server_id =
    (if \<not> sql ''count_server'' then Err DbInternal
     else if (com_id_to_string com_id, server_id) \<notin> set (db_server db) then Err DbEmpty
     else if \<not> sql ''select_world'' then Panic
     else Ok (map (\<lambda>(_, _, w). w) (filter (\<lambda>(c, s, _). c = com_id_to_string com_id \<and> s = server_id) (db_world db))))"

text \<open>The number of a new world: one more than the largest of the game, or the first number when it has none.\<close>

definition new_world_id :: "sql \<Rightarrow> Database \<Rightarrow> ComId \<Rightarrow> u32" where
  "new_world_id sql db com_id =
    (case map (\<lambda>(_, _, w). w) (filter (\<lambda>(c, _, _). c = com_id_to_string com_id) (db_world db)) of
       w # ws \<Rightarrow> if sql ''max_world'' then fold max ws w + 1 else 65537
     | [] \<Rightarrow> 65537)"

definition get_world_list :: "sql \<Rightarrow> Database \<Rightarrow> ComId \<Rightarrow> u16 \<Rightarrow> bool \<Rightarrow> u32 list db_result \<times> Database" where
  "get_world_list sql db com_id server_id create_missing =
    then_st (list_worlds sql db com_id server_id, db) (\<lambda>worlds db.
      if worlds = [] \<and> create_missing then
        then_st (insert_world sql (com_id_to_string com_id) server_id (new_world_id sql db com_id) db) (\<lambda>_ db.
          (list_worlds sql db com_id server_id, db))
      else (Ok worlds, db))"

definition get_corresponding_server :: "sql \<Rightarrow> Database \<Rightarrow> ComId \<Rightarrow> u32 \<Rightarrow> u64 \<Rightarrow> u16 db_result" where
  "get_corresponding_server sql db com_id world_id lobby_id =
    (let com_id_str = com_id_to_string com_id in
     if world_id = 0 \<and> lobby_id = 0 then Err DbInvalid
     else
       bind_res (if world_id = 0
                 then query_row sql ''world_of_lobby'' (map_option (\<lambda>(_, w, _). w)
                        (find (\<lambda>(c, _, l). c = com_id_str \<and> l = lobby_id) (db_lobby db)))
                 else Ok world_id) (\<lambda>world_id.
         query_row sql ''server_of_world'' (map_option (\<lambda>(_, s, _). s)
           (find (\<lambda>(c, _, w). c = com_id_str \<and> w = world_id) (db_world db)))))"

section \<open>Friends\<close>

abbreviation (input) FRIEND_STATUS_FRIEND :: u8 where "FRIEND_STATUS_FRIEND \<equiv> 1"
abbreviation (input) FRIEND_STATUS_BLOCKED :: u8 where "FRIEND_STATUS_BLOCKED \<equiv> 2"

definition get_ordered_userids :: "i64 \<Rightarrow> i64 \<Rightarrow> i64 \<times> i64 \<times> bool" where
  "get_ordered_userids user_id_1 user_id_2 =
    (if user_id_1 < user_id_2 then (user_id_1, user_id_2, False) else (user_id_2, user_id_1, True))"

definition fr_key :: "UserRelationship \<Rightarrow> i64 \<times> i64" where
  "fr_key f = (fr_user_id_1 f, fr_user_id_2 f)"

definition get_rel_status :: "sql \<Rightarrow> Database \<Rightarrow> i64 \<Rightarrow> i64 \<Rightarrow> (u8 \<times> u8) db_result" where
  "get_rel_status sql db user_id friend_user_id =
    (if user_id = friend_user_id then Err DbInvalid
     else
       let (first, second, swapped) = get_ordered_userids user_id friend_user_id in
       bind_res (query_row sql ''get_rel_status'' (row_of fr_key (db_friendship db) (first, second))) (\<lambda>f.
         Ok (if swapped then (fr_status_user_2 f, fr_status_user_1 f) else (fr_status_user_1 f, fr_status_user_2 f))))"

definition set_rel_status :: "sql \<Rightarrow> Database \<Rightarrow> i64 \<Rightarrow> i64 \<Rightarrow> u8 \<Rightarrow> u8 \<Rightarrow> unit db_result \<times> Database" where
  "set_rel_status sql db user_id friend_user_id status_user status_friend =
    (if user_id = friend_user_id then (Err DbInvalid, db)
     else
       let (first, second, swapped) = get_ordered_userids user_id friend_user_id;
           (status_first, status_second) = (if swapped then (status_friend, status_user) else (status_user, status_friend));
           row = \<lparr> fr_user_id_1 = first, fr_user_id_2 = second, fr_status_user_1 = status_first,
                   fr_status_user_2 = status_second \<rparr>
       in if \<not> sql ''set_rel_status'' \<or> \<not> account_exists db first \<or> \<not> account_exists db second then (Err DbInternal, db)
          else (Ok (), db\<lparr> db_friendship := replace_into fr_key row (db_friendship db) \<rparr>))"

record UserRelationships =
  ur_friends :: "(i64 \<times> string) list"
  ur_friend_requests :: "(i64 \<times> string) list"
  ur_friend_requests_received :: "(i64 \<times> string) list"
  ur_blocked :: "(i64 \<times> string) list"

text \<open>The other user of a relationship, the own status and the other one.\<close>

definition rel_view :: "i64 \<Rightarrow> UserRelationship \<Rightarrow> i64 \<times> u8 \<times> u8" where
  "rel_view user_id rel =
    (if fr_user_id_1 rel \<noteq> user_id then (fr_user_id_1 rel, fr_status_user_2 rel, fr_status_user_1 rel)
     else (fr_user_id_2 rel, fr_status_user_1 rel, fr_status_user_2 rel))"

definition userid_to_username :: "sql \<Rightarrow> Database \<Rightarrow> i64 list \<Rightarrow> (i64 \<times> string) list" where
  "userid_to_username sql db ids =
    List.map_filter (\<lambda>i. case get_username sql db i of Ok username \<Rightarrow> Some (i, username) | _ \<Rightarrow> None) ids"

definition get_relationships :: "sql \<Rightarrow> Database \<Rightarrow> i64 \<Rightarrow> UserRelationships db_result" where
  "get_relationships sql db user_id =
    (if \<not> sql ''get_relationships'' then Err DbInternal
     else
       let rels = map (rel_view user_id)
             (filter (\<lambda>f. fr_user_id_1 f = user_id \<or> fr_user_id_2 f = user_id) (db_friendship db));
           others = (\<lambda>P. map fst (filter (\<lambda>(_, status_user, status_other). P status_user status_other) rels));
           names = userid_to_username sql db
       in Ok \<lparr> ur_friends = names (others (\<lambda>u v. u = FRIEND_STATUS_FRIEND \<and> v = FRIEND_STATUS_FRIEND)),
               ur_friend_requests = names (others (\<lambda>u v. u = FRIEND_STATUS_FRIEND \<and> v = 0)),
               ur_friend_requests_received = names (others (\<lambda>u v. u = 0 \<and> v = FRIEND_STATUS_FRIEND)),
               ur_blocked = names (others (\<lambda>_ v. v AND FRIEND_STATUS_BLOCKED \<noteq> 0)) \<rparr>)"

section \<open>Administration and time stamps\<close>

definition ban_user :: "sql \<Rightarrow> Database \<Rightarrow> i64 \<Rightarrow> unit db_result \<times> Database" where
  "ban_user sql db user_id =
    execute sql ''ban_user'' (update_account (\<lambda>a. ac_user_id a = user_id) (\<lambda>a. a\<lparr> ac_banned := True \<rparr>) db) db"

record UserAdminInfo =
  ua_user_id :: i64
  ua_username :: string
  ua_online_name :: string
  ua_avatar_url :: string
  ua_admin :: bool
  ua_banned :: bool
  ua_creation :: "u64 option"
  ua_last_login :: "u64 option"

definition timestamp_of :: "Database \<Rightarrow> i64 \<Rightarrow> AccountTimestamp option" where
  "timestamp_of db user_id = find (\<lambda>t. at_user_id t = user_id) (db_account_timestamp db)"

definition get_user_admin_info :: "sql \<Rightarrow> Database \<Rightarrow> string \<Rightarrow> UserAdminInfo db_result" where
  "get_user_admin_info sql db username =
    query_row sql ''get_user_admin_info'' (map_option (\<lambda>a.
      let t = timestamp_of db (ac_user_id a) in
      \<lparr> ua_user_id = ac_user_id a, ua_username = ac_username a, ua_online_name = ac_online_name a,
        ua_avatar_url = ac_avatar_url a, ua_admin = ac_admin a, ua_banned = ac_banned a,
        ua_creation = map_option (\<lambda>t. ucast (at_creation t)) t,
        ua_last_login = Option.bind t (\<lambda>t. map_option ucast (at_last_login t)) \<rparr>)
      (find (\<lambda>a. ac_username a = username) (db_account db)))"

definition update_timestamp :: "i64 \<Rightarrow> (AccountTimestamp \<Rightarrow> AccountTimestamp) \<Rightarrow> Database \<Rightarrow> Database" where
  "update_timestamp user_id f db =
    db\<lparr> db_account_timestamp := update_where (\<lambda>t. at_user_id t = user_id) f (db_account_timestamp db) \<rparr>"

definition update_login_time :: "DbEnv \<Rightarrow> Database \<Rightarrow> i64 \<Rightarrow> unit db_result \<times> Database" where
  "update_login_time de db user_id =
    execute (de_sql de) ''update_login_time''
      (update_timestamp user_id (\<lambda>t. t\<lparr> at_last_login := Some (de_seconds de) \<rparr>) db) db"

text \<open>A missing row is an internal error for the two queries of sent times.\<close>

definition get_sent_time :: "sql \<Rightarrow> string \<Rightarrow> (AccountTimestamp \<Rightarrow> u32 option) \<Rightarrow> Database \<Rightarrow> i64 \<Rightarrow> u32 option db_result" where
  "get_sent_time sql name column db user_id =
    (if sql name then ok_or DbInternal (map_option column (timestamp_of db user_id)) else Err DbInternal)"

definition get_reset_password_token_sent_time :: "sql \<Rightarrow> Database \<Rightarrow> i64 \<Rightarrow> u32 option db_result" where
  "get_reset_password_token_sent_time sql = get_sent_time sql ''get_reset_emit'' at_reset_emit"

definition set_reset_password_token_sent_time :: "DbEnv \<Rightarrow> Database \<Rightarrow> i64 \<Rightarrow> unit db_result \<times> Database" where
  "set_reset_password_token_sent_time de db user_id =
    execute (de_sql de) ''set_reset_emit''
      (update_timestamp user_id (\<lambda>t. t\<lparr> at_reset_emit := Some (de_seconds de) \<rparr>) db) db"

definition get_token_sent_time :: "sql \<Rightarrow> Database \<Rightarrow> i64 \<Rightarrow> u32 option db_result" where
  "get_token_sent_time sql = get_sent_time sql ''get_token_last_sent'' at_token_last_sent"

definition set_token_sent_time :: "DbEnv \<Rightarrow> Database \<Rightarrow> i64 \<Rightarrow> unit db_result \<times> Database" where
  "set_token_sent_time de db user_id =
    execute (de_sql de) ''set_token_last_sent''
      (update_timestamp user_id (\<lambda>t. t\<lparr> at_token_last_sent := Some (de_seconds de) \<rparr>) db) db"

section \<open>A new database\<close>

text \<open>
  The migrations on a database that does not exist yet: the tables are created empty, the boards of one game are
  entered, and the account that stands for deleted users and the two salts are added.  The other migrations rewrite
  rows, of which there are none.
\<close>

definition empty_database :: Database where
  "empty_database =
    \<lparr> db_account = [], db_next_id = 1, db_friendship = [], db_account_timestamp = [], db_server = [], db_world = [],
      db_lobby = [], db_score_table = [], db_score = [], db_tus_var = [], db_tus_var_vuser = [], db_tus_data = [],
      db_tus_data_vuser = [], db_username_hash = [], db_email_hash = [], db_username_salt = None, db_email_salt = None \<rparr>"

definition ridge_racer_7_boards :: "(TableDescription \<times> DbBoardInfo) list" where
  "ridge_racer_7_boards =
    map (\<lambda>table_id. ((''NPWR00001_01'', table_id), \<lparr> bi_rank_limit = 250, bi_update_mode = 0, bi_sort_mode = 0,
      bi_upload_num_limit = 10, bi_upload_size_limit = 6000000 \<rparr>)) [0, 1]"

definition deleted_user_account :: Account where
  "deleted_user_account =
    \<lparr> ac_user_id = 0, ac_username = DELETED_USER_USERNAME, ac_hash = replicate 32 0, ac_salt = replicate 64 0,
      ac_online_name = ''Deleted User'', ac_avatar_url = ''https://rpcs3.net/cdn/netplay/DefaultAvatar.png'',
      ac_email = ''deleted@user'', ac_email_check = ''deleted@user'', ac_token = ''0000000000000000'',
      ac_reset_token = None, ac_admin = False, ac_stat_agent = False, ac_banned = True \<rparr>"

definition create_deleted_user_account :: "u32 \<Rightarrow> Database \<Rightarrow> unit db_result \<times> Database" where
  "create_deleted_user_account timestamp db =
    then_st (insert_account (\<lambda>_. True) deleted_user_account db) (\<lambda>_ db.
    then_st (get_user_id (\<lambda>_. True) db DELETED_USER_USERNAME, db) (\<lambda>user_id db.
      insert_timestamp (\<lambda>_. True) \<lparr> at_user_id = user_id, at_creation = timestamp, at_last_login = Some timestamp,
        at_token_last_sent = None, at_reset_emit = None \<rparr> db))"

definition create_gdpr_hash_tables :: "bytes \<Rightarrow> bytes \<Rightarrow> Database \<Rightarrow> Database" where
  "create_gdpr_hash_tables email_salt username_salt db =
    db\<lparr> db_email_salt := Some email_salt, db_username_salt := Some username_salt \<rparr>"

definition new_database :: "u32 \<Rightarrow> bytes \<Rightarrow> bytes \<Rightarrow> Database" where
  "new_database timestamp email_salt username_salt =
    create_gdpr_hash_tables email_salt username_salt
      (snd (create_deleted_user_account timestamp (empty_database\<lparr> db_score_table := ridge_racer_7_boards \<rparr>)))"

end
