(* ===== verification/Db_Score.thy ===== *)
theory Db_Score
  imports Database "HOL-Library.Product_Lexorder"
begin

text \<open>
  The tables of the score boards, \<^verbatim>\<open>server/database/db_score.rs\<close>: the boards with their settings, and one score per
  board, user and character.
\<close>

section \<open>Boards\<close>

definition score_get_all_data_ids :: "sql \<Rightarrow> Database \<Rightarrow> u64 set db_result" where
  "score_get_all_data_ids sql db =
    (if \<not> sql ''score_data_ids'' then Err DbInternal
     else Ok (set (List.map_filter (\<lambda>r. sc_data_id (sr_score r)) (db_score db))))"

definition create_score_board :: "sql \<Rightarrow> Database \<Rightarrow> ComId \<Rightarrow> u32 \<Rightarrow> unit db_result \<times> Database" where
  "create_score_board sql db com_id board_id =
    (let desc = (com_id_to_string com_id, board_id) in
     if \<not> sql ''insert_score_table'' \<or> list_ex (\<lambda>t. fst t = desc) (db_score_table db) then (Err DbInternal, db)
     else (Ok (), db\<lparr> db_score_table := db_score_table db @ [(desc, DbBoardInfo_default)] \<rparr>))"

definition set_board :: "TableDescription \<times> DbBoardInfo \<Rightarrow> TableDescription \<times> DbBoardInfo \<Rightarrow> TableDescription \<times> DbBoardInfo" where
  "set_board new old = (fst old, snd new)"

definition create_or_set_score_board_details ::
    "sql \<Rightarrow> Database \<Rightarrow> string \<Rightarrow> u32 \<Rightarrow> DbBoardInfo \<Rightarrow> unit db_result \<times> Database" where
  "create_or_set_score_board_details sql db com_id board_id board_infos =
    (let row = ((com_id, board_id), board_infos) in
     execute sql ''set_score_table''
       (db\<lparr> db_score_table := snd (upsert fst (set_board row) (\<lambda>_. True) row (db_score_table db)) \<rparr>) db)"

definition get_score_tables :: "sql \<Rightarrow> Database \<Rightarrow> (TableDescription \<times> DbBoardInfo) list db_result" where
  "get_score_tables sql db = (if sql ''get_score_tables'' then Ok (db_score_table db) else Err DbInternal)"

text \<open>The rows of a board in the order of the query: by score, then by time, then by user.\<close>

definition score_order :: "u32 \<Rightarrow> DbScoreInfo \<Rightarrow> int \<times> int \<times> int" where
  "score_order sort_mode s =
    (if sort_mode = 0 then - sc_score s else sc_score s, uint (sc_timestamp s), sc_user_id s)"

definition get_scores_from_table :: "sql \<Rightarrow> Database \<Rightarrow> string \<Rightarrow> u32 \<Rightarrow> DbBoardInfo \<Rightarrow> DbScoreInfo list db_result" where
  "get_scores_from_table sql db com_id board_id table_info =
    (if \<not> sql ''get_scores_from_table'' then Err DbInternal
     else Ok (take (unat (bi_rank_limit table_info)) (sort_key (score_order (bi_sort_mode table_info))
       (map sr_score (filter (\<lambda>r. sr_table r = (com_id, board_id)) (db_score db))))))"

definition query_board :: "sql \<Rightarrow> Database \<Rightarrow> ComId \<Rightarrow> u32 \<Rightarrow> DbBoardInfo db_result" where
  "query_board sql db com_id board_id =
    query_row sql ''get_board_infos'' (map_option snd (row_of fst (db_score_table db) (com_id_to_string com_id, board_id)))"

definition db_get_board_infos :: "sql \<Rightarrow> Database \<Rightarrow> ComId \<Rightarrow> u32 \<Rightarrow> bool \<Rightarrow> DbBoardInfo db_result \<times> Database" where
  "db_get_board_infos sql db com_id board_id create_missing =
    (case query_board sql db com_id board_id of
       Err DbEmpty \<Rightarrow>
         if create_missing then
           then_st (create_score_board sql db com_id board_id) (\<lambda>_ db. (query_board sql db com_id board_id, db))
         else (Err DbEmpty, db)
     | r \<Rightarrow> (r, db))"

section \<open>Scores\<close>

definition sr_key :: "ScoreRow \<Rightarrow> TableDescription \<times> i64 \<times> i32" where
  "sr_key r = (sr_table r, sc_user_id (sr_score r), sc_character_id (sr_score r))"

definition set_score_row :: "ScoreRow \<Rightarrow> ScoreRow \<Rightarrow> ScoreRow" where
  "set_score_row new old =
    old\<lparr> sr_score := (sr_score old)\<lparr> sc_score := sc_score (sr_score new), sc_comment := sc_comment (sr_score new),
           sc_game_info := sc_game_info (sr_score new), sc_data_id := None, sc_timestamp := sc_timestamp (sr_score new) \<rparr> \<rparr>"

text \<open>An old score gives way to one that is at least as good, or to any one when the board says so.\<close>

definition is_not_worse :: "DbBoardInfo \<Rightarrow> DbScoreInfo \<Rightarrow> DbScoreInfo \<Rightarrow> bool" where
  "is_not_worse board_infos new old \<longleftrightarrow>
    (if bi_update_mode board_infos = 0 then
       (if bi_sort_mode board_infos = 0 then sc_score new \<ge> sc_score old else sc_score new \<le> sc_score old)
     else True)"

definition db_record_score ::
    "sql \<Rightarrow> Database \<Rightarrow> ComId \<Rightarrow> u32 \<Rightarrow> DbScoreInfo \<Rightarrow> bool \<Rightarrow> DbBoardInfo db_result \<times> Database" where
  "db_record_score sql db com_id board_id score_infos create_missing =
    then_st (db_get_board_infos sql db com_id board_id create_missing) (\<lambda>board_infos db.
      let row = \<lparr> sr_table = (com_id_to_string com_id, board_id), sr_score = score_infos\<lparr> sc_data_id := None \<rparr> \<rparr> in
      if \<not> sql ''insert_score'' then (Err DbInternal, db)
      else case upsert sr_key (set_score_row row) (\<lambda>r. is_not_worse board_infos score_infos (sr_score r)) row (db_score db) of
        (Some _, t) \<Rightarrow>
          if account_exists db (sc_user_id score_infos) then (Ok board_infos, db\<lparr> db_score := t \<rparr>) else (Err DbInternal, db)
      | (None, _) \<Rightarrow> (Err DbScoreNotBest, db))"

text \<open>The number of the uploaded data is unique among all scores.\<close>

definition set_score_data ::
    "sql \<Rightarrow> Database \<Rightarrow> ComId \<Rightarrow> i64 \<Rightarrow> i32 \<Rightarrow> u32 \<Rightarrow> i64 \<Rightarrow> u64 \<Rightarrow> unit db_result \<times> Database" where
  "set_score_data sql db com_id user_id character_id board_id score data_id =
    (let hit = (\<lambda>r. sr_key r = ((com_id_to_string com_id, board_id), user_id, character_id) \<and> sc_score (sr_score r) = score) in
     if \<not> sql ''set_score_data'' \<or>
        list_ex hit (db_score db) \<and> list_ex (\<lambda>r. \<not> hit r \<and> sc_data_id (sr_score r) = Some data_id) (db_score db)
     then (Err DbInternal, db)
     else (if count_where hit (db_score db) = 1 then Ok () else Err DbInvalid,
           db\<lparr> db_score := update_where hit (\<lambda>r. r\<lparr> sr_score := (sr_score r)\<lparr> sc_data_id := Some data_id \<rparr> \<rparr>) (db_score db) \<rparr>))"

section \<open>The keyed tables\<close>

interpretation boards: keyed_table fst set_board
  by unfold_locales (simp add: set_board_def)

interpretation scores: keyed_table sr_key set_score_row
  by unfold_locales (simp add: sr_key_def set_score_row_def)

end
