(* ===== verification/Db_Tus.thy ===== *)
theory Db_Tus
  imports Database "HOL-Library.Log_Nat"
begin

text \<open>
  The tables of the title user storage, \<^verbatim>\<open>server/database/db_tus.rs\<close>: variables and data of users and of virtual
  users, one row per owner, game and slot.  The statements for users and for virtual users differ only in the table
  and in the owner's foreign key.
\<close>

section \<open>Numbers in SQL\<close>

text \<open>The nearest double of a whole number, ties to even.\<close>

definition round53 :: "int \<Rightarrow> int" where
  "round53 n =
    (let a = \<bar>n\<bar>; e = floorlog 2 (nat a) - 53; q = a div 2 ^ e; r = a mod 2 ^ e;
         q' = (if 2 * r > 2 ^ e \<or> 2 * r = 2 ^ e \<and> odd q then q + 1 else q)
     in if e = 0 then n else sgn n * (q' * 2 ^ e))"

text \<open>
  Storing a floating point number into an integer column turns it into an integer where that loses nothing; an
  addition that leaves the range of 64 bits is done in floating point.
\<close>

definition sql_store :: "int \<Rightarrow> sql_number" where
  "sql_store r = (if - (2 ^ 63) < r \<and> r < 2 ^ 63 - 1 then SqlInt r else SqlReal r)"

fun sql_value :: "sql_number \<Rightarrow> int" where
  "sql_value (SqlInt v) = v"
| "sql_value (SqlReal r) = r"

definition in_i64 :: "int \<Rightarrow> bool" where
  "in_i64 v \<longleftrightarrow> - (2 ^ 63) \<le> v \<and> v < 2 ^ 63"

fun sql_add :: "sql_number \<Rightarrow> sql_number \<Rightarrow> sql_number" where
  "sql_add (SqlInt a) (SqlInt b) =
    (if in_i64 (a + b) then SqlInt (a + b) else sql_store (round53 (round53 a + round53 b)))"
| "sql_add x y = sql_store (round53 (round53 (sql_value x) + round53 (sql_value y)))"

section \<open>Types\<close>

record DbTusVarInfo =
  vi_timestamp :: u64
  vi_author_id :: i64
  vi_variable :: i64

record DbTusDataStatus =
  ds_timestamp :: u64
  ds_author_id :: i64
  ds_data_id :: u64

datatype TusSorting = SortDescendingDate | SortAscendingDate | SortDescendingValue | SortAscendingValue

definition TusSorting_from_i32 :: "i32 \<Rightarrow> TusSorting option" where
  "TusSorting_from_i32 n =
    (if n = 1 then Some SortDescendingDate else if n = 2 then Some SortAscendingDate
     else if n = 3 then Some SortDescendingValue else if n = 4 then Some SortAscendingValue else None)"

datatype TusOpeType = OpeEqual | OpeNotEqual | OpeGreaterThan | OpeGreaterOrEqual | OpeLessThan | OpeLessOrEqual

definition TusOpeType_from_i32 :: "i32 \<Rightarrow> TusOpeType option" where
  "TusOpeType_from_i32 n =
    (if n = 1 then Some OpeEqual else if n = 2 then Some OpeNotEqual else if n = 3 then Some OpeGreaterThan
     else if n = 4 then Some OpeGreaterOrEqual else if n = 5 then Some OpeLessThan
     else if n = 6 then Some OpeLessOrEqual else None)"

datatype TusStatusSorting = StatusDescendingDate | StatusAscendingDate

definition TusStatusSorting_from_i32 :: "i32 \<Rightarrow> TusStatusSorting option" where
  "TusStatusSorting_from_i32 n =
    (if n = 1 then Some StatusDescendingDate else if n = 2 then Some StatusAscendingDate else None)"

section \<open>Variables\<close>

definition tv_key :: "'o TusVar \<Rightarrow> 'o \<times> ComId \<times> i32" where
  "tv_key r = (tv_owner r, tv_com_id r, tv_slot r)"

definition var_row :: "'o \<Rightarrow> ComId \<Rightarrow> i32 \<Rightarrow> i64 \<Rightarrow> i64 \<Rightarrow> u64 \<Rightarrow> 'o TusVar" where
  "var_row owner com_id slot val author_id timestamp =
    \<lparr> tv_owner = owner, tv_com_id = com_id, tv_slot = slot, tv_value = SqlInt val, tv_timestamp = timestamp,
      tv_author = author_id \<rparr>"

text \<open>A floating point number is not an \<^verbatim>\<open>i64\<close>: reading it is an \<^verbatim>\<open>unwrap\<close> on an error.\<close>

definition read_var :: "'o TusVar \<Rightarrow> DbTusVarInfo db_result" where
  "read_var r =
    (case tv_value r of
       SqlInt v \<Rightarrow> Ok \<lparr> vi_timestamp = tv_timestamp r, vi_author_id = tv_author r, vi_variable = v \<rparr>
     | SqlReal _ \<Rightarrow> Panic)"

text \<open>The two updates of a conflicting row: to the new value, and by the new value.\<close>

definition set_var :: "'o TusVar \<Rightarrow> 'o TusVar \<Rightarrow> 'o TusVar" where
  "set_var new old = old\<lparr> tv_value := tv_value new, tv_timestamp := tv_timestamp new, tv_author := tv_author new \<rparr>"

definition add_var :: "'o TusVar \<Rightarrow> 'o TusVar \<Rightarrow> 'o TusVar" where
  "add_var new old =
    old\<lparr> tv_value := sql_add (tv_value old) (tv_value new), tv_timestamp := tv_timestamp new, tv_author := tv_author new \<rparr>"

text \<open>
  An upsert of a variable under its foreign keys: nothing when they are violated, otherwise the returned row, if
  any, and the table.
\<close>

definition upsert_var ::
    "('o TusVar \<Rightarrow> bool) \<Rightarrow> ('o TusVar \<Rightarrow> 'o TusVar \<Rightarrow> 'o TusVar) \<Rightarrow> ('o TusVar \<Rightarrow> bool) \<Rightarrow> 'o TusVar \<Rightarrow> 'o TusVar list
      \<Rightarrow> ('o TusVar option \<times> 'o TusVar list) option" where
  "upsert_var fk upd cond row t =
    (case upsert tv_key (upd row) cond row t of
       (Some r, t1) \<Rightarrow> if fk r then Some (Some r, t1) else None
     | (None, t1) \<Rightarrow> Some (None, t1))"

definition user_fk :: "Database \<Rightarrow> i64 TusVar \<Rightarrow> bool" where
  "user_fk db r \<longleftrightarrow> account_exists db (tv_owner r) \<and> account_exists db (tv_author r)"

definition vuser_fk :: "Database \<Rightarrow> string TusVar \<Rightarrow> bool" where
  "vuser_fk db r \<longleftrightarrow> account_exists db (tv_author r)"

definition tus_set_vuser_variable ::
    "sql \<Rightarrow> Database \<Rightarrow> ComId \<Rightarrow> string \<Rightarrow> i32 \<Rightarrow> i64 \<Rightarrow> i64 \<Rightarrow> u64 \<Rightarrow> unit db_result \<times> Database" where
  "tus_set_vuser_variable sql db com_id vuser slot val author_id timestamp =
    (if \<not> sql ''tus_set_vuser_variable'' then (Err DbInternal, db)
     else case upsert_var (vuser_fk db) set_var (\<lambda>_. True) (var_row vuser com_id slot val author_id timestamp)
                 (db_tus_var_vuser db) of
       Some (_, t) \<Rightarrow> (Ok (), db\<lparr> db_tus_var_vuser := t \<rparr>)
     | None \<Rightarrow> (Err DbInternal, db))"

definition tus_set_user_variable ::
    "sql \<Rightarrow> Database \<Rightarrow> ComId \<Rightarrow> i64 \<Rightarrow> i32 \<Rightarrow> i64 \<Rightarrow> i64 \<Rightarrow> u64 \<Rightarrow> unit db_result \<times> Database" where
  "tus_set_user_variable sql db com_id user slot val author_id timestamp =
    (if \<not> sql ''tus_set_user_variable'' then (Err DbInternal, db)
     else case upsert_var (user_fk db) set_var (\<lambda>_. True) (var_row user com_id slot val author_id timestamp)
                 (db_tus_var db) of
       Some (_, t) \<Rightarrow> (Ok (), db\<lparr> db_tus_var := t \<rparr>)
     | None \<Rightarrow> (Err DbInternal, db))"

definition tus_get_vuser_variable :: "sql \<Rightarrow> Database \<Rightarrow> ComId \<Rightarrow> string \<Rightarrow> i32 \<Rightarrow> DbTusVarInfo db_result" where
  "tus_get_vuser_variable sql db com_id vuser slot =
    bind_res (query_row sql ''tus_get_vuser_variable'' (row_of tv_key (db_tus_var_vuser db) (vuser, com_id, slot))) read_var"

definition tus_get_user_variable :: "sql \<Rightarrow> Database \<Rightarrow> ComId \<Rightarrow> i64 \<Rightarrow> i32 \<Rightarrow> DbTusVarInfo db_result" where
  "tus_get_user_variable sql db com_id user slot =
    bind_res (query_row sql ''tus_get_user_variable'' (row_of tv_key (db_tus_var db) (user, com_id, slot))) read_var"

definition sort_vars :: "TusSorting \<Rightarrow> 'o TusVar list \<Rightarrow> 'o TusVar list" where
  "sort_vars sorting rows =
    (case sorting of
       SortDescendingDate \<Rightarrow> sort_key (\<lambda>r. - uint (tv_timestamp r)) rows
     | SortAscendingDate \<Rightarrow> sort_key (\<lambda>r. uint (tv_timestamp r)) rows
     | SortDescendingValue \<Rightarrow> sort_key (\<lambda>r. - sql_value (tv_value r)) rows
     | SortAscendingValue \<Rightarrow> sort_key (\<lambda>r. sql_value (tv_value r)) rows)"

definition tus_get_user_variable_from_user_list ::
    "sql \<Rightarrow> Database \<Rightarrow> ComId \<Rightarrow> i64 list \<Rightarrow> i32 \<Rightarrow> TusSorting \<Rightarrow> u32 \<Rightarrow> (i64 \<times> DbTusVarInfo) list db_result" where
  "tus_get_user_variable_from_user_list sql db com_id user_list slot sorting max_rows =
    (if \<not> sql ''tus_get_user_variable_from_user_list'' then Err DbInternal
     else traverse (\<lambda>r. bind_res (read_var r) (\<lambda>info. Ok (tv_owner r, info)))
            (take (unat max_rows) (sort_vars sorting
              (filter (\<lambda>r. tv_com_id r = com_id \<and> tv_slot r = slot \<and> tv_owner r \<in> set user_list) (db_tus_var db)))))"

definition prepare_cond_string :: "u64 option \<Rightarrow> i64 option \<Rightarrow> u64 \<Rightarrow> i64 \<Rightarrow> bool" where
  "prepare_cond_string compare_timestamp compare_author timestamp author_id \<longleftrightarrow>
    (case compare_timestamp of Some t \<Rightarrow> timestamp \<le> t | None \<Rightarrow> True) \<and>
    (case compare_author of Some a \<Rightarrow> author_id = a | None \<Rightarrow> True)"

text \<open>A conditional upsert that returns the row it wrote, or else the row that is there.\<close>

definition upsert_and_get ::
    "sql \<Rightarrow> string \<Rightarrow> ('o TusVar \<Rightarrow> bool) \<Rightarrow> ('o TusVar \<Rightarrow> 'o TusVar \<Rightarrow> 'o TusVar) \<Rightarrow> ('o TusVar \<Rightarrow> bool) \<Rightarrow> 'o TusVar
      \<Rightarrow> 'o TusVar list \<Rightarrow> DbTusVarInfo db_result \<times> 'o TusVar list" where
  "upsert_and_get sql name fk upd cond row t =
    (if \<not> sql name then (Err DbInternal, t)
     else case upsert_var fk upd cond row t of
       None \<Rightarrow> (Err DbInternal, t)
     | Some (Some r, t1) \<Rightarrow> (read_var r, t1)
     | Some (None, _) \<Rightarrow>
         (if \<not> sql (name @ '' SELECT'') then Err DbInternal
          else case row_of tv_key t (tv_key row) of None \<Rightarrow> Err DbInternal | Some r \<Rightarrow> read_var r, t))"

definition tus_add_and_get_user_variable ::
    "sql \<Rightarrow> Database \<Rightarrow> ComId \<Rightarrow> i64 \<Rightarrow> i32 \<Rightarrow> i64 \<Rightarrow> i64 \<Rightarrow> u64 \<Rightarrow> u64 option \<Rightarrow> i64 option \<Rightarrow> DbTusVarInfo db_result \<times> Database" where
  "tus_add_and_get_user_variable sql db com_id user slot val author_id timestamp compare_timestamp compare_author =
    (case upsert_and_get sql ''tus_add_and_get_user_variable'' (user_fk db) add_var
            (\<lambda>r. prepare_cond_string compare_timestamp compare_author (tv_timestamp r) (tv_author r))
            (var_row user com_id slot val author_id timestamp) (db_tus_var db) of
       (r, t) \<Rightarrow> (r, db\<lparr> db_tus_var := t \<rparr>))"

definition tus_add_and_get_vuser_variable ::
    "sql \<Rightarrow> Database \<Rightarrow> ComId \<Rightarrow> string \<Rightarrow> i32 \<Rightarrow> i64 \<Rightarrow> i64 \<Rightarrow> u64 \<Rightarrow> u64 option \<Rightarrow> i64 option \<Rightarrow> DbTusVarInfo db_result \<times> Database" where
  "tus_add_and_get_vuser_variable sql db com_id vuser slot val author_id timestamp compare_timestamp compare_author =
    (case upsert_and_get sql ''tus_add_and_get_vuser_variable'' (vuser_fk db) add_var
            (\<lambda>r. prepare_cond_string compare_timestamp compare_author (tv_timestamp r) (tv_author r))
            (var_row vuser com_id slot val author_id timestamp) (db_tus_var_vuser db) of
       (r, t) \<Rightarrow> (r, db\<lparr> db_tus_var_vuser := t \<rparr>))"

fun ope_holds :: "TusOpeType \<Rightarrow> int \<Rightarrow> int \<Rightarrow> bool" where
  "ope_holds OpeEqual a b \<longleftrightarrow> a = b"
| "ope_holds OpeNotEqual a b \<longleftrightarrow> a \<noteq> b"
| "ope_holds OpeGreaterThan a b \<longleftrightarrow> a > b"
| "ope_holds OpeGreaterOrEqual a b \<longleftrightarrow> a \<ge> b"
| "ope_holds OpeLessThan a b \<longleftrightarrow> a < b"
| "ope_holds OpeLessOrEqual a b \<longleftrightarrow> a \<le> b"

definition prepare_try_and_set_cond_string :: "TusOpeType \<Rightarrow> i64 \<Rightarrow> u64 option \<Rightarrow> i64 option \<Rightarrow> 'o TusVar \<Rightarrow> bool" where
  "prepare_try_and_set_cond_string compare_op compare_value compare_timestamp compare_author r \<longleftrightarrow>
    ope_holds compare_op (sql_value (tv_value r)) compare_value \<and>
    prepare_cond_string compare_timestamp compare_author (tv_timestamp r) (tv_author r)"

definition tus_try_and_set_user_variable ::
    "sql \<Rightarrow> Database \<Rightarrow> ComId \<Rightarrow> i64 \<Rightarrow> i32 \<Rightarrow> i64 \<Rightarrow> i64 \<Rightarrow> u64 \<Rightarrow> i64 \<Rightarrow> TusOpeType \<Rightarrow> u64 option \<Rightarrow> i64 option
      \<Rightarrow> DbTusVarInfo db_result \<times> Database" where
  "tus_try_and_set_user_variable sql db com_id user slot value_to_set author_id timestamp compare_value compare_op
      compare_timestamp compare_author =
    (case upsert_and_get sql ''tus_try_and_set_user_variable'' (user_fk db) set_var
            (prepare_try_and_set_cond_string compare_op compare_value compare_timestamp compare_author)
            (var_row user com_id slot value_to_set author_id timestamp) (db_tus_var db) of
       (r, t) \<Rightarrow> (r, db\<lparr> db_tus_var := t \<rparr>))"

definition tus_try_and_set_vuser_variable ::
    "sql \<Rightarrow> Database \<Rightarrow> ComId \<Rightarrow> string \<Rightarrow> i32 \<Rightarrow> i64 \<Rightarrow> i64 \<Rightarrow> u64 \<Rightarrow> i64 \<Rightarrow> TusOpeType \<Rightarrow> u64 option \<Rightarrow> i64 option
      \<Rightarrow> DbTusVarInfo db_result \<times> Database" where
  "tus_try_and_set_vuser_variable sql db com_id vuser slot value_to_set author_id timestamp compare_value compare_op
      compare_timestamp compare_author =
    (case upsert_and_get sql ''tus_try_and_set_vuser_variable'' (vuser_fk db) set_var
            (prepare_try_and_set_cond_string compare_op compare_value compare_timestamp compare_author)
            (var_row vuser com_id slot value_to_set author_id timestamp) (db_tus_var_vuser db) of
       (r, t) \<Rightarrow> (r, db\<lparr> db_tus_var_vuser := t \<rparr>))"

definition tus_delete_user_variable_with_slotlist :: "sql \<Rightarrow> Database \<Rightarrow> ComId \<Rightarrow> i64 \<Rightarrow> i32 list \<Rightarrow> unit db_result \<times> Database" where
  "tus_delete_user_variable_with_slotlist sql db com_id user slot_list =
    execute sql ''tus_delete_user_variable_with_slotlist''
      (db\<lparr> db_tus_var := delete_where (\<lambda>r. tv_com_id r = com_id \<and> tv_owner r = user \<and> tv_slot r \<in> set slot_list)
             (db_tus_var db) \<rparr>) db"

definition tus_delete_vuser_variable_with_slotlist ::
    "sql \<Rightarrow> Database \<Rightarrow> ComId \<Rightarrow> string \<Rightarrow> i32 list \<Rightarrow> unit db_result \<times> Database" where
  "tus_delete_vuser_variable_with_slotlist sql db com_id vuser slot_list =
    execute sql ''tus_delete_vuser_variable_with_slotlist''
      (db\<lparr> db_tus_var_vuser := delete_where (\<lambda>r. tv_com_id r = com_id \<and> tv_owner r = vuser \<and> tv_slot r \<in> set slot_list)
             (db_tus_var_vuser db) \<rparr>) db"

section \<open>Data\<close>

definition tr_key :: "'o TusDataRow \<Rightarrow> 'o \<times> ComId \<times> i32" where
  "tr_key r = (tr_owner r, tr_com_id r, tr_slot r)"

definition set_data_row :: "'o TusDataRow \<Rightarrow> 'o TusDataRow \<Rightarrow> 'o TusDataRow" where
  "set_data_row new old =
    old\<lparr> tr_data_id := tr_data_id new, tr_info := tr_info new, tr_timestamp := tr_timestamp new, tr_author := tr_author new \<rparr>"

text \<open>All the numbers of uploaded data; a number that is used twice is an internal error.\<close>

definition tus_get_all_data_ids :: "sql \<Rightarrow> Database \<Rightarrow> u64 set db_result" where
  "tus_get_all_data_ids sql db =
    (let ids = map tr_data_id (db_tus_data db) @ map tr_data_id (db_tus_data_vuser db) in
     if \<not> sql ''tus_data_ids'' \<or> \<not> distinct ids then Err DbInternal else Ok (set ids))"

definition tus_get_user_data_timestamp_and_author ::
    "sql \<Rightarrow> Database \<Rightarrow> ComId \<Rightarrow> i64 \<Rightarrow> i32 \<Rightarrow> (u64 \<times> i64) option db_result" where
  "tus_get_user_data_timestamp_and_author sql db com_id user slot =
    (if \<not> sql ''tus_get_user_data_timestamp_and_author'' then Err DbInternal
     else Ok (map_option (\<lambda>r. (tr_timestamp r, tr_author r)) (row_of tr_key (db_tus_data db) (user, com_id, slot))))"

definition tus_get_vuser_data_timestamp_and_author ::
    "sql \<Rightarrow> Database \<Rightarrow> ComId \<Rightarrow> string \<Rightarrow> i32 \<Rightarrow> (u64 \<times> i64) option db_result" where
  "tus_get_vuser_data_timestamp_and_author sql db com_id vuser slot =
    (if \<not> sql ''tus_get_vuser_data_timestamp_and_author'' then Err DbInternal
     else Ok (map_option (\<lambda>r. (tr_timestamp r, tr_author r)) (row_of tr_key (db_tus_data_vuser db) (vuser, com_id, slot))))"

text \<open>A conditional upsert of a data row: refused when the condition on the row that is there fails.\<close>

definition upsert_data ::
    "sql \<Rightarrow> string \<Rightarrow> ('o TusDataRow \<Rightarrow> bool) \<Rightarrow> u64 option \<Rightarrow> i64 option \<Rightarrow> 'o TusDataRow \<Rightarrow> 'o TusDataRow list
      \<Rightarrow> unit db_result \<times> 'o TusDataRow list" where
  "upsert_data sql name fk compare_timestamp compare_author row t =
    (if \<not> sql name then (Err DbInternal, t)
     else case upsert tr_key (set_data_row row)
                 (\<lambda>r. prepare_cond_string compare_timestamp compare_author (tr_timestamp r) (tr_author r)) row t of
       (Some r, t1) \<Rightarrow> if fk r then (Ok (), t1) else (Err DbInternal, t)
     | (None, _) \<Rightarrow> (Err DbEmpty, t))"

definition data_row :: "'o \<Rightarrow> ComId \<Rightarrow> i32 \<Rightarrow> u64 \<Rightarrow> bytes option \<Rightarrow> i64 \<Rightarrow> u64 \<Rightarrow> 'o TusDataRow" where
  "data_row owner com_id slot data_id info author_id timestamp =
    \<lparr> tr_owner = owner, tr_com_id = com_id, tr_slot = slot, tr_data_id = data_id,
      tr_info = (case info of Some i \<Rightarrow> i | None \<Rightarrow> []), tr_timestamp = timestamp, tr_author = author_id \<rparr>"

definition tus_set_user_data ::
    "sql \<Rightarrow> Database \<Rightarrow> ComId \<Rightarrow> i64 \<Rightarrow> i32 \<Rightarrow> u64 \<Rightarrow> bytes option \<Rightarrow> i64 \<Rightarrow> u64 \<Rightarrow> u64 option \<Rightarrow> i64 option
      \<Rightarrow> unit db_result \<times> Database" where
  "tus_set_user_data sql db com_id user slot data_id info author_id timestamp compare_timestamp compare_author =
    (case upsert_data sql ''tus_set_user_data'' (\<lambda>r. account_exists db (tr_owner r) \<and> account_exists db (tr_author r))
            compare_timestamp compare_author (data_row user com_id slot data_id info author_id timestamp) (db_tus_data db) of
       (r, t) \<Rightarrow> (r, db\<lparr> db_tus_data := t \<rparr>))"

definition tus_set_vuser_data ::
    "sql \<Rightarrow> Database \<Rightarrow> ComId \<Rightarrow> string \<Rightarrow> i32 \<Rightarrow> u64 \<Rightarrow> bytes option \<Rightarrow> i64 \<Rightarrow> u64 \<Rightarrow> u64 option \<Rightarrow> i64 option
      \<Rightarrow> unit db_result \<times> Database" where
  "tus_set_vuser_data sql db com_id vuser slot data_id info author_id timestamp compare_timestamp compare_author =
    (case upsert_data sql ''tus_set_vuser_data'' (\<lambda>r. account_exists db (tr_author r))
            compare_timestamp compare_author (data_row vuser com_id slot data_id info author_id timestamp)
            (db_tus_data_vuser db) of
       (r, t) \<Rightarrow> (r, db\<lparr> db_tus_data_vuser := t \<rparr>))"

definition data_status :: "'o TusDataRow \<Rightarrow> DbTusDataStatus \<times> bytes" where
  "data_status r =
    (\<lparr> ds_timestamp = tr_timestamp r, ds_author_id = tr_author r, ds_data_id = tr_data_id r \<rparr>, tr_info r)"

definition tus_get_user_data :: "sql \<Rightarrow> Database \<Rightarrow> ComId \<Rightarrow> i64 \<Rightarrow> i32 \<Rightarrow> (DbTusDataStatus \<times> bytes) db_result" where
  "tus_get_user_data sql db com_id user slot =
    query_row sql ''tus_get_user_data'' (map_option data_status (row_of tr_key (db_tus_data db) (user, com_id, slot)))"

definition tus_get_vuser_data :: "sql \<Rightarrow> Database \<Rightarrow> ComId \<Rightarrow> string \<Rightarrow> i32 \<Rightarrow> (DbTusDataStatus \<times> bytes) db_result" where
  "tus_get_vuser_data sql db com_id vuser slot =
    query_row sql ''tus_get_vuser_data'' (map_option data_status (row_of tr_key (db_tus_data_vuser db) (vuser, com_id, slot)))"

definition sort_data :: "TusStatusSorting \<Rightarrow> 'o TusDataRow list \<Rightarrow> 'o TusDataRow list" where
  "sort_data sorting rows =
    (case sorting of
       StatusDescendingDate \<Rightarrow> sort_key (\<lambda>r. - uint (tr_timestamp r)) rows
     | StatusAscendingDate \<Rightarrow> sort_key (\<lambda>r. uint (tr_timestamp r)) rows)"

definition tus_get_user_data_from_user_list ::
    "sql \<Rightarrow> Database \<Rightarrow> ComId \<Rightarrow> i64 list \<Rightarrow> i32 \<Rightarrow> TusStatusSorting \<Rightarrow> u32 \<Rightarrow> (i64 \<times> DbTusDataStatus \<times> bytes) list db_result" where
  "tus_get_user_data_from_user_list sql db com_id user_list slot sorting max_rows =
    (if \<not> sql ''tus_get_user_data_from_user_list'' then Err DbInternal
     else Ok (map (\<lambda>r. (tr_owner r, data_status r)) (take (unat max_rows) (sort_data sorting
       (filter (\<lambda>r. tr_com_id r = com_id \<and> tr_slot r = slot \<and> tr_owner r \<in> set user_list) (db_tus_data db))))))"

definition tus_delete_user_data_with_slotlist :: "sql \<Rightarrow> Database \<Rightarrow> ComId \<Rightarrow> i64 \<Rightarrow> i32 list \<Rightarrow> unit db_result \<times> Database" where
  "tus_delete_user_data_with_slotlist sql db com_id user slot_list =
    execute sql ''tus_delete_user_data_with_slotlist''
      (db\<lparr> db_tus_data := delete_where (\<lambda>r. tr_com_id r = com_id \<and> tr_owner r = user \<and> tr_slot r \<in> set slot_list)
             (db_tus_data db) \<rparr>) db"

definition tus_delete_vuser_data_with_slotlist ::
    "sql \<Rightarrow> Database \<Rightarrow> ComId \<Rightarrow> string \<Rightarrow> i32 list \<Rightarrow> unit db_result \<times> Database" where
  "tus_delete_vuser_data_with_slotlist sql db com_id vuser slot_list =
    execute sql ''tus_delete_vuser_data_with_slotlist''
      (db\<lparr> db_tus_data_vuser := delete_where (\<lambda>r. tr_com_id r = com_id \<and> tr_owner r = vuser \<and> tr_slot r \<in> set slot_list)
             (db_tus_data_vuser db) \<rparr>) db"

section \<open>The keyed tables\<close>

interpretation vars: keyed_table tv_key set_var
  by unfold_locales (simp add: tv_key_def set_var_def)

interpretation adds: keyed_table tv_key add_var
  by unfold_locales (simp add: tv_key_def add_var_def)

interpretation datas: keyed_table tr_key set_data_row
  by unfold_locales (simp add: tr_key_def set_data_row_def)

lemma round53_small [simp]: "\<bar>n\<bar> < 2 ^ 53 \<Longrightarrow> round53 n = n"
proof -
  assume "\<bar>n\<bar> < 2 ^ 53"
  then have "nat \<bar>n\<bar> < 2 ^ 53" by simp
  then have "floorlog 2 (nat \<bar>n\<bar>) \<le> 53" by (simp add: floorlog_leI)
  then show ?thesis by (simp add: round53_def Let_def)
qed

end
