(* ===== verification/Client_State.thy ===== *)
theory Client_State
  imports Cmd_Messages Room_Data Gui_Rooms Game_Services Db_Score Db_Tus
begin

text \<open>
  The state a command of a client works on, \<^verbatim>\<open>server/client.rs\<close>: the data all clients share, the state of one
  connection, and the helpers the command handlers are written with.

  A handler is a function from a \<^verbatim>\<open>Session\<close> to its outcome and the session afterwards.  The session holds the
  connection's own state, the state of the server, the request and the reply under construction.  The state of the
  server is the shared data, the configuration, the database, the counters of the process, the directories of
  uploaded data, the mails sent and the packets sent to other clients, in order, each with the set of the online
  users it went to.  A handler runs as one step.  What comes from outside the sources is the record \<^verbatim>\<open>Env\<close>: the
  generated encoders and decoders, clocks, random choices, the iteration order of hash maps, and which operations
  of the database, the file system and the mail server succeed.
\<close>

section \<open>The environment\<close>

text \<open>An address of the network, with its octets.\<close>

datatype IpAddr = V4 bytes | V6 bytes

record Mail =
  ma_address :: string
  ma_name :: string
  ma_subject :: string
  ma_body :: string
  ma_message_id :: string

record Env =
  e_codec :: prost_codec
  e_gui :: gui_codec
  e_cmd :: cmd_codec
  e_score :: score_codec
  e_tus :: tus_codec
  e_iter :: hash_iter
  e_hash_order :: "u64 set \<Rightarrow> u64 list"
  e_rooms_order :: "RoomManager \<Rightarrow> (ComId \<times> u64) list"
  e_user_rooms_order :: "(ComId \<times> u64) set \<Rightarrow> (ComId \<times> u64) list"
  e_user_gui_order :: "GuiRoomId set \<Rightarrow> GuiRoomId list"
  e_rnd :: "nat \<Rightarrow> nat"
  e_psn_time :: u64
  e_nanos :: u64
  e_millis :: u64
  e_instant :: nat
  e_connects :: bool
  e_dbe :: DbEnv
  e_file :: "string \<Rightarrow> bool"
  e_friends_order :: "(i64, string) btree \<Rightarrow> i64 list"
  e_address :: "string \<Rightarrow> bool"
  e_smtp :: "Mail \<Rightarrow> bool"
  e_domains_file :: "string option"
  e_servers_file :: "string option"

section \<open>Shared data\<close>

abbreviation (input) USER_BIN_ATTR_1_ID :: u16 where "USER_BIN_ATTR_1_ID \<equiv> 0x5F"

record ClientSharedSessionInfo =
  ss_bin_attr :: RoomBinAttr

definition ClientSharedSessionInfo_new :: ClientSharedSessionInfo where
  "ClientSharedSessionInfo_new = \<lparr> ss_bin_attr = RoomBinAttr_with_id 128 USER_BIN_ATTR_1_ID \<rparr>"

record ClientSharedFriendInfo =
  fi_friends :: "(i64, string) btree"
  fi_presence :: "ClientSharedPresence option"

definition ClientSharedFriendInfo_new :: "(i64, string) btree \<Rightarrow> ClientSharedFriendInfo" where
  "ClientSharedFriendInfo_new friends = \<lparr> fi_friends = friends, fi_presence = None \<rparr>"

record ClientSharedInfo =
  cs_signaling_info :: ClientSharedSignalingInfo
  cs_friend_info :: ClientSharedFriendInfo
  cs_session_info :: ClientSharedSessionInfo
  cs_kick_notify :: bool
  cs_npid :: string
  cs_online_name :: string
  cs_ip :: IpAddr

definition ClientSharedInfo_new :: "(i64, string) btree \<Rightarrow> ClientInfo \<Rightarrow> IpAddr \<Rightarrow> ClientSharedInfo" where
  "ClientSharedInfo_new friends client_info ip =
    \<lparr> cs_signaling_info = ClientSharedSignalingInfo_new, cs_friend_info = ClientSharedFriendInfo_new friends,
      cs_session_info = ClientSharedSessionInfo_new, cs_kick_notify = False, cs_npid = ci_npid client_info,
      cs_online_name = ci_online_name client_info, cs_ip = ip \<rparr>"

text \<open>The permit of \<^verbatim>\<open>notify_one\<close>: the connection of the user ends the next time it waits for a request.\<close>

definition kick :: "ClientSharedInfo \<Rightarrow> ClientSharedInfo" where
  "kick info = info\<lparr> cs_kick_notify := True \<rparr>"

record SharedData =
  sh_gui_room_manager :: GuiRoomManager
  sh_room_manager :: RoomManager
  sh_client_infos :: "i64 \<rightharpoonup> ClientSharedInfo"
  sh_score_cache :: ScoresCache
  sh_game_tracker :: GameTracker
  sh_cleanup_duty :: "i64 set"

definition SharedData_new ::
    "GuiRoomManager \<Rightarrow> RoomManager \<Rightarrow> (i64 \<rightharpoonup> ClientSharedInfo) \<Rightarrow> ScoresCache \<Rightarrow> GameTracker \<Rightarrow> i64 set \<Rightarrow> SharedData" where
  "SharedData_new gui rooms infos cache tracker cleanup_duty =
    \<lparr> sh_gui_room_manager = gui, sh_room_manager = rooms, sh_client_infos = infos, sh_score_cache = cache,
      sh_game_tracker = tracker, sh_cleanup_duty = cleanup_duty \<rparr>"

section \<open>One connection\<close>

text \<open>
  \<^verbatim>\<open>SharedData::new\<close> runs once for every accepted connection.  All its parts but \<^verbatim>\<open>rematch_pairs\<close> are handles of what the
  server has once; the map of the rematch pairs is a new one, so that each connection has its own.
\<close>

record Client =
  cl_authentified :: bool
  cl_client_info :: ClientInfo
  cl_post_reply_notifications :: "bytes list"
  cl_peer_ip :: IpAddr
  cl_current_game :: "ComId option \<times> string option"
  cl_rematch_pairs :: "string \<rightharpoonup> string \<times> nat"

definition Client_new :: "IpAddr \<Rightarrow> Client" where
  "Client_new peer_ip =
    \<lparr> cl_authentified = False,
      cl_client_info = \<lparr> ci_user_id = 0, ci_npid = [], ci_online_name = [], ci_avatar_url = [], ci_token = [],
                         ci_admin = False, ci_stat_agent = False, ci_banned = False \<rparr>,
      cl_post_reply_notifications = [], cl_peer_ip = peer_ip, cl_current_game = (None, None),
      cl_rematch_pairs = Map.empty \<rparr>"

text \<open>A directory of uploaded data: the counter that numbers the files, and their contents.\<close>

record DataFiles =
  df_dispenser :: u64
  df_files :: "u64 \<rightharpoonup> bytes"

record ServerState =
  sv_shared :: SharedData
  sv_config :: Config
  sv_db :: Database
  sv_ticket_id :: u64
  sv_email_id :: u64
  sv_mails :: "Mail list"
  sv_score_data :: DataFiles
  sv_tus_data :: DataFiles
  sv_sent :: "(i64 set \<times> bytes) list"
  sv_terminate :: bool

record Session =
  s_client :: Client
  s_server :: ServerState
  s_data :: StreamExtractor
  s_reply :: bytes

type_synonym handler = "Session \<Rightarrow> ErrorType result \<times> Session"

abbreviation s_info :: "Session \<Rightarrow> ClientInfo" where
  "s_info s \<equiv> cl_client_info (s_client s)"

abbreviation s_user :: "Session \<Rightarrow> i64" where
  "s_user s \<equiv> ci_user_id (s_info s)"

abbreviation s_shared :: "Session \<Rightarrow> SharedData" where
  "s_shared s \<equiv> sv_shared (s_server s)"

abbreviation s_config :: "Session \<Rightarrow> Config" where
  "s_config s \<equiv> sv_config (s_server s)"

abbreviation s_db :: "Session \<Rightarrow> Database" where
  "s_db s \<equiv> sv_db (s_server s)"

abbreviation s_rooms :: "Session \<Rightarrow> RoomManager" where
  "s_rooms s \<equiv> sh_room_manager (s_shared s)"

abbreviation s_gui :: "Session \<Rightarrow> GuiRoomManager" where
  "s_gui s \<equiv> sh_gui_room_manager (s_shared s)"

abbreviation s_infos :: "Session \<Rightarrow> i64 \<rightharpoonup> ClientSharedInfo" where
  "s_infos s \<equiv> sh_client_infos (s_shared s)"

definition update_server :: "(ServerState \<Rightarrow> ServerState) \<Rightarrow> Session \<Rightarrow> Session" where
  "update_server f s = s\<lparr> s_server := f (s_server s) \<rparr>"

definition update_shared :: "(SharedData \<Rightarrow> SharedData) \<Rightarrow> Session \<Rightarrow> Session" where
  "update_shared f = update_server (\<lambda>sv. sv\<lparr> sv_shared := f (sv_shared sv) \<rparr>)"

definition put_db :: "Database \<Rightarrow> Session \<Rightarrow> Session" where
  "put_db db = update_server (\<lambda>sv. sv\<lparr> sv_db := db \<rparr>)"

definition update_tracker :: "(GameTracker \<Rightarrow> GameTracker) \<Rightarrow> Session \<Rightarrow> Session" where
  "update_tracker f = update_shared (\<lambda>sh. sh\<lparr> sh_game_tracker := f (sh_game_tracker sh) \<rparr>)"

definition set_current_game :: "ComId option \<times> string option \<Rightarrow> Session \<Rightarrow> Session" where
  "set_current_game g s = s\<lparr> s_client := (s_client s)\<lparr> cl_current_game := g \<rparr> \<rparr>"

definition update_pairs :: "((string \<rightharpoonup> string \<times> nat) \<Rightarrow> (string \<rightharpoonup> string \<times> nat)) \<Rightarrow> Session \<Rightarrow> Session" where
  "update_pairs f s = s\<lparr> s_client := (s_client s)\<lparr> cl_rematch_pairs := f (cl_rematch_pairs (s_client s)) \<rparr> \<rparr>"

text \<open>An operation of the room managers under their write locks.\<close>

definition with_rooms :: "(RoomManager \<Rightarrow> 'a result \<times> RoomManager) \<Rightarrow> Session \<Rightarrow> 'a result \<times> Session" where
  "with_rooms f s = (case f (s_rooms s) of (r, rm) \<Rightarrow> (r, update_shared (\<lambda>sh. sh\<lparr> sh_room_manager := rm \<rparr>) s))"

definition with_gui :: "(GuiRoomManager \<Rightarrow> 'a result \<times> GuiRoomManager) \<Rightarrow> Session \<Rightarrow> 'a result \<times> Session" where
  "with_gui f s = (case f (s_gui s) of (r, gm) \<Rightarrow> (r, update_shared (\<lambda>sh. sh\<lparr> sh_gui_room_manager := gm \<rparr>) s))"

text \<open>\<^verbatim>\<open>Err(e) => Ok(e)\<close>: an error that is reported to the client without closing the connection.\<close>

fun soft :: "'a result \<times> Session \<Rightarrow> ('a \<Rightarrow> handler) \<Rightarrow> ErrorType result \<times> Session" where
  "soft (Ok x, s) k = k x s"
| "soft (Err e, s) k = (Ok e, s)"
| "soft (Panic, s) k = (Panic, s)"

section \<open>Reading the request\<close>

definition read_field :: "(StreamExtractor \<Rightarrow> 'a \<times> StreamExtractor) \<Rightarrow> Session \<Rightarrow> 'a result \<times> Session" where
  "read_field f s = (case f (s_data s) of (x, d) \<Rightarrow> (Ok x, s\<lparr> s_data := d \<rparr>))"

definition check_data :: "Session \<Rightarrow> unit result \<times> Session" where
  "check_data s = (if x_error (s_data s) then Err Malformed else Ok (), s)"

definition read_pb :: "(bytes \<Rightarrow> 'm option) \<Rightarrow> Session \<Rightarrow> 'm result \<times> Session" where
  "read_pb decode s = (case get_pb decode (s_data s) of (r, d) \<Rightarrow> (r, s\<lparr> s_data := d \<rparr>))"

text \<open>The game of the connection and its counters follow the communication id of the request.\<close>

definition track_com_id :: "ComId \<Rightarrow> Session \<Rightarrow> Session" where
  "track_com_id final_com_id s =
    (case cl_current_game (s_client s) of
       (Some cur_com_id, service) \<Rightarrow>
         if cur_com_id \<noteq> final_com_id then
           update_tracker (increase_count_psn final_com_id)
             (set_current_game (Some final_com_id, service)
               (update_tracker (decrease_count_psn cur_com_id) s))
         else s
     | (None, service) \<Rightarrow>
         update_tracker (increase_count_psn final_com_id) (set_current_game (Some final_com_id, service) s))"

definition get_com_id_with_redir :: "Env \<Rightarrow> Session \<Rightarrow> ComId result \<times> Session" where
  "get_com_id_with_redir env s =
    then_st (read_field get_com_id s) (\<lambda>com_id s.
      let final_com_id = get_server_redirection (s_config s) com_id
      in (Ok final_com_id, track_com_id final_com_id s))"

definition get_com_and_pb :: "Env \<Rightarrow> (bytes \<Rightarrow> 'm option) \<Rightarrow> Session \<Rightarrow> (ComId \<times> 'm) result \<times> Session" where
  "get_com_and_pb env decode s =
    then_st (get_com_id_with_redir env s) (\<lambda>com_id s.
    then_st (read_pb decode s) (\<lambda>pb s. (Ok (com_id, pb), s)))"

section \<open>Using the database\<close>

abbreviation e_sql :: "Env \<Rightarrow> sql" where
  "e_sql env \<equiv> de_sql (e_dbe env)"

definition get_database_connection :: "Env \<Rightarrow> Session \<Rightarrow> unit result \<times> Session" where
  "get_database_connection env s = (if e_connects env then Ok () else Err DbFail, s)"

text \<open>An operation of the database; its outcome is examined by the handler, a panic ends the handler.\<close>

fun with_db :: "'a db_result \<times> Database \<Rightarrow> Session \<Rightarrow> (DbError + 'a) result \<times> Session" where
  "with_db (Ok x, db) s = (Ok (Inr x), put_db db s)"
| "with_db (Err e, db) s = (Ok (Inl e), put_db db s)"
| "with_db (Panic, db) s = (Panic, put_db db s)"

definition query_db :: "'a db_result \<Rightarrow> Session \<Rightarrow> (DbError + 'a) result \<times> Session" where
  "query_db r s = with_db (r, s_db s) s"

text \<open>\<^verbatim>\<open>map_err(|_| ErrorType::DbFail)?\<close>.\<close>

definition db_or_fail :: "(DbError + 'a) result \<times> Session \<Rightarrow> 'a result \<times> Session" where
  "db_or_fail r = then_st r (\<lambda>x s. (case x of Inl _ \<Rightarrow> Err DbFail | Inr y \<Rightarrow> Ok y, s))"

section \<open>Answering\<close>

definition reply_bytes :: "bytes \<Rightarrow> Session \<Rightarrow> Session" where
  "reply_bytes bs s = s\<lparr> s_reply := s_reply s @ bs \<rparr>"

definition reply_data :: "bytes \<Rightarrow> Session \<Rightarrow> Session" where
  "reply_data bs s = s\<lparr> s_reply := add_data_packet (s_reply s) bs \<rparr>"

definition send_notification :: "bytes \<Rightarrow> i64 set \<Rightarrow> Session \<Rightarrow> Session" where
  "send_notification notif users s =
    update_server (\<lambda>sv. sv\<lparr> sv_sent := sv_sent sv @ [(Set.filter (\<lambda>u. s_infos s u \<noteq> None) users, notif)] \<rparr>) s"

definition send_single_notification :: "bytes \<Rightarrow> i64 \<Rightarrow> Session \<Rightarrow> Session" where
  "send_single_notification notif user_id = send_notification notif {user_id}"

definition self_notification :: "bytes \<Rightarrow> Session \<Rightarrow> Session" where
  "self_notification notif s =
    s\<lparr> s_client := (s_client s)\<lparr> cl_post_reply_notifications := cl_post_reply_notifications (s_client s) @ [notif] \<rparr> \<rparr>"

definition make_signaling_addr :: "bytes \<Rightarrow> u16 \<Rightarrow> SignalingAddr" where
  "make_signaling_addr addr port = \<lparr> sa_ip = addr, sa_port = Uint16_new_from_value port \<rparr>"

definition build_signaling_addr :: "Env \<Rightarrow> bytes \<Rightarrow> u16 \<Rightarrow> bytes" where
  "build_signaling_addr env addr port = enc_SignalingAddr (e_cmd env) (make_signaling_addr addr port)"

text \<open>The signaling information of the client, or a blank one when it has none.\<close>

definition own_signaling_info :: "Session \<Rightarrow> ClientSharedSignalingInfo" where
  "own_signaling_info s =
    (case s_infos s (s_user s) of Some info \<Rightarrow> cs_signaling_info info | None \<Rightarrow> ClientSharedSignalingInfo_new)"

end
