(* ===== verification/Cmd_Score.thy ===== *)
theory Cmd_Score
  imports Client_State
begin

text \<open>
  The score commands and the start of the score service, \<^verbatim>\<open>server/client/cmd_score.rs\<close>, with the answers of the
  score cache as messages, \<^verbatim>\<open>server/score_cache.rs\<close>.
\<close>

section \<open>Starting\<close>

record ScoreboardConfig =
  sbc_communication_id :: string
  sbc_tables :: "u32 list"
  sbc_infos :: DbBoardInfo

definition parse_update_mode :: "string \<Rightarrow> u32 option" where
  "parse_update_mode s = (if s = ''NORMAL_UPDATE'' then Some 0 else if s = ''FORCE_UPDATE'' then Some 1 else None)"

definition parse_sort_mode :: "string \<Rightarrow> u32 option" where
  "parse_sort_mode s = (if s = ''DESCENDING_ORDER'' then Some 0 else if s = ''ASCENDING_ORDER'' then Some 1 else None)"

definition scoreboard_line :: "string \<Rightarrow> ScoreboardConfig option" where
  "scoreboard_line l =
    (if is_skipped_line l then None
     else case map trim (split_on CHR ''|'' (trim l)) of
       [communication_id, tables, rank_limit, update_mode, sort_mode, upload_num_limit, upload_size_limit] \<Rightarrow>
         (case (all_some (map (\<lambda>x. parse_uint (trim x)) (split_on CHR '','' tables)), parse_uint rank_limit,
                parse_update_mode update_mode, parse_sort_mode sort_mode, parse_uint upload_num_limit,
                parse_uint upload_size_limit) of
            (Some tables, Some rank_limit, Some update_mode, Some sort_mode, Some upload_num_limit, Some upload_size_limit) \<Rightarrow>
              if tables = [] then None
              else Some \<lparr> sbc_communication_id = communication_id, sbc_tables = tables,
                     sbc_infos = \<lparr> bi_rank_limit = rank_limit, bi_update_mode = update_mode, bi_sort_mode = sort_mode,
                                   bi_upload_num_limit = upload_num_limit, bi_upload_size_limit = upload_size_limit \<rparr> \<rparr>
          | _ \<Rightarrow> None)
     | _ \<Rightarrow> None)"

definition setup_config_scoreboards :: "sql \<Rightarrow> string option \<Rightarrow> Database \<Rightarrow> unit db_result \<times> Database" where
  "setup_config_scoreboards sql file db =
    (case file of
       None \<Rightarrow> (Err DbInternal, db)
     | Some buf_file \<Rightarrow>
         fold_st (\<lambda>config. fold_st (\<lambda>table db.
             create_or_set_score_board_details sql db (sbc_communication_id config) table (sbc_infos config))
           (sbc_tables config)) (List.map_filter scoreboard_line (lines buf_file)) db)"

text \<open>
  The cache at the start: the boards of the configuration file are set up, then every board is read with its
  scores, and the names of all the users that have one.
\<close>

definition load_tables :: "sql \<Rightarrow> Database \<Rightarrow> (TableDescription \<times> DbBoardInfo \<times> DbScoreInfo list) list db_result" where
  "load_tables sql db =
    bind_res (get_score_tables sql db) (traverse (\<lambda>(desc, info).
      bind_res (get_scores_from_table sql db (fst desc) (snd desc) info) (\<lambda>scores. Ok (desc, info, scores))))"

definition start_score :: "sql \<Rightarrow> u64 \<Rightarrow> string option \<Rightarrow> Database \<Rightarrow> ScoresCache db_result \<times> Database" where
  "start_score sql now file db =
    then_st (setup_config_scoreboards sql file db) (\<lambda>_ db.
    then_st (load_tables sql db, db) (\<lambda>tables db.
      let users_list = set (concat (map (\<lambda>(_, _, scores). map sc_user_id scores) tables)) in
      then_st (get_username_and_online_name_from_user_ids sql db users_list, db) (\<lambda>vec_userinfo db.
        (Ok (initialize_score now tables vec_userinfo), db))))"

text \<open>
  The files of the directory that no row refers to are deleted, in some order, until a deletion fails.  The
  numbers in the directory and the deletions that succeed are arguments.
\<close>

definition clean_data_files :: "(u64 \<Rightarrow> bool) \<Rightarrow> u64 list \<Rightarrow> u64 set \<Rightarrow> DataFiles \<Rightarrow> unit db_result \<times> DataFiles" where
  "clean_data_files remove_file dir_ids_list db_ids_list =
    fold_st (\<lambda>i d. if remove_file i then (Ok (), d\<lparr> df_files := (df_files d)(i := None) \<rparr>) else (Err DbInternal, d))
      (filter (\<lambda>i. i \<notin> db_ids_list) dir_ids_list)"

definition clean_score_data :: "sql \<Rightarrow> (u64 \<Rightarrow> bool) \<Rightarrow> u64 list \<Rightarrow> Database \<Rightarrow> DataFiles \<Rightarrow> unit db_result \<times> DataFiles" where
  "clean_score_data sql remove_file dir_ids_list db d =
    then_st (score_get_all_data_ids sql db, d) (\<lambda>db_ids_list. clean_data_files remove_file dir_ids_list db_ids_list)"

section \<open>Files of uploaded data\<close>

text \<open>
  A new file gets the next number; the number is 0 when the file cannot be created.  A file whose writing fails is
  left behind without contents.
\<close>

definition create_data_file :: "Env \<Rightarrow> bytes \<Rightarrow> DataFiles \<Rightarrow> u64 \<times> DataFiles" where
  "create_data_file env data d =
    (let i = df_dispenser d; d1 = d\<lparr> df_dispenser := i + 1 \<rparr> in
     if \<not> e_file env ''create'' then (0, d1)
     else if \<not> e_file env ''write_all'' then (0, d1\<lparr> df_files := (df_files d1)(i \<mapsto> []) \<rparr>)
     else (i, d1\<lparr> df_files := (df_files d1)(i \<mapsto> data) \<rparr>))"

definition get_data_file :: "Env \<Rightarrow> u64 \<Rightarrow> DataFiles \<Rightarrow> bytes result" where
  "get_data_file env i d = (if e_file env ''read'' then ok_or NotFound (df_files d i) else Err NotFound)"

definition delete_data_file :: "Env \<Rightarrow> u64 \<Rightarrow> DataFiles \<Rightarrow> DataFiles" where
  "delete_data_file env i d = (if e_file env ''remove_file'' then d\<lparr> df_files := (df_files d)(i := None) \<rparr> else d)"

definition create_score_data_file :: "Env \<Rightarrow> bytes \<Rightarrow> Session \<Rightarrow> u64 result \<times> Session" where
  "create_score_data_file env data s =
    (case create_data_file env data (sv_score_data (s_server s)) of
       (i, d) \<Rightarrow> (Ok i, update_server (\<lambda>sv. sv\<lparr> sv_score_data := d \<rparr>) s))"

definition delete_score_data :: "Env \<Rightarrow> u64 \<Rightarrow> Session \<Rightarrow> Session" where
  "delete_score_data env i = update_server (\<lambda>sv. sv\<lparr> sv_score_data := delete_data_file env i (sv_score_data sv) \<rparr>)"

section \<open>Commands\<close>

definition with_cache :: "(ScoresCache \<Rightarrow> 'a result \<times> ScoresCache) \<Rightarrow> Session \<Rightarrow> 'a result \<times> Session" where
  "with_cache f s =
    (case f (sh_score_cache (s_shared s)) of (r, cache) \<Rightarrow> (r, update_shared (\<lambda>sh. sh\<lparr> sh_score_cache := cache \<rparr>) s))"

definition req_get_board_infos :: "Env \<Rightarrow> handler" where
  "req_get_board_infos env s =
    then_st (get_com_id_with_redir env s) (\<lambda>com_id s.
    then_st (read_field get_int s) (\<lambda>board_id s.
    then_st (check_data s) (\<lambda>_ s.
    then_st (get_database_connection env s) (\<lambda>_ s.
    then_st (with_db (db_get_board_infos (e_sql env) (s_db s) com_id board_id (is_create_missing (s_config s))) s) (\<lambda>res s.
      case res of
        Inl e \<Rightarrow> (if e = DbEmpty then Ok NotFound else Err DbFail, s)
      | Inr b \<Rightarrow>
          (Ok NoError, reply_data (enc_BoardInfo (e_score env) (bi_rank_limit b) (bi_update_mode b) (bi_sort_mode b)
             (bi_upload_num_limit b) (bi_upload_size_limit b)) s))))))"

definition req_record_score :: "Env \<Rightarrow> handler" where
  "req_record_score env s =
    then_st (get_com_and_pb env (dec_RecordScoreRequest (e_score env)) s) (\<lambda>(com_id, score_req) s.
      let score_infos =
            \<lparr> sc_user_id = s_user s, sc_character_id = rsr_pc_id score_req, sc_score = rsr_score score_req,
              sc_comment = (if rsr_comment score_req = [] then None else Some (rsr_comment score_req)),
              sc_game_info = (if rsr_data score_req = [] then None else Some (rsr_data score_req)), sc_data_id = None,
              sc_timestamp = e_psn_time env \<rparr>;
          board_id = rsr_board_id score_req
      in then_st (get_database_connection env s) (\<lambda>_ s.
         then_st (with_db (db_record_score (e_sql env) (s_db s) com_id board_id score_infos
               (is_create_missing (s_config s))) s) (\<lambda>res s.
           case res of
             Inr board_infos \<Rightarrow>
               then_st (with_cache (\<lambda>cache. insert_score (e_psn_time env) cache board_infos com_id board_id score_infos
                   (ci_npid (s_info s)) (ci_online_name (s_info s))) s) (\<lambda>pos s.
                 (Ok NoError, reply_bytes (to_le_bytes pos) s))
           | Inl DbScoreNotBest \<Rightarrow> (Ok ScoreNotBest, s)
           | Inl DbInternal \<Rightarrow> (Ok DbFail, s)
           | Inl _ \<Rightarrow> (Panic, s))))"

definition req_record_score_data :: "Env \<Rightarrow> handler" where
  "req_record_score_data env s =
    then_st (get_com_id_with_redir env s) (\<lambda>com_id s.
    then_st (read_field (get_protobuf (dec_RecordScoreGameDataRequest (e_score env))) s) (\<lambda>score_req s.
    then_st (read_field get_rawdata s) (\<lambda>score_data s.
      if x_error (s_data s) then (Err Malformed, s)
      else case score_req of
        None \<Rightarrow> (Err Malformed, s)
      | Some score_req \<Rightarrow>
          let pc_id = rsg_pc_id score_req; board_id = rsg_board_id score_req; score = rsg_score score_req in
          soft (with_cache (\<lambda>cache. contains_score_with_no_data cache com_id (s_user s) pc_id board_id score) s) (\<lambda>_ s.
          then_st (create_score_data_file env score_data s) (\<lambda>score_data_id s.
            case with_cache (\<lambda>cache. set_game_data cache com_id (s_user s) pc_id board_id score_data_id) s of
              (Ok _, s) \<Rightarrow>
                then_st (get_database_connection env s) (\<lambda>_ s.
                then_st (with_db (set_score_data (e_sql env) (s_db s) com_id (s_user s) pc_id board_id score score_data_id) s)
                  (\<lambda>_ s. (Ok NoError, s)))
            | (Err e, s) \<Rightarrow> (Ok e, delete_score_data env score_data_id s)
            | (Panic, s) \<Rightarrow> (Panic, s))))))"

definition req_get_score_data :: "Env \<Rightarrow> handler" where
  "req_get_score_data env s =
    then_st (get_com_and_pb env (dec_GetScoreGameDataRequest (e_score env)) s) (\<lambda>(com_id, score_req) s.
      if gsg_np_id score_req = [] then (Err Malformed, s)
      else
        then_st (get_database_connection env s) (\<lambda>_ s.
        then_st (query_db (get_user_id (e_sql env) (s_db s) (gsg_np_id score_req)) s) (\<lambda>user_id s.
          case user_id of
            Inl _ \<Rightarrow> (Ok NotFound, s)
          | Inr user_id \<Rightarrow>
              soft (with_cache (\<lambda>cache. get_game_data_id cache com_id user_id (gsg_pc_id score_req) (gsg_board_id score_req)) s)
                (\<lambda>data_id s.
              soft (get_data_file env data_id (sv_score_data (s_server s)), s) (\<lambda>data s. (Ok NoError, reply_data data s))))))"

definition ScoreRankDataCache_to_protobuf :: "ScoreRankDataCache \<Rightarrow> ScoreRankData" where
  "ScoreRankDataCache_to_protobuf d =
    \<lparr> srd_np_id = rd_npid d, srd_online_name = rd_online_name d, srd_pc_id = rd_pcid d, srd_rank = rd_rank d + 1,
      srd_score = rd_score d, srd_has_game_data = rd_has_gamedata d, srd_record_date = rd_timestamp d \<rparr>"

definition GetScoreResultCache_serialize :: "Env \<Rightarrow> GetScoreResultCache \<Rightarrow> bytes" where
  "GetScoreResultCache_serialize env g =
    enc_GetScoreResponse (e_score env)
      \<lparr> gsp_rank_array = map ScoreRankDataCache_to_protobuf (gs_scores g),
        gsp_comment_array = (case gs_comments g of Some cs \<Rightarrow> cs | None \<Rightarrow> []),
        gsp_info_array = (case gs_infos g of Some is \<Rightarrow> is | None \<Rightarrow> []),
        gsp_last_sort_date = gs_timestamp g, gsp_total_record = gs_total_records g \<rparr>"

definition req_get_score_range :: "Env \<Rightarrow> handler" where
  "req_get_score_range env s =
    then_st (get_com_and_pb env (dec_GetScoreRangeRequest (e_score env)) s) (\<lambda>(com_id, score_req) s.
    then_st (with_cache (\<lambda>cache. get_score_range cache com_id (gsr_board_id score_req) (gsr_start_rank score_req)
        (gsr_num_ranks score_req) (gsr_with_comment score_req) (gsr_with_game_info score_req)) s) (\<lambda>getscore_result s.
      (Ok NoError, reply_data (GetScoreResultCache_serialize env getscore_result) s)))"

definition req_get_score_friends :: "Env \<Rightarrow> handler" where
  "req_get_score_friends env s =
    then_st (get_com_and_pb env (dec_GetScoreFriendsRequest (e_score env)) s) (\<lambda>(com_id, score_req) s.
    then_st (unwrap (s_infos s (s_user s)), s) (\<lambda>me s.
      let self = (if gsf_include_self score_req then [(s_user s, 0)] else []);
          friends = map (\<lambda>user_id. (user_id, 0)) (e_friends_order env (fi_friends (cs_friend_info me)));
          id_vec = take (unat (gsf_max score_req)) (self @ friends)
      in then_st (with_cache (\<lambda>cache. get_score_ids cache com_id (gsf_board_id score_req) id_vec
             (gsf_with_comment score_req) (gsf_with_game_info score_req)) s) (\<lambda>getscore_result s.
           (Ok NoError, reply_data (GetScoreResultCache_serialize env getscore_result) s))))"

definition req_get_score_npid :: "Env \<Rightarrow> handler" where
  "req_get_score_npid env s =
    then_st (get_com_and_pb env (dec_GetScoreNpIdRequest (e_score env)) s) (\<lambda>(com_id, score_req) s.
    then_st (get_database_connection env s) (\<lambda>_ s.
      let id_vec = map (\<lambda>(npid, pc_id).
            (case get_user_id (e_sql env) (s_db s) npid of Ok user_id \<Rightarrow> user_id | _ \<Rightarrow> 0, pc_id)) (gsn_npids score_req)
      in then_st (with_cache (\<lambda>cache. get_score_ids cache com_id (gsn_board_id score_req) id_vec
             (gsn_with_comment score_req) (gsn_with_game_info score_req)) s) (\<lambda>getscore_result s.
           (Ok NoError, reply_data (GetScoreResultCache_serialize env getscore_result) s))))"

end
