(* ===== verification/Database_Wf.thy ===== *)
theory Database_Wf
  imports Db_Score Db_Tus
begin

text \<open>
  The integrity of the database: the primary keys and the uniqueness of the table declarations hold, and every reference
  finds its row.  All the operations of \<^verbatim>\<open>server/database.rs\<close>, \<^verbatim>\<open>db_score.rs\<close> and \<^verbatim>\<open>db_tus.rs\<close> keep it.
\<close>

section \<open>Rows of a table\<close>

definition rows_ok :: "('r \<Rightarrow> 'k) \<Rightarrow> ('r \<Rightarrow> bool) \<Rightarrow> 'r list \<Rightarrow> bool" where
  "rows_ok key P t \<longleftrightarrow> distinct (map key t) \<and> (\<forall>r \<in> set t. P r)"

lemma rows_ok_Nil [simp]: "rows_ok key P []"
  by (simp add: rows_ok_def)

lemma rows_ok_mono: "rows_ok key P t \<Longrightarrow> (\<And>r. r \<in> set t \<Longrightarrow> P r \<Longrightarrow> Q r) \<Longrightarrow> rows_ok key Q t"
  by (auto simp: rows_ok_def)

lemma rows_ok_snoc: "rows_ok key P t \<Longrightarrow> P r \<Longrightarrow> key r \<notin> key ` set t \<Longrightarrow> rows_ok key P (t @ [r])"
  by (auto simp: rows_ok_def)

lemma rows_ok_delete:
  "rows_ok key P t \<Longrightarrow> (\<And>r. r \<in> set t \<Longrightarrow> P r \<Longrightarrow> \<not> D r \<Longrightarrow> Q r) \<Longrightarrow> rows_ok key Q (delete_where D t)"
  by (auto simp: rows_ok_def distinct_delete)

lemma rows_ok_update:
  "rows_ok key P t \<Longrightarrow> (\<And>r. U r \<Longrightarrow> key (f r) = key r) \<Longrightarrow> (\<And>r. P r \<Longrightarrow> U r \<Longrightarrow> P (f r)) \<Longrightarrow> rows_ok key P (update_where U f t)"
  by (auto simp: rows_ok_def keys_update_where set_update_where)

lemma rows_ok_replace: "rows_ok key P t \<Longrightarrow> P r \<Longrightarrow> rows_ok key P (replace_into key r t)"
  by (auto simp: rows_ok_def distinct_replace) (auto simp: replace_into_def)

lemma rows_ok_upsert:
  assumes "rows_ok key P t" and "\<And>r. key (upd r) = key r" and "\<And>r. P r \<Longrightarrow> key r = key row \<Longrightarrow> P (upd r)" and "P row"
  shows "rows_ok key P (snd (upsert key upd cond row t))"
proof (cases "find (\<lambda>r. key r = key row) t")
  case None
  then have "key row \<notin> key ` set t" by (auto simp: find_None_iff)
  with None show ?thesis using assms(1,4) by (simp add: upsert_def rows_ok_snoc)
next
  case (Some r)
  then show ?thesis using assms(1-3) by (simp add: upsert_def rows_ok_update)
qed

text \<open>The returned row is the only one an upsert writes.\<close>

lemma rows_ok_upsert_row:
  assumes "rows_ok key P t" and "upsert key upd cond row t = (Some r, t')" and "P r" and "\<And>r. key (upd r) = key r"
  shows "rows_ok key P t'"
proof (cases "find (\<lambda>r. key r = key row) t")
  case None
  then have "key row \<notin> key ` set t" by (auto simp: find_None_iff)
  with None show ?thesis using assms(1-3) by (auto simp: upsert_def intro!: rows_ok_snoc)
next
  case (Some old)
  then have old: "old \<in> set t" "key old = key row" by (auto dest: find_SomeD)
  have only: "x = old" if "x \<in> set t" "key x = key row" for x
    using assms(1) that old by (simp add: rows_ok_def distinct_map) (metis inj_onD)
  have r: "r = upd old" "t' = update_where (\<lambda>r. key r = key row) upd t"
    using assms(2) Some by (auto simp: upsert_def split: if_splits)
  have "P x" if "x \<in> set t'" for x
    using that only assms(1,3) r by (auto simp: set_update_where rows_ok_def split: if_splits)
  then show ?thesis using assms(1,4) by (auto simp: rows_ok_def r(2) keys_update_where)
qed

lemma upsert_keys:
  assumes "\<And>r. key (upd r) = key r"
  shows "key ` set t \<subseteq> key ` set (snd (upsert key upd cond row t))"
proof -
  have "key ` set (update_where (\<lambda>r. key r = key row) upd t) = key ` set t"
    using assms by (simp add: keys_update_where flip: set_map)
  then show ?thesis by (auto simp: upsert_def split: option.split)
qed

lemma upsert_None: "upsert key upd cond row t = (None, t') \<Longrightarrow> t' = t"
  by (auto simp: upsert_def split: option.splits if_splits)

section \<open>The database\<close>

definition user_ids :: "Database \<Rightarrow> i64 set" where
  "user_ids db = ac_user_id ` set (db_account db)"

lemma account_exists_ids: "account_exists db u \<longleftrightarrow> u \<in> user_ids db"
  by (auto simp: account_exists_def user_ids_def list_ex_iff)

text \<open>Accounts have their own numbers, below the next one to be given, and no two have one name or one address.\<close>

definition accounts_wf :: "Database \<Rightarrow> bool" where
  "accounts_wf db \<longleftrightarrow> rows_ok ac_user_id (\<lambda>a. ac_user_id a < db_next_id db) (db_account db) \<and>
    distinct (map (\<lambda>a. to_ascii_lowercase (ac_username a)) (db_account db)) \<and> distinct (map ac_email_check (db_account db)) \<and>
    distinct (map fst (db_username_hash db)) \<and> distinct (map fst (db_email_hash db))"

definition stamp_refs :: "i64 set \<Rightarrow> AccountTimestamp \<Rightarrow> bool" where
  "stamp_refs ids t \<longleftrightarrow> at_user_id t \<in> ids"

definition friend_refs :: "i64 set \<Rightarrow> UserRelationship \<Rightarrow> bool" where
  "friend_refs ids f \<longleftrightarrow> fr_user_id_1 f < fr_user_id_2 f \<and> fr_user_id_1 f \<in> ids \<and> fr_user_id_2 f \<in> ids"

definition users_wf :: "i64 set \<Rightarrow> Database \<Rightarrow> bool" where
  "users_wf ids db \<longleftrightarrow> rows_ok at_user_id (stamp_refs ids) (db_account_timestamp db) \<and>
    rows_ok fr_key (friend_refs ids) (db_friendship db)"

text \<open>A world belongs to a server and a lobby to a world, each numbered within its game.\<close>

definition places_wf :: "Database \<Rightarrow> bool" where
  "places_wf db \<longleftrightarrow> distinct (db_server db) \<and>
    rows_ok (\<lambda>(c, s, w). (c, w)) (\<lambda>(c, s, w). (c, s) \<in> set (db_server db)) (db_world db) \<and>
    rows_ok (\<lambda>(c, w, l). (c, l)) (\<lambda>(c, w, l). \<exists>s. (c, s, w) \<in> set (db_world db)) (db_lobby db)"

text \<open>A score belongs to a board and a user; the number of its data is its own.\<close>

definition score_refs :: "i64 set \<Rightarrow> TableDescription set \<Rightarrow> ScoreRow \<Rightarrow> bool" where
  "score_refs ids boards r \<longleftrightarrow> sc_user_id (sr_score r) \<in> ids \<and> sr_table r \<in> boards"

definition data_unique :: "ScoreRow list \<Rightarrow> bool" where
  "data_unique t \<longleftrightarrow> (\<forall>i. \<forall>r \<in> set t. \<forall>r' \<in> set t. sc_data_id (sr_score r) = Some i \<longrightarrow>
    sc_data_id (sr_score r') = Some i \<longrightarrow> sr_key r = sr_key r')"

definition scores_wf :: "i64 set \<Rightarrow> Database \<Rightarrow> bool" where
  "scores_wf ids db \<longleftrightarrow> distinct (map fst (db_score_table db)) \<and> rows_ok sr_key (score_refs ids (fst ` set (db_score_table db))) (db_score db) \<and>
    data_unique (db_score db)"

definition storage_wf :: "i64 set \<Rightarrow> Database \<Rightarrow> bool" where
  "storage_wf ids db \<longleftrightarrow> rows_ok tv_key (\<lambda>r. tv_owner r \<in> ids \<and> tv_author r \<in> ids) (db_tus_var db) \<and>
    rows_ok tv_key (\<lambda>r. tv_author r \<in> ids) (db_tus_var_vuser db) \<and>
    rows_ok tr_key (\<lambda>r. tr_owner r \<in> ids \<and> tr_author r \<in> ids) (db_tus_data db) \<and>
    rows_ok tr_key (\<lambda>r. tr_author r \<in> ids) (db_tus_data_vuser db)"

definition db_wf :: "Database \<Rightarrow> bool" where
  "db_wf db \<longleftrightarrow> accounts_wf db \<and> users_wf (user_ids db) db \<and> places_wf db \<and> scores_wf (user_ids db) db \<and>
    storage_wf (user_ids db) db"

named_theorems wf_intros

lemmas wf_defs = db_wf_def accounts_wf_def users_wf_def places_wf_def scores_wf_def storage_wf_def user_ids_def

lemmas refs_defs = stamp_refs_def friend_refs_def score_refs_def

lemma wf_execute [wf_intros]: "db_wf new \<Longrightarrow> db_wf old \<Longrightarrow> db_wf (snd (execute sql name new old))"
  by (simp add: execute_def)

lemma wf_then [wf_intros]:
  "db_wf (snd m) \<Longrightarrow> (\<And>x db. db_wf db \<Longrightarrow> db_wf (snd (f x db))) \<Longrightarrow> db_wf (snd (then_st m f))"
  by (rule then_st_keeps)

section \<open>Accounts\<close>

lemma wf_update_account [wf_intros]:
  assumes "db_wf db" and "\<And>a. ac_user_id (f a) = ac_user_id a" and "\<And>a. ac_username (f a) = ac_username a"
    and "\<And>a. ac_email_check (f a) = ac_email_check a"
  shows "db_wf (update_account P f db)"
proof -
  have "user_ids (update_account P f db) = user_ids db"
    using assms(2) by (simp add: update_account_def user_ids_def keys_update_where flip: set_map)
  moreover have "accounts_wf (update_account P f db)"
    using assms by (auto simp: db_wf_def accounts_wf_def update_account_def keys_update_where intro!: rows_ok_update)
  ultimately show ?thesis
    using assms(1)
    by (simp add: db_wf_def users_wf_def places_wf_def scores_wf_def storage_wf_def update_account_def)
qed

lemma wf_update_timestamp [wf_intros]:
  assumes "db_wf db" and "\<And>t. at_user_id (f t) = at_user_id t"
  shows "db_wf (update_timestamp u f db)"
  using assms
  by (auto simp: wf_defs update_timestamp_def stamp_refs_def intro!: rows_ok_update)

lemma wf_stamps [wf_intros]:
  assumes "db_wf db"
  shows "db_wf (snd (update_login_time de db u))" "db_wf (snd (set_reset_password_token_sent_time de db u))"
    "db_wf (snd (set_token_sent_time de db u))" "db_wf (snd (ban_user sql db u))"
    "db_wf (snd (update_user_password de db u tok pw))" "db_wf (snd (update_password_token de db u))"
    "db_wf (set_admin_rights sql names db)"
proof -
  show "db_wf (set_admin_rights sql names db)"
    using wf_update_account [of db "\<lambda>a. a\<lparr> ac_admin := True \<rparr>" "\<lambda>a. ac_username a \<in> set names"] assms
    by (simp add: set_admin_rights_def update_account_def)
qed (auto simp: update_login_time_def set_reset_password_token_sent_time_def set_token_sent_time_def ban_user_def
    update_user_password_def update_password_token_def Let_def assms intro!: wf_intros)

lemma wf_insert_account [wf_intros]:
  assumes "db_wf db"
  shows "db_wf (snd (insert_account sql a db))"
proof -
  have old: "rows_ok ac_user_id (\<lambda>a. ac_user_id a < db_next_id db) (db_account db)"
    using assms by (simp add: db_wf_def accounts_wf_def)
  then have "rows_ok ac_user_id (\<lambda>a. ac_user_id a < db_next_id db + 1) (db_account db @ [a\<lparr> ac_user_id := db_next_id db \<rparr>])"
    by (intro rows_ok_snoc) (auto simp: rows_ok_def)
  with assms show ?thesis
    by (auto simp: insert_account_def wf_defs refs_defs list_ex_iff eq_ignore_ascii_case_def elim!: rows_ok_mono)
qed

lemma wf_insert_timestamp [wf_intros]: "db_wf db \<Longrightarrow> db_wf (snd (insert_timestamp sql t db))"
  by (auto simp: insert_timestamp_def account_exists_ids list_ex_iff wf_defs stamp_refs_def intro!: rows_ok_snoc)

lemma wf_db_add_user [wf_intros]: "db_wf db \<Longrightarrow> db_wf (snd (db_add_user de db n p on url em ec ad))"
  by (auto simp: db_add_user_def Let_def intro!: wf_intros split: res.split)

lemma wf_remember_deleted [wf_intros]: "db_wf db \<Longrightarrow> db_wf (remember_deleted de uh eh db)"
  by (auto simp: remember_deleted_def insert_hash_def Let_def list_ex_iff wf_defs)

lemma wf_delete_hashes [wf_intros]: "db_wf db \<Longrightarrow> db_wf (snd (cleanup_expired_hashes de db))"
  by (simp add: cleanup_expired_hashes_def Let_def distinct_delete wf_defs)

lemma wf_delete_accounts:
  assumes "db_wf db" and "delete_accounts gone db = Some db'"
  shows "db_wf db'"
proof -
  have ids: "user_ids db' = user_ids db - gone"
    using assms(2) by (auto simp: user_ids_def delete_accounts_def Let_def split: if_splits)
  have refs: "\<And>r. r \<in> set (db_tus_var db) \<Longrightarrow> tv_owner r \<notin> gone \<Longrightarrow> tv_author r \<notin> gone"
    "\<And>r. r \<in> set (db_tus_data db) \<Longrightarrow> tr_owner r \<notin> gone \<Longrightarrow> tr_author r \<notin> gone"
    "\<And>r. r \<in> set (db_tus_var_vuser db) \<Longrightarrow> tv_author r \<notin> gone"
    "\<And>r. r \<in> set (db_tus_data_vuser db) \<Longrightarrow> tr_author r \<notin> gone"
    using assms(2) by (auto simp: delete_accounts_def Let_def list_ex_iff split: if_splits)
  have "rows_ok tv_key (\<lambda>r. tv_author r \<in> user_ids db \<and> tv_author r \<notin> gone) (db_tus_var_vuser db)"
    "rows_ok tr_key (\<lambda>r. tr_author r \<in> user_ids db \<and> tr_author r \<notin> gone) (db_tus_data_vuser db)"
    using assms(1) refs(3,4) by (auto simp: db_wf_def storage_wf_def elim!: rows_ok_mono)
  then show ?thesis
    using assms refs(1,2) unfolding db_wf_def ids
    by (auto simp: delete_accounts_def Let_def accounts_wf_def users_wf_def places_wf_def scores_wf_def storage_wf_def
        refs_defs data_unique_def distinct_delete intro!: rows_ok_delete split: if_splits)
qed

lemma wf_cleanup_accounts [wf_intros]:
  assumes "db_wf db"
  shows "db_wf (snd (cleanup_never_used_accounts de db))"
proof -
  have "db_wf (db\<lparr> db_account_timestamp := delete_where P (db_account_timestamp db) \<rparr>)"
    "db_wf (db\<lparr> db_account_timestamp := delete_where P (db_account_timestamp db), db_friendship := delete_where Q (db_friendship db) \<rparr>)" for P Q
    using assms by (auto simp: wf_defs intro!: rows_ok_delete)
  with assms show ?thesis
    by (auto simp: cleanup_never_used_accounts_def Let_def split: option.split intro: wf_delete_accounts [rotated])
qed

lemma get_user_id_in: "get_user_id sql db npid = Ok u \<Longrightarrow> u \<in> user_ids db"
  by (auto simp: get_user_id_def query_row_def ok_or_def user_ids_def split: if_splits option.splits dest!: find_SomeD)

lemma wf_pass:
  assumes "db_wf db" and "v \<in> user_ids db"
  shows "db_wf (db\<lparr> db_tus_var := pass_var u v (db_tus_var db) \<rparr>)" "db_wf (db\<lparr> db_tus_data := pass_data u v (db_tus_data db) \<rparr>)"
    "db_wf (db\<lparr> db_tus_var_vuser := pass_var u v (db_tus_var_vuser db) \<rparr>)"
    "db_wf (db\<lparr> db_tus_data_vuser := pass_data u v (db_tus_data_vuser db) \<rparr>)"
  using assms by (auto simp: wf_defs pass_var_def pass_data_def tv_key_def tr_key_def intro!: rows_ok_update)

text \<open>The steps of a deletion, with the account that takes over what the user wrote last.\<close>

lemma then_into:
  assumes "P (snd m)" and "\<And>s. P s \<Longrightarrow> Q s" and "\<And>x s. P s \<Longrightarrow> Q (snd (f x s))"
  shows "Q (snd (then_st m f))"
  using assms by (cases m; cases "fst m") auto

lemma user_ids_remember [simp]: "user_ids (remember_deleted de uh eh db) = user_ids db"
  by (simp add: remember_deleted_def user_ids_def Let_def)

definition wf_with :: "i64 \<Rightarrow> Database \<Rightarrow> bool" where
  "wf_with v db \<longleftrightarrow> db_wf db \<and> v \<in> user_ids db"

lemma wf_delete_user [wf_intros]:
  assumes "db_wf db"
  shows "db_wf (snd (delete_user de db u n ec))"
proof -
  have wf: "wf_with v db \<Longrightarrow> db_wf db" for v db by (simp add: wf_with_def)
  have pass: "wf_with v (snd (execute sql name (db\<lparr> db_tus_var := pass_var u v (db_tus_var db) \<rparr>) db))"
    "wf_with v (snd (execute sql name (db\<lparr> db_tus_data := pass_data u v (db_tus_data db) \<rparr>) db))"
    "wf_with v (snd (execute sql name (db\<lparr> db_tus_var_vuser := pass_var u v (db_tus_var_vuser db) \<rparr>) db))"
    "wf_with v (snd (execute sql name (db\<lparr> db_tus_data_vuser := pass_data u v (db_tus_data_vuser db) \<rparr>) db))"
    if "wf_with v db" for v db sql name
    using that wf_pass [of db v u] by (simp_all add: wf_with_def execute_def user_ids_def)
  have gone: "db_wf (snd (if b then (Err DbInternal, db) else case delete_accounts {u} db of
      None \<Rightarrow> (Err DbInternal, db) | Some db' \<Rightarrow> (Ok (), db')))" if "wf_with v db" for v b db
    using that wf_delete_accounts [of db "{u}"] by (auto simp: wf_with_def split: option.split)
  show ?thesis
  proof (cases "get_deleted_user_id (de_sql de) db")
    case (Ok v)
    then have "v \<in> user_ids db" by (auto simp: get_deleted_user_id_def dest!: get_user_id_in split: res.splits)
    with assms have "wf_with v (remember_deleted de uh eh db)" for uh eh by (simp add: wf_with_def wf_intros)
    with Ok assms show ?thesis
      unfolding delete_user_def Let_def
      by (cases "hash_username de db n"; cases "hash_email de db ec")
        (auto intro!: then_into [where P = "wf_with v" and Q = db_wf] gone [of v] pass elim: wf)
  qed (use assms in \<open>cases "hash_username de db n"; cases "hash_email de db ec"; simp add: delete_user_def\<close>)+
qed

section \<open>Servers, worlds and friends\<close>

lemma wf_places [wf_intros]:
  assumes "db_wf db"
  shows "db_wf (snd (insert_server sql c sid db))" "db_wf (snd (insert_world sql c sid wid db))"
    "db_wf (snd (insert_lobby sql c wid lid db))"
  using assms
  by (auto simp: insert_server_def insert_world_def insert_lobby_def wf_defs list_ex_iff
      intro!: rows_ok_snoc elim: rows_ok_mono)

lemma wf_fold: "db_wf db \<Longrightarrow> (\<And>x db. db_wf db \<Longrightarrow> db_wf (f x db)) \<Longrightarrow> db_wf (fold f xs db)"
  by (induction xs arbitrary: db) auto

lemma wf_place_lists [wf_intros]:
  assumes "db_wf db"
  shows "db_wf (snd (get_server_list sql db c b))" "db_wf (snd (get_world_list sql db c sid b))"
    "db_wf (snd (update_servers_cfg sql file db))"
  using assms
  by (auto simp: get_server_list_def get_world_list_def create_server_def update_servers_cfg_def
      intro!: wf_intros wf_fold split: option.split prod.split)

lemma wf_set_rel_status [wf_intros]: "db_wf db \<Longrightarrow> db_wf (snd (set_rel_status sql db u v su sv))"
  by (auto simp: set_rel_status_def get_ordered_userids_def account_exists_ids Let_def wf_defs friend_refs_def
      intro!: rows_ok_replace)

section \<open>Scores\<close>

lemma wf_add_board:
  assumes "db_wf db" and "distinct (map fst t)" and "fst ` set (db_score_table db) \<subseteq> fst ` set t"
  shows "db_wf (db\<lparr> db_score_table := t \<rparr>)"
proof -
  have "rows_ok sr_key (score_refs (user_ids db) (fst ` set t)) (db_score db)"
    by (rule rows_ok_mono [where P = "score_refs (user_ids db) (fst ` set (db_score_table db))"])
      (use assms in \<open>auto simp: db_wf_def scores_wf_def score_refs_def\<close>)
  with assms(1,2) show ?thesis by (simp add: wf_defs)
qed

lemma wf_boards [wf_intros]:
  assumes "db_wf db"
  shows "db_wf (snd (create_score_board sql db c b))" "db_wf (snd (create_or_set_score_board_details sql db c' b infos))"
    "db_wf (snd (db_get_board_infos sql db c b m))"
proof -
  have dist: "distinct (map fst (db_score_table db))" using assms by (simp add: db_wf_def scores_wf_def)
  have new: "db_wf (snd (create_score_board sql db c b))"
    using assms dist by (force simp: create_score_board_def Let_def list_ex_iff intro!: wf_add_board)
  then show "db_wf (snd (create_score_board sql db c b))" .
  show "db_wf (snd (create_or_set_score_board_details sql db c' b infos))"
    using assms dist unfolding create_or_set_score_board_details_def Let_def
    by (intro wf_execute wf_add_board boards.upsert_distinct upsert_keys) (simp_all add: set_board_def)
  show "db_wf (snd (db_get_board_infos sql db c b m))"
    using assms new by (auto simp: db_get_board_infos_def intro!: wf_then split: res.split DbError.split)
qed

lemma board_exists:
  "query_board sql db c b = Ok i \<Longrightarrow> (com_id_to_string c, b) \<in> fst ` set (db_score_table db)"
  by (force simp: query_board_def query_row_def ok_or_def split: if_splits option.splits dest!: row_of_Some)

lemma db_get_board_infos_exists:
  "db_get_board_infos sql db c b m = (Ok i, db') \<Longrightarrow> (com_id_to_string c, b) \<in> fst ` set (db_score_table db')"
  by (cases "create_score_board sql db c b"; cases "fst (create_score_board sql db c b)")
    (auto simp: db_get_board_infos_def board_exists split: res.splits DbError.splits if_splits)

lemma wf_scores:
  assumes "db_wf db" and "rows_ok sr_key (score_refs (user_ids db) (fst ` set (db_score_table db))) t" and "data_unique t"
  shows "db_wf (db\<lparr> db_score := t \<rparr>)"
  using assms by (simp add: wf_defs)

lemma data_unique_upsert:
  assumes "data_unique t" and "\<And>r. sc_data_id (sr_score (upd r)) = None" and "sc_data_id (sr_score row) = None"
  shows "data_unique (snd (upsert sr_key upd cond row t))"
proof -
  have "x \<in> set t" if "x \<in> set (snd (upsert sr_key upd cond row t))" "sc_data_id (sr_score x) = Some i" for x i
    using that assms(2,3) by (auto simp: upsert_def set_update_where split: option.splits if_splits)
  with assms(1) show ?thesis unfolding data_unique_def by blast
qed

lemma wf_db_record_score [wf_intros]:
  assumes "db_wf db"
  shows "db_wf (snd (db_record_score sql db c b score m))"
proof -
  obtain r db' where i: "db_get_board_infos sql db c b m = (r, db')" by fastforce
  have wf: "db_wf db'" using wf_boards(3) [OF assms, of sql c b m] by (simp add: i)
  then have rows: "rows_ok sr_key (score_refs (user_ids db') (fst ` set (db_score_table db'))) (db_score db')"
    and uniq: "data_unique (db_score db')" by (simp_all add: db_wf_def scores_wf_def)
  let ?row = "\<lparr> sr_table = (com_id_to_string c, b), sr_score = score\<lparr> sc_data_id := None \<rparr> \<rparr>"
  have "db_wf (db'\<lparr> db_score := snd (upsert sr_key (set_score_row ?row) cond ?row (db_score db')) \<rparr>)"
    if "r = Ok info" "account_exists db' (sc_user_id score)" for info cond
    using that i db_get_board_infos_exists [of sql db c b m info db'] wf rows uniq
    by (intro wf_scores rows_ok_upsert data_unique_upsert)
      (auto simp: account_exists_ids score_refs_def set_score_row_def sr_key_def)
  with wf show ?thesis
    by (cases r) (auto simp: db_record_score_def i Let_def split: prod.split option.split, metis snd_conv)
qed

lemma data_unique_set:
  assumes "data_unique t" and key: "\<And>r. hit r \<Longrightarrow> sr_key (f r) = k" and data: "\<And>r. sc_data_id (sr_score (f r)) = Some i"
    and free: "(\<forall>r \<in> set t. \<not> hit r) \<or> (\<forall>r \<in> set t. \<not> hit r \<longrightarrow> sc_data_id (sr_score r) \<noteq> Some i)"
  shows "data_unique (update_where hit f t)"
proof -
  have "sr_key r = sr_key r'"
    if r: "r \<in> set (update_where hit f t)" "r' \<in> set (update_where hit f t)"
      and d: "sc_data_id (sr_score r) = Some j" "sc_data_id (sr_score r') = Some j" for r r' j
  proof -
    obtain x where x: "x \<in> set t" "r = (if hit x then f x else x)" using r(1) by (auto simp: set_update_where)
    obtain y where y: "y \<in> set t" "r' = (if hit y then f y else y)" using r(2) by (auto simp: set_update_where)
    consider "hit x" "hit y" | "hit x" "\<not> hit y" | "\<not> hit x" "hit y" | "\<not> hit x" "\<not> hit y" by blast
    then show ?thesis
    proof cases
      case 1
      then show ?thesis using x(2) y(2) key by simp
    next
      case 2
      then have "j = i" "sc_data_id (sr_score y) = Some j" using x(2) y(2) d data by simp_all
      then show ?thesis using free 2 x(1) y(1) by blast
    next
      case 3
      then have "j = i" "sc_data_id (sr_score x) = Some j" using x(2) y(2) d data by simp_all
      then show ?thesis using free 3 x(1) y(1) by blast
    next
      case 4
      then show ?thesis using assms(1) [unfolded data_unique_def, rule_format, OF x(1) y(1), of j] x(2) y(2) d by simp
    qed
  qed
  then show ?thesis unfolding data_unique_def by blast
qed

lemma wf_set_score_data [wf_intros]:
  assumes "db_wf db"
  shows "db_wf (snd (set_score_data sql db c u pc b sc i))"
proof -
  define hit where "hit = (\<lambda>r. sr_key r = ((com_id_to_string c, b), u, pc) \<and> sc_score (sr_score r) = sc)"
  define f where "f = (\<lambda>r :: ScoreRow. r\<lparr> sr_score := (sr_score r)\<lparr> sc_data_id := Some i \<rparr> \<rparr>)"
  have rows: "rows_ok sr_key (score_refs (user_ids db) (fst ` set (db_score_table db))) (db_score db)"
    and uniq: "data_unique (db_score db)" using assms by (simp_all add: db_wf_def scores_wf_def)
  have key: "sr_key (f r) = sr_key r" for r by (simp add: sr_key_def f_def)
  have "rows_ok sr_key (score_refs (user_ids db) (fst ` set (db_score_table db))) (update_where hit f (db_score db))"
    using rows by (rule rows_ok_update) (simp_all add: key, simp add: f_def score_refs_def)
  moreover have "data_unique (update_where hit f (db_score db))"
    if "(\<forall>r \<in> set (db_score db). \<not> hit r) \<or> (\<forall>r \<in> set (db_score db). \<not> hit r \<longrightarrow> sc_data_id (sr_score r) \<noteq> Some i)"
    by (rule data_unique_set [OF uniq _ _ that]) (simp_all add: key hit_def, simp add: f_def)
  ultimately show ?thesis
    using assms by (auto simp: set_score_data_def Let_def list_ex_iff f_def [symmetric] hit_def [symmetric] intro!: wf_scores)
qed

section \<open>Title user storage\<close>

lemma wf_upsert_var:
  assumes "rows_ok tv_key P t" and "upsert_var fk upd cond row t = Some (r, t')" and "\<And>r. fk r \<Longrightarrow> P r"
    and "\<And>new old. tv_key (upd new old) = tv_key old"
  shows "rows_ok tv_key P t'"
  using assms(2) rows_ok_upsert_row [OF assms(1) _ assms(3)] assms(1,4)
  by (auto simp: upsert_var_def split: prod.splits option.splits if_splits dest!: upsert_None)

lemma wf_upsert_and_get:
  assumes "rows_ok tv_key P t" and "\<And>r. fk r \<Longrightarrow> P r" and "\<And>new old. tv_key (upd new old) = tv_key old"
  shows "rows_ok tv_key P (snd (upsert_and_get sql name fk upd cond row t))"
  using assms wf_upsert_var [OF assms(1) _ assms(2,3)]
  by (auto simp: upsert_and_get_def split: option.split prod.split)

lemma wf_upsert_data:
  assumes "rows_ok tr_key P t" and "\<And>r. fk r \<Longrightarrow> P r"
  shows "rows_ok tr_key P (snd (upsert_data sql name fk ct ca row t))"
  using assms rows_ok_upsert_row [OF assms(1) _ assms(2)]
  by (auto simp: upsert_data_def tr_key_def set_data_row_def split: option.split prod.split)

lemma wf_storage:
  assumes "db_wf db"
  shows "rows_ok tv_key (\<lambda>r. tv_owner r \<in> user_ids db \<and> tv_author r \<in> user_ids db) vs \<Longrightarrow> db_wf (db\<lparr> db_tus_var := vs \<rparr>)"
    "rows_ok tv_key (\<lambda>r. tv_author r \<in> user_ids db) vvs \<Longrightarrow> db_wf (db\<lparr> db_tus_var_vuser := vvs \<rparr>)"
    "rows_ok tr_key (\<lambda>r. tr_owner r \<in> user_ids db \<and> tr_author r \<in> user_ids db) ds \<Longrightarrow> db_wf (db\<lparr> db_tus_data := ds \<rparr>)"
    "rows_ok tr_key (\<lambda>r. tr_author r \<in> user_ids db) vds \<Longrightarrow> db_wf (db\<lparr> db_tus_data_vuser := vds \<rparr>)"
  using assms by (simp_all add: wf_defs)

lemma storage_rows:
  assumes "db_wf db"
  shows "rows_ok tv_key (\<lambda>r. tv_owner r \<in> user_ids db \<and> tv_author r \<in> user_ids db) (db_tus_var db)"
    "rows_ok tv_key (\<lambda>r. tv_author r \<in> user_ids db) (db_tus_var_vuser db)"
    "rows_ok tr_key (\<lambda>r. tr_owner r \<in> user_ids db \<and> tr_author r \<in> user_ids db) (db_tus_data db)"
    "rows_ok tr_key (\<lambda>r. tr_author r \<in> user_ids db) (db_tus_data_vuser db)"
  using assms by (simp_all add: db_wf_def storage_wf_def)

lemmas fk_defs = user_fk_def vuser_fk_def account_exists_ids vars.key_upd adds.key_upd

lemma wf_tus_set [wf_intros]:
  assumes "db_wf db"
  shows "db_wf (snd (tus_set_vuser_variable sql db c vu sl v a ts))" "db_wf (snd (tus_set_user_variable sql db c u sl v a ts))"
  using assms storage_rows [OF assms]
  by (auto simp: tus_set_vuser_variable_def tus_set_user_variable_def fk_defs
      split: option.split intro!: wf_storage elim: wf_upsert_var [rotated])

lemma wf_tus_get [wf_intros]:
  assumes "db_wf db"
  shows "db_wf (snd (tus_add_and_get_vuser_variable sql db c vu sl v a ts ct ca))"
    "db_wf (snd (tus_add_and_get_user_variable sql db c u sl v a ts ct ca))"
    "db_wf (snd (tus_try_and_set_vuser_variable sql db c vu sl v a ts cv co ct ca))"
    "db_wf (snd (tus_try_and_set_user_variable sql db c u sl v a ts cv co ct ca))"
  using assms storage_rows [OF assms]
  by (auto simp: tus_add_and_get_vuser_variable_def tus_add_and_get_user_variable_def tus_try_and_set_vuser_variable_def
      tus_try_and_set_user_variable_def split_beta fk_defs intro!: wf_storage wf_upsert_and_get)

lemma wf_tus_data [wf_intros]:
  assumes "db_wf db"
  shows "db_wf (snd (tus_set_user_data sql db c u sl i info a ts ct ca))"
    "db_wf (snd (tus_set_vuser_data sql db c vu sl i info a ts ct ca))"
  using assms storage_rows [OF assms]
  by (auto simp: tus_set_user_data_def tus_set_vuser_data_def split_beta fk_defs intro!: wf_storage wf_upsert_data)

lemma wf_tus_delete [wf_intros]:
  assumes "db_wf db"
  shows "db_wf (snd (tus_delete_vuser_variable_with_slotlist sql db c vu sls))"
    "db_wf (snd (tus_delete_user_variable_with_slotlist sql db c u sls))"
    "db_wf (snd (tus_delete_vuser_data_with_slotlist sql db c vu sls))"
    "db_wf (snd (tus_delete_user_data_with_slotlist sql db c u sls))"
  using assms storage_rows [OF assms]
  by (auto simp: tus_delete_vuser_variable_with_slotlist_def tus_delete_user_variable_with_slotlist_def
      tus_delete_vuser_data_with_slotlist_def tus_delete_user_data_with_slotlist_def
      intro!: wf_execute wf_storage rows_ok_delete)

section \<open>A new database\<close>

lemma wf_new_database: "db_wf (new_database timestamp email_salt username_salt)"
proof -
  have "db_wf (empty_database\<lparr> db_score_table := ridge_racer_7_boards \<rparr>)"
    by (simp add: wf_defs empty_database_def ridge_racer_7_boards_def data_unique_def)
  then have "db_wf (snd (create_deleted_user_account timestamp (empty_database\<lparr> db_score_table := ridge_racer_7_boards \<rparr>)))"
    unfolding create_deleted_user_account_def by (auto intro!: wf_intros)
  then show ?thesis by (simp add: new_database_def create_gdpr_hash_tables_def wf_defs)
qed

end
