(* ===== verification/Score_Load.thy ===== *)
theory Score_Load
  imports Score_Inv Cmd_Score Database_Wf
begin

text \<open>
  The cache the server starts with, \<^verbatim>\<open>Server::initialize_score\<close> of \<^verbatim>\<open>server/score_cache.rs\<close>: the boards read from a
  well-formed database are in the invariant of the cache.  The query orders a board by value and time, as the cache does; scores
  of one value and one time it orders by ascending user, where the cache has them by descending user.
\<close>

section \<open>The index\<close>

lemma fold_lookup_insert:
  assumes "distinct (map score_key scores)"
  shows "rank_of (fold (\<lambda>(index, score). lookup_insert (sc_user_id score) (sc_character_id score) index) (enumerate n scores) m) k =
    Some i \<longleftrightarrow> (if k \<in> score_key ` set scores then n \<le> i \<and> i < n + length scores \<and> score_key (scores ! (i - n)) = k
      else rank_of m k = Some i)"
  using assms
proof (induction scores arbitrary: n m)
  case (Cons s scores)
  have key: "(sc_user_id s, sc_character_id s) = score_key s" by (simp add: score_key_def)
  have nth: "(n \<le> i \<and> i < n + length (s # scores) \<and> score_key ((s # scores) ! (i - n)) = k) \<longleftrightarrow>
      i = n \<and> score_key s = k \<or> Suc n \<le> i \<and> i < Suc n + length scores \<and> score_key (scores ! (i - Suc n)) = k"
    by (cases "i = n") (auto simp: nth_Cons' Suc_diff_Suc)
  have listed: "k \<in> score_key ` set scores"
    if "Suc n \<le> i" "i < Suc n + length scores" "score_key (scores ! (i - Suc n)) = k" using that by auto
  have fresh: "score_key s \<notin> score_key ` set scores" and dist: "distinct (map score_key scores)" using Cons.prems by simp_all
  show ?case
    using fresh listed unfolding nth by (simp add: Cons.IH [OF dist] key) auto
qed simp

lemma build_lookup_ok:
  assumes "distinct (map score_key scores)"
  shows "index_ok scores (build_lookup scores)"
proof -
  have "rank_of (build_lookup scores) k = Some i \<longleftrightarrow> i < length scores \<and> score_key (scores ! i) = k" for k i
  proof (cases "k \<in> score_key ` set scores")
    case False
    then have "\<not> (i < length scores \<and> score_key (scores ! i) = k)" by auto
    moreover have "rank_of Map.empty k = None" by (simp add: lookup_rank_def)
    ultimately show ?thesis using False by (simp add: build_lookup_def fold_lookup_insert [OF assms])
  qed (simp add: build_lookup_def fold_lookup_insert [OF assms])
  then show ?thesis by (simp add: index_ok_def)
qed

section \<open>A board\<close>

lemma sorted_query: "sorted (map (Db_Score.score_order m) scores) \<Longrightarrow> sorted (map (standing m) scores)"
  unfolding sorted_map by (erule sorted_wrt_mono_rel [rotated]) (auto simp: Db_Score.score_order_def standing_def)

lemma load_table_ok:
  assumes "db_wf db" and "get_scores_from_table sql db c b info = Ok scores"
  shows "table_inv (load_table now info scores)" and "sc_user_id ` set scores \<subseteq> user_ids db"
proof -
  let ?rows = "filter (\<lambda>r. sr_table r = (c, b)) (db_score db)"
  have scores: "scores = take (unat (bi_rank_limit info)) (sort_key (Db_Score.score_order (bi_sort_mode info)) (map sr_score ?rows))"
    using assms(2) by (auto simp: get_scores_from_table_def split: if_splits)
  have rows: "distinct (map sr_key (db_score db))" "\<forall>r \<in> set (db_score db). sc_user_id (sr_score r) \<in> user_ids db"
    using assms(1) by (auto simp: db_wf_def scores_wf_def rows_ok_def score_refs_def)
  have "distinct (map score_key (map sr_score ?rows))"
  proof -
    have "inj_on sr_key (set ?rows)" using rows(1) by (auto simp: distinct_map intro: inj_on_subset)
    then have "inj_on (score_key \<circ> sr_score) (set ?rows)" by (auto simp: inj_on_def sr_key_def score_key_def)
    moreover have "distinct ?rows" using rows(1) by (simp add: distinct_map)
    ultimately show ?thesis by (simp only: map_map distinct_map simp_thms)
  qed
  then have "distinct (map score_key (sort_key (Db_Score.score_order (bi_sort_mode info)) (map sr_score ?rows)))"
    by (simp only: distinct_map distinct_sort set_sort)
  then have "distinct (map score_key scores)" unfolding scores by (simp add: distinct_take flip: take_map)
  moreover have "sorted (map (standing (bi_sort_mode info)) scores)"
    unfolding scores by (intro sorted_query) (simp add: sorted_wrt_take flip: take_map)
  ultimately show "table_inv (load_table now info scores)"
    by (simp add: table_inv_def load_table_def build_lookup_ok) (simp add: scores)
  have "set scores \<subseteq> sr_score ` set (db_score db)" unfolding scores by (rule order_trans [OF set_take_subset]) auto
  then show "sc_user_id ` set scores \<subseteq> user_ids db" using rows(2) by auto
qed

section \<open>All boards\<close>

lemma load_tables_Ok:
  assumes "load_tables sql db = Ok tables" and "(desc, info, scores) \<in> set tables"
  shows "get_scores_from_table sql db (fst desc) (snd desc) info = Ok scores"
proof -
  obtain boards where "traverse (\<lambda>(desc, info). bind_res (get_scores_from_table sql db (fst desc) (snd desc) info)
      (\<lambda>scores. Ok (desc, info, scores))) boards = Ok tables"
    using assms(1) by (auto simp: load_tables_def split: res.splits)
  then show ?thesis using assms(2)
  proof (induction boards arbitrary: tables)
    case (Cons bd boards)
    then show ?case by (auto split: res.splits prod.splits)
  qed simp
qed

lemma initialize_score_tables:
  assumes "ca_tables (initialize_score now tables users) d = Some t"
  shows "\<exists>info scores. (d, info, scores) \<in> set tables \<and> t = load_table now info scores"
proof -
  have users: "ca_tables (fold load_user us cache) = ca_tables cache" for us cache
    by (induction us arbitrary: cache) (simp_all add: load_user_def)
  have "ca_tables (fold (\<lambda>(desc, info, scores) cache.
      cache\<lparr> ca_tables := (ca_tables cache)(desc \<mapsto> load_table now info scores) \<rparr>) ts cache) d = Some t \<Longrightarrow>
    ca_tables cache d = Some t \<or> (\<exists>info scores. (d, info, scores) \<in> set ts \<and> t = load_table now info scores)" for ts cache
    by (induction ts arbitrary: cache) (fastforce split: if_splits)+
  from this [of tables ScoresCache_new] show ?thesis
    using assms by (auto simp: initialize_score_def users ScoresCache_new_def)
qed

lemma initialize_score_users: "fst ` set users \<subseteq> dom (ca_users (initialize_score now tables users))"
proof -
  have "dom (ca_users cache) \<union> fst ` set us \<subseteq> dom (ca_users (fold load_user us cache))" for us cache
  proof (induction us arbitrary: cache)
    case (Cons u us)
    have "dom (ca_users cache) \<union> fst ` set (u # us) \<subseteq> dom (ca_users (load_user u cache)) \<union> fst ` set us"
      by (auto simp: load_user_def)
    also have "\<dots> \<subseteq> dom (ca_users (fold load_user (u # us) cache))" using Cons.IH [of "load_user u cache"] by simp
    finally show ?case .
  qed simp
  then show ?thesis unfolding initialize_score_def by blast
qed

section \<open>The start\<close>

lemma wf_fold_st: "db_wf db \<Longrightarrow> (\<And>x db. db_wf db \<Longrightarrow> db_wf (snd (f x db))) \<Longrightarrow> db_wf (snd (fold_st f xs db))"
  by (induction xs arbitrary: db) (auto intro!: wf_then)

lemma setup_config_scoreboards_wf: "db_wf db \<Longrightarrow> db_wf (snd (setup_config_scoreboards sql file db))"
  by (auto simp: setup_config_scoreboards_def intro!: wf_then wf_fold_st wf_intros split: option.split)

lemma start_score_wf: "db_wf db \<Longrightarrow> db_wf (snd (start_score sql now file db))"
  by (auto simp: start_score_def Let_def intro!: wf_then setup_config_scoreboards_wf)

lemma names_of_users:
  assumes "get_username_and_online_name_from_user_ids sql db ids = Ok users" and "u \<in> user_ids db" and "u \<in> ids"
  shows "u \<in> fst ` set users"
proof -
  obtain a where "a \<in> set (db_account db)" "u = ac_user_id a" using assms(2) by (auto simp: user_ids_def)
  with assms(1,3) show ?thesis
    by (force simp: get_username_and_online_name_from_user_ids_def split: if_splits)
qed

lemma then_st_Ok:
  assumes "fst (then_st m f) = Ok y"
  obtains x s where "m = (Ok x, s)" "fst (f x s) = Ok y"
  using assms that by (cases m; cases "fst m") auto

lemma start_score_inv:
  assumes "fst (start_score sql now file db) = Ok cache" and "db_wf db"
  shows "cache_inv cache"
proof -
  define db1 where "db1 = snd (setup_config_scoreboards sql file db)"
  have wf: "db_wf db1" unfolding db1_def using assms(2) by (rule setup_config_scoreboards_wf)
  from assms(1) obtain tables users where l: "load_tables sql db1 = Ok tables"
    and u: "get_username_and_online_name_from_user_ids sql db1
        (set (concat (map (\<lambda>(_, _, scores). map sc_user_id scores) tables))) = Ok users"
    and c: "cache = initialize_score now tables users"
    unfolding start_score_def Let_def by (elim then_st_Ok) (auto simp: db1_def)
  show ?thesis
    unfolding cache_inv_def
  proof (intro allI impI conjI ballI)
    fix d t
    assume "ca_tables cache d = Some t"
    then obtain info scores where s: "(d, info, scores) \<in> set tables" and t: "t = load_table now info scores"
      using initialize_score_tables unfolding c by blast
    note table = load_table_ok [OF wf load_tables_Ok [OF l s]]
    show "table_inv t" unfolding t by (rule table(1))
    fix e
    assume e: "e \<in> set (st_sorted_scores t)"
    then have "sc_user_id e \<in> user_ids db1" using table(2) by (auto simp: t load_table_def)
    moreover have "sc_user_id e \<in> set (concat (map (\<lambda>(_, _, scores). map sc_user_id scores) tables))"
    proof -
      have "map sc_user_id scores \<in> set (map (\<lambda>(_, _, scores). map sc_user_id scores) tables)"
        unfolding set_map by (rule image_eqI [OF _ s]) simp
      moreover have "sc_user_id e \<in> set (map sc_user_id scores)" using e by (simp add: t load_table_def)
      ultimately show ?thesis unfolding set_concat by (rule UN_I)
    qed
    ultimately have "sc_user_id e \<in> fst ` set users" by (rule names_of_users [OF u])
    then show "ca_users cache (sc_user_id e) \<noteq> None" using initialize_score_users unfolding c by blast
  qed
qed

end
