(* ===== verification/Score_Properties.thy ===== *)
theory Score_Properties
  imports Score_Load
begin

text \<open>
  The properties of the score boards, from the cache the server loads at its start: what recording a score does, that the
  operations keep the cache in its invariant, what the queries return, and when a recording panics.
\<close>

section \<open>The operations keep the invariant\<close>

lemma set_game_data_inv:
  assumes "cache_inv cache"
  shows "cache_inv (snd (set_game_data cache c u ch b d))"
proof -
  obtain t cache1 where get: "get_table_or_insert cache c b DbBoardInfo_default = (t, cache1)" by fastforce
  note tab = cache_inv_table [OF assms get]
  let ?S = "st_sorted_scores t"
  have "cache_inv (put_table cache1 c b (t\<lparr> st_sorted_scores := ?S[i := (?S ! i)\<lparr> sc_data_id := Some d \<rparr>] \<rparr>))"
    if i: "i < length ?S" for i
  proof (rule put_table_inv [OF tab(2)])
    let ?S' = "?S[i := (?S ! i)\<lparr> sc_data_id := Some d \<rparr>]"
    have f: "sc_user_id (?S' ! j) = sc_user_id (?S ! j)" "sc_character_id (?S' ! j) = sc_character_id (?S ! j)"
      "sc_score (?S' ! j) = sc_score (?S ! j)" "sc_timestamp (?S' ! j) = sc_timestamp (?S ! j)" for j
      using i by (simp_all add: nth_list_update)
    have nth: "score_key (?S' ! j) = score_key (?S ! j)" "sc_user_id (?S' ! j) = sc_user_id (?S ! j)"
      "standing m (?S' ! j) = standing m (?S ! j)" for j m
      by (simp_all only: score_key_def standing_def f)
    show "table_inv (t\<lparr> st_sorted_scores := ?S' \<rparr>)"
      using tab(1) unfolding table_inv_def index_ok_def sorted_map sorted_wrt_iff_nth_less
      by (simp add: nth(1,3))
    fix e
    assume "e \<in> set (st_sorted_scores (t\<lparr> st_sorted_scores := ?S' \<rparr>))"
    then obtain j where "j < length ?S" "e = ?S' ! j" by (auto simp: in_set_conv_nth)
    then show "ca_users cache1 (sc_user_id e) \<noteq> None" using tab(4,5) nth(2) by simp
  qed
  then show ?thesis using tab(2) by (auto simp: set_game_data_def get split: option.splits)
qed

lemma get_table_or_insert_inv: "cache_inv cache \<Longrightarrow> cache_inv (snd (get_table_or_insert cache c b info))"
  using cache_inv_table(2) by (metis prod.collapse)

lemma query_state:
  "snd (get_score_range cache c b r n wc wi) = snd (get_table_or_insert cache c b DbBoardInfo_default)"
  "snd (get_score_ids cache c b ns wc wi) = snd (get_table_or_insert cache c b DbBoardInfo_default)"
  "snd (contains_score_with_no_data cache c u ch b sc) = snd (get_table_or_insert cache c b DbBoardInfo_default)"
  "snd (get_game_data_id cache c u ch b) = snd (get_table_or_insert cache c b DbBoardInfo_default)"
  by (simp_all add: get_score_range_def get_score_ids_def contains_score_with_no_data_def get_game_data_id_def
      Let_def split_def)

text \<open>
  The commands of the clients.  A recording that panics is a step too, as long as its player had no score on the board; one
  that panics after it has taken the player's old score out leaves an index that does not fit the board, and is left out.  All
  the caches below are reached in this way from the one the server loads at its start.
\<close>

inductive score_step :: "ScoresCache \<Rightarrow> ScoresCache \<Rightarrow> bool" where
  recorded: "insert_score now cache info c b s n o1 = (r, cache') \<Longrightarrow>
    r \<noteq> Panic \<or> rank_of (st_npid_lookup (fst (get_table_or_insert cache c b info))) (score_key s) = None \<Longrightarrow>
    score_step cache cache'"
| range: "score_step cache (snd (get_score_range cache c b r k wc wi))"
| ids: "score_step cache (snd (get_score_ids cache c b ns wc wi))"
| contains: "score_step cache (snd (contains_score_with_no_data cache c u ch b sc))"
| set_data: "score_step cache (snd (set_game_data cache c u ch b d))"
| get_data: "score_step cache (snd (get_game_data_id cache c u ch b))"

lemma insert_score_inv:
  assumes "cache_inv cache" and "insert_score now cache info c b s n o1 = (r, cache')"
    and "r \<noteq> Panic \<or> rank_of (st_npid_lookup (fst (get_table_or_insert cache c b info))) (score_key s) = None"
  shows "cache_inv cache'"
proof -
  obtain t cache1 where get: "get_table_or_insert cache c b info = (t, cache1)" by fastforce
  note tab = cache_inv_table [OF assms(1) get]
  show ?thesis
  proof (cases rule: insert_score_cases [OF assms(1) get, of now s n o1, case_names recorded panic])
    case (recorded p t' cache'')
    then show ?thesis using assms(2) by simp
  next
    case panic
    then have "rank_of (st_npid_lookup t) (score_key s) = None" using assms(2,3) get by simp
    then have "without_key s (st_sorted_scores t) = st_sorted_scores t"
      using tab(1) by (intro without_key_unlisted) (simp_all add: table_inv_def)
    moreover have "cache' = put_table cache1 c b (t\<lparr> st_sorted_scores := others s t, st_last_insert := now \<rparr>)"
      using panic(1) assms(2) by simp
    ultimately show ?thesis using tab by (auto simp: table_inv_def intro!: put_table_inv)
  qed
qed

lemma score_step_inv: "score_step cache cache' \<Longrightarrow> cache_inv cache \<Longrightarrow> cache_inv cache'"
  by (induction rule: score_step.induct)
     (rule insert_score_inv, assumption+, simp_all only: query_state get_table_or_insert_inv set_game_data_inv)

interpretation scs: invariant_system cache0 score_step "\<lambda>cache. cache_inv cache0 \<longrightarrow> cache_inv cache" for cache0
  by unfold_locales (auto intro: score_step_inv)

lemma started_inv:
  assumes "fst (start_score sql start file db) = Ok cache0" and "db_wf db" and "reach score_step cache0 cache"
  shows "cache_inv cache"
  using scs.reach_inv [OF assms(3)] start_score_inv [OF assms(1,2)] by blast

section \<open>A small board\<close>

text \<open>
  A database with two players who got the same score in the same microsecond.  The server loads them by ascending user, which is
  not the order of the cache; then a third player records a better score.
\<close>

definition ex_board :: DbBoardInfo where
  "ex_board = \<lparr> bi_rank_limit = 3, bi_update_mode = 0, bi_sort_mode = 0, bi_upload_num_limit = 1, bi_upload_size_limit = 1 \<rparr>"

definition ex_score :: "i64 \<Rightarrow> i64 \<Rightarrow> u64 \<Rightarrow> DbScoreInfo" where
  "ex_score u v ts = \<lparr> sc_user_id = u, sc_character_id = 0, sc_score = v, sc_comment = None, sc_game_info = None,
     sc_data_id = None, sc_timestamp = ts \<rparr>"

definition ex_game :: ComId where
  "ex_game = [65]"

definition ex_account :: "string \<Rightarrow> Account" where
  "ex_account name = \<lparr> ac_user_id = 0, ac_username = name, ac_hash = [], ac_salt = [], ac_online_name = name,
     ac_avatar_url = [], ac_email = name, ac_email_check = name, ac_token = [], ac_reset_token = None, ac_admin = False,
     ac_stat_agent = False, ac_banned = False \<rparr>"

definition ex_database :: Database where
  "ex_database = (let yes = \<lambda>_. True; db0 = new_database 0x66000000 [1] [2];
       db1 = snd (insert_account yes (ex_account ''a'') db0); db2 = snd (insert_account yes (ex_account ''b'') db1);
       db3 = snd (create_or_set_score_board_details yes db2 (com_id_to_string ex_game) 0 ex_board);
       db4 = snd (db_record_score yes db3 ex_game 0 (ex_score 2 100 1) True)
     in snd (db_record_score yes db4 ex_game 0 (ex_score 3 100 1) True))"

definition ex_tables :: "(TableDescription \<times> DbBoardInfo \<times> DbScoreInfo list) list" where
  "ex_tables = (case load_tables (\<lambda>_. True) ex_database of Ok tables \<Rightarrow> tables | _ \<Rightarrow> [])"

definition ex_start :: ScoresCache where
  "ex_start = initialize_score 5 ex_tables [(2, ''a'', ''a''), (3, ''b'', ''b'')]"

definition ex_cache :: ScoresCache where
  "ex_cache = snd (insert_score 6 ex_start ex_board ex_game 0 (ex_score 4 200 6) ''c'' ''c'')"

definition ex_table :: ScoreTableCache where
  "ex_table = fst (get_table_or_insert ex_cache ex_game 0 ex_board)"

lemma ex_database_wf: "db_wf ex_database"
  unfolding ex_database_def Let_def by (intro wf_intros wf_new_database)

lemma ex_start_ok: "fst (start_score (\<lambda>_. True) 5 (Some []) ex_database) = Ok ex_start"
proof -
  have "lines [] = []" by code_simp
  then have "setup_config_scoreboards (\<lambda>_. True) (Some []) ex_database = (Ok (), ex_database)"
    by (simp add: setup_config_scoreboards_def List.map_filter_simps)
  moreover have "load_tables (\<lambda>_. True) ex_database = Ok ex_tables"
  proof -
    have "is_ok (load_tables (\<lambda>_. True) ex_database)" by code_simp
    then show ?thesis by (cases "load_tables (\<lambda>_. True) ex_database") (simp_all add: ex_tables_def)
  qed
  moreover have "concat (map (\<lambda>(_, _, scores). map sc_user_id scores) ex_tables) = [2, 3]" by code_simp
  moreover have "get_username_and_online_name_from_user_ids (\<lambda>_. True) ex_database {2, 3} = Ok [(2, ''a'', ''a''), (3, ''b'', ''b'')]"
    by code_simp
  ultimately show ?thesis by (simp only: start_score_def ex_start_def bind_st.simps Let_def set_simps fst_conv)
qed

lemma ex_table_scores:
  "st_sorted_scores ex_table = [ex_score 4 200 6, ex_score 2 100 1, ex_score 3 100 1]" "st_table_info ex_table = ex_board"
  by code_simp+

lemma ex_table_get: "get_table_or_insert ex_cache ex_game 0 info = (ex_table, ex_cache)"
proof -
  have "\<not> Option.is_none (ca_tables ex_cache (com_id_to_string ex_game, 0))" by code_simp
  then show ?thesis by (auto simp: ex_table_def get_table_or_insert_def Option.is_none_def split: option.split)
qed

lemma ex_cache_reach: "reach score_step ex_start ex_cache"
proof -
  have "is_ok (fst (insert_score 6 ex_start ex_board ex_game 0 (ex_score 4 200 6) ''c'' ''c''))" by code_simp
  then have "fst (insert_score 6 ex_start ex_board ex_game 0 (ex_score 4 200 6) ''c'' ''c'') \<noteq> Panic" by auto
  then show ?thesis
    unfolding ex_cache_def by (intro reach.more [OF reach.start] score_step.recorded [OF prod.collapse [symmetric]] disjI1)
qed

lemmas ex_started = ex_start_ok ex_database_wf ex_cache_reach

section \<open>Recording\<close>

text \<open>C19: on every cache reached from the one the server loads at its start (by recordings that, if they panic, had no old score to
  take out, and by queries), a score without a tie recorded on a board with
  ranks gives the board that results from removing the player's old score, placing the new one and cutting the list at the
  board's limit; the answer is the new score's place, counted from one, modulo \<^verbatim>\<open>2 ^ 32\<close>.  The place is behind all scores of a better
  value or an earlier time and before all of a worse value or a later time; among those equal in both it is that of the
  cache's order (descending user) if the board was in this order, and the board stays in it.  The cache stays in its
  invariant: order by value and time, exact index, limit, and a name for every listed player.\<close>

theorem insert_score_spec:
  assumes "fst (start_score sql start file db) = Ok cache0" and "db_wf db" and "reach score_step cache0 cache"
    and "get_table_or_insert cache c b info = (t, cache1)"
    and "0 < bi_rank_limit (st_table_info t)" and "no_tie s t"
  shows "\<exists>p cache' t'. insert_score now cache info c b s n o1 = (Ok (of_nat (Suc p)), cache') \<and> rank_place s t p \<and>
    ca_tables cache' = (ca_tables cache1)((com_id_to_string c, b) \<mapsto> t') \<and>
    st_sorted_scores t' = board_after p s t \<and> st_table_info t' = st_table_info t \<and> st_last_insert t' = now \<and>
    cache_inv cache' \<and>
    (score_order.ranked (bi_sort_mode (st_table_info t)) (st_sorted_scores t) \<longrightarrow>
      p = length (better_scores s t) \<and> score_order.ranked (bi_sort_mode (st_table_info t)) (st_sorted_scores t'))"
proof (cases rule: insert_score_cases [OF started_inv [OF assms(1-3)] assms(4), of now s n o1, case_names recorded panic])
  case (recorded p t' cache')
  then show ?thesis using ranked_board_after [OF _ assms(6)] assms(6) by metis
next
  case panic
  then show ?thesis using assms(5,6) by simp
qed

theorem insert_score_spec_witness:
  "\<exists>cache' t'. insert_score 7 ex_cache ex_board ex_game 0 (ex_score 9 150 7) ''d'' ''d'' = (Ok 2, cache') \<and>
    ca_tables cache' = (ca_tables ex_cache)((com_id_to_string ex_game, 0) \<mapsto> t') \<and>
    st_sorted_scores t' = [ex_score 4 200 6, ex_score 9 150 7, ex_score 2 100 1] \<and> cache_inv cache'"
proof -
  have "0 < bi_rank_limit (st_table_info ex_table)" "no_tie (ex_score 9 150 7) ex_table" by code_simp+
  from insert_score_spec [OF ex_started ex_table_get [of ex_board] this, of 7 "''d''" "''d''"]
  obtain p cache' t' where w: "insert_score 7 ex_cache ex_board ex_game 0 (ex_score 9 150 7) ''d'' ''d'' = (Ok (of_nat (Suc p)), cache')"
    "rank_place (ex_score 9 150 7) ex_table p" "ca_tables cache' = (ca_tables ex_cache)((com_id_to_string ex_game, 0) \<mapsto> t')"
    "st_sorted_scores t' = board_after p (ex_score 9 150 7) ex_table" "cache_inv cache'" by blast
  have "rank_place (ex_score 9 150 7) ex_table p \<longleftrightarrow> 1 \<le> p \<and> p \<le> 1"
    by (simp add: rank_place_def ex_table_scores without_key_def) (simp add: ex_score_def ex_board_def score_key_def standing_def)
  then have "p = 1" using w(2) by simp
  moreover have "board_after 1 (ex_score 9 150 7) ex_table = [ex_score 4 200 6, ex_score 9 150 7, ex_score 2 100 1]" by code_simp
  ultimately show ?thesis using w by auto
qed

text \<open>C33: when a recording panics.  On a board in the order of the cache, in a cache reached from the one the server loads at its
  start (by recordings that, if they panic, had no old score to take out, and by queries), this happens exactly if the board has no ranks, or the
  score compares equal to a listed one of another character (same value, same microsecond, same player) and is entered, because
  the board has room for it or it is better than the last one (\<^verbatim>\<open>unwrap_err\<close> on the binary search).  The old score of
  the player has been taken out of the list by then, while the index stays as it was.\<close>

theorem tied_score_panics:
  assumes "fst (start_score sql start file db) = Ok cache0" and "db_wf db" and "reach score_step cache0 cache"
    and "get_table_or_insert cache c b info = (t, cache1)"
    and "score_order.ranked (bi_sort_mode (st_table_info t)) (st_sorted_scores t)"
  shows "(fst (insert_score now cache info c b s n o1) = Panic \<longleftrightarrow>
      bi_rank_limit (st_table_info t) = 0 \<or> enters s t \<and> \<not> no_tie s t) \<and>
    (fst (insert_score now cache info c b s n o1) = Panic \<longrightarrow> snd (insert_score now cache info c b s n o1) =
      put_table cache1 c b (t\<lparr> st_sorted_scores := without_key s (st_sorted_scores t), st_last_insert := now \<rparr>))"
proof (cases rule: insert_score_cases [OF started_inv [OF assms(1-3)] assms(4), of now s n o1, case_names recorded panic])
  case (recorded p t' cache')
  then show ?thesis using recorded(10) [OF assms(5)] by auto
next
  case panic
  then show ?thesis by simp
qed

theorem tied_score_panics_witness:
  "fst (insert_score 7 ex_cache ex_board [66] 0 ((ex_score 4 100 1)\<lparr> sc_character_id := 1 \<rparr>) ''c'' ''c'') \<noteq> Panic \<and>
   fst (insert_score 8 (snd (insert_score 7 ex_cache ex_board [66] 0 (ex_score 4 100 1) ''c'' ''c'')) ex_board [66] 0
     ((ex_score 4 100 1)\<lparr> sc_character_id := 1 \<rparr>) ''c'' ''c'') = Panic"
proof -
  let ?s = "(ex_score 4 100 1)\<lparr> sc_character_id := 1 \<rparr>"
  let ?c1 = "snd (insert_score 7 ex_cache ex_board [66] 0 (ex_score 4 100 1) ''c'' ''c'')"
  have "is_ok (fst (insert_score 7 ex_cache ex_board [66] 0 (ex_score 4 100 1) ''c'' ''c''))" by code_simp
  then have "fst (insert_score 7 ex_cache ex_board [66] 0 (ex_score 4 100 1) ''c'' ''c'') \<noteq> Panic" by auto
  then have c1: "reach score_step ex_start ?c1"
    by (intro reach.more [OF ex_cache_reach] score_step.recorded [OF prod.collapse [symmetric]] disjI1)
  note panics = tied_score_panics [OF ex_start_ok ex_database_wf _ prod.collapse [symmetric]]
  have rk: "score_order.ranked m []" "score_order.ranked m [e]" for m e by (simp_all add: score_order.ranked_def)
  have t0: "st_sorted_scores (fst (get_table_or_insert ex_cache [66] 0 ex_board)) = []"
    and t1: "st_sorted_scores (fst (get_table_or_insert ?c1 [66] 0 ex_board)) = [ex_score 4 100 1]" by code_simp+
  have "bi_rank_limit (st_table_info (fst (get_table_or_insert ex_cache [66] 0 ex_board))) \<noteq> 0"
    "no_tie ?s (fst (get_table_or_insert ex_cache [66] 0 ex_board))"
    "enters ?s (fst (get_table_or_insert ?c1 [66] 0 ex_board))"
    "\<not> no_tie ?s (fst (get_table_or_insert ?c1 [66] 0 ex_board))" by code_simp+
  then show ?thesis
    using panics [OF ex_cache_reach, of "[66]" 0 ex_board, unfolded t0, OF rk(1), of 7 ?s "''c''" "''c''"]
      panics [OF c1, of "[66]" 0 ex_board, unfolded t1, OF rk(2), of 8 ?s "''c''" "''c''"] by blast
qed

section \<open>Reading\<close>

text \<open>What the answer says of the score at a place of the board.\<close>

definition entry_at :: "ScoresCache \<Rightarrow> ScoreTableCache \<Rightarrow> nat \<Rightarrow> ScoreRankDataCache" where
  "entry_at cache t i = (let s = st_sorted_scores t ! i; u = the (ca_users cache (sc_user_id s)) in
    \<lparr> rd_npid = su_npid u, rd_online_name = su_online_name u, rd_pcid = sc_character_id s, rd_rank = of_nat i,
      rd_score = sc_score s, rd_has_gamedata = sc_data_id s \<noteq> None, rd_timestamp = sc_timestamp s \<rparr>)"

lemma rank_data_entry:
  assumes "cache_inv cache" and "get_table_or_insert cache c b info = (t, cache1)" and "i < length (st_sorted_scores t)"
  shows "rank_data cache1 (st_sorted_scores t ! i) i = Ok (entry_at cache1 t i)"
proof -
  have "ca_users cache1 (sc_user_id (st_sorted_scores t ! i)) \<noteq> None"
    using cache_inv_table(4,5) [OF assms(1,2)] assms(3) by simp
  then show ?thesis by (auto simp: rank_data_def entry_at_def Let_def)
qed

text \<open>C20: a range query never panics on a cache reached from the one the server loads at its start (by recordings that, if they
  panic, had no old score to take out, and by queries); it returns one
  entry per listed place of the requested range, in the order of the board, with the name of its player, the comment and the
  information of each of them when they were asked for, and the number of records of the board, modulo \<^verbatim>\<open>2 ^ 32\<close>.  Ranks are
  counted from 1; a range that starts at 0 is empty, as the subtraction wraps.\<close>

theorem get_score_range_spec:
  fixes start n :: u32
  assumes "fst (start_score sql start0 file db) = Ok cache0" and "db_wf db" and "reach score_step cache0 cache"
    and "get_table_or_insert cache c b DbBoardInfo_default = (t, cache1)"
  defines "places \<equiv> if start = 0 then [] else [unat start - 1..<min (unat start - 1 + unat n) (length (st_sorted_scores t))]"
  shows "get_score_range cache c b start n wc wi =
    (Ok \<lparr> gs_scores = map (entry_at cache1 t) places,
          gs_comments = (if wc then Some (map (\<lambda>i. case_option [] id (sc_comment (st_sorted_scores t ! i))) places) else None),
          gs_infos = (if wi then Some (map (\<lambda>i. case_option [] id (sc_game_info (st_sorted_scores t ! i))) places) else None),
          gs_timestamp = st_last_insert t, gs_total_records = of_nat (length (st_sorted_scores t)) \<rparr>, cache1)"
proof -
  note inv = started_inv [OF assms(1-3)]
  have "length (st_sorted_scores t) \<le> unat (bi_rank_limit (st_table_info t))"
    using cache_inv_table(1) [OF inv assms(4)] by (simp add: table_inv_def)
  also have "\<dots> \<le> unat (- 1 :: u32)" by (simp flip: word_le_nat_alt)
  finally have len: "length (st_sorted_scores t) \<le> unat (- 1 :: u32)" .
  have places: "places = [unat (start - 1)..<min (unat (start - 1) + unat n) (length (st_sorted_scores t))]"
  proof (cases "start = 0")
    case True
    then show ?thesis using len by (simp add: places_def min_def)
  next
    case False
    then have "1 \<le> start" by (simp add: word_le_nat_alt Suc_le_eq unat_gt_0)
    then have "unat (start - 1) = unat start - 1" by (simp add: unat_sub)
    with False show ?thesis by (simp add: places_def)
  qed
  have "traverse (\<lambda>i. rank_data cache1 (st_sorted_scores t ! i) i) places = Ok (map (entry_at cache1 t) places)"
    using rank_data_entry [OF inv assms(4)] by (intro traverse_Ok_all) (simp add: places)
  then show ?thesis by (simp add: get_score_range_def assms(4) Let_def flip: places)
qed

theorem get_score_range_spec_witness:
  "get_score_range ex_cache ex_game 0 2 10 True False =
    (Ok \<lparr> gs_scores = [entry_at ex_cache ex_table 1, entry_at ex_cache ex_table 2], gs_comments = Some [[], []],
          gs_infos = None, gs_timestamp = 6, gs_total_records = 3 \<rparr>, ex_cache)"
proof -
  have "[Suc 0..<3] = [1, 2]" by (simp add: upt_conv_Cons numeral_eq_Suc)
  moreover have "st_last_insert ex_table = 6" by code_simp
  ultimately show ?thesis
    using get_score_range_spec [OF ex_started ex_table_get, of 2 10 True False]
    by (simp add: ex_table_scores) (simp add: ex_score_def flip: numeral_2_eq_2)
qed

text \<open>C21: a query by players never panics on a cache reached from the one the server loads at its start (by recordings that, if
  they panic, had no old score to take out, and by queries): each player and character gets one entry, the one at the only place of
  the board that holds its score, or the empty entry when it is not listed.\<close>

theorem get_score_ids_spec:
  assumes "fst (start_score sql start file db) = Ok cache0" and "db_wf db" and "reach score_step cache0 cache"
    and "get_table_or_insert cache c b DbBoardInfo_default = (t, cache1)"
  shows "\<exists>r. get_score_ids cache c b npids wc wi = (Ok r, cache1) \<and> length (gs_scores r) = length npids \<and>
    (\<forall>k < length npids.
      (npids ! k \<notin> score_key ` set (st_sorted_scores t) \<longrightarrow> gs_scores r ! k = ScoreRankDataCache_default) \<and>
      (\<forall>i < length (st_sorted_scores t). score_key (st_sorted_scores t ! i) = npids ! k \<longrightarrow>
        gs_scores r ! k = entry_at cache1 t i))"
proof -
  note inv = started_inv [OF assms(1-3)]
  note tab = cache_inv_table [OF inv assms(4)]
  have idx: "index_ok (st_sorted_scores t) (st_npid_lookup t)" using tab(1) by (simp add: table_inv_def)
  have "\<exists>e. score_of_id cache1 t k = Ok e \<and>
      (k \<notin> score_key ` set (st_sorted_scores t) \<longrightarrow> fst e = ScoreRankDataCache_default) \<and>
      (\<forall>i < length (st_sorted_scores t). score_key (st_sorted_scores t ! i) = k \<longrightarrow> fst e = entry_at cache1 t i)" for k
  proof (cases "rank_of (st_npid_lookup t) k")
    case None
    with index_ok_None [OF idx, of k] show ?thesis by (auto simp: score_of_id_def image_iff)
  next
    case (Some i)
    then have i: "i < length (st_sorted_scores t)" "score_key (st_sorted_scores t ! i) = k"
      using index_okD [OF idx] by blast+
    have uniq: "j = i" if "j < length (st_sorted_scores t)" "score_key (st_sorted_scores t ! j) = k" for j
      using that Some index_okD [OF idx, of k j] by simp
    have u: "sc_user_id (st_sorted_scores t ! i) = fst k" using i(2) by (auto simp: score_key_def)
    have "ca_users cache1 (fst k) \<noteq> None" using tab(4) tab(5) [OF nth_mem [OF i(1)]] u by simp
    then obtain cu where "ca_users cache1 (fst k) = Some cu" by blast
    then obtain cm gi where "score_of_id cache1 t k = Ok (entry_at cache1 t i, cm, gi)"
      using i(1) u Some by (simp add: score_of_id_def entry_at_def index_res_def Let_def)
    moreover have "k \<in> score_key ` set (st_sorted_scores t)" using i by (metis image_eqI nth_mem)
    ultimately show ?thesis by (intro exI [of _ "(entry_at cache1 t i, cm, gi)"]) (auto dest: uniq)
  qed
  then obtain g where g: "\<And>k. score_of_id cache1 t k = Ok (g k) \<and>
      (k \<notin> score_key ` set (st_sorted_scores t) \<longrightarrow> fst (g k) = ScoreRankDataCache_default) \<and>
      (\<forall>i < length (st_sorted_scores t). score_key (st_sorted_scores t ! i) = k \<longrightarrow> fst (g k) = entry_at cache1 t i)"
    by (rule that [OF someI_ex])
  have "traverse (score_of_id cache1 t) npids = Ok (map g npids)" by (rule traverse_Ok_all) (simp add: g)
  then show ?thesis using g by (simp add: get_score_ids_def assms(4) Let_def)
qed

theorem get_score_ids_spec_witness:
  "\<exists>r. get_score_ids ex_cache ex_game 0 [(3, 0), (9, 0)] False False = (Ok r, ex_cache) \<and>
    gs_scores r ! 0 = entry_at ex_cache ex_table 2 \<and> gs_scores r ! 1 = ScoreRankDataCache_default"
proof -
  let ?ks = "[(3, 0), (9, 0)] :: (i64 \<times> i32) list"
  have scores: "?ks ! 1 \<notin> score_key ` set (st_sorted_scores ex_table)" "score_key (st_sorted_scores ex_table ! 2) = ?ks ! 0"
    "2 < length (st_sorted_scores ex_table)" by code_simp+
  from get_score_ids_spec [OF ex_started ex_table_get, of ?ks False False]
  obtain r where r: "get_score_ids ex_cache ex_game 0 ?ks False False = (Ok r, ex_cache)"
    and k: "\<And>k. k < length ?ks \<Longrightarrow>
      (?ks ! k \<notin> score_key ` set (st_sorted_scores ex_table) \<longrightarrow> gs_scores r ! k = ScoreRankDataCache_default) \<and>
      (\<forall>i < length (st_sorted_scores ex_table). score_key (st_sorted_scores ex_table ! i) = ?ks ! k \<longrightarrow>
        gs_scores r ! k = entry_at ex_cache ex_table i)" by blast
  have "gs_scores r ! 0 = entry_at ex_cache ex_table 2" using k [of 0] scores(2,3) by simp
  moreover have "gs_scores r ! 1 = ScoreRankDataCache_default" using k [of 1] scores(1) by simp
  ultimately show ?thesis using r by blast
qed

text \<open>C22: once the game data of a score is stored, its identifier is what the lookup returns, and the score
  no longer counts as one without data.\<close>

theorem game_data_round_trip:
  assumes "set_game_data cache c u ch b d = (Ok (), cache')"
  shows "fst (get_game_data_id cache' c u ch b) = Ok d \<and>
    fst (contains_score_with_no_data cache' c u ch b v) \<in> {Err ScoreInvalid, Err ScoreHasData}"
proof -
  obtain t cache1 where get: "get_table_or_insert cache c b DbBoardInfo_default = (t, cache1)" by fastforce
  from assms obtain i where i: "lookup_rank (st_npid_lookup t) u ch = Some i" "i < length (st_sorted_scores t)"
    and c': "cache' = put_table cache1 c b (t\<lparr> st_sorted_scores := (st_sorted_scores t)
      [i := (st_sorted_scores t ! i)\<lparr> sc_data_id := Some d \<rparr>] \<rparr>)"
    by (auto simp: set_game_data_def get split: option.splits if_splits)
  have get': "fst (get_table_or_insert cache' c b DbBoardInfo_default) = t\<lparr> st_sorted_scores := (st_sorted_scores t)
      [i := (st_sorted_scores t ! i)\<lparr> sc_data_id := Some d \<rparr>] \<rparr>"
    by (simp add: get_table_or_insert_def c' put_table_def)
  then show ?thesis
    using i by (simp add: get_game_data_id_def contains_score_with_no_data_def split_def index_res_def ok_or_def)
qed

theorem game_data_round_trip_witness:
  "fst (get_game_data_id (snd (set_game_data ex_cache ex_game 3 0 0 5)) ex_game 3 0 0) = Ok 5"
proof -
  have "fst (set_game_data ex_cache ex_game 3 0 0 5) = Ok ()" by code_simp
  then have "set_game_data ex_cache ex_game 3 0 0 5 = (Ok (), snd (set_game_data ex_cache ex_game 3 0 0 5))"
    by (simp add: prod_eq_iff)
  from game_data_round_trip [OF this] show ?thesis by blast
qed

end
