(* ===== verification/Gui_Inv.thy ===== *)
theory Gui_Inv
  imports Gui_Rooms
begin

text \<open>
  The invariant of the older matching interface and that every operation keeps it, whatever the order
  in which hash maps are iterated: a room has members, at most one of them its owner, the arrays have
  their sizes, a room made by \<^verbatim>\<open>create_room_gui\<close> with slots never holds more members than slots, and the
  indices by game and by user are exact.
\<close>

section \<open>Room numbers\<close>

lemma hex_digit_inj: "a < 16 \<Longrightarrow> b < 16 \<Longrightarrow> hex_digit a = hex_digit b \<Longrightarrow> a = b"
proof -
  assume ab: "a < 16" "b < 16" and eq: "hex_digit a = hex_digit b"
  have oc: "(of_char (hex_digit d) :: nat) = (if d < 10 then 48 + d else 55 + d)" if "d < 16" for d
    using that by (simp add: hex_digit_def)
  have "(if a < 10 then 48 + a else 55 + a) = (if b < 10 then 48 + b else 55 + b)"
    using oc [OF ab(1)] oc [OF ab(2)] eq by simp
  with ab show ?thesis by (simp split: if_splits)
qed

lemma length_hex_pad [simp]: "length (hex_pad n v) = n"
  by (induction n arbitrary: v) simp_all

lemma hex_pad_inj: "v < 16 ^ n \<Longrightarrow> w < 16 ^ n \<Longrightarrow> hex_pad n v = hex_pad n w \<Longrightarrow> v = w"
proof (induction n arbitrary: v w)
  case (Suc n)
  have "v div 16 = w div 16" using Suc by (intro Suc.IH) (auto simp: div_less_iff_less_mult)
  moreover have "v mod 16 = w mod 16" using Suc.prems by (intro hex_digit_inj) auto
  ultimately show ?case by (metis div_mult_mod_eq)
qed simp

lemma hex_digit_ascii: "d < 16 \<Longrightarrow> ascii [hex_digit d]"
  by (auto simp: ascii_def hex_digit_def)

lemma ascii_append [simp]: "ascii (s @ t) \<longleftrightarrow> ascii s \<and> ascii t"
  by (simp add: ascii_def)

lemma hex_pad_ascii: "ascii (hex_pad n v)"
  by (induction n arbitrary: v) (simp_all add: hex_digit_ascii, simp add: ascii_def)

lemma as_bytes_append: "as_bytes (s @ t) = as_bytes s @ as_bytes t"
  by (simp add: as_bytes_def)

lemma as_bytes_inj: "ascii s \<Longrightarrow> ascii t \<Longrightarrow> as_bytes s = as_bytes t \<Longrightarrow> s = t"
  using str_field.write_inj [of s t] by (cases "s = []"; cases "t = []") (auto simp: string_field_def as_bytes_ascii)

definition number_of :: "GuiRoomId \<Rightarrow> nat \<Rightarrow> bool" where
  "number_of room_id n \<longleftrightarrow> drop COMMUNICATION_ID_SIZE room_id = as_bytes (hex_pad 16 n)"

lemma number_of_inj: "number_of i n \<Longrightarrow> number_of i m \<Longrightarrow> n < 2 ^ 64 \<Longrightarrow> m < 2 ^ 64 \<Longrightarrow> n = m"
  using hex_pad_inj [of n 16 m] as_bytes_inj [OF hex_pad_ascii hex_pad_ascii, of 16 n 16 m]
  by (simp add: number_of_def)

lemma generate_room_id_cases:
  assumes "generate_room_id cur c = (r, cur')"
  obtains (fresh) room_id where "r = Ok room_id" "cur' = cur + 1" "number_of room_id (unat cur)"
  | (no_id) "r = Panic" "cur' = cur"
proof (cases "length (as_bytes (com_id_to_string c @ hex_pad 16 (unat cur))) = GUI_ROOM_ID_SIZE")
  case True
  let ?a = "as_bytes (com_id_to_string c)" and ?b = "as_bytes (hex_pad 16 (unat cur))"
  have len: "length ?b = 16" by (simp add: as_bytes_ascii hex_pad_ascii)
  then have "length ?a = COMMUNICATION_ID_SIZE"
    using True by (simp add: as_bytes_append GUI_ROOM_ID_SIZE_def COMMUNICATION_ID_SIZE_def)
  then have "number_of (?a @ ?b) (unat cur)" by (simp add: number_of_def)
  then show thesis using assms True by (intro fresh [of "?a @ ?b"]) (auto simp: generate_room_id_def as_bytes_append)
next
  case False
  then show thesis using assms no_id by (auto simp: generate_room_id_def)
qed

section \<open>The invariant\<close>

definition gui_room_shape :: "GuiRoom \<Rightarrow> bool" where
  "gui_room_shape room \<longleftrightarrow> length (gr_num_attrs room) = 16 \<and> length (gr_big_bin_attrs room) = 2 \<and>
    length (gr_small_bin_attrs room) = 14 \<and> gr_total_slots room \<le> 64 \<and> gr_private_slots room \<le> gr_total_slots room"

definition one_owner :: "gui_members \<Rightarrow> bool" where
  "one_owner ms \<longleftrightarrow> (\<forall>u v m m'. bt_get ms u = Some m \<and> gm_owner m \<and> bt_get ms v = Some m' \<and> gm_owner m' \<longrightarrow> u = v)"

definition slots_ok :: "GuiRoom \<Rightarrow> bool" where
  "slots_ok room \<longleftrightarrow> gr_quickmatch_room room \<or> gr_total_slots room = 0 \<or>
    length (gr_members room) \<le> unat (gr_total_slots room)"

definition gui_room_ok :: "GuiRoom \<Rightarrow> bool" where
  "gui_room_ok room \<longleftrightarrow> gui_room_shape room \<and> bt_wf (gr_members room) \<and> gr_members room \<noteq> [] \<and>
    one_owner (gr_members room) \<and> slots_ok room"

definition user_set :: "GuiRoomManager \<Rightarrow> i64 \<Rightarrow> GuiRoomId set" where
  "user_set gm u = (case gm_user_rooms gm u of Some s \<Rightarrow> s | None \<Rightarrow> {})"

definition game_set :: "GuiRoomManager \<Rightarrow> ComId \<Rightarrow> GuiRoomId set" where
  "game_set gm c = (case gm_comid_rooms gm c of Some s \<Rightarrow> s | None \<Rightarrow> {})"

definition gui_inv :: "GuiRoomManager \<Rightarrow> bool" where
  "gui_inv gm \<longleftrightarrow> finite (dom (gm_rooms gm)) \<and>
    (\<forall>i r. gm_rooms gm i = Some r \<longrightarrow> gui_room_ok r \<and> (\<exists>n < unat (gm_cur_room_id gm). number_of i n)) \<and>
    (\<forall>u i. i \<in> user_set gm u \<longleftrightarrow> (\<exists>r. gm_rooms gm i = Some r \<and> u \<in> member_ids r)) \<and>
    (\<forall>c i. i \<in> game_set gm c \<longleftrightarrow> (\<exists>r. gm_rooms gm i = Some r \<and> gr_communication_id r = c))"

lemma gui_inv_room: "gui_inv gm \<Longrightarrow> gm_rooms gm i = Some r \<Longrightarrow> gui_room_ok r"
  and gui_inv_number: "gui_inv gm \<Longrightarrow> gm_rooms gm i = Some r \<Longrightarrow> \<exists>n < unat (gm_cur_room_id gm). number_of i n"
  and gui_inv_user: "gui_inv gm \<Longrightarrow> i \<in> user_set gm u \<longleftrightarrow> (\<exists>r. gm_rooms gm i = Some r \<and> u \<in> member_ids r)"
  and gui_inv_game: "gui_inv gm \<Longrightarrow> i \<in> game_set gm c \<longleftrightarrow> (\<exists>r. gm_rooms gm i = Some r \<and> gr_communication_id r = c)"
  by (simp_all add: gui_inv_def)

text \<open>Writing one room, and removing one.\<close>

lemma gui_inv_put:
  assumes inv: "gui_inv gm" and ok: "gui_room_ok r'"
    and rooms: "gm_rooms gm' = (gm_rooms gm)(i \<mapsto> r')"
    and cur: "gm_cur_room_id gm \<le> gm_cur_room_id gm'" "\<exists>n < unat (gm_cur_room_id gm'). number_of i n"
    and users: "\<And>u. user_set gm' u = (if u \<in> member_ids r' then insert i (user_set gm u) else user_set gm u - {i})"
    and games: "\<And>c. game_set gm' c = (if gr_communication_id r' = c then insert i (game_set gm c) else game_set gm c - {i})"
  shows "gui_inv gm'"
proof -
  have "\<exists>n < unat (gm_cur_room_id gm'). number_of j n" if "gm_rooms gm j = Some r" for j r
    using gui_inv_number [OF inv that] cur(1) by (meson less_le_trans word_le_nat_alt)
  then show ?thesis
    using inv ok cur(2) unfolding gui_inv_def rooms users games by auto
qed

lemma gui_inv_remove:
  assumes inv: "gui_inv gm" and rooms: "gm_rooms gm' = (gm_rooms gm)(i := None)"
    and "gm_cur_room_id gm' = gm_cur_room_id gm" and users: "\<And>u. user_set gm' u = user_set gm u - {i}"
    and games: "\<And>c. game_set gm' c = game_set gm c - {i}"
  shows "gui_inv gm'"
  using inv unfolding gui_inv_def rooms users games assms(3) by auto

lemma member_ids_get: "u \<in> member_ids r \<longleftrightarrow> bt_get (gr_members r) u \<noteq> None"
  by (simp add: member_ids_def map_of_eq_None_iff)

lemma game_set_entry_insert:
  "gm_comid_rooms gm' = entry_insert c i (gm_comid_rooms gm) \<Longrightarrow>
    game_set gm' d = (if d = c then insert i (game_set gm d) else game_set gm d)"
  by (auto simp: game_set_def entry_insert_def)

lemma user_set_entry_insert:
  "gm_user_rooms gm' = entry_insert u i (gm_user_rooms gm) \<Longrightarrow>
    user_set gm' v = (if v = u then insert i (user_set gm v) else user_set gm v)"
  by (auto simp: user_set_def entry_insert_def)

section \<open>One room\<close>

lemma set_attr_simps [simp]:
  "gr_members (set_attr a r) = gr_members r" "gr_total_slots (set_attr a r) = gr_total_slots r"
  "gr_private_slots (set_attr a r) = gr_private_slots r" "gr_communication_id (set_attr a r) = gr_communication_id r"
  "gr_quickmatch_room (set_attr a r) = gr_quickmatch_room r" "gr_stealth (set_attr a r) = gr_stealth r"
  "length (gr_num_attrs (set_attr a r)) = length (gr_num_attrs r)"
  "length (gr_big_bin_attrs (set_attr a r)) = length (gr_big_bin_attrs r)"
  "length (gr_small_bin_attrs (set_attr a r)) = length (gr_small_bin_attrs r)"
  by (simp_all add: set_attr_def Let_def)

lemma set_attr_shape [simp]: "gui_room_shape (set_attr a r) = gui_room_shape r" "slots_ok (set_attr a r) = slots_ok r"
  by (simp_all add: gui_room_shape_def slots_ok_def)

lemma set_attrs_simps [simp]:
  "gr_members (fold set_attr as r) = gr_members r" "gr_communication_id (fold set_attr as r) = gr_communication_id r"
  "gui_room_shape (fold set_attr as r) = gui_room_shape r" "slots_ok (fold set_attr as r) = slots_ok r"
  "gr_quickmatch_room (fold set_attr as r) = gr_quickmatch_room r" "gr_stealth (fold set_attr as r) = gr_stealth r"
  by (induction as arbitrary: r) simp_all

lemma set_quickmatch_cond_shape [simp]: "gui_room_shape (set_quickmatch_cond a r) = gui_room_shape r"
  by (simp add: gui_room_shape_def set_quickmatch_cond_def)

lemma set_quickmatch_conds_simps [simp]:
  "gr_members (fold set_quickmatch_cond cs r) = gr_members r"
  "gr_communication_id (fold set_quickmatch_cond cs r) = gr_communication_id r"
  "gui_room_shape (fold set_quickmatch_cond cs r) = gui_room_shape r"
  "gr_quickmatch_room (fold set_quickmatch_cond cs r) = gr_quickmatch_room r"
  by (induction cs arbitrary: r) (simp_all, simp_all add: set_quickmatch_cond_def)

lemma new_gui_room:
  "gui_room_shape (GuiRoom_from_protobuf pb c)" "gr_members (GuiRoom_from_protobuf pb c) = []"
  "gr_communication_id (GuiRoom_from_protobuf pb c) = c"
  by (simp_all add: GuiRoom_from_protobuf_def Let_def) (simp add: gui_room_shape_def min_def)

lemma new_quickmatch_room:
  "gui_room_shape (from_quickmatch_protobuf pb c)" "gr_members (from_quickmatch_protobuf pb c) = []"
  "gr_communication_id (from_quickmatch_protobuf pb c) = c" "gr_quickmatch_room (from_quickmatch_protobuf pb c)"
  by (simp_all add: from_quickmatch_protobuf_def Let_def) (simp add: gui_room_shape_def)

lemma add_member_simps [simp]:
  "gr_communication_id (add_member cinfo o1 r) = gr_communication_id r"
  "gr_total_slots (add_member cinfo o1 r) = gr_total_slots r"
  "gr_quickmatch_room (add_member cinfo o1 r) = gr_quickmatch_room r"
  "gui_room_shape (add_member cinfo o1 r) = gui_room_shape r"
  "member_ids (add_member cinfo o1 r) = insert (ci_user_id cinfo) (member_ids r)"
  by (simp_all add: add_member_def gui_room_shape_def member_ids_def)

lemma first_member_ok:
  assumes "gui_room_shape r" and "gr_members r = []"
  shows "gui_room_ok (add_member cinfo o1 r)"
proof -
  have "gr_total_slots r \<noteq> 0 \<Longrightarrow> Suc 0 \<le> unat (gr_total_slots r)" by (simp add: Suc_le_eq unat_gt_0)
  then show ?thesis
    using assms unfolding gui_room_ok_def slots_ok_def
    by (auto simp: add_member_def gui_room_shape_def bt_wf_def one_owner_def)
qed

lemma length_bt_insert_known: "k \<in> fst ` set xs \<Longrightarrow> bt_wf xs \<Longrightarrow> length (bt_insert k v xs) = length xs"
  by (induction k v xs rule: bt_insert.induct) (auto simp: bt_wf_def)

lemma add_member_ok:
  assumes ok: "gui_room_ok r"
    and room: "ci_user_id cinfo \<in> member_ids r \<or> gr_quickmatch_room r \<or> length (gr_members r) \<noteq> unat (gr_total_slots r)"
  shows "gui_room_ok (add_member cinfo False r)"
proof -
  have wf: "bt_wf (gr_members r)" using ok by (simp add: gui_room_ok_def)
  have "slots_ok (add_member cinfo False r)"
  proof (cases "ci_user_id cinfo \<in> member_ids r")
    case True
    with ok wf show ?thesis
      by (simp add: gui_room_ok_def slots_ok_def) (simp add: add_member_def member_ids_def length_bt_insert_known)
  next
    case False
    then have "length (gr_members (add_member cinfo False r)) = Suc (length (gr_members r))"
      by (simp add: add_member_def member_ids_def length_bt_insert_fresh)
    with ok room False show ?thesis by (auto simp: gui_room_ok_def slots_ok_def)
  qed
  moreover have "one_owner (gr_members (add_member cinfo False r))"
    using ok unfolding gui_room_ok_def one_owner_def
    by (auto simp: add_member_def GuiRoomMember_from_clientinfo_def split: if_splits)
  moreover have "gr_members (add_member cinfo False r) \<noteq> []"
    by (cases "gr_members r") (auto simp: add_member_def split: if_splits)
  ultimately show ?thesis
    using ok by (simp add: gui_room_ok_def) (simp add: add_member_def bt_insert_wf)
qed

section \<open>Joining\<close>

lemma add_member_to_room_state:
  "gm_rooms (snd (add_member_to_room i cinfo o1 r gm)) = (gm_rooms gm)(i \<mapsto> add_member cinfo o1 r)"
  "gm_user_rooms (snd (add_member_to_room i cinfo o1 r gm)) = entry_insert (ci_user_id cinfo) i (gm_user_rooms gm)"
  "gm_comid_rooms (snd (add_member_to_room i cinfo o1 r gm)) = gm_comid_rooms gm"
  "gm_cur_room_id (snd (add_member_to_room i cinfo o1 r gm)) = gm_cur_room_id gm"
  "fst (add_member_to_room i cinfo o1 r gm) =
    (if i \<in> user_set gm (ci_user_id cinfo) then Panic else Ok (add_member cinfo o1 r))"
  by (simp_all add: add_member_to_room_def Let_def user_set_def split: option.split)

text \<open>A player enters an existing room; also when the player is in it already, which panics.\<close>

lemma add_member_to_room_inv:
  assumes inv: "gui_inv gm" and r: "gm_rooms gm i = Some r"
    and room: "ci_user_id cinfo \<in> member_ids r \<or> gr_quickmatch_room r \<or> length (gr_members r) \<noteq> unat (gr_total_slots r)"
  shows "gui_inv (snd (add_member_to_room i cinfo False r gm))"
proof (rule gui_inv_put [OF inv add_member_ok [OF gui_inv_room [OF inv r] room]])
  let ?gm' = "snd (add_member_to_room i cinfo False r gm)"
  note st = add_member_to_room_state [of i cinfo False r gm]
  show "user_set ?gm' u = (if u \<in> member_ids (add_member cinfo False r) then insert i (user_set gm u) else user_set gm u - {i})" for u
    using gui_inv_user [OF inv, of i u] r by (auto simp: user_set_entry_insert [OF st(2)])
  have "game_set ?gm' c = game_set gm c" for c by (simp add: game_set_def st)
  then show "game_set ?gm' c = (if gr_communication_id (add_member cinfo False r) = c then insert i (game_set gm c)
      else game_set gm c - {i})" for c
    using gui_inv_game [OF inv, of i c] r by auto
qed (use gui_inv_number [OF inv r] add_member_to_room_state in \<open>simp_all\<close>)

text \<open>A new room with its first player.\<close>

lemma insert_first_inv:
  assumes inv: "gui_inv gm" and gen: "generate_room_id (gm_cur_room_id gm) c = (Ok i, cur)"
    and cnt: "gm_cur_room_id gm \<noteq> - 1"
    and r: "gui_room_shape r" "gr_members r = []" "gr_communication_id r = c"
  defines "gm1 \<equiv> insert_room c i r (gm\<lparr> gm_cur_room_id := cur \<rparr>)"
  shows "gm_rooms gm i = None" and "fst (add_member_to_room i cinfo True r gm1) = Ok (add_member cinfo True r)"
    and "gui_inv (snd (add_member_to_room i cinfo True r gm1))"
proof -
  have n: "number_of i (unat (gm_cur_room_id gm))" "cur = gm_cur_room_id gm + 1"
    using generate_room_id_cases [OF gen] by fastforce+
  have "1 + gm_cur_room_id gm \<noteq> 0" using cnt by (simp add: eq_neg_iff_add_eq_0 add.commute)
  from unatSuc [OF this] have cur: "unat cur = Suc (unat (gm_cur_room_id gm))" by (simp add: n(2) add.commute)
  show none: "gm_rooms gm i = None"
  proof (rule ccontr)
    assume "gm_rooms gm i \<noteq> None"
    then obtain m where m: "m < unat (gm_cur_room_id gm)" "number_of i m" using gui_inv_number [OF inv] by blast
    have "m < 2 ^ 64" "unat (gm_cur_room_id gm) < 2 ^ 64"
      using m(1) unat_lt64 [of "gm_cur_room_id gm"] by simp_all
    with number_of_inj [OF m(2) n(1)] m(1) show False by simp
  qed
  have u1: "user_set gm1 u = user_set gm u" for u by (simp add: user_set_def gm1_def insert_room_def)
  have fresh: "i \<notin> user_set gm u" "i \<notin> game_set gm d" for u d
    using none gui_inv_user [OF inv] gui_inv_game [OF inv] by simp_all
  show "fst (add_member_to_room i cinfo True r gm1) = Ok (add_member cinfo True r)"
    by (simp add: add_member_to_room_state u1 fresh)
  have empty: "member_ids r = {}" by (simp add: member_ids_def r(2))
  let ?gm' = "snd (add_member_to_room i cinfo True r gm1)"
  note st = add_member_to_room_state [of i cinfo True r gm1]
  show "gui_inv ?gm'"
  proof (rule gui_inv_put [OF inv first_member_ok [OF r(1,2)]])
    show "gm_rooms ?gm' = (gm_rooms gm)(i \<mapsto> add_member cinfo True r)"
      unfolding st by (simp add: gm1_def insert_room_def)
    show "gm_cur_room_id gm \<le> gm_cur_room_id ?gm'" "\<exists>n < unat (gm_cur_room_id ?gm'). number_of i n"
      unfolding st using n(1) cur by (auto simp: gm1_def insert_room_def word_le_nat_alt)
    show "user_set ?gm' u = (if u \<in> member_ids (add_member cinfo True r) then insert i (user_set gm u) else user_set gm u - {i})" for u
      using fresh empty by (auto simp: user_set_entry_insert [OF st(2)] u1)
    have "gm_comid_rooms ?gm' = entry_insert c i (gm_comid_rooms gm)"
      unfolding st by (simp add: gm1_def insert_room_def)
    from game_set_entry_insert [OF this] fresh
    show "game_set ?gm' d = (if gr_communication_id (add_member cinfo True r) = d then insert i (game_set gm d)
      else game_set gm d - {i})" for d
      by (auto simp: r(3))
  qed
qed

lemma find_gui_room_Some:
  "find_gui_room p rooms ids = Ok (Some (i, r)) \<Longrightarrow> i \<in> set ids \<and> rooms i = Some r \<and> p r"
  by (induction ids) (auto simp: unwrap_def split: option.splits if_splits)

text \<open>Changing a room without its members or its game.\<close>

lemma gui_inv_modify:
  assumes inv: "gui_inv gm" and r: "gm_rooms gm i = Some r" and "gui_room_ok r'"
    and same: "gr_members r' = gr_members r" "gr_communication_id r' = gr_communication_id r"
  shows "gui_inv (gm\<lparr> gm_rooms := (gm_rooms gm)(i \<mapsto> r') \<rparr>)"
proof (rule gui_inv_put [OF inv assms(3)])
  have "member_ids r' = member_ids r" by (simp add: member_ids_def same)
  then show "user_set (gm\<lparr> gm_rooms := (gm_rooms gm)(i \<mapsto> r') \<rparr>) u =
      (if u \<in> member_ids r' then insert i (user_set gm u) else user_set gm u - {i})" for u
    using gui_inv_user [OF inv, of i u] r by (auto simp: user_set_def)
  show "game_set (gm\<lparr> gm_rooms := (gm_rooms gm)(i \<mapsto> r') \<rparr>) c =
      (if gr_communication_id r' = c then insert i (game_set gm c) else game_set gm c - {i})" for c
    using gui_inv_game [OF inv, of i c] r same(2) by (auto simp: game_set_def)
qed (use gui_inv_number [OF inv r] in simp_all)


section \<open>Leaving\<close>

definition iter_ok :: "hash_iter \<Rightarrow> bool" where
  "iter_ok iter \<longleftrightarrow> (\<forall>ms. set (it_members iter ms) = set ms \<and> length (it_members iter ms) = length ms) \<and>
    (\<forall>s. finite s \<longrightarrow> set (it_rooms iter s) = s)"

definition without_room :: "GuiRoomId \<Rightarrow> i64 set \<Rightarrow> (i64 \<rightharpoonup> GuiRoomId set) \<Rightarrow> (i64 \<rightharpoonup> GuiRoomId set)" where
  "without_room i us m = (\<lambda>u. if u \<in> us then map_option (\<lambda>s. s - {i}) (m u) else m u)"

lemma forget_user_ok:
  assumes "gm_user_rooms gm u \<noteq> None"
  shows "forget_user i u gm = (Ok (), gm\<lparr> gm_user_rooms := without_room i {u} (gm_user_rooms gm) \<rparr>)"
proof -
  obtain s where s: "gm_user_rooms gm u = Some s" using assms by blast
  then have "(gm_user_rooms gm)(u \<mapsto> s - {i}) = without_room i {u} (gm_user_rooms gm)"
    by (auto simp: without_room_def)
  with s show ?thesis by (simp add: forget_user_def)
qed

lemma without_room_Un: "without_room i us (without_room i {u} m) = without_room i (insert u us) m"
  by (auto simp: without_room_def fun_eq_iff option.map_comp o_def)

lemma forget_users_ok:
  assumes "\<And>u. u \<in> set us \<Longrightarrow> gm_user_rooms gm u \<noteq> None"
  shows "fold_st (forget_user i) us gm = (Ok (), gm\<lparr> gm_user_rooms := without_room i (set us) (gm_user_rooms gm) \<rparr>)"
  using assms
proof (induction us arbitrary: gm)
  case Nil
  then show ?case by (simp add: without_room_def)
next
  case (Cons u us)
  let ?gm = "gm\<lparr> gm_user_rooms := without_room i {u} (gm_user_rooms gm) \<rparr>"
  have "gm_user_rooms ?gm v \<noteq> None" if "v \<in> set us" for v
    using Cons.prems [of v] that by (auto simp: without_room_def)
  from Cons.IH [OF this] Cons.prems [of u] show ?case by (simp add: forget_user_ok without_room_Un)
qed

lemma user_set_without_room: "gm_user_rooms gm' = without_room i us (gm_user_rooms gm) \<Longrightarrow>
    user_set gm' u = (if u \<in> us then user_set gm u - {i} else user_set gm u)"
  by (auto simp: user_set_def without_room_def split: option.splits)

lemma drop_gui_room_ok:
  assumes "i \<in> game_set gm c" and "gm_rooms gm i \<noteq> None"
  shows "fst (drop_gui_room c i gm) = Ok ()"
    and "gm_rooms (snd (drop_gui_room c i gm)) = (gm_rooms gm)(i := None)"
    and "gm_user_rooms (snd (drop_gui_room c i gm)) = gm_user_rooms gm"
    and "gm_cur_room_id (snd (drop_gui_room c i gm)) = gm_cur_room_id gm"
    and "game_set (snd (drop_gui_room c i gm)) d = (if d = c then game_set gm d - {i} else game_set gm d)"
  using assms by (auto simp: drop_gui_room_def game_set_def Let_def split: option.splits)

text \<open>The members without one of them, and with a new owner.\<close>

lemma one_owner_remove: "one_owner ms \<Longrightarrow> one_owner (bt_remove u ms)"
  by (auto simp: one_owner_def split: if_splits)

lemma one_owner_handed_over:
  assumes "one_owner ms" and "bt_get ms u = Some m" and "gm_owner m"
  shows "one_owner (bt_modify v (\<lambda>m. m\<lparr> gm_owner := True \<rparr>) (bt_remove u ms))"
    and "bt_get (bt_remove u ms) w = Some m' \<Longrightarrow> \<not> gm_owner m'"
  using assms unfolding one_owner_def by (auto simp: bt_get_modify split: if_splits)

lemma bt_modify_Nil [simp]: "bt_modify k f xs = [] \<longleftrightarrow> xs = []"
  by (simp add: bt_modify_def)

definition left_room :: "i64 \<Rightarrow> GuiRoom \<Rightarrow> GuiRoom" where
  "left_room u r = r\<lparr> gr_members := bt_remove u (gr_members r) \<rparr>"

lemma left_room_simps [simp]:
  "gr_members (left_room u r) = bt_remove u (gr_members r)" "member_ids (left_room u r) = member_ids r - {u}"
  "gr_communication_id (left_room u r) = gr_communication_id r" "gr_privilege_grant (left_room u r) = gr_privilege_grant r"
  by (auto simp: left_room_def member_ids_def)

lemma left_room_ok:
  assumes "gui_room_ok r" and "member_ids r \<noteq> {u}"
  shows "gui_room_ok (left_room u r)"
proof -
  have "bt_remove u (gr_members r) \<noteq> []"
  proof
    assume "bt_remove u (gr_members r) = []"
    then have "member_ids r - {u} = {}" by (metis left_room_simps(1,2) member_ids_def list.set(1) image_empty)
    moreover have "member_ids r \<noteq> {}" using assms(1) by (simp add: gui_room_ok_def member_ids_def)
    ultimately show False using assms(2) by auto
  qed
  moreover have "length (bt_remove u (gr_members r)) \<le> length (gr_members r)" by (simp add: bt_remove_def)
  ultimately show ?thesis using assms(1)
    by (auto simp: gui_room_ok_def left_room_def slots_ok_def gui_room_shape_def bt_remove_wf one_owner_remove)
qed

definition promote :: "i64 \<Rightarrow> GuiRoom \<Rightarrow> GuiRoom" where
  "promote v r = r\<lparr> gr_members := bt_modify v (\<lambda>m. m\<lparr> gm_owner := True \<rparr>) (gr_members r) \<rparr>"

lemma promote_ok:
  assumes "gui_room_ok r" and "one_owner (gr_members (promote v r))"
  shows "gui_room_ok (promote v r)"
  using assms by (simp add: gui_room_ok_def promote_def slots_ok_def gui_room_shape_def)

lemma member_ids_promote [simp]: "member_ids (promote v r) = member_ids r"
proof -
  have "set (bt_keys (gr_members (promote v r))) = set (bt_keys (gr_members r))" by (simp add: promote_def)
  then show ?thesis by (simp add: member_ids_def)
qed


text \<open>The manager once a member is gone from the user index and the room is written back or removed.\<close>

lemma left_inv:
  assumes inv: "gui_inv gm" and r: "gm_rooms gm i = Some r" and ok: "gui_room_ok r'"
    and ids: "member_ids r' = member_ids r - {u}" and com: "gr_communication_id r' = gr_communication_id r"
    and gm': "gm_rooms gm' = (gm_rooms gm)(i \<mapsto> r')" "gm_cur_room_id gm' = gm_cur_room_id gm"
      "gm_user_rooms gm' = without_room i {u} (gm_user_rooms gm)" "gm_comid_rooms gm' = gm_comid_rooms gm"
  shows "gui_inv gm'"
proof (rule gui_inv_put [OF inv ok gm'(1)])
  show "user_set gm' v = (if v \<in> member_ids r' then insert i (user_set gm v) else user_set gm v - {i})" for v
    using gui_inv_user [OF inv, of i v] r by (auto simp: user_set_without_room [OF gm'(3)] ids)
  have "game_set gm' c = game_set gm c" for c by (simp add: game_set_def gm'(4))
  then show "game_set gm' c = (if gr_communication_id r' = c then insert i (game_set gm c) else game_set gm c - {i})" for c
    using gui_inv_game [OF inv, of i c] r com by auto
qed (use gui_inv_number [OF inv r] gm'(2) in simp_all)

lemma dropped_inv:
  assumes inv: "gui_inv gm" and r: "gm_rooms gm i = Some r" and us: "member_ids r \<subseteq> us"
    and gm1: "gm_rooms gm1 = (gm_rooms gm)(i \<mapsto> r1)" "gm_cur_room_id gm1 = gm_cur_room_id gm"
      "gm_user_rooms gm1 = without_room i us (gm_user_rooms gm)" "gm_comid_rooms gm1 = gm_comid_rooms gm"
  shows "fst (drop_gui_room (gr_communication_id r) i gm1) = Ok ()"
    and "gm_rooms (snd (drop_gui_room (gr_communication_id r) i gm1)) = (gm_rooms gm)(i := None)"
    and "gui_inv (snd (drop_gui_room (gr_communication_id r) i gm1))"
proof -
  have g: "game_set gm1 c = game_set gm c" for c by (simp add: game_set_def gm1(4))
  have in_game: "i \<in> game_set gm1 (gr_communication_id r)" using gui_inv_game [OF inv] r by (simp add: g)
  note dr = drop_gui_room_ok [OF in_game, unfolded gm1(1), simplified]
  show "fst (drop_gui_room (gr_communication_id r) i gm1) = Ok ()" by (rule dr(1))
  show rooms: "gm_rooms (snd (drop_gui_room (gr_communication_id r) i gm1)) = (gm_rooms gm)(i := None)" by (rule dr(2))
  show "gui_inv (snd (drop_gui_room (gr_communication_id r) i gm1))"
  proof (rule gui_inv_remove [OF inv rooms])
    show "user_set (snd (drop_gui_room (gr_communication_id r) i gm1)) v = user_set gm v - {i}" for v
      using gui_inv_user [OF inv, of i v] r us by (auto simp: user_set_without_room [OF trans [OF dr(3) gm1(3)]])
    show "game_set (snd (drop_gui_room (gr_communication_id r) i gm1)) c = game_set gm c - {i}" for c
      using gui_inv_game [OF inv, of i c] r by (auto simp: dr(5) g)
  qed (simp add: dr(4) gm1(2))
qed

lemma leave_room_gui_ok:
  assumes inv: "gui_inv gm" and r: "gm_rooms gm i = Some r" and m: "bt_get (gr_members r) (ci_user_id cinfo) = Some m"
    and iter: "iter_ok iter" and rnd: "\<forall>n > 0. rnd n < n"
  defines "u \<equiv> ci_user_id cinfo"
  shows "\<exists>reply notifs gm' v. leave_room_gui codec iter rnd gm i cinfo = (Ok (reply, member_ids r - {u}, notifs), gm') \<and>
    gui_inv gm' \<and>
    (if member_ids r = {u} \<or> gm_owner m \<and> \<not> gr_privilege_grant r then gm_rooms gm' = (gm_rooms gm)(i := None)
     else if gm_owner m then v \<in> member_ids r - {u} \<and> gm_rooms gm' = (gm_rooms gm)(i \<mapsto> promote v (left_room u r))
     else gm_rooms gm' = (gm_rooms gm)(i \<mapsto> left_room u r))"
proof -
  let ?r1 = "left_room u r"
  define gm2 where "gm2 = gm\<lparr> gm_rooms := (gm_rooms gm)(i \<mapsto> ?r1), gm_user_rooms := without_room i {u} (gm_user_rooms gm) \<rparr>"
  have gm2: "gm_rooms gm2 = (gm_rooms gm)(i \<mapsto> ?r1)" "gm_cur_room_id gm2 = gm_cur_room_id gm"
    "gm_user_rooms gm2 = without_room i {u} (gm_user_rooms gm)" "gm_comid_rooms gm2 = gm_comid_rooms gm"
    by (simp_all add: gm2_def)
  have ok: "gui_room_ok r" by (rule gui_inv_room [OF inv r])
  have u: "u \<in> member_ids r" using m by (simp add: member_ids_get u_def)
  have known: "gm_user_rooms gm v \<noteq> None" if "v \<in> member_ids r" for v
    using gui_inv_user [OF inv, of i v] r that by (auto simp: user_set_def split: option.splits)
  have forget: "forget_user i u (gm\<lparr> gm_rooms := (gm_rooms gm)(i \<mapsto> ?r1) \<rparr>) = (Ok (), gm2)"
    using known [OF u] by (simp add: forget_user_ok gm2_def)
  have Nil: "bt_remove u (gr_members r) = [] \<longleftrightarrow> member_ids r = {u}"
  proof -
    have "bt_remove u (gr_members r) = [] \<longleftrightarrow> member_ids ?r1 = {}"
      by (simp only: member_ids_def left_room_simps(1) image_is_empty set_empty)
    with u show ?thesis by auto
  qed
  have m': "bt_get (gr_members r) u = Some m" using m by (simp add: u_def)
  note start = leave_room_gui_def r m' forget u_def [symmetric] left_room_def [symmetric] Nil
  consider (last) "member_ids r = {u}" | (closed) "member_ids r \<noteq> {u}" "gm_owner m" "\<not> gr_privilege_grant r"
    | (handed) "member_ids r \<noteq> {u}" "gm_owner m" "gr_privilege_grant r" | (stays) "member_ids r \<noteq> {u}" "\<not> gm_owner m" by blast
  then show ?thesis
  proof cases
    case last
    have "member_ids r \<subseteq> {u}" using last by simp
    note dr = dropped_inv [OF inv r this, of gm2 ?r1, OF gm2]
    obtain gm3 where "drop_gui_room (gr_communication_id r) i gm2 = (Ok (), gm3)" by (metis dr(1) prod.collapse)
    with dr(2,3) last show ?thesis by (simp add: start Let_def)
  next
    case closed
    define gm3 where "gm3 = gm2\<lparr> gm_user_rooms := without_room i (member_ids r) (gm_user_rooms gm) \<rparr>"
    have keys: "set (bt_keys (it_members iter (bt_remove u (gr_members r)))) = member_ids r - {u}"
      using iter by (auto simp: iter_ok_def member_ids_def)
    then have "fold_st (forget_user i) (bt_keys (it_members iter (bt_remove u (gr_members r)))) gm2 = (Ok (), gm3)"
      using known u by (subst forget_users_ok)
        (auto simp: gm2_def gm3_def without_room_Un insert_absorb, auto simp: without_room_def)
    moreover
    note dr = dropped_inv [OF inv r order_refl, of gm3 ?r1]
    have dr: "fst (drop_gui_room (gr_communication_id r) i gm3) = Ok ()"
      "gm_rooms (snd (drop_gui_room (gr_communication_id r) i gm3)) = (gm_rooms gm)(i := None)"
      "gui_inv (snd (drop_gui_room (gr_communication_id r) i gm3))"
      by (rule dr; simp add: gm3_def gm2_def)+
    moreover obtain gm4 where "drop_gui_room (gr_communication_id r) i gm3 = (Ok (), gm4)" by (metis dr(1) prod.collapse)
    ultimately show ?thesis using closed by (simp add: start Let_def)
  next
    case handed
    let ?n = "rnd (length (bt_remove u (gr_members r)))"
    have "?n < length (it_members iter (bt_remove u (gr_members r)))"
      using rnd iter handed(1) Nil by (simp add: iter_ok_def)
    moreover obtain v m' where v: "it_members iter (bt_remove u (gr_members r)) ! ?n = (v, m')" by fastforce
    ultimately have "(v, m') \<in> set (bt_remove u (gr_members r))" using iter by (metis iter_ok_def nth_mem)
    then have "v \<in> member_ids r - {u}" by (force simp: member_ids_def)
    moreover
    have "gui_room_ok (promote v ?r1)"
      using ok m handed(2) by (intro promote_ok left_room_ok [OF ok handed(1)])
        (simp add: promote_def gui_room_ok_def u_def one_owner_handed_over)
    then have "gui_inv (gm2\<lparr> gm_rooms := (gm_rooms gm2)(i \<mapsto> promote v ?r1) \<rparr>)"
      by (rule left_inv [OF inv r]) (simp_all add: gm2_def, simp add: promote_def)
    ultimately show ?thesis
      using handed v \<open>?n < _\<close> by (simp add: start Let_def index_res_def promote_def gm2(1)) blast
  next
    case stays
    have "gui_inv gm2" by (rule left_inv [OF inv r left_room_ok [OF ok stays(1)]]) (simp_all add: gm2_def)
    with stays show ?thesis by (simp add: start Let_def) (simp add: gm2_def)
  qed
qed

end
