(* ===== verification/Gui_Properties.thy ===== *)
theory Gui_Properties
  imports Gui_Inv "HOL-Library.List_Lexorder"
begin

text \<open>
  The properties of the older matching interface: the invariant of every state its operations can reach,
  what leaving a room does, and cases in which the code does not do what a player would expect.
\<close>

section \<open>Every operation keeps the invariant\<close>

lemma GuiRoomManager_new_inv: "gui_inv GuiRoomManager_new"
  by (simp add: gui_inv_def GuiRoomManager_new_def user_set_def game_set_def)

text \<open>What holds after a new room has its first member, and after a player entered an existing one.\<close>

lemma new_room_keeps:
  assumes inv: "gui_inv gm" and cnt: "gm_cur_room_id gm \<noteq> - 1"
    and r: "gui_room_shape r" "gr_members r = []" "gr_communication_id r = c"
    and panic: "\<And>gm'. gui_inv gm' \<Longrightarrow> P (Panic, gm')"
    and ok: "\<And>i gm'. gui_inv gm' \<Longrightarrow> gm_rooms gm' i = Some (add_member cinfo True r) \<Longrightarrow>
      P (f i (add_member cinfo True r) gm')"
  shows "P (bind_st (generate_room_id (gm_cur_room_id gm) c)
    (\<lambda>i cur. then_st (add_member_to_room i cinfo True r (insert_room c i r (gm\<lparr> gm_cur_room_id := cur \<rparr>))) (f i))
    (\<lambda>cur. gm\<lparr> gm_cur_room_id := cur \<rparr>))"
proof -
  obtain x cur where gen: "generate_room_id (gm_cur_room_id gm) c = (x, cur)" by fastforce
  then show ?thesis
  proof (cases rule: generate_room_id_cases)
    case (fresh i)
    let ?m = "add_member_to_room i cinfo True r (insert_room c i r (gm\<lparr> gm_cur_room_id := cur \<rparr>))"
    note first = insert_first_inv [OF inv gen [unfolded fresh(1)] cnt r]
    have m: "?m = (Ok (add_member cinfo True r), snd ?m)" by (rule prod_eqI) (simp_all add: first(2))
    have "gm_rooms (snd ?m) i = Some (add_member cinfo True r)" by (simp add: add_member_to_room_state)
    from ok [OF first(3) this] have "P (then_st ?m (f i))" by (subst m) simp
    then show ?thesis by (simp add: gen fresh(1))
  qed (use panic [OF inv] gen in simp)
qed

lemma enter_keeps:
  assumes inv: "gui_inv gm" and r: "gm_rooms gm i = Some r"
    and room: "ci_user_id cinfo \<in> member_ids r \<or> gr_quickmatch_room r \<or> length (gr_members r) \<noteq> unat (gr_total_slots r)"
    and panic: "\<And>gm'. gui_inv gm' \<Longrightarrow> P (Panic, gm')"
    and ok: "\<And>gm'. gui_inv gm' \<Longrightarrow> gm_rooms gm' i = Some (add_member cinfo False r) \<Longrightarrow>
      P (f (add_member cinfo False r) gm')"
  shows "P (then_st (add_member_to_room i cinfo False r gm) f)"
proof -
  let ?m = "add_member_to_room i cinfo False r gm"
  have rooms: "gm_rooms (snd ?m) i = Some (add_member cinfo False r)" by (simp add: add_member_to_room_state)
  note inv' = add_member_to_room_inv [OF inv r room]
  show ?thesis
  proof (cases "i \<in> user_set gm (ci_user_id cinfo)")
    case True
    have "?m = (Panic, snd ?m)" by (rule prod_eqI) (simp_all add: add_member_to_room_state True)
    from panic [OF inv'] show ?thesis by (subst \<open>?m = _\<close>) simp
  next
    case False
    have "?m = (Ok (add_member cinfo False r), snd ?m)" by (rule prod_eqI) (simp_all add: add_member_to_room_state False)
    from ok [OF inv' rooms] show ?thesis by (subst \<open>?m = _\<close>) simp
  qed
qed

lemma create_room_gui_inv:
  assumes "gui_inv gm" and "gm_cur_room_id gm \<noteq> - 1"
  shows "gui_inv (snd (create_room_gui codec iter gm c req cinfo))"
  unfolding create_room_gui_def Let_def
  by (rule new_room_keeps [OF assms new_gui_room, where P = "\<lambda>p. gui_inv (snd p)"]) simp_all

lemma game_rooms_exist:
  assumes "gui_inv gm" and "iter_ok iter" and "i \<in> set (game_rooms iter gm c)"
  obtains r where "gm_rooms gm i = Some r" "gr_communication_id r = c"
proof -
  have "game_set gm c \<subseteq> dom (gm_rooms gm)" using gui_inv_game [OF assms(1)] by blast
  moreover have "finite (dom (gm_rooms gm))" using assms(1) by (simp add: gui_inv_def)
  ultimately have "finite (game_set gm c)" by (rule finite_subset)
  then have "i \<in> game_set gm c"
    using assms(2,3) by (auto simp: game_rooms_def game_set_def iter_ok_def split: option.splits)
  then show thesis using that gui_inv_game [OF assms(1)] by blast
qed

lemma find_gui_room_not_Panic:
  assumes "\<And>i. i \<in> set ids \<Longrightarrow> rooms i \<noteq> None"
  shows "\<exists>x. find_gui_room p rooms ids = Ok x"
  using assms
proof (induction ids)
  case (Cons i ids)
  then obtain r where "rooms i = Some r" by auto
  with Cons show ?case by simp
qed simp

lemma find_game_room:
  assumes "gui_inv gm" and "iter_ok iter"
  obtains (none) "find_gui_room p (gm_rooms gm) (game_rooms iter gm c) = Ok None"
  | (found) i r where "find_gui_room p (gm_rooms gm) (game_rooms iter gm c) = Ok (Some (i, r))" "gm_rooms gm i = Some r" "p r"
proof -
  obtain x where x: "find_gui_room p (gm_rooms gm) (game_rooms iter gm c) = Ok x"
    using find_gui_room_not_Panic [of "game_rooms iter gm c" "gm_rooms gm" p] game_rooms_exist [OF assms] by (metis option.distinct(1))
  show thesis
  proof (cases x)
    case (Some y)
    then have "find_gui_room p (gm_rooms gm) (game_rooms iter gm c) = Ok (Some (fst y, snd y))" using x by simp
    with find_gui_room_Some [OF this] show thesis using found by blast
  qed (use x none in simp)
qed

lemma quickmatch_room_ok:
  assumes inv: "gui_inv gm" and iter: "iter_ok iter" and cnt: "gm_cur_room_id gm \<noteq> - 1"
  shows "case quickmatch_room iter gm c req cinfo of
    (x, gm') \<Rightarrow> gui_inv gm' \<and> (\<forall>i r. x = Ok (i, r) \<longrightarrow> gm_rooms gm' i = Some r)"
  using inv iter
proof (cases rule: find_game_room [where p = "\<lambda>room. is_quickmatch room req" and c = c])
  case none
  show ?thesis unfolding quickmatch_room_def none Let_def
    by simp (rule new_room_keeps [OF inv cnt new_quickmatch_room(1-3)], simp_all)
next
  case (found i r)
  have "gr_quickmatch_room r" using found(3) by (simp add: is_quickmatch_def split: if_splits)
  then show ?thesis unfolding quickmatch_room_def found(1)
    by simp (rule enter_keeps [OF inv found(2)], simp_all)
qed

lemma quickmatch_gui_inv:
  assumes inv: "gui_inv gm" and iter: "iter_ok iter" and cnt: "gm_cur_room_id gm \<noteq> - 1"
  shows "gui_inv (snd (quickmatch_gui codec iter gm c req cinfo))"
  unfolding quickmatch_gui_def
proof (rule bind_st_keeps)
  show "gui_inv s" if "quickmatch_room iter gm c req cinfo = (x, s)" for x s
    using quickmatch_room_ok [OF assms, of c req cinfo] that by simp
  fix x s
  assume q: "quickmatch_room iter gm c req cinfo = (Ok x, s)"
  obtain i r where x: "x = (i, r)" by fastforce
  have s: "gui_inv s" "gm_rooms s i = Some r" using quickmatch_room_ok [OF assms, of c req cinfo] q x by simp_all
  have "gui_room_ok (r\<lparr> gr_stealth := True \<rparr>)"
    using gui_inv_room [OF s] by (simp add: gui_room_ok_def slots_ok_def gui_room_shape_def)
  from gui_inv_modify [OF s this] s(1)
  show "gui_inv (snd ((\<lambda>(room_id, room) gm. let (infos, gm1) = complete_quickmatch codec iter cinfo room_id room gm
      in (Ok (enc_MatchingGuiRoomId codec \<lparr> gi_id = room_id \<rparr>, infos), gm1)) x s))"
    by (simp add: x complete_quickmatch_def Let_def)
qed

lemma join_room_gui_inv:
  assumes "gui_inv gm"
  shows "gui_inv (snd (join_room_gui codec iter gm i cinfo))"
proof (cases "gm_rooms gm i")
  case (Some r)
  show ?thesis
  proof (cases "length (gr_members r) = unat (gr_total_slots r)")
    case False
    have keep: "gui_inv (snd (then_st (add_member_to_room i cinfo False r gm) (\<lambda>room1 gm1. (g room1, gm1))))" for g
      by (rule enter_keeps [OF assms Some, where P = "\<lambda>p. gui_inv (snd p)"]) (use False in simp_all)
    from Some assms show ?thesis by (simp add: join_room_gui_def keep)
  qed (use assms Some in \<open>simp add: join_room_gui_def\<close>)
qed (use assms in \<open>simp add: join_room_gui_def\<close>)

lemma search_join_gui_inv:
  assumes inv: "gui_inv gm" and iter: "iter_ok iter"
  shows "gui_inv (snd (search_join_gui codec iter gm c req cinfo))"
  using inv iter
proof (cases rule: find_game_room [where p = "\<lambda>room. gui_is_match room (sj_conds req) True" and c = c])
  case none
  with inv show ?thesis by (simp add: search_join_gui_def)
next
  case (found i r)
  have "length (gr_members r) \<noteq> unat (gr_total_slots r)" using found(3) by (auto simp: gui_is_match_def split: if_splits)
  then have keep: "gui_inv (snd (then_st (add_member_to_room i cinfo False r gm) (\<lambda>room1 gm1. (g room1, gm1))))" for g
    by (intro enter_keeps [OF inv found(2), where P = "\<lambda>p. gui_inv (snd p)"]) simp_all
  from found(1) show ?thesis by (simp add: search_join_gui_def keep)
qed

lemma ownership_room:
  "get_room_and_check_ownership gm i u = Ok r \<Longrightarrow> gm_rooms gm i = Some r"
  by (auto simp: get_room_and_check_ownership_def ok_or_def split: option.splits if_splits)

lemma set_search_flag_inv:
  assumes inv: "gui_inv gm"
  shows "gui_inv (snd (set_search_flag gm i stealth u))"
  unfolding set_search_flag_def
proof (rule bind_st_keeps)
  fix r s
  assume o: "(get_room_and_check_ownership gm i u, gm) = (Ok r, s)"
  then have r: "gm_rooms gm i = Some r" by (auto dest: ownership_room)
  have "gui_room_ok (r\<lparr> gr_stealth := stealth \<rparr>)"
    using gui_inv_room [OF inv r] by (simp add: gui_room_ok_def slots_ok_def gui_room_shape_def)
  from gui_inv_modify [OF inv r this] inv o
  show "gui_inv (snd (Ok (), if \<not> gr_quickmatch_room r then s\<lparr> gm_rooms := (gm_rooms s)(i \<mapsto> r\<lparr> gr_stealth := stealth \<rparr>) \<rparr> else s))"
    by simp
qed (use inv in simp)

lemma set_room_info_gui_inv:
  assumes inv: "gui_inv gm"
  shows "gui_inv (snd (set_room_info_gui gm i attrs u))"
  unfolding set_room_info_gui_def
proof (rule bind_st_keeps)
  fix r s
  assume o: "(get_room_and_check_ownership gm i u, gm) = (Ok r, s)"
  then have r: "gm_rooms gm i = Some r" by (auto dest: ownership_room)
  have "gui_room_ok (fold set_attr attrs r)" using gui_inv_room [OF inv r] by (simp add: gui_room_ok_def)
  from gui_inv_modify [OF inv r this] o
  show "gui_inv (snd (Ok (), s\<lparr> gm_rooms := (gm_rooms s)(i \<mapsto> fold set_attr attrs r) \<rparr>))" by simp
qed (use inv in simp)

lemma leave_room_gui_inv:
  assumes "gui_inv gm" and "iter_ok iter" and "\<forall>n > 0. rnd n < n"
  shows "gui_inv (snd (leave_room_gui codec iter rnd gm i cinfo))"
proof (cases "gm_rooms gm i")
  case (Some r)
  show ?thesis
  proof (cases "bt_get (gr_members r) (ci_user_id cinfo)")
    case (Some m)
    from leave_room_gui_ok [OF assms(1) \<open>gm_rooms gm i = Some r\<close> Some assms(2,3), of codec] show ?thesis by force
  qed (use assms(1) Some in \<open>simp add: leave_room_gui_def\<close>)
qed (use assms(1) in \<open>simp add: leave_room_gui_def\<close>)

section \<open>Reachable states\<close>

inductive gui_step :: "GuiRoomManager \<Rightarrow> GuiRoomManager \<Rightarrow> bool" where
  created: "gm_cur_room_id gm \<noteq> - 1 \<Longrightarrow> gui_step gm (snd (create_room_gui codec iter gm c req cinfo))"
| quickmatched: "gm_cur_room_id gm \<noteq> - 1 \<Longrightarrow> iter_ok iter \<Longrightarrow> gui_step gm (snd (quickmatch_gui codec iter gm c req_q cinfo))"
| joined: "gui_step gm (snd (join_room_gui codec iter gm i cinfo))"
| search_joined: "iter_ok iter \<Longrightarrow> gui_step gm (snd (search_join_gui codec iter gm c req_s cinfo))"
| left: "iter_ok iter \<Longrightarrow> \<forall>n > 0. rnd n < n \<Longrightarrow> gui_step gm (snd (leave_room_gui codec iter rnd gm i cinfo))"
| flagged: "gui_step gm (snd (set_search_flag gm i stealth u))"
| attributed: "gui_step gm (snd (set_room_info_gui gm i attrs u))"

lemmas gui_ops_inv = create_room_gui_inv quickmatch_gui_inv join_room_gui_inv search_join_gui_inv leave_room_gui_inv
  set_search_flag_inv set_room_info_gui_inv

interpretation guis: invariant_system GuiRoomManager_new gui_step gui_inv
proof unfold_locales
  show "gui_inv s'" if "gui_inv s" "gui_step s s'" for s s'
    using that(2,1) by (induction rule: gui_step.induct) (auto intro: gui_ops_inv)
qed (rule GuiRoomManager_new_inv)


text \<open>C34: in every state the operations can reach, each room has members and at most one owner, at most 64 slots,
  and, unless it was made by a quick match or without slots, no more members than slots; the sets of rooms by
  user and by game are exactly the rooms the user is in and the rooms of the game.\<close>

theorem gui_reachable_inv:
  assumes "reach gui_step GuiRoomManager_new gm"
  shows "(\<forall>i r. gm_rooms gm i = Some r \<longrightarrow> gr_members r \<noteq> [] \<and> one_owner (gr_members r) \<and> gr_total_slots r \<le> 64 \<and>
      (gr_quickmatch_room r \<or> gr_total_slots r = 0 \<or> length (gr_members r) \<le> unat (gr_total_slots r))) \<and>
    (\<forall>u i. (\<exists>s. gui_get_rooms_by_user gm u = Some s \<and> i \<in> s) \<longleftrightarrow> (\<exists>r. gm_rooms gm i = Some r \<and> u \<in> member_ids r)) \<and>
    (\<forall>c i. (\<exists>s. gm_comid_rooms gm c = Some s \<and> i \<in> s) \<longleftrightarrow> (\<exists>r. gm_rooms gm i = Some r \<and> gr_communication_id r = c))"
proof -
  note inv = guis.reach_inv [OF assms]
  have "(\<exists>s. gui_get_rooms_by_user gm u = Some s \<and> i \<in> s) \<longleftrightarrow> i \<in> user_set gm u" for u i
    by (simp add: gui_get_rooms_by_user_def user_set_def split: option.split)
  moreover have "(\<exists>s. gm_comid_rooms gm c = Some s \<and> i \<in> s) \<longleftrightarrow> i \<in> game_set gm c" for c i
    by (simp add: game_set_def split: option.split)
  ultimately show ?thesis
    using gui_inv_room [OF inv] gui_inv_user [OF inv] gui_inv_game [OF inv]
    by (auto simp: gui_room_ok_def gui_room_shape_def slots_ok_def)
qed

text \<open>
  Example: a game, players, hash maps that iterate in key order, encoders that keep the room number, a room
  with an owner and one with a second member.
\<close>

definition ex_iter :: hash_iter where
  "ex_iter = \<lparr> it_members = \<lambda>ms. ms, it_rooms = sorted_list_of_set \<rparr>"

definition ex_codec :: gui_codec where
  "ex_codec = \<lparr> enc_MatchingRoomStatus = ms_id, enc_MatchingGuiRoomId = gi_id, enc_MatchingRoomList = \<lambda>_. [],
     enc_MatchingRoom = mr_id, enc_MatchingSearchJoinRoomInfo = \<lambda>_. [] \<rparr>"

definition ex_com :: ComId where
  "ex_com = [78, 80, 87, 82, 48, 48, 48, 48, 49, 95, 48, 48]"

definition ex_client :: "i64 \<Rightarrow> ClientInfo" where
  "ex_client u = \<lparr> ci_user_id = u, ci_npid = ''p'', ci_online_name = ''p'', ci_avatar_url = [], ci_token = [],
     ci_admin = False, ci_stat_agent = False, ci_banned = False \<rparr>"

lemma ex_client_id [simp]: "ci_user_id (ex_client u) = u"
  by (simp add: ex_client_def)

definition ex_room_id :: GuiRoomId where
  "ex_room_id = ex_com @ replicate 15 48 @ [49]"

definition ex_create :: CreateRoomGuiRequest where
  "ex_create = \<lparr> cg_total_slots = 2, cg_private_slots = 0, cg_privilege_grant = True, cg_stealth = False, cg_game_attrs = [] \<rparr>"

definition ex_one :: GuiRoomManager where
  "ex_one = snd (create_room_gui ex_codec ex_iter GuiRoomManager_new ex_com ex_create (ex_client 7))"

definition ex_two :: GuiRoomManager where
  "ex_two = snd (join_room_gui ex_codec ex_iter ex_one ex_room_id (ex_client 8))"

lemma ex_iter_ok: "iter_ok ex_iter"
  by (simp add: iter_ok_def ex_iter_def)

lemma ex_one_reach: "reach gui_step GuiRoomManager_new ex_one"
  unfolding ex_one_def by (rule reach.more [OF reach.start]) (rule gui_step.created, code_simp)

lemma ex_two_reach: "reach gui_step GuiRoomManager_new ex_two"
  unfolding ex_two_def by (rule reach.more [OF ex_one_reach]) (rule gui_step.joined)

definition ex_room :: "i64 list \<Rightarrow> GuiRoom" where
  "ex_room us = (GuiRoom_from_protobuf ex_create ex_com)
    \<lparr> gr_members := map (\<lambda>u. (u, GuiRoomMember_from_clientinfo (ex_client u) (u = 7))) us \<rparr>"

lemma ex_gui_rooms: "gm_rooms ex_one ex_room_id = Some (ex_room [7])" "gm_rooms ex_two ex_room_id = Some (ex_room [7, 8])"
  by code_simp+

theorem gui_reachable_inv_witness:
  "gr_members (ex_room [7, 8]) \<noteq> [] \<and> one_owner (gr_members (ex_room [7, 8])) \<and> ex_room_id \<in> the (gui_get_rooms_by_user ex_two 8)"
proof -
  have "8 \<in> member_ids (ex_room [7, 8])" by code_simp
  with gui_reachable_inv [OF ex_two_reach] ex_gui_rooms(2) show ?thesis by (metis option.sel)
qed

section \<open>Leaving a room\<close>

lemma promote_sole_owner:
  assumes "\<And>w m'. bt_get ms w = Some m' \<Longrightarrow> \<not> gm_owner m'" and "bt_get ms v \<noteq> None"
  shows "\<exists>!w. \<exists>m'. bt_get (bt_modify v (\<lambda>m. m\<lparr> gm_owner := True \<rparr>) ms) w = Some m' \<and> gm_owner m'"
proof (rule ex1I [of _ v])
  show "\<exists>m'. bt_get (bt_modify v (\<lambda>m. m\<lparr> gm_owner := True \<rparr>) ms) v = Some m' \<and> gm_owner m'"
    using assms(2) by (auto simp: bt_get_modify)
  fix w
  assume "\<exists>m'. bt_get (bt_modify v (\<lambda>m. m\<lparr> gm_owner := True \<rparr>) ms) w = Some m' \<and> gm_owner m'"
  then show "w = v" using assms(1) [of w] by (auto simp: bt_get_modify split: if_splits)
qed

text \<open>C35: a member can always leave: the request never fails or panics.  The remaining members are the ones notified;
  the room is gone exactly when nobody remains or its owner left a room that does not hand over ownership;
  otherwise it keeps the other members, and when the owner left, exactly one of them is the new owner.
  No other room changes.\<close>

theorem leave_room_gui_spec:
  assumes "reach gui_step GuiRoomManager_new gm" and "gm_rooms gm i = Some r"
    and "bt_get (gr_members r) (ci_user_id cinfo) = Some m" and "iter_ok iter" and "\<forall>n > 0. rnd n < n"
  shows "\<exists>reply notifs gm'. leave_room_gui codec iter rnd gm i cinfo =
      (Ok (reply, member_ids r - {ci_user_id cinfo}, notifs), gm') \<and>
    (\<forall>j. j \<noteq> i \<longrightarrow> gm_rooms gm' j = gm_rooms gm j) \<and>
    (gm_rooms gm' i = None \<longleftrightarrow> member_ids r = {ci_user_id cinfo} \<or> gm_owner m \<and> \<not> gr_privilege_grant r) \<and>
    (\<forall>r'. gm_rooms gm' i = Some r' \<longrightarrow> member_ids r' = member_ids r - {ci_user_id cinfo} \<and>
      (gm_owner m \<longrightarrow> (\<exists>!v. \<exists>m'. bt_get (gr_members r') v = Some m' \<and> gm_owner m')))"
proof -
  let ?u = "ci_user_id cinfo"
  note inv = guis.reach_inv [OF assms(1)]
  from leave_room_gui_ok [OF inv assms(2-5), of codec] obtain reply notifs gm' v where
    l: "leave_room_gui codec iter rnd gm i cinfo = (Ok (reply, member_ids r - {?u}, notifs), gm')"
    and g: "if member_ids r = {?u} \<or> gm_owner m \<and> \<not> gr_privilege_grant r then gm_rooms gm' = (gm_rooms gm)(i := None)
      else if gm_owner m then v \<in> member_ids r - {?u} \<and> gm_rooms gm' = (gm_rooms gm)(i \<mapsto> promote v (left_room ?u r))
      else gm_rooms gm' = (gm_rooms gm)(i \<mapsto> left_room ?u r)"
    by blast
  have "one_owner (gr_members r)" using gui_inv_room [OF inv assms(2)] by (simp add: gui_room_ok_def)
  note hand = one_owner_handed_over [OF this assms(3)]
  have "\<exists>!w. \<exists>m'. bt_get (gr_members (promote v (left_room ?u r))) w = Some m' \<and> gm_owner m'"
    if "gm_owner m" "v \<in> member_ids r - {?u}"
    using promote_sole_owner [of "gr_members (left_room ?u r)" v] hand(2) [OF that(1)] that(2) member_ids_get [of v "left_room ?u r"]
    by (simp add: promote_def)
  with l g show ?thesis by (auto split: if_splits)
qed

theorem leave_room_gui_spec_witness:
  "\<exists>reply notifs gm'. leave_room_gui ex_codec ex_iter (\<lambda>_. 0) ex_two ex_room_id (ex_client 7) = (Ok (reply, {8}, notifs), gm') \<and>
    gm_rooms gm' ex_room_id \<noteq> None \<and>
    (\<forall>r'. gm_rooms gm' ex_room_id = Some r' \<longrightarrow> member_ids r' = {8} \<and>
      (\<exists>!v. \<exists>m'. bt_get (gr_members r') v = Some m' \<and> gm_owner m'))"
proof -
  let ?m = "GuiRoomMember_from_clientinfo (ex_client 7) True"
  have m: "bt_get (gr_members (ex_room [7, 8])) (ci_user_id (ex_client 7)) = Some ?m" "gm_owner ?m"
    "gr_privilege_grant (ex_room [7, 8])" by code_simp+
  have ids: "member_ids (ex_room [7, 8]) = {7, 8}" "ci_user_id (ex_client 7) = 7" by code_simp+
  have diff: "{7, 8} - {7} = {8 :: i64}" by auto
  from leave_room_gui_spec [OF ex_two_reach ex_gui_rooms(2) m(1) ex_iter_ok, of "\<lambda>_. 0" ex_codec] m(2,3)
  show ?thesis unfolding ids diff by auto
qed

section \<open>Attributes\<close>

lemma attr_index:
  assumes "1 \<le> (k :: u32)" and "k \<le> 16"
  shows "unat (k - 1) < 16" and "k = 1 \<or> k = 2 \<Longrightarrow> unat (k - 1) < 2" and "3 \<le> k \<Longrightarrow> unat (k - 3) < 14"
    and "k \<le> 2 \<longleftrightarrow> k = 1 \<or> k = 2" and "k \<noteq> 1 \<and> k \<noteq> 2 \<longleftrightarrow> 3 \<le> k"
proof -
  have u: "1 \<le> unat k" "unat k \<le> 16" using assms by (simp_all add: word_le_nat_alt)
  then show "unat (k - 1) < 16" "k = 1 \<or> k = 2 \<Longrightarrow> unat (k - 1) < 2"
    using assms(1) by (auto simp: unat_sub)
  show "unat (k - 3) < 14" if "3 \<le> k" using u that by (simp add: unat_sub)
  have "k = 1 \<longleftrightarrow> unat k = 1" "k = 2 \<longleftrightarrow> unat k = 2" "k \<le> 2 \<longleftrightarrow> unat k \<le> 2" "3 \<le> k \<longleftrightarrow> 3 \<le> unat k"
    by (simp_all add: word_le_nat_alt word_unat_eq_iff)
  with u show "k \<le> 2 \<longleftrightarrow> k = 1 \<or> k = 2" "k \<noteq> 1 \<and> k \<noteq> 2 \<longleftrightarrow> 3 \<le> k" by auto
qed

lemma update_other: "(k :: u32) \<noteq> j \<Longrightarrow> (xs[unat (j - d) := v]) ! unat (k - d) = xs ! unat (k - d)"
  by (rule nth_list_update_neq) (simp flip: word_unat_eq_iff)

text \<open>C36: an attribute the owner sets is the attribute a query returns: numbers as they are, binary data cut at
  the size of its array (256 bytes for the first two, 64 for the others); every other attribute is unchanged.\<close>

theorem gui_attr_round_trip:
  assumes "reach gui_step GuiRoomManager_new gm" and "gm_rooms gm i = Some r"
    and "1 \<le> ma_attr_id a" and "ma_attr_id a \<le> 16" and "ma_attr_type a \<in> {ATTR_TYPE_GAME_BIN, ATTR_TYPE_GAME_NUM}"
  shows "gen_MatchingAttr (set_attr a r) (ma_attr_type a) (ma_attr_id a) =
      Some (if ma_attr_type a = ATTR_TYPE_GAME_NUM then a\<lparr> ma_data := [] \<rparr>
            else a\<lparr> ma_num := 0, ma_data := take (if ma_attr_id a \<le> 2 then 256 else 64) (ma_data a) \<rparr>) \<and>
    (\<forall>t k. (t, k) \<noteq> (ma_attr_type a, ma_attr_id a) \<longrightarrow> gen_MatchingAttr (set_attr a r) t k = gen_MatchingAttr r t k)"
proof
  note idx = attr_index [OF assms(3,4)]
  have shape: "length (gr_num_attrs r) = 16" "length (gr_big_bin_attrs r) = 2" "length (gr_small_bin_attrs r) = 14"
    using gui_inv_room [OF guis.reach_inv [OF assms(1)] assms(2)] by (simp_all add: gui_room_ok_def gui_room_shape_def)
  have bin: "bin_gen_MatchingAttr (GuiRoomBinAttr_from_protobuf n a) (ma_attr_id a) =
      \<lparr> ma_attr_type = ATTR_TYPE_GAME_BIN, ma_attr_id = ma_attr_id a, ma_num = 0, ma_data = take n (ma_data a) \<rparr>" for n
    by (simp add: bin_gen_MatchingAttr_def GuiRoomBinAttr_from_protobuf_def Let_def min_def)
  show "gen_MatchingAttr (set_attr a r) (ma_attr_type a) (ma_attr_id a) =
      Some (if ma_attr_type a = ATTR_TYPE_GAME_NUM then a\<lparr> ma_data := [] \<rparr>
            else a\<lparr> ma_num := 0, ma_data := take (if ma_attr_id a \<le> 2 then 256 else 64) (ma_data a) \<rparr>)"
  proof (cases "ma_attr_type a = ATTR_TYPE_GAME_NUM")
    case True
    have "ma_attr_id a \<noteq> 0" "\<not> 16 < ma_attr_id a" using assms(3,4) by auto
    with True assms(3,4) idx(1) shape(1) show ?thesis
      by (simp add: gen_MatchingAttr_def set_attr_def Let_def)
  next
    case False
    then have t: "ma_attr_type a = ATTR_TYPE_GAME_BIN" using assms(5) by simp
    show ?thesis
    proof (cases "ma_attr_id a = 1 \<or> ma_attr_id a = 2")
      case True
      then have "ma_attr_id a \<le> 2" using idx(4) by blast
      with True t idx(2) shape(2) show ?thesis by (simp add: gen_MatchingAttr_def set_attr_def Let_def bin)
    next
      case False
      then have "3 \<le> ma_attr_id a" "\<not> ma_attr_id a \<le> 2" "ma_attr_id a \<noteq> 1" "ma_attr_id a \<noteq> 2" using idx(4,5) by blast+
      with t idx(3) shape(3) assms(4) show ?thesis by (simp add: gen_MatchingAttr_def set_attr_def Let_def bin)
    qed
  qed
  show "\<forall>t k. (t, k) \<noteq> (ma_attr_type a, ma_attr_id a) \<longrightarrow> gen_MatchingAttr (set_attr a r) t k = gen_MatchingAttr r t k"
  proof (intro allI impI)
    fix t k
    assume ne: "(t, k) \<noteq> (ma_attr_type a, ma_attr_id a)"
    have "t = 4 \<Longrightarrow> gr_num_attrs (set_attr a r) ! unat (k - 1) = gr_num_attrs r ! unat (k - 1)"
      "t = 3 \<Longrightarrow> gr_big_bin_attrs (set_attr a r) ! unat (k - 1) = gr_big_bin_attrs r ! unat (k - 1)"
      "t = 3 \<Longrightarrow> gr_small_bin_attrs (set_attr a r) ! unat (k - 3) = gr_small_bin_attrs r ! unat (k - 3)"
      using ne by (cases "k = ma_attr_id a"; simp add: set_attr_def Let_def update_other)+
    moreover have "basic_num_attr (set_attr a r) k = basic_num_attr r k"
      unfolding basic_num_attr_def set_attr_simps by (simp add: set_attr_def Let_def)
    ultimately show "gen_MatchingAttr (set_attr a r) t k = gen_MatchingAttr r t k"
      unfolding gen_MatchingAttr_def by (cases "t = 2"; cases "t = 3"; cases "t = 4"; simp only: if_True if_False)
  qed
qed

theorem gui_attr_round_trip_witness:
  "gen_MatchingAttr (set_attr \<lparr> ma_attr_type = 3, ma_attr_id = 3, ma_num = 0, ma_data = [1, 2] \<rparr> (ex_room [7, 8])) 3 3 =
     Some \<lparr> ma_attr_type = 3, ma_attr_id = 3, ma_num = 0, ma_data = [1, 2] \<rparr>"
  using gui_attr_round_trip [OF ex_two_reach ex_gui_rooms(2), of "\<lparr> ma_attr_type = 3, ma_attr_id = 3, ma_num = 0, ma_data = [1, 2] \<rparr>"]
  by simp

section \<open>Joining twice and joining too many\<close>

text \<open>C37: searching for a room to join while being a member of the room that is found panics.  The player's entry has
  been overwritten by then: the room has the same members, and if the player owned it, nobody owns it any more.\<close>

theorem search_join_own_room_panics:
  assumes "reach gui_step GuiRoomManager_new gm"
    and "find_gui_room (\<lambda>room. gui_is_match room (sj_conds req) True) (gm_rooms gm) (game_rooms iter gm c) = Ok (Some (i, r))"
    and "bt_get (gr_members r) (ci_user_id cinfo) = Some m"
  shows "fst (search_join_gui codec iter gm c req cinfo) = Panic \<and>
    (\<exists>r'. gm_rooms (snd (search_join_gui codec iter gm c req cinfo)) i = Some r' \<and> member_ids r' = member_ids r \<and>
      (gm_owner m \<longrightarrow> (\<forall>v m'. bt_get (gr_members r') v = Some m' \<longrightarrow> \<not> gm_owner m')))"
proof -
  note inv = guis.reach_inv [OF assms(1)]
  have r: "gm_rooms gm i = Some r" using find_gui_room_Some [OF assms(2)] by simp
  have u: "ci_user_id cinfo \<in> member_ids r" using assms(3) by (simp add: member_ids_get)
  then have "i \<in> user_set gm (ci_user_id cinfo)" using gui_inv_user [OF inv] r by blast
  then have "fst (add_member_to_room i cinfo False r gm) = Panic" by (simp add: add_member_to_room_state)
  then obtain gm1 where add: "add_member_to_room i cinfo False r gm = (Panic, gm1)" by (metis prod.collapse)
  have gm1: "gm_rooms gm1 i = Some (add_member cinfo False r)"
    using add_member_to_room_state(1) [of i cinfo False r gm] by (simp add: add)
  have res: "search_join_gui codec iter gm c req cinfo = (Panic, gm1)"
    by (simp add: search_join_gui_def assms(2) add)
  have own: "one_owner (gr_members r)" using gui_inv_room [OF inv r] by (simp add: gui_room_ok_def)
  have "\<not> gm_owner m'" if "gm_owner m" "bt_get (gr_members (add_member cinfo False r)) v = Some m'" for v m'
  proof (cases "v = ci_user_id cinfo")
    case True
    with that(2) show ?thesis by (auto simp: add_member_def GuiRoomMember_from_clientinfo_def)
  next
    case False
    with that own assms(3) show ?thesis unfolding one_owner_def by (auto simp: add_member_def)
  qed
  with gm1 u show ?thesis by (auto simp: res)
qed

theorem search_join_own_room_panics_witness:
  "fst (search_join_gui ex_codec ex_iter ex_one ex_com \<lparr> sj_conds = [], sj_attrs = [] \<rparr> (ex_client 7)) = Panic"
proof -
  have "find_gui_room (\<lambda>room. gui_is_match room (sj_conds \<lparr> sj_conds = [], sj_attrs = [] \<rparr>) True) (gm_rooms ex_one)
      (game_rooms ex_iter ex_one ex_com) = Ok (Some (ex_room_id, ex_room [7]))" by code_simp
  moreover have "bt_get (gr_members (ex_room [7])) (ci_user_id (ex_client 7)) =
      Some (GuiRoomMember_from_clientinfo (ex_client 7) True)" by code_simp
  ultimately show ?thesis
    using search_join_own_room_panics [OF ex_one_reach, of "\<lparr> sj_conds = [], sj_attrs = [] \<rparr>" ex_iter ex_com ex_room_id] by blast
qed

lemma find_gui_room_update:
  assumes "find_gui_room p rooms ids = Ok (Some (i, r))" and "p r'"
  shows "find_gui_room p (rooms(i \<mapsto> r')) ids = Ok (Some (i, r'))"
  using assms
proof (induction ids)
  case (Cons j ids)
  then show ?case by (cases "rooms j") (auto split: if_splits)
qed simp

lemma is_quickmatch_members [simp]: "is_quickmatch (add_member cinfo owner r) req = is_quickmatch r req"
proof -
  have "quickmatch_cond_holds (add_member cinfo owner r) = quickmatch_cond_holds r"
    by (simp add: fun_eq_iff quickmatch_cond_holds_def add_member_def)
  then show ?thesis by (simp add: is_quickmatch_def) (simp add: add_member_def)
qed

text \<open>A quick match that finds a full room puts its player into it.\<close>

lemma quickmatch_full_room:
  assumes "reach gui_step GuiRoomManager_new gm"
    and "find_gui_room (\<lambda>room. is_quickmatch room req) (gm_rooms gm) (game_rooms iter gm c) = Ok (Some (i, r))"
    and "length (gr_members r) = unat (gr_total_slots r)" and "ci_user_id cinfo \<notin> member_ids r"
  shows "\<exists>reply gm' r'. quickmatch_gui codec iter gm c req cinfo = (Ok (reply, None), gm') \<and> gm_rooms gm' i = Some r' \<and>
    length (gr_members r') = Suc (unat (gr_total_slots r'))"
proof -
  note inv = guis.reach_inv [OF assms(1)]
  have r: "gm_rooms gm i = Some r" using find_gui_room_Some [OF assms(2)] by simp
  have "i \<notin> user_set gm (ci_user_id cinfo)" using gui_inv_user [OF inv] r assms(4) by simp
  then have "fst (add_member_to_room i cinfo False r gm) = Ok (add_member cinfo False r)" by (simp add: add_member_to_room_state)
  then obtain gm1 where add: "add_member_to_room i cinfo False r gm = (Ok (add_member cinfo False r), gm1)" by (metis prod.collapse)
  have gm1: "gm_rooms gm1 i = Some (add_member cinfo False r)"
    using add_member_to_room_state(1) [of i cinfo False r gm] by (simp add: add)
  have len: "length (gr_members (add_member cinfo False r)) = Suc (unat (gr_total_slots r))"
    using assms(3,4) by (simp add: add_member_def member_ids_def length_bt_insert_fresh)
  then show ?thesis
    by (simp add: quickmatch_gui_def quickmatch_room_def assms(2) add complete_quickmatch_def gm1)
qed

text \<open>C38: take a quick match room with one place left that a quick match would find, and let a player join it by its number.  The
  join succeeds and completes the room but does not hide it; the same quick match, made by a third player, then finds the full
  room and puts one player more into it than it has slots.\<close>

theorem quickmatch_overfills:
  assumes "reach gui_step GuiRoomManager_new gm"
    and "find_gui_room (\<lambda>room. is_quickmatch room req) (gm_rooms gm) (game_rooms iter gm c) = Ok (Some (i, r))"
    and "Suc (length (gr_members r)) = unat (gr_total_slots r)"
    and "ci_user_id joiner \<notin> member_ids r" and "ci_user_id third \<notin> insert (ci_user_id joiner) (member_ids r)"
  shows "\<exists>reply1 gm1 r1 reply2 gm2 r2. join_room_gui codec iter gm i joiner = (Ok reply1, gm1) \<and> gm_rooms gm1 i = Some r1 \<and>
    length (gr_members r1) = unat (gr_total_slots r1) \<and>
    quickmatch_gui codec iter gm1 c req third = (Ok (reply2, None), gm2) \<and> gm_rooms gm2 i = Some r2 \<and>
    length (gr_members r2) = Suc (unat (gr_total_slots r2))"
proof -
  note inv = guis.reach_inv [OF assms(1)]
  have r: "gm_rooms gm i = Some r" using find_gui_room_Some [OF assms(2)] by simp
  define r1 where "r1 = add_member joiner False r"
  have "i \<notin> user_set gm (ci_user_id joiner)" using gui_inv_user [OF inv] r assms(4) by simp
  then have "fst (add_member_to_room i joiner False r gm) = Ok r1" by (simp add: add_member_to_room_state r1_def)
  then obtain gm1 where add: "add_member_to_room i joiner False r gm = (Ok r1, gm1)" by (metis prod.collapse)
  have "length (gr_members r) \<noteq> unat (gr_total_slots r)" using assms(3) by simp
  moreover have "bt_get (gr_members r) (ci_user_id joiner) = None" using assms(4) by (simp add: member_ids_get)
  ultimately obtain reply1 where join: "join_room_gui codec iter gm i joiner = (Ok reply1, gm1)"
    using r add by (simp add: join_room_gui_def)
  have gm1: "gm_rooms gm1 = (gm_rooms gm)(i \<mapsto> r1)" "game_rooms iter gm1 c = game_rooms iter gm c"
    using add by (auto simp: add_member_to_room_def game_rooms_def r1_def Let_def split: if_splits)
  have full: "length (gr_members r1) = unat (gr_total_slots r1)"
    using assms(3,4) by (simp add: r1_def add_member_def member_ids_def length_bt_insert_fresh)
  have "is_quickmatch r req" using find_gui_room_Some [OF assms(2)] by simp
  then have found: "find_gui_room (\<lambda>room. is_quickmatch room req) (gm_rooms gm1) (game_rooms iter gm1 c) = Ok (Some (i, r1))"
    unfolding gm1 by (intro find_gui_room_update [OF assms(2)]) (simp add: r1_def)
  have "reach gui_step GuiRoomManager_new gm1"
    using reach.more [OF assms(1) gui_step.joined [of gm codec iter i joiner]] by (simp add: join)
  moreover have "ci_user_id third \<notin> member_ids r1" using assms(5) by (simp add: r1_def)
  ultimately obtain reply2 gm2 r2 where "quickmatch_gui codec iter gm1 c req third = (Ok (reply2, None), gm2)"
    "gm_rooms gm2 i = Some r2" "length (gr_members r2) = Suc (unat (gr_total_slots r2))"
    using quickmatch_full_room [OF _ found full] by blast
  moreover have "gm_rooms gm1 i = Some r1" by (simp add: gm1(1))
  ultimately show ?thesis using join full by blast
qed

definition ex_quick :: QuickMatchGuiRequest where
  "ex_quick = \<lparr> qm_conds = [], qm_available_num = 2 \<rparr>"

definition ex_waiting :: GuiRoomManager where
  "ex_waiting = snd (quickmatch_gui ex_codec ex_iter GuiRoomManager_new ex_com ex_quick (ex_client 7))"

definition ex_quick_room :: "i64 list \<Rightarrow> GuiRoom" where
  "ex_quick_room us = (from_quickmatch_protobuf ex_quick ex_com)
    \<lparr> gr_members := map (\<lambda>u. (u, GuiRoomMember_from_clientinfo (ex_client u) (u = 7))) us \<rparr>"

lemma ex_waiting_eq:
  "ex_waiting = \<lparr> gm_cur_room_id = 2, gm_rooms = [ex_room_id \<mapsto> ex_quick_room [7]],
     gm_comid_rooms = [ex_com \<mapsto> {ex_room_id}], gm_user_rooms = [7 \<mapsto> {ex_room_id}] \<rparr>"
proof -
  have gen: "generate_room_id 1 ex_com = (Ok ex_room_id, 2)" by code_simp
  have room: "add_member (ex_client 7) True (from_quickmatch_protobuf ex_quick ex_com) = ex_quick_room [7]" by code_simp
  have "length (gr_members (ex_quick_room [7])) \<noteq> unat (gr_total_slots (ex_quick_room [7]))" by code_simp
  then show ?thesis
    by (simp add: ex_waiting_def quickmatch_gui_def quickmatch_room_def game_rooms_def GuiRoomManager_new_def gen
        insert_room_def add_member_to_room_def room complete_quickmatch_def entry_insert_def Let_def)
qed

lemma ex_waiting_reach: "reach gui_step GuiRoomManager_new ex_waiting"
proof -
  have "gm_cur_room_id GuiRoomManager_new \<noteq> - 1" by code_simp
  then show ?thesis
    unfolding ex_waiting_def by (intro reach.more [OF reach.start] gui_step.quickmatched ex_iter_ok)
qed

theorem quickmatch_overfills_witness:
  "\<exists>reply1 gm1 r1 reply2 gm2 r2. join_room_gui ex_codec ex_iter ex_waiting ex_room_id (ex_client 8) = (Ok reply1, gm1) \<and>
    gm_rooms gm1 ex_room_id = Some r1 \<and> length (gr_members r1) = unat (gr_total_slots r1) \<and>
    quickmatch_gui ex_codec ex_iter gm1 ex_com ex_quick (ex_client 9) = (Ok (reply2, None), gm2) \<and>
    gm_rooms gm2 ex_room_id = Some r2 \<and> length (gr_members r2) = Suc (unat (gr_total_slots r2))"
proof (rule quickmatch_overfills [OF ex_waiting_reach])
  have "is_quickmatch (ex_quick_room [7]) ex_quick" by code_simp
  then show "find_gui_room (\<lambda>room. is_quickmatch room ex_quick) (gm_rooms ex_waiting) (game_rooms ex_iter ex_waiting ex_com) =
      Ok (Some (ex_room_id, ex_quick_room [7]))"
    by (simp add: game_rooms_def ex_waiting_eq ex_iter_def)
  show "Suc (length (gr_members (ex_quick_room [7]))) = unat (gr_total_slots (ex_quick_room [7]))"
    "ci_user_id (ex_client 8) \<notin> member_ids (ex_quick_room [7])"
    "ci_user_id (ex_client 9) \<notin> insert (ci_user_id (ex_client 8)) (member_ids (ex_quick_room [7]))" by code_simp+
qed

end
