(* ===== verification/Tickets.thy ===== *)
theory Tickets
  imports Stream_Extractor
begin

text \<open>
  The tickets a player shows to a game server, \<^verbatim>\<open>server/client/ticket.rs\<close>: a tree of tagged values, its
  big-endian encoding with 16 bit lengths, the user data and the signature.  The signature library is an argument: it
  gives the signature of some bytes, or nothing when a step of it fails.  A reference decoder shows that the
  encoding loses nothing.
\<close>

section \<open>Tagged values\<close>

datatype TicketData =
    Empty
  | U32 u32
  | U64 u64
  | Time u64
  | Binary bytes
  | BString bytes
  | Blob u8 "TicketData list"

definition to_be_bytes :: "'a::len word \<Rightarrow> bytes" where
  "to_be_bytes w = rev (to_le_bytes w)"

fun td_id :: "TicketData \<Rightarrow> u16" where
  "td_id Empty = 0"
| "td_id (U32 _) = 1"
| "td_id (U64 _) = 2"
| "td_id (BString _) = 4"
| "td_id (Time _) = 7"
| "td_id (Binary _) = 8"
| "td_id (Blob i _) = 0x3000 OR ucast i"

text \<open>Lengths are computed in 16 bits and wrap around.\<close>

fun td_len :: "TicketData \<Rightarrow> u16" where
  "td_len Empty = 0"
| "td_len (U32 _) = 4"
| "td_len (U64 _) = 8"
| "td_len (BString string_data) = of_nat (length string_data)"
| "td_len (Time _) = 8"
| "td_len (Binary binary_data) = of_nat (length binary_data)"
| "td_len (Blob _ sdata) = sum_list (map (\<lambda>x. td_len x + 4) sdata)"

fun td_write :: "TicketData \<Rightarrow> bytes" where
  "td_write Empty = to_be_bytes (td_id Empty) @ to_be_bytes (td_len Empty)"
| "td_write (U32 v) = to_be_bytes (td_id (U32 v)) @ to_be_bytes (td_len (U32 v)) @ to_be_bytes v"
| "td_write (U64 v) = to_be_bytes (td_id (U64 v)) @ to_be_bytes (td_len (U64 v)) @ to_be_bytes v"
| "td_write (BString d) = to_be_bytes (td_id (BString d)) @ to_be_bytes (td_len (BString d)) @ d"
| "td_write (Time t) = to_be_bytes (td_id (Time t)) @ to_be_bytes (td_len (Time t)) @ to_be_bytes t"
| "td_write (Binary d) = to_be_bytes (td_id (Binary d)) @ to_be_bytes (td_len (Binary d)) @ d"
| "td_write (Blob i sdata) = to_be_bytes (td_id (Blob i sdata)) @ to_be_bytes (td_len (Blob i sdata)) @ concat (map td_write sdata)"

section \<open>Tickets\<close>

type_synonym Ticket = "TicketData list"
type_synonym signer = "(bytes \<Rightarrow> bytes option) option"

definition sign_ticket :: "TicketData \<Rightarrow> signer \<Rightarrow> TicketData" where
  "sign_ticket user_blob sign_info =
    (let signature = Blob 2 [Binary [0, 0, 0, 0], Binary (replicate 56 0)] in
     case sign_info of
       None \<Rightarrow> signature
     | Some sign \<Rightarrow>
         (case sign (td_write user_blob) of
            None \<Rightarrow> signature
          | Some vec_sign \<Rightarrow> Blob 2 [Binary [82, 80, 67, 78], Binary vec_sign]))"

text \<open>\<^verbatim>\<open>v.resize(n, 0)\<close>, and the decimal digits of a number.\<close>

definition resize0 :: "nat \<Rightarrow> bytes \<Rightarrow> bytes" where
  "resize0 n v = take n v @ replicate (n - length v) 0"

fun dec_digits :: "nat \<Rightarrow> nat \<Rightarrow> bytes" where
  "dec_digits 0 v = []"
| "dec_digits (Suc n) v = (if v < 10 then [] else dec_digits n (v div 10)) @ [of_nat (48 + v mod 10)]"

definition ticket_user_data :: "u64 \<Rightarrow> u64 \<Rightarrow> u64 \<Rightarrow> string \<Rightarrow> string \<Rightarrow> bytes \<Rightarrow> TicketData list" where
  "ticket_user_data now_ms ticket_id user_id npid service_id cookie =
    (let serial_vec = resize0 20 (dec_digits 20 (unat ticket_id));
         issuer_id = 0x100;
         issued_date = now_ms - 60 * 1000;
         expire_date = issued_date + 60 * 1000 * 15;
         online_id = resize0 32 (as_bytes npid);
         service = resize0 24 (as_bytes service_id)
     in [Binary serial_vec, U32 issuer_id, Time issued_date, Time expire_date, U64 user_id, BString online_id,
         Binary [98, 114, 0, 0], BString [117, 110, 0, 0], Binary service, U32 0]
        @ (if cookie \<noteq> [] then [Binary cookie] else []) @ [Empty, Empty])"

text \<open>\<^verbatim>\<open>Ticket::new\<close>; the ticket number is drawn from a global counter, which is returned increased.\<close>

definition Ticket_new :: "u64 \<Rightarrow> u64 \<Rightarrow> u64 \<Rightarrow> string \<Rightarrow> string \<Rightarrow> bytes \<Rightarrow> signer \<Rightarrow> Ticket \<times> u64" where
  "Ticket_new now_ms dispenser user_id npid service_id cookie sign_info =
    (let user_blob = Blob 0 (ticket_user_data now_ms dispenser user_id npid service_id cookie)
     in ([user_blob, sign_ticket user_blob sign_info], dispenser + 1))"

definition generate_blob :: "Ticket \<Rightarrow> bytes" where
  "generate_blob t =
    to_be_bytes (0x21010000 :: u32) @
    to_be_bytes (sum_list (map (\<lambda>x. ucast (td_len x + 4)) t) :: u32) @
    concat (map td_write t)"

section \<open>Lengths\<close>

text \<open>The size of the encoded value, without wrap-around, and that every length fits its field.\<close>

fun td_size :: "TicketData \<Rightarrow> nat" where
  "td_size Empty = 0"
| "td_size (U32 _) = 4"
| "td_size (U64 _) = 8"
| "td_size (BString d) = length d"
| "td_size (Time _) = 8"
| "td_size (Binary d) = length d"
| "td_size (Blob _ sdata) = sum_list (map (\<lambda>x. td_size x + 4) sdata)"

lemma length_to_be_bytes [simp]: "length (to_be_bytes (w :: 'a::len word)) = LENGTH('a) div 8"
  by (simp add: to_be_bytes_def)

lemma length_td_write: "length (td_write d) = td_size d + 4"
proof (induction d)
  case (Blob i sdata)
  have "length (concat (map td_write sdata)) = sum_list (map (\<lambda>x. td_size x + 4) sdata)"
    using Blob by (induction sdata) auto
  then show ?case by simp
qed simp_all

lemma td_len_size: "td_len d = of_nat (td_size d)"
proof (induction d)
  case (Blob i sdata)
  then show ?case by (induction sdata) auto
qed simp_all

lemma td_size_sub: "x \<in> set sdata \<Longrightarrow> td_size x + 4 \<le> td_size (Blob i sdata)"
  by (induction sdata) auto

lemma unat_td_len: "td_size d < 2 ^ 16 \<Longrightarrow> unat (td_len d) = td_size d"
  by (simp add: td_len_size unat_of_nat16)


section \<open>Decoding\<close>

definition be_value :: "bytes \<Rightarrow> nat" where
  "be_value bs = le_value (rev bs)"

definition leaf_value :: "nat \<Rightarrow> bytes \<Rightarrow> TicketData option" where
  "leaf_value tag body =
    (if tag = 0 \<and> body = [] then Some Empty
     else if tag = 1 \<and> length body = 4 then Some (U32 (of_nat (be_value body)))
     else if tag = 2 \<and> length body = 8 then Some (U64 (of_nat (be_value body)))
     else if tag = 4 then Some (BString body)
     else if tag = 7 \<and> length body = 8 then Some (Time (of_nat (be_value body)))
     else if tag = 8 then Some (Binary body)
     else None)"

definition head_tag :: "bytes \<Rightarrow> nat" where
  "head_tag bs = be_value (take 2 bs)"

definition head_len :: "bytes \<Rightarrow> nat" where
  "head_len bs = be_value (take 2 (drop 2 bs))"

text \<open>A reference decoder; the first argument bounds its recursion and the length of the input is enough.\<close>

fun parse_td :: "nat \<Rightarrow> bytes \<Rightarrow> (TicketData \<times> bytes) option"
  and parse_tds :: "nat \<Rightarrow> bytes \<Rightarrow> TicketData list option" where
  "parse_td 0 bs = None"
| "parse_td (Suc n) bs =
    (if length bs < 4 + head_len bs then None
     else if head_tag bs div 256 = 48 then
       map_option (\<lambda>sdata. (Blob (of_nat (head_tag bs mod 256)) sdata, drop (4 + head_len bs) bs))
         (parse_tds n (take (head_len bs) (drop 4 bs)))
     else map_option (\<lambda>d. (d, drop (4 + head_len bs) bs)) (leaf_value (head_tag bs) (take (head_len bs) (drop 4 bs))))"
| "parse_tds 0 bs = None"
| "parse_tds (Suc n) bs =
    (if bs = [] then Some []
     else case parse_td n bs of None \<Rightarrow> None | Some (d, rest) \<Rightarrow> map_option ((#) d) (parse_tds n rest))"

definition parse_ticket :: "bytes \<Rightarrow> Ticket option" where
  "parse_ticket bs =
    (if take 4 bs = to_be_bytes (0x21010000 :: u32) \<and> be_value (take 4 (drop 4 bs)) = length (drop 8 bs)
     then parse_tds (Suc (length bs)) (drop 8 bs) else None)"

lemma be_value_bytes: "8 dvd LENGTH('a) \<Longrightarrow> be_value (to_be_bytes (w :: 'a::len word)) = unat w"
proof -
  assume d: "8 dvd LENGTH('a)"
  have "256 ^ (LENGTH('a) div 8) = (2 :: nat) ^ (8 * (LENGTH('a) div 8))" by (simp add: power_mult)
  also have "\<dots> = 2 ^ LENGTH('a)" using d by simp
  finally show ?thesis
    by (simp add: be_value_def to_be_bytes_def to_le_bytes_def le_value_encode unsigned_less)
qed

lemma blob_tag: "unat (0x3000 OR (ucast (i :: u8)) :: u16) = 0x3000 + unat i"
proof -
  have lt: "unat i < 256" using unat_lt8 [of i] by simp
  then have u: "unat (ucast i :: u16) = unat i" by (simp add: unsigned_ucast_eq take_bit_nat_eq_self)
  have "0x3000 AND (ucast i :: u16) = 0"
  proof -
    have "(ucast i :: u16) = take_bit 8 (ucast i)" by (rule word_unat_eq_iff [THEN iffD2]) (use lt in \<open>simp add: unsigned_take_bit_eq u take_bit_nat_eq_self\<close>)
    then have "mask 8 AND (ucast i :: u16) = ucast i" by (simp only: and.commute [of "mask 8"] flip: take_bit_eq_mask)
    then have "0x3000 AND (ucast i :: u16) = (0x3000 AND mask 8) AND ucast i" by (simp only: and.assoc)
    also have "0x3000 AND (mask 8 :: u16) = 0" by (simp add: mask_eq_exp_minus_1)
    finally show ?thesis by simp
  qed
  then have "(0x3000 OR ucast i :: u16) = 0x3000 + ucast i" by (simp add: disjunctive_add_eq_or)
  then show ?thesis using lt by (simp add: unat_word_ariths u)
qed


lemma head_fields:
  "head_tag (to_be_bytes (t :: u16) @ to_be_bytes (l :: u16) @ rest) = unat t"
  "head_len (to_be_bytes (t :: u16) @ to_be_bytes (l :: u16) @ rest) = unat l"
  by (simp_all add: head_tag_def head_len_def be_value_bytes)

lemma parse_leaf:
  assumes "0 < n" and "unat l = length body" and "unat t div 256 \<noteq> 48" and "leaf_value (unat t) body = Some d"
  shows "parse_td n (to_be_bytes (t :: u16) @ to_be_bytes (l :: u16) @ body @ rest) = Some (d, rest)"
  using assms by (cases n) (simp_all add: head_fields)

lemma parse_tds_write:
  assumes "\<And>x k rest. x \<in> set sdata \<Longrightarrow> length (td_write x) \<le> k \<Longrightarrow> parse_td k (td_write x @ rest) = Some (x, rest)"
    and "length (concat (map td_write sdata)) < k"
  shows "parse_tds k (concat (map td_write sdata)) = Some sdata"
  using assms
proof (induction sdata arbitrary: k)
  case Nil
  then show ?case by (cases k) simp_all
next
  case (Cons x xs)
  obtain k' where k: "k = Suc k'" using Cons.prems(2) by (cases k) auto
  have "parse_td k' (td_write x @ concat (map td_write xs)) = Some (x, concat (map td_write xs))"
    using Cons.prems by (intro Cons.prems(1)) (auto simp: k)
  moreover have "parse_tds k' (concat (map td_write xs)) = Some xs"
    using Cons.prems by (intro Cons.IH) (auto simp: k length_td_write)
  moreover have "td_write x \<noteq> []" using length_td_write [of x] by auto
  ultimately show ?case by (simp add: k)
qed

lemma parse_write:
  "td_size d < 2 ^ 16 \<Longrightarrow> length (td_write d) \<le> n \<Longrightarrow> parse_td n (td_write d @ rest) = Some (d, rest)"
proof (induction d arbitrary: n rest)
  case (Blob i sdata)
  have "td_size x < 2 ^ 16" if "x \<in> set sdata" for x using td_size_sub [OF that, of i] Blob.prems(1) by linarith
  then have sub: "parse_tds k (concat (map td_write sdata)) = Some sdata" if "length (concat (map td_write sdata)) < k" for k
    using Blob.IH that by (intro parse_tds_write) auto
  obtain n' where n: "n = Suc n'" using Blob.prems(2) by (cases n) simp_all
  have len: "unat (td_len (Blob i sdata)) = length (concat (map td_write sdata))"
    using length_td_write [of "Blob i sdata"] unat_td_len [OF Blob.prems(1)] by simp
  have "unat i < 256" using unat_lt8 [of i] by simp
  then have "(0x3000 + unat i) div 256 = 48" "(0x3000 + unat i) mod 256 = unat i"
    using mod_mult_self3 [of 48 256 "unat i"] by simp_all
  moreover have "length (concat (map td_write sdata)) < n'" using Blob.prems(2) by (simp add: n)
  ultimately show ?case
    using len sub by (simp only: td_write.simps n append_assoc parse_td.simps head_fields td_id.simps blob_tag) simp
next
  case (U32 x)
  then show ?case using parse_leaf [of n 4 "to_be_bytes x" 1 "U32 x" rest] by (simp add: leaf_value_def be_value_bytes)
next
  case (U64 x)
  then show ?case using parse_leaf [of n 8 "to_be_bytes x" 2 "U64 x" rest] by (simp add: leaf_value_def be_value_bytes)
next
  case (Time x)
  then show ?case using parse_leaf [of n 8 "to_be_bytes x" 7 "Time x" rest] by (simp add: leaf_value_def be_value_bytes)
next
  case (Binary x)
  then show ?case using parse_leaf [of n "of_nat (length x)" x 8 "Binary x" rest] by (simp add: leaf_value_def unat_of_nat16)
next
  case (BString x)
  then show ?case using parse_leaf [of n "of_nat (length x)" x 4 "BString x" rest] by (simp add: leaf_value_def unat_of_nat16)
qed (use parse_leaf [where body = "[]" and t = 0 and l = 0] in \<open>simp add: leaf_value_def\<close>)


section \<open>What a ticket says\<close>

lemma unat_ticket_len: "td_size x + 4 < 2 ^ 16 \<Longrightarrow> unat (ucast (td_len x + 4) :: u32) = td_size x + 4"
proof -
  assume lt: "td_size x + 4 < 2 ^ 16"
  then have "unat (td_len x + 4) = td_size x + 4" by (simp add: unat_word_ariths unat_td_len)
  with lt show ?thesis by (simp add: unsigned_ucast_eq take_bit_nat_eq_self)
qed

lemma parse_generate:
  assumes "\<forall>x \<in> set t. td_size x + 4 < 2 ^ 16" and "length t \<le> 2"
  shows "parse_ticket (generate_blob t) = Some t"
proof -
  have sum: "unat (sum_list (map (\<lambda>x. ucast (td_len x + 4)) t) :: u32) = length (concat (map td_write t))"
    (is "?sum t = _")
  proof -
    consider "t = []" | x where "t = [x]" | x y where "t = [x, y]"
      using assms(2) by (cases t rule: list.exhaust; cases "tl t"; cases "tl (tl t)") auto
    then show ?thesis
      using assms(1) by cases (simp_all add: unat_ticket_len length_td_write unat_word_ariths)
  qed
  have "parse_tds k (concat (map td_write t)) = Some t" if "length (concat (map td_write t)) < k" for k
    using that assms(1) by (intro parse_tds_write parse_write) auto
  with sum show ?thesis by (simp add: parse_ticket_def generate_blob_def be_value_bytes)
qed

lemma length_resize0 [simp]: "length (resize0 n v) = n"
  by (simp add: resize0_def)

text \<open>C40: a ticket can be read: whatever the user, the service and the signature, decoding the bytes of a new ticket
  gives back its user data and its signature, as long as the cookie of the request and the signature are
  shorter than 60000 bytes.  The user data carries the ticket number, the user and the service, and is valid for
  fifteen minutes.\<close>

theorem ticket_round_trip:
  assumes "length cookie < 60000" and "\<forall>sign bs sig. signer = Some sign \<longrightarrow> sign bs = Some sig \<longrightarrow> length sig < 60000"
  shows "parse_ticket (generate_blob (fst (Ticket_new now n user npid service cookie signer))) =
      Some [Blob 0 (ticket_user_data now n user npid service cookie),
            sign_ticket (Blob 0 (ticket_user_data now n user npid service cookie)) signer] \<and>
    snd (Ticket_new now n user npid service cookie signer) = n + 1 \<and>
    (\<exists>serial issued online rest. ticket_user_data now n user npid service cookie =
       [Binary serial, U32 0x100, Time issued, Time (issued + 900000), U64 user, BString online] @ rest)"
proof -
  let ?d = "ticket_user_data now n user npid service cookie"
  have "td_size (Blob 0 ?d) + 4 < 2 ^ 16" using assms(1) by (simp add: ticket_user_data_def Let_def)
  moreover have "td_size (sign_ticket (Blob 0 ?d) signer) + 4 < 2 ^ 16"
  proof -
    have "length sig < 60000" if "signer = Some sign" "sign bs = Some sig" for sign bs sig using assms(2) that by blast
    then show ?thesis by (force simp: sign_ticket_def Let_def simp del: td_write.simps split: option.split)
  qed
  ultimately show ?thesis
    using parse_generate [of "[Blob 0 ?d, sign_ticket (Blob 0 ?d) signer]"]
    by (simp add: Ticket_new_def Let_def) (simp add: ticket_user_data_def Let_def)
qed

theorem ticket_round_trip_witness:
  "parse_ticket (generate_blob (fst (Ticket_new 1000000 1 7 ''bob'' ''UP0001'' [1] (Some (\<lambda>_. Some [9, 9]))))) =
     Some [Blob 0 (ticket_user_data 1000000 1 7 ''bob'' ''UP0001'' [1]), Blob 2 [Binary [82, 80, 67, 78], Binary [9, 9]]]"
  using ticket_round_trip [of "[1]" "Some (\<lambda>_. Some [9, 9])" 1000000 1 7 "''bob''" "''UP0001''"]
  by (simp add: sign_ticket_def)

text \<open>A cookie of 65536 bytes or more, which a request may carry, makes a ticket that cannot be read: the 16 bit
  lengths wrap around and the size in the header is smaller than the ticket.\<close>

theorem ticket_long_cookie_unreadable:
  assumes "2 ^ 16 \<le> length cookie" and "signer = None"
  shows "parse_ticket (generate_blob (fst (Ticket_new now n user npid service cookie signer))) = None"
proof -
  let ?t = "fst (Ticket_new now n user npid service cookie signer)"
  let ?f = "\<lambda>x. ucast (td_len x + 4) :: u32"
  have lt: "unat (?f x) < 2 ^ 16" for x
    using unat_lt16 [of "td_len x + 4"] by (simp add: unsigned_ucast_eq take_bit_nat_eq_self)
  obtain x y where t: "?t = [x, y]" and x: "x = Blob 0 (ticket_user_data now n user npid service cookie)"
    and y: "td_size y = 68" by (auto simp: Ticket_new_def Let_def sign_ticket_def assms(2))
  have "cookie \<noteq> []" using assms(1) by auto
  then have "2 ^ 16 \<le> td_size x" using assms(1) by (simp add: x ticket_user_data_def Let_def)
  moreover have "unat (?f y) = 72" using y unat_ticket_len [of y] by simp
  moreover have "unat (?f x + ?f y) = unat (?f x) + unat (?f y)" using lt [of x] lt [of y] by (simp add: unat_word_ariths)
  ultimately have "unat (sum_list (map ?f ?t)) < length (concat (map td_write ?t))"
    using lt [of x] y by (simp add: t length_td_write)
  then show ?thesis by (simp add: parse_ticket_def generate_blob_def be_value_bytes)
qed

theorem ticket_long_cookie_unreadable_witness:
  "parse_ticket (generate_blob (fst (Ticket_new 0 1 7 ''bob'' ''UP0001'' (replicate (2 ^ 16) 0) None))) = None"
  by (rule ticket_long_cookie_unreadable) simp_all

end
