(* ===== verification/Cmd_Room.thy ===== *)
theory Cmd_Room
  imports Client_State
begin

text \<open>
  The room commands, \<^verbatim>\<open>server/client/cmd_room.rs\<close>: each decodes its request, calls the room manager, writes the
  reply and sends the notifications.
\<close>

section \<open>Creating and joining\<close>

text \<open>\<^verbatim>\<open>Err(Malformed) => Err(Malformed), Err(e) => Ok(e)\<close>.\<close>

fun soft_malformed :: "'a result \<times> Session \<Rightarrow> ('a \<Rightarrow> handler) \<Rightarrow> ErrorType result \<times> Session" where
  "soft_malformed (Ok x, s) k = k x s"
| "soft_malformed (Err e, s) k = (if e = Malformed then Err Malformed else Ok e, s)"
| "soft_malformed (Panic, s) k = (Panic, s)"

definition req_create_room :: "Env \<Rightarrow> handler" where
  "req_create_room env s =
    then_st (get_com_and_pb env (dec_CreateJoinRoomRequest (e_cmd env)) s) (\<lambda>(com_id, create_req) s.
    then_st (get_database_connection env s) (\<lambda>_ s.
    then_st (query_db (get_corresponding_server (e_sql env) (s_db s) com_id (cj_world_id create_req) (cj_lobby_id create_req)) s)
      (\<lambda>res s. case res of
        Inl _ \<Rightarrow> (Err InvalidInput, s)
      | Inr server_id \<Rightarrow>
          soft_malformed
            (with_rooms (\<lambda>rm. create_room (e_codec env) (e_psn_time env) rm com_id create_req (s_info s) server_id
               (own_signaling_info s)) s)
            (\<lambda>resp s. (Ok NoError, reply_data resp s)))))"

definition is_member :: "i64 \<Rightarrow> Room \<Rightarrow> bool" where
  "is_member user_id room \<longleftrightarrow> list_ex (\<lambda>(_, u). u_user_id u = user_id) (r_users room)"

definition joined_notifications :: "JoinNotifs \<Rightarrow> (bytes \<times> i64 set) list" where
  "joined_notifications n =
    List.map_filter (\<lambda>x. x) [jn_no_signaling n, jn_local_signaling n, jn_public_signaling_ipv4 n, jn_public_signaling_ipv6 n]"

definition send_joined :: "bytes \<times> i64 set \<Rightarrow> Session \<Rightarrow> Session" where
  "send_joined n s = send_notification (create_notification UserJoinedRoom (add_data_packet [] (fst n))) (snd n) s"

definition req_join_room :: "Env \<Rightarrow> handler" where
  "req_join_room env s =
    then_st (get_com_and_pb env (dec_JoinRoomRequest (e_cmd env)) s) (\<lambda>(com_id, join_req) s.
      let room_id = jr_room_id join_req in
      if \<not> room_exists (s_rooms s) com_id room_id then (Ok RoomMissing, s)
      else then_st (get_room (s_rooms s) com_id room_id, s) (\<lambda>room s.
        if is_member (s_user s) room then (Ok RoomAlreadyJoined, s)
        else
          soft_malformed
            (with_rooms (\<lambda>rm. join_room (e_codec env) (e_psn_time env) rm com_id join_req (s_info s) (own_signaling_info s)) s)
            (\<lambda>(response, notifications) s.
              (Ok NoError, fold send_joined (joined_notifications notifications) (reply_data response s)))))"

section \<open>Leaving\<close>

text \<open>The opponent of a match of two, remembered so that the two can meet again.\<close>

definition opponent_of :: "ComId \<Rightarrow> u64 \<Rightarrow> Session \<Rightarrow> string option" where
  "opponent_of com_id room_id s =
    (case rm_rooms (s_rooms s) (com_id, room_id) of
       None \<Rightarrow> None
     | Some room \<Rightarrow>
         if length (r_users room) = 2 then
           map_option u_npid (find (\<lambda>u. u_user_id u \<noteq> s_user s) (bt_values (r_users room)))
         else if length (r_users room) = 1 then
           map_option fst (cl_rematch_pairs (s_client s) (ci_npid (s_info s)))
         else None)"

definition register_pair :: "Env \<Rightarrow> string option \<Rightarrow> Session \<Rightarrow> Session" where
  "register_pair env opponent_npid s =
    (case opponent_npid of
       None \<Rightarrow> s
     | Some opp_npid \<Rightarrow>
         let my_npid = ci_npid (s_info s) in
         update_pairs (\<lambda>pairs. pairs(my_npid \<mapsto> (opp_npid, e_instant env), opp_npid \<mapsto> (my_npid, e_instant env))) s)"

definition left_notification :: "Env \<Rightarrow> bool \<Rightarrow> u64 \<Rightarrow> PresenceOptionData option \<Rightarrow> EventCause \<Rightarrow> bytes \<Rightarrow> bytes" where
  "left_notification env destroyed room_id opt_data event_cause user_data =
    (if destroyed then
       let room_update = \<lparr> rui_event_cause = Uint8_new_from_value (event_cause_u8 event_cause), rui_error_code = 0,
                           rui_opt_data = opt_data \<rparr>
       in create_notification RoomDestroyed
            (add_data_packet (to_le_bytes room_id) (enc_RoomUpdateInfo (e_cmd env) room_update))
     else create_notification UserLeftRoom (add_data_packet (to_le_bytes room_id) user_data))"

definition cmd_leave_room ::
    "Env \<Rightarrow> ComId \<Rightarrow> u64 \<Rightarrow> PresenceOptionData option \<Rightarrow> EventCause \<Rightarrow> handler" where
  "cmd_leave_room env com_id room_id opt_data event_cause s =
    (let opponent_npid = opponent_of com_id room_id s in
     if \<not> room_exists (s_rooms s) com_id room_id then (Ok RoomMissing, s)
     else then_st (get_room (s_rooms s) com_id room_id, s) (\<lambda>room s.
       soft (get_member_id room (s_user s), s) (\<lambda>member_id s.
       then_st (get_room_member_update_info room member_id event_cause opt_data, s) (\<lambda>user_info s.
         let user_data = enc_RoomMemberUpdateInfo (e_cmd env) user_info in
         soft (with_rooms (\<lambda>rm. leave_room (e_rnd env) rm com_id room_id (s_user s)) s) (\<lambda>(destroyed, users) s.
           (Ok NoError,
            send_notification (left_notification env destroyed room_id opt_data event_cause user_data) users
              (register_pair env opponent_npid s)))))))"

definition req_leave_room :: "Env \<Rightarrow> handler" where
  "req_leave_room env s =
    then_st (get_com_and_pb env (dec_LeaveRoomRequest (e_cmd env)) s) (\<lambda>(com_id, leave_req) s.
    then_st (cmd_leave_room env com_id (lrr_room_id leave_req) (lrr_opt_data leave_req) LeaveAction s) (\<lambda>res s.
      (Ok res, reply_bytes (to_le_bytes (lrr_room_id leave_req)) s)))"

section \<open>Searching\<close>

fun str_less :: "string \<Rightarrow> string \<Rightarrow> bool" where
  "str_less s [] = False"
| "str_less [] (_ # _) = True"
| "str_less (c # s) (d # t) = (if c = d then str_less s t else (of_char c :: nat) < of_char d)"

definition retain_recent :: "nat \<Rightarrow> (string \<rightharpoonup> string \<times> nat) \<Rightarrow> (string \<rightharpoonup> string \<times> nat)" where
  "retain_recent now pairs =
    (\<lambda>k. case pairs k of Some (opp, t) \<Rightarrow> if (now - t) div 10 ^ 9 < 15 then Some (opp, t) else None | None \<Rightarrow> None)"

definition opponent_room :: "Env \<Rightarrow> string \<Rightarrow> RoomManager \<Rightarrow> Room option" where
  "opponent_room env opp_npid rm =
    find (\<lambda>room. length (r_users room) = 1 \<and> list_ex (\<lambda>u. u_npid u = opp_npid) (bt_values (r_users room)))
      (List.map_filter (rm_rooms rm) (e_rooms_order env rm))"

definition search_normally :: "Env \<Rightarrow> ComId \<Rightarrow> SearchRoomRequest \<Rightarrow> handler" where
  "search_normally env com_id search_req s =
    (let req = (case build_npwr02973_adjusted_request com_id search_req of Some r \<Rightarrow> r | None \<Rightarrow> search_req)
     in then_st (search_room (e_codec env) (e_hash_order env) (s_rooms s) com_id req, s) (\<lambda>resp s.
          (Ok NoError, reply_data resp s)))"

definition rematch_search :: "Env \<Rightarrow> ComId \<Rightarrow> SearchRoomRequest \<Rightarrow> string \<Rightarrow> handler" where
  "rematch_search env com_id search_req opp_npid s =
    (let my_npid = ci_npid (s_info s) in
     case opponent_room env opp_npid (s_rooms s) of
       Some room \<Rightarrow>
         then_st (traverse Uint16_get_verified (srr_attr_id search_req), s) (\<lambda>inc_attrs s.
         then_st (to_RoomDataExternal room (srr_option search_req) inc_attrs, s) (\<lambda>room_data s.
           let s1 = update_pairs (\<lambda>pairs. pairs(my_npid := None, opp_npid := None)) s
           in (Ok NoError, reply_data (enc_SearchRoomResponse (e_codec env)
                 \<lparr> srs_start_index = 1, srs_total = 1, srs_rooms = [room_data] \<rparr>) s1)))
     | None \<Rightarrow>
         if str_less opp_npid my_npid then
           (Ok NoError, reply_data (enc_SearchRoomResponse (e_codec env)
              \<lparr> srs_start_index = 1, srs_total = 0, srs_rooms = [] \<rparr>) s)
         else search_normally env com_id search_req s)"

definition req_search_room :: "Env \<Rightarrow> handler" where
  "req_search_room env s =
    then_st (get_com_and_pb env (dec_SearchRoomRequest (e_cmd env)) s) (\<lambda>(com_id, search_req) s.
      let s1 = update_pairs (retain_recent (e_instant env)) s in
      case cl_rematch_pairs (s_client s1) (ci_npid (s_info s1)) of
        Some (opp_npid, _) \<Rightarrow> rematch_search env com_id search_req opp_npid s1
      | None \<Rightarrow> search_normally env com_id search_req s1)"

definition req_search_room_all :: "Env \<Rightarrow> handler" where
  "req_search_room_all env s =
    then_st (get_com_and_pb env (dec_SearchRoomRequest (e_cmd env)) s) (\<lambda>(com_id, search_req) s.
    then_st (search_room_all (e_codec env) (e_hash_order env) (s_rooms s) com_id search_req, s) (\<lambda>resp s.
      (Ok NoError, reply_data resp s)))"

section \<open>Room data\<close>

definition req_get_roomdata_external_list :: "Env \<Rightarrow> handler" where
  "req_get_roomdata_external_list env s =
    then_st (get_com_and_pb env (dec_GetRoomDataExternalListRequest (e_cmd env)) s) (\<lambda>(com_id, getdata_req) s.
    then_st (get_roomdata_external_list (e_codec env) (s_rooms s) com_id getdata_req, s) (\<lambda>resp s.
      (Ok NoError, reply_data resp s)))"

definition req_get_room_member_data_external_list :: "Env \<Rightarrow> handler" where
  "req_get_room_member_data_external_list env s =
    then_st (get_com_id_with_redir env s) (\<lambda>com_id s.
    then_st (read_field (get_int :: StreamExtractor \<Rightarrow> u64 \<times> _) s) (\<lambda>room_id s.
    then_st (check_data s) (\<lambda>_ s.
      soft (get_room_member_data_external_list (e_codec env) (s_rooms s) com_id room_id, s) (\<lambda>resp s.
        (Ok NoError, reply_data resp s)))))"

definition req_set_roomdata_external :: "Env \<Rightarrow> handler" where
  "req_set_roomdata_external env s =
    then_st (get_com_and_pb env (dec_SetRoomDataExternalRequest (e_cmd env)) s) (\<lambda>(com_id, setdata_req) s.
      soft (with_rooms (\<lambda>rm. set_roomdata_external rm com_id setdata_req (s_user s)) s) (\<lambda>_ s. (Ok NoError, s)))"

definition req_get_roomdata_internal :: "Env \<Rightarrow> handler" where
  "req_get_roomdata_internal env s =
    then_st (get_com_and_pb env (dec_GetRoomDataInternalRequest (e_cmd env)) s) (\<lambda>(com_id, getdata_req) s.
      soft (get_roomdata_internal (e_codec env) (s_rooms s) com_id getdata_req, s) (\<lambda>resp s.
        (Ok NoError, reply_data resp s)))"

text \<open>The notification of changed room or member data goes to the others at once and to the client after its reply.\<close>

definition notify_update :: "NotificationType \<Rightarrow> u64 \<Rightarrow> (i64 set \<times> bytes) option \<Rightarrow> handler" where
  "notify_update n_type room_id change s =
    (case change of
       None \<Rightarrow> (Ok NoError, s)
     | Some (users, notif_data) \<Rightarrow>
         let notif = create_notification n_type (add_data_packet (to_le_bytes room_id) notif_data)
         in (Ok NoError, self_notification notif (send_notification notif users s)))"

definition req_set_roomdata_internal :: "Env \<Rightarrow> handler" where
  "req_set_roomdata_internal env s =
    then_st (get_com_and_pb env (dec_SetRoomDataInternalRequest (e_cmd env)) s) (\<lambda>(com_id, setdata_req) s.
      soft (with_rooms (\<lambda>rm. set_roomdata_internal (e_codec env) (e_psn_time env) rm com_id setdata_req (s_user s)) s)
        (notify_update UpdatedRoomDataInternal (sri_room_id setdata_req)))"

definition req_get_roommemberdata_internal :: "Env \<Rightarrow> handler" where
  "req_get_roommemberdata_internal env s =
    then_st (get_com_and_pb env (dec_GetRoomMemberDataInternalRequest (e_cmd env)) s) (\<lambda>(com_id, getdata_req) s.
      soft (get_roommemberdata_internal (e_codec env) (s_rooms s) com_id getdata_req, s) (\<lambda>resp s.
        (Ok NoError, reply_data resp s)))"

definition req_set_roommemberdata_internal :: "Env \<Rightarrow> handler" where
  "req_set_roommemberdata_internal env s =
    then_st (get_com_and_pb env (dec_SetRoomMemberDataInternalRequest (e_cmd env)) s) (\<lambda>(com_id, setdata_req) s.
      soft (with_rooms (\<lambda>rm. set_roommemberdata_internal (e_codec env) (e_psn_time env) rm com_id setdata_req (s_user s)) s)
        (notify_update UpdatedRoomMemberDataInternal (smi_room_id setdata_req)))"

definition req_ping_room_owner :: "Env \<Rightarrow> handler" where
  "req_ping_room_owner env s =
    then_st (get_com_id_with_redir env s) (\<lambda>com_id s.
    then_st (read_field (get_int :: StreamExtractor \<Rightarrow> u64 \<times> _) s) (\<lambda>room_id s.
    then_st (check_data s) (\<lambda>_ s.
      soft (get_room_infos (s_rooms s) com_id room_id, s) (\<lambda>(server_id, world_id, _) s.
        (Ok NoError, reply_data (enc_GetPingInfoResponse (e_cmd env)
           \<lparr> gpi_server_id = Uint16_new_from_value server_id, gpi_world_id = world_id, gpi_room_id = room_id,
             gpi_rtt = 20000 \<rparr>) s)))))"

section \<open>Messages\<close>

definition room_message :: "Env \<Rightarrow> SendRoomMessageRequest \<Rightarrow> u16 \<Rightarrow> u8 \<Rightarrow> u8 \<Rightarrow> ClientInfo \<Rightarrow> bytes" where
  "room_message env msg_req member_id cast_type options cinfo =
    (let src = \<lparr> ui_np_id = (if options AND 1 \<noteq> 0 then ci_npid cinfo else []),
                 ui_online_name = (if options AND 2 \<noteq> 0 then ci_online_name cinfo else []),
                 ui_avatar_url = (if options AND 4 \<noteq> 0 then ci_avatar_url cinfo else []) \<rparr>;
         resp = \<lparr> rmi_filtered = False, rmi_cast_type = Uint8_new_from_value cast_type, rmi_dst = srm_dst msg_req,
                  rmi_src_member = Some src, rmi_msg = srm_msg msg_req \<rparr>
     in create_notification RoomMessageReceived
          (add_data_packet (to_le_bytes (srm_room_id msg_req) @ to_le_bytes member_id)
             (enc_RoomMessageInfo (e_cmd env) resp)))"

text \<open>The recipients: everybody else (1), or the members the request lists (2 and 3).\<close>

definition deliver_message :: "u8 \<Rightarrow> (u16 \<times> i64) list \<Rightarrow> u16 list \<Rightarrow> bytes \<Rightarrow> handler" where
  "deliver_message cast_type users dst_vec notif s =
    (if cast_type = 1 then
       (Ok NoError, self_notification notif
          (send_notification notif (set (filter (\<lambda>u. u \<noteq> s_user s) (map snd users))) s))
     else if cast_type = 2 \<or> cast_type = 3 then
       let chosen = map snd (filter (\<lambda>(m, _). m \<in> set dst_vec) users);
           s1 = send_notification notif (set (filter (\<lambda>u. u \<noteq> s_user s) chosen)) s
       in (Ok NoError, if s_user s \<in> set chosen then self_notification notif s1 else s1)
     else if cast_type = 4 then (Ok Unsupported, s)
     else (Err InvalidInput, s))"

definition req_send_room_message :: "Env \<Rightarrow> handler" where
  "req_send_room_message env s =
    then_st (get_com_and_pb env (dec_SendRoomMessageRequest (e_cmd env)) s) (\<lambda>(com_id, msg_req) s.
    then_st (traverse Uint16_get_verified (srm_dst msg_req), s) (\<lambda>dst_vec s.
      if \<not> room_exists (s_rooms s) com_id (srm_room_id msg_req) then (Ok RoomMissing, s)
      else then_st (get_room (s_rooms s) com_id (srm_room_id msg_req), s) (\<lambda>room s.
        case member_of (s_user s) (r_users room) of
          None \<Rightarrow> (Ok Unauthorized, s)
        | Some member_id \<Rightarrow>
            then_st (Uint8_opt_get_verified (srm_cast_type msg_req), s) (\<lambda>cast_type s.
            then_st (Uint8_opt_get_verified (srm_option msg_req), s) (\<lambda>options s.
              deliver_message cast_type (map (\<lambda>(m, u). (m, u_user_id u)) (r_users room)) dst_vec
                (room_message env msg_req member_id cast_type options (s_info s)) s)))))"

end
