(* ===== verification/Cmd_Other.thy ===== *)
theory Cmd_Other
  imports Client_State Tickets
begin

text \<open>
  The commands of the older matching interface (\<^verbatim>\<open>server/client/cmd_room_gui.rs\<close>), the session and the server
  commands (\<^verbatim>\<open>cmd_session.rs\<close>, \<^verbatim>\<open>cmd_server.rs\<close>) and the miscellaneous ones (\<^verbatim>\<open>cmd_misc.rs\<close>): signaling, tickets,
  messages, time and presence.
\<close>

section \<open>Rooms of the older interface\<close>

definition gui_notification :: "NotificationType \<Rightarrow> bytes \<Rightarrow> bytes" where
  "gui_notification n_type notif_data = create_notification n_type (add_data_packet [] notif_data)"

definition req_create_room_gui :: "Env \<Rightarrow> handler" where
  "req_create_room_gui env s =
    then_st (get_com_and_pb env (dec_CreateRoomGuiRequest (e_cmd env)) s) (\<lambda>(com_id, create_req) s.
    then_st (with_gui (\<lambda>gm. create_room_gui (e_gui env) (e_iter env) gm com_id create_req (s_info s)) s) (\<lambda>resp s.
      (Ok NoError, reply_data resp s)))"

definition req_join_room_gui :: "Env \<Rightarrow> handler" where
  "req_join_room_gui env s =
    then_st (read_pb (dec_MatchingGuiRoomId (e_cmd env)) s) (\<lambda>join_req s.
    then_st (pb_vec_to_room_id (gi_id join_req), s) (\<lambda>room_id s.
      soft (with_gui (\<lambda>gm. join_room_gui (e_gui env) (e_iter env) gm room_id (s_info s)) s)
        (\<lambda>(resp, notif_users, notif_data) s.
          (Ok NoError, reply_data resp
             (send_notification (gui_notification MemberJoinedRoomGUI notif_data) notif_users s)))))"

definition cmd_leave_room_gui :: "Env \<Rightarrow> GuiRoomId \<Rightarrow> Session \<Rightarrow> bytes result \<times> Session" where
  "cmd_leave_room_gui env room_id s =
    then_st (with_gui (\<lambda>gm. leave_room_gui (e_gui env) (e_iter env) (e_rnd env) gm room_id (s_info s)) s)
      (\<lambda>(resp, notif_ids, notifs) s.
        (Ok resp, fold (\<lambda>(t, d). send_notification (gui_notification t d) notif_ids) notifs s))"

definition req_leave_room_gui :: "Env \<Rightarrow> handler" where
  "req_leave_room_gui env s =
    then_st (read_pb (dec_MatchingGuiRoomId (e_cmd env)) s) (\<lambda>leave_req s.
    then_st (pb_vec_to_room_id (gi_id leave_req), s) (\<lambda>room_id s.
      soft (cmd_leave_room_gui env room_id s) (\<lambda>data s. (Ok NoError, reply_data data s))))"

definition req_get_room_list_gui :: "Env \<Rightarrow> handler" where
  "req_get_room_list_gui env s =
    then_st (get_com_and_pb env (dec_GetRoomListGuiRequest (e_cmd env)) s) (\<lambda>(com_id, search_req) s.
    then_st (get_room_list_gui (e_gui env) (e_iter env) (s_gui s) com_id search_req, s) (\<lambda>resp s.
      (Ok NoError, reply_data resp s)))"

definition req_set_room_search_flag_gui :: "Env \<Rightarrow> handler" where
  "req_set_room_search_flag_gui env s =
    then_st (read_pb (dec_SetRoomSearchFlagGui (e_cmd env)) s) (\<lambda>set_req s.
    then_st (pb_vec_to_room_id (sf_roomid set_req), s) (\<lambda>room_id s.
      soft (with_gui (\<lambda>gm. set_search_flag gm room_id (sf_stealth set_req) (s_user s)) s) (\<lambda>_ s. (Ok NoError, s))))"

definition req_get_room_search_flag_gui :: "Env \<Rightarrow> handler" where
  "req_get_room_search_flag_gui env s =
    then_st (read_pb (dec_MatchingGuiRoomId (e_cmd env)) s) (\<lambda>get_req s.
    then_st (pb_vec_to_room_id (gi_id get_req), s) (\<lambda>room_id s.
      soft (get_search_flag (e_gui env) (s_gui s) room_id, s) (\<lambda>resp s. (Ok NoError, reply_data resp s))))"

definition req_set_room_info_gui :: "Env \<Rightarrow> handler" where
  "req_set_room_info_gui env s =
    then_st (read_pb (dec_MatchingRoom (e_cmd env)) s) (\<lambda>set_req s.
    then_st (pb_vec_to_room_id (mr_id set_req), s) (\<lambda>room_id s.
      soft (with_gui (\<lambda>gm. set_room_info_gui gm room_id (mr_attr set_req) (s_user s)) s) (\<lambda>_ s. (Ok NoError, s))))"

definition req_get_room_info_gui :: "Env \<Rightarrow> handler" where
  "req_get_room_info_gui env s =
    then_st (read_pb (dec_MatchingRoom (e_cmd env)) s) (\<lambda>get_req s.
    then_st (pb_vec_to_room_id (mr_id get_req), s) (\<lambda>room_id s.
      soft (get_room_info_gui (e_gui env) (s_gui s) room_id (mr_attr get_req), s) (\<lambda>resp s. (Ok NoError, reply_data resp s))))"

definition req_quickmatch_gui :: "Env \<Rightarrow> handler" where
  "req_quickmatch_gui env s =
    then_st (get_com_and_pb env (dec_QuickMatchGuiRequest (e_cmd env)) s) (\<lambda>(com_id, qm_req) s.
    then_st (with_gui (\<lambda>gm. quickmatch_gui (e_gui env) (e_iter env) gm com_id qm_req (s_info s)) s) (\<lambda>(resp, notif) s.
      let s1 = (case notif of
            Some (client_ids, notification) \<Rightarrow>
              let notif_vec = gui_notification QuickMatchCompleteGUI notification
              in self_notification notif_vec (send_notification notif_vec client_ids s)
          | None \<Rightarrow> s)
      in (Ok NoError, reply_data resp s1)))"

definition req_searchjoin_gui :: "Env \<Rightarrow> handler" where
  "req_searchjoin_gui env s =
    then_st (get_com_and_pb env (dec_SearchJoinRoomGuiRequest (e_cmd env)) s) (\<lambda>(com_id, sj_req) s.
      soft (with_gui (\<lambda>gm. search_join_gui (e_gui env) (e_iter env) gm com_id sj_req (s_info s)) s)
        (\<lambda>(resp, notif_users, notif_data) s.
          (Ok NoError, reply_data resp
             (send_notification (gui_notification MemberJoinedRoomGUI notif_data) notif_users s))))"

section \<open>Session and servers\<close>

definition put_own_info :: "(ClientSharedInfo \<Rightarrow> ClientSharedInfo) \<Rightarrow> Session \<Rightarrow> Session" where
  "put_own_info f s = update_shared (\<lambda>sh. sh\<lparr> sh_client_infos :=
     (sh_client_infos sh)(s_user s := map_option f (sh_client_infos sh (s_user s))) \<rparr>) s"

definition req_set_userinfo :: "Env \<Rightarrow> handler" where
  "req_set_userinfo env s =
    then_st (get_com_and_pb env (dec_SetUserInfo (e_cmd env)) s) (\<lambda>(_, setuser_req) s.
      let binattrs = sui_user_bin_attr setuser_req in
      if binattrs = [] then (Ok NoError, s)
      else if length binattrs > 1 then (Err Malformed, s)
      else case find (\<lambda>a. (case ba_id a of Some v \<Rightarrow> uint16_val v | None \<Rightarrow> 0) = ucast USER_BIN_ATTR_1_ID) binattrs of
        None \<Rightarrow> (Err Malformed, s)
      | Some binattr \<Rightarrow>
          then_st (unwrap (s_infos s (s_user s)), s) (\<lambda>_ s.
          then_st (RoomBinAttr_from_protobuf 128 binattr, s) (\<lambda>b s.
            (Ok NoError, put_own_info (\<lambda>i. i\<lparr> cs_session_info := (cs_session_info i)\<lparr> ss_bin_attr := b \<rparr> \<rparr>) s))))"

definition req_get_server_list :: "Env \<Rightarrow> handler" where
  "req_get_server_list env s =
    then_st (get_com_id_with_redir env s) (\<lambda>com_id s.
    then_st (check_data s) (\<lambda>_ s.
    then_st (get_database_connection env s) (\<lambda>_ s.
    then_st (with_db (get_server_list (e_sql env) (s_db s) com_id (is_create_missing (s_config s))) s) (\<lambda>servs s.
      case servs of
        Inl _ \<Rightarrow> (Err DbFail, s)
      | Inr servs \<Rightarrow>
          (Ok NoError, reply_bytes (to_le_bytes (of_nat (length servs) :: u16) @ concat (map to_le_bytes servs)) s)))))"

definition req_get_world_list :: "Env \<Rightarrow> handler" where
  "req_get_world_list env s =
    then_st (get_com_id_with_redir env s) (\<lambda>com_id s.
    then_st (read_field get_int s) (\<lambda>server_id s.
    then_st (check_data s) (\<lambda>_ s.
    then_st (get_database_connection env s) (\<lambda>_ s.
    then_st (with_db (get_world_list (e_sql env) (s_db s) com_id server_id (is_create_missing (s_config s))) s) (\<lambda>worlds s.
      case worlds of
        Inl _ \<Rightarrow> (Err DbFail, s)
      | Inr worlds \<Rightarrow>
          (Ok NoError, reply_bytes (to_le_bytes (of_nat (length worlds) :: u32) @ concat (map to_le_bytes worlds)) s))))))"

section \<open>Signaling\<close>

definition req_signaling_infos :: "Env \<Rightarrow> handler" where
  "req_signaling_infos env s =
    then_st (read_field (get_string False) s) (\<lambda>npid s.
      if x_error (s_data s) \<or> length (as_bytes npid) > 16 then (Err Malformed, s)
      else
        then_st (get_database_connection env s) (\<lambda>_ s.
        then_st (query_db (get_user_id (e_sql env) (s_db s) npid) s) (\<lambda>res s. case res of
        Inl _ \<Rightarrow> (Ok NotFound, s)
      | Inr user_id \<Rightarrow>
          then_st (unwrap (s_infos s (s_user s)), s) (\<lambda>caller s.
            case s_infos s user_id of
              None \<Rightarrow> (Ok NotFound, s)
            | Some client_info \<Rightarrow>
                let caller_sig = cs_signaling_info caller; op_sig = cs_signaling_info client_info in
                if fst (si_addr_p2p_ipv4 caller_sig) = fst (si_addr_p2p_ipv4 op_sig) then
                  (Ok NoError, reply_data (build_signaling_addr env (si_local_addr_p2p op_sig) 3658) s)
                else
                  let both_v6 = si_addr_p2p_ipv6 caller_sig \<noteq> None \<and> si_addr_p2p_ipv6 op_sig \<noteq> None;
                      address = (\<lambda>i. if both_v6 then the (si_addr_p2p_ipv6 i) else si_addr_p2p_ipv4 i);
                      s1 = reply_data (build_signaling_addr env (fst (address op_sig)) (snd (address op_sig))) s;
                      info = \<lparr> msi_npid = ci_npid (s_info s),
                               msi_addr = Some (make_signaling_addr (fst (address caller_sig)) (snd (address caller_sig))) \<rparr>;
                      notif = create_notification SignalingHelper
                                (add_data_packet [] (enc_MatchingSignalingInfo (e_cmd env) info))
                  in (Ok NoError, send_single_notification notif user_id s1)))))"

section \<open>Tickets\<close>

definition track_service :: "string \<Rightarrow> Session \<Rightarrow> Session" where
  "track_service service_id s =
    (case cl_current_game (s_client s) of
       (game, Some cur_service_id) \<Rightarrow>
         if cur_service_id \<noteq> service_id then
           update_tracker (increase_count_ticket service_id)
             (set_current_game (game, Some service_id)
               (update_tracker (decrease_count_ticket cur_service_id) s))
         else s
     | (game, None) \<Rightarrow>
         update_tracker (increase_count_ticket service_id) (set_current_game (game, Some service_id) s))"

text \<open>\<^verbatim>\<open>TICKET_ID_DISPENSER\<close>, the counter of the whole process, gives the number of the ticket and is advanced.\<close>

definition req_ticket :: "Env \<Rightarrow> handler" where
  "req_ticket env s =
    then_st (read_field (get_string False) s) (\<lambda>service_id s.
    then_st (read_field get_rawdata s) (\<lambda>cookie s.
    then_st (check_data s) (\<lambda>_ s.
      let s1 = track_service service_id s;
          (ticket, dispenser) = Ticket_new (e_millis env) (sv_ticket_id (s_server s1)) (of_int (s_user s1)) (ci_npid (s_info s1))
                                  service_id cookie (cf_ticket_signature_info (s_config s1))
      in (Ok NoError, reply_data (generate_blob ticket) (update_server (\<lambda>sv. sv\<lparr> sv_ticket_id := dispenser \<rparr>) s1)))))"

section \<open>Messages and time\<close>

text \<open>The users behind the names of a message; one unknown name refuses the whole message.\<close>

fun message_ids :: "(string \<Rightarrow> i64 db_result) \<Rightarrow> string list \<Rightarrow> i64 set \<Rightarrow> i64 set option" where
  "message_ids user_id [] ids = Some ids"
| "message_ids user_id (npid # npids) ids =
    (case user_id npid of Ok i \<Rightarrow> message_ids user_id npids (insert i ids) | _ \<Rightarrow> None)"

abbreviation (input) MESSAGE_MAIN_TYPE_INVITE :: u32 where "MESSAGE_MAIN_TYPE_INVITE \<equiv> 3"

definition deliver_private_message :: "bytes \<Rightarrow> i64 set \<Rightarrow> handler" where
  "deliver_private_message message ids s =
    (let n_msg = as_bytes (ci_npid (s_info s)) @ [0] @ to_le_bytes (of_nat (length message) :: u32) @ message
     in (Ok NoError, send_notification (create_notification MessageReceived n_msg) ids s))"

definition send_message :: "Env \<Rightarrow> handler" where
  "send_message env s =
    then_st (read_pb (dec_SendMessageRequest (e_cmd env)) s) (\<lambda>req s.
    then_st (get_database_connection env s) (\<lambda>_ s.
      case message_ids (get_user_id (e_sql env) (s_db s)) (smr_npids req) {} of
        None \<Rightarrow> (Ok InvalidInput, s)
      | Some ids \<Rightarrow>
          if ids = {} \<or> s_user s \<in> ids then (Ok InvalidInput, s)
          else case dec_MessageDetails (e_cmd env) (smr_message req) of
            None \<Rightarrow> (Err Malformed, s)
          | Some msg \<Rightarrow>
              if (case md_main_type msg of Some v \<Rightarrow> uint16_val v | None \<Rightarrow> 0) = MESSAGE_MAIN_TYPE_INVITE then
                then_st (unwrap (s_infos s (s_user s)), s) (\<lambda>me s.
                  if \<not> ids \<subseteq> fst ` set (fi_friends (cs_friend_info me)) then (Ok InvalidInput, s)
                  else deliver_private_message (smr_message req) ids s)
              else deliver_private_message (smr_message req) ids s))"

definition get_network_time :: "Env \<Rightarrow> handler" where
  "get_network_time env s = (Ok NoError, reply_bytes (to_le_bytes (e_psn_time env)) s)"

section \<open>Presence\<close>

text \<open>\<^verbatim>\<open>String::truncate(n)\<close>: at most \<^verbatim>\<open>n\<close> bytes, and a panic when that would cut a character in two.\<close>

fun truncate_string :: "nat \<Rightarrow> string \<Rightarrow> string result" where
  "truncate_string n [] = Ok []"
| "truncate_string n (c # s) =
    (if n = 0 then Ok []
     else if length (utf8_char c) \<le> n then bind_res (truncate_string (n - length (utf8_char c)) s) (\<lambda>t. Ok (c # t))
     else Panic)"

definition put_presence :: "ClientSharedPresence \<Rightarrow> Session \<Rightarrow> Session" where
  "put_presence p = put_own_info (\<lambda>i. i\<lparr> cs_friend_info := (cs_friend_info i)\<lparr> fi_presence := Some p \<rparr> \<rparr>)"

definition update_presence :: "ComId \<Rightarrow> SetPresenceRequest \<Rightarrow> ClientSharedPresence \<Rightarrow> ClientSharedPresence result \<times> ClientSharedPresence" where
  "update_presence com_id pr_req p =
    (let p1 = p\<lparr> pr_communication_id := com_id, pr_title := spr_title pr_req \<rparr> in
     then_st (truncate_string 127 (pr_title p1), p1) (\<lambda>title p1.
     let p2 = p1\<lparr> pr_title := title, pr_status := spr_status pr_req \<rparr> in
     then_st (truncate_string 191 (pr_status p2), p2) (\<lambda>status p2.
     let p3 = p2\<lparr> pr_status := status, pr_comment := spr_comment pr_req \<rparr> in
     then_st (truncate_string 63 (pr_comment p3), p3) (\<lambda>comment p3.
     let p4 = p3\<lparr> pr_comment := comment, pr_data := take 128 (spr_data pr_req) \<rparr>
     in (Ok p4, p4)))))"

definition notify_presence :: "ClientSharedPresence \<Rightarrow> handler" where
  "notify_presence presence s =
    (let friends = (case s_infos s (s_user s) of Some i \<Rightarrow> fst ` set (fi_friends (cs_friend_info i)) | None \<Rightarrow> {});
         n_msg = as_bytes (ci_npid (s_info s)) @ [0] @ presence_dump presence
     in (Ok NoError, send_notification (create_notification FriendPresenceChanged n_msg) friends s))"

definition set_presence :: "Env \<Rightarrow> handler" where
  "set_presence env s =
    then_st (get_com_and_pb env (dec_SetPresenceRequest (e_cmd env)) s) (\<lambda>(com_id, pr_req) s.
    then_st (unwrap (s_infos s (s_user s)), s) (\<lambda>me s.
      case fi_presence (cs_friend_info me) of
        Some p \<Rightarrow>
          if pr_communication_id p \<noteq> com_id \<or> pr_title p \<noteq> spr_title pr_req \<or> spr_status pr_req \<noteq> pr_status p \<or>
             spr_comment pr_req \<noteq> pr_comment p \<or> spr_data pr_req \<noteq> pr_data p
          then
            bind_st (update_presence com_id pr_req p) (\<lambda>p1 p2.
              notify_presence p1 (put_presence p2 (update_tracker (add_gamename_hint com_id (spr_title pr_req)) s)))
            (\<lambda>p2. put_presence p2 (update_tracker (add_gamename_hint com_id (spr_title pr_req)) s))
          else (Ok NoError, s)
      | None \<Rightarrow>
          let p = ClientSharedPresence_new com_id (spr_title pr_req) (spr_status pr_req) (spr_comment pr_req) (spr_data pr_req)
          in notify_presence p (put_presence p s)))"

end
