(* ===== verification/Cmd_Tus.thy ===== *)
theory Cmd_Tus
  imports Cmd_Score
begin

text \<open>
  The commands of the title user storage, \<^verbatim>\<open>server/client/cmd_tus.rs\<close>: variables and data in the slots of users
  and of virtual users.  A user's own slots can be changed by that user only, the slots of virtual users by all.
\<close>

abbreviation (input) SCE_NP_TUS_DATA_INFO_MAX_SIZE :: nat where "SCE_NP_TUS_DATA_INFO_MAX_SIZE \<equiv> 387"
abbreviation (input) UNDOCUMENTED_TUS_DATA_MAX_SIZE :: nat where "UNDOCUMENTED_TUS_DATA_MAX_SIZE \<equiv> 1024 * 1024"

definition clean_tus_data :: "sql \<Rightarrow> (u64 \<Rightarrow> bool) \<Rightarrow> u64 list \<Rightarrow> Database \<Rightarrow> DataFiles \<Rightarrow> unit db_result \<times> DataFiles" where
  "clean_tus_data sql remove_file dir_ids_list db d =
    then_st (tus_get_all_data_ids sql db, d) (\<lambda>db_ids_list. clean_data_files remove_file dir_ids_list db_ids_list)"

definition create_tus_data_file :: "Env \<Rightarrow> bytes \<Rightarrow> Session \<Rightarrow> u64 result \<times> Session" where
  "create_tus_data_file env data s =
    (case create_data_file env data (sv_tus_data (s_server s)) of
       (i, d) \<Rightarrow> (Ok i, update_server (\<lambda>sv. sv\<lparr> sv_tus_data := d \<rparr>) s))"

definition delete_tus_data :: "Env \<Rightarrow> u64 \<Rightarrow> Session \<Rightarrow> Session" where
  "delete_tus_data env i = update_server (\<lambda>sv. sv\<lparr> sv_tus_data := delete_data_file env i (sv_tus_data sv) \<rparr>)"

section \<open>Steps the commands share\<close>

text \<open>The user of a request must be given, with a name.\<close>

definition tus_user :: "TusUser option \<Rightarrow> TusUser result" where
  "tus_user user =
    (case user of
       None \<Rightarrow> Err Malformed
     | Some user \<Rightarrow> if tu_npid user = [] then Err Malformed else Ok user)"

text \<open>The account behind a name, and the check that it is the caller's own.\<close>

definition tus_user_id :: "Env \<Rightarrow> string \<Rightarrow> Session \<Rightarrow> (i64 \<Rightarrow> handler) \<Rightarrow> ErrorType result \<times> Session" where
  "tus_user_id env npid s k =
    then_st (query_db (get_user_id (e_sql env) (s_db s) npid) s) (\<lambda>res s.
      case res of
        Inl e \<Rightarrow> (if e = DbEmpty then Ok NotFound else Err DbFail, s)
      | Inr user_id \<Rightarrow> k user_id s)"

definition tus_own_id :: "Env \<Rightarrow> string \<Rightarrow> Session \<Rightarrow> (i64 \<Rightarrow> handler) \<Rightarrow> ErrorType result \<times> Session" where
  "tus_own_id env npid s k =
    tus_user_id env npid s (\<lambda>user_id s. if user_id \<noteq> s_user s then (Ok Unauthorized, s) else k user_id s)"

definition optional_entry :: "'a db_result \<Rightarrow> 'a option result" where
  "optional_entry r =
    (case r of
       Ok x \<Rightarrow> Ok (Some x)
     | Err e \<Rightarrow> if e = DbEmpty then Ok None else Err DbFail
     | Panic \<Rightarrow> Panic)"

definition author_name :: "Env \<Rightarrow> Database \<Rightarrow> i64 \<Rightarrow> string result" where
  "author_name env db user_id =
    (case get_username (e_sql env) db user_id of Ok username \<Rightarrow> Ok username | Err _ \<Rightarrow> Err DbFail | Panic \<Rightarrow> Panic)"

definition get_username_with_helper :: "Env \<Rightarrow> Database \<Rightarrow> (i64, string) btree \<Rightarrow> i64 \<Rightarrow> string result" where
  "get_username_with_helper env db helper_list user_id =
    (case map_of helper_list user_id of Some npid \<Rightarrow> Ok npid | None \<Rightarrow> author_name env db user_id)"

definition tus_variable :: "string \<Rightarrow> DbTusVarInfo \<Rightarrow> string \<Rightarrow> TusVariable" where
  "tus_variable npid var author =
    \<lparr> tvr_owner_id = npid, tvr_has_data = True, tvr_last_changed_date = vi_timestamp var,
      tvr_last_changed_author_id = author, tvr_variable = vi_variable var, tvr_old_variable = vi_variable var \<rparr>"

definition no_variable :: "string \<Rightarrow> TusVariable" where
  "no_variable npid =
    \<lparr> tvr_owner_id = npid, tvr_has_data = False, tvr_last_changed_date = 0, tvr_last_changed_author_id = [],
      tvr_variable = 0, tvr_old_variable = 0 \<rparr>"

definition final_variable :: "Env \<Rightarrow> Database \<Rightarrow> string \<times> DbTusVarInfo option \<Rightarrow> TusVariable result" where
  "final_variable env db v =
    (case snd v of
       Some var \<Rightarrow> bind_res (author_name env db (vi_author_id var)) (\<lambda>author. Ok (tus_variable (fst v) var author))
     | None \<Rightarrow> Ok (no_variable (fst v)))"

definition reply_variables :: "Env \<Rightarrow> (string \<times> DbTusVarInfo option) list \<Rightarrow> handler" where
  "reply_variables env vars s =
    then_st (traverse (final_variable env (s_db s)) vars, s) (\<lambda>final_vars s.
      (Ok NoError, reply_data (enc_TusVarResponse (e_tus env) final_vars) s))"

text \<open>The optional conditions of a request.\<close>

definition single_or_none :: "'a list \<Rightarrow> 'a option result" where
  "single_or_none xs = (case xs of [] \<Rightarrow> Ok None | [x] \<Rightarrow> Ok (Some x) | _ \<Rightarrow> Err Malformed)"

definition find_compare_author :: "Env \<Rightarrow> Database \<Rightarrow> string \<Rightarrow> i64 option result" where
  "find_compare_author env db author = (if author = [] then Ok None else optional_entry (get_user_id (e_sql env) db author))"

section \<open>Variables\<close>

definition tus_set_multislot_variable :: "Env \<Rightarrow> handler" where
  "tus_set_multislot_variable env s =
    then_st (get_com_and_pb env (dec_TusSetMultiSlotVariableRequest (e_tus env)) s) (\<lambda>(com_id, tus_req) s.
    then_st (tus_user (tsv_user tus_req), s) (\<lambda>user s.
      if length (tsv_slot_id_array tus_req) \<noteq> length (tsv_variable_array tus_req) then (Err Malformed, s)
      else
        then_st (get_database_connection env s) (\<lambda>_ s.
          let sets = zip (tsv_slot_id_array tus_req) (tsv_variable_array tus_req); npid = tu_npid user in
          if tu_vuser user then
            (Ok NoError, fold (\<lambda>(slot, v) s. put_db (snd (tus_set_vuser_variable (e_sql env) (s_db s) com_id npid slot v
               (s_user s) (e_psn_time env))) s) sets s)
          else
            tus_own_id env npid s (\<lambda>user_id s.
              (Ok NoError, fold (\<lambda>(slot, v) s. put_db (snd (tus_set_user_variable (e_sql env) (s_db s) com_id user_id slot v
                 (s_user s) (e_psn_time env))) s) sets s)))))"

definition tus_get_multislot_variable :: "Env \<Rightarrow> handler" where
  "tus_get_multislot_variable env s =
    then_st (get_com_and_pb env (dec_TusGetMultiSlotVariableRequest (e_tus env)) s) (\<lambda>(com_id, tus_req) s.
    then_st (tus_user (tsr_user tus_req), s) (\<lambda>user s.
    then_st (get_database_connection env s) (\<lambda>_ s.
      let npid = tu_npid user; slots = tsr_slot_id_array tus_req; answer = (\<lambda>vars. reply_variables env (map (Pair npid) vars)) in
      if tu_vuser user then
        then_st (traverse (\<lambda>slot. optional_entry (tus_get_vuser_variable (e_sql env) (s_db s) com_id npid slot)) slots, s) answer
      else
        tus_user_id env npid s (\<lambda>user_id s.
          then_st (traverse (\<lambda>slot. optional_entry (tus_get_user_variable (e_sql env) (s_db s) com_id user_id slot)) slots, s)
            answer))))"

text \<open>One user after the other: a name without an account ends the command.\<close>

fun multiuser :: "Env \<Rightarrow> (string \<Rightarrow> 'a result) \<Rightarrow> (i64 \<Rightarrow> 'a result) \<Rightarrow> TusUser list \<Rightarrow> (string \<times> 'a) list
    \<Rightarrow> ((string \<times> 'a) list \<Rightarrow> handler) \<Rightarrow> handler" where
  "multiuser env of_vuser of_user [] acc k s = k (rev acc) s"
| "multiuser env of_vuser of_user (user # users) acc k s =
    (if tu_vuser user then
       then_st (of_vuser (tu_npid user), s) (\<lambda>x. multiuser env of_vuser of_user users ((tu_npid user, x) # acc) k)
     else
       tus_user_id env (tu_npid user) s (\<lambda>user_id s.
       then_st (of_user user_id, s) (\<lambda>x. multiuser env of_vuser of_user users ((tu_npid user, x) # acc) k)))"

definition tus_get_multiuser_variable :: "Env \<Rightarrow> handler" where
  "tus_get_multiuser_variable env s =
    then_st (get_com_and_pb env (dec_TusGetMultiUserVariableRequest (e_tus env)) s) (\<lambda>(com_id, tus_req) s.
      if list_ex (\<lambda>user. tu_npid user = []) (tur_users tus_req) then (Err Malformed, s)
      else
        then_st (get_database_connection env s) (\<lambda>_ s.
          multiuser env
            (\<lambda>npid. optional_entry (tus_get_vuser_variable (e_sql env) (s_db s) com_id npid (tur_slot_id tus_req)))
            (\<lambda>user_id. optional_entry (tus_get_user_variable (e_sql env) (s_db s) com_id user_id (tur_slot_id tus_req)))
            (tur_users tus_req) [] (reply_variables env) s))"

text \<open>The friends of the caller with their names, and the caller too when the request says so.\<close>

definition friends_list :: "bool \<Rightarrow> Session \<Rightarrow> (i64, string) btree result" where
  "friends_list include_self s =
    bind_res (unwrap (s_infos s (s_user s))) (\<lambda>me.
      let friends = fi_friends (cs_friend_info me)
      in Ok (if include_self then bt_insert (s_user s) (ci_npid (s_info s)) friends else friends))"

definition tus_get_friends_variable :: "Env \<Rightarrow> handler" where
  "tus_get_friends_variable env s =
    then_st (get_com_and_pb env (dec_TusGetFriendsVariableRequest (e_tus env)) s) (\<lambda>(com_id, tus_req) s.
    then_st (ok_or Malformed (TusSorting_from_i32 (tfr_sort_type tus_req)), s) (\<lambda>sorting s.
    then_st (friends_list (tfr_include_self tus_req) s, s) (\<lambda>user_list s.
      if user_list = [] then (Ok NoError, reply_data (enc_TusVarResponse (e_tus env) []) s)
      else
        then_st (get_database_connection env s) (\<lambda>_ s.
        then_st (db_or_fail (query_db (tus_get_user_variable_from_user_list (e_sql env) (s_db s) com_id (map fst user_list)
            (tfr_slot_id tus_req) sorting (tfr_array_num tus_req)) s)) (\<lambda>vec_vars s.
        then_st (traverse (\<lambda>(user_id, var).
            bind_res (get_username_with_helper env (s_db s) user_list (vi_author_id var)) (\<lambda>author.
            bind_res (unwrap (map_of user_list user_id)) (\<lambda>owner. Ok (tus_variable owner var author)))) vec_vars, s)
          (\<lambda>final_vars s. (Ok NoError, reply_data (enc_TusVarResponse (e_tus env) final_vars) s)))))))"

text \<open>The answer of the two commands that change a variable and give it back.\<close>

definition reply_variable :: "Env \<Rightarrow> string \<Rightarrow> DbTusVarInfo \<Rightarrow> handler" where
  "reply_variable env npid var s =
    then_st (author_name env (s_db s) (vi_author_id var), s) (\<lambda>author s.
      (Ok NoError, reply_data (enc_TusVariable (e_tus env) (tus_variable npid var author)) s))"

definition tus_add_and_get_variable :: "Env \<Rightarrow> handler" where
  "tus_add_and_get_variable env s =
    then_st (get_com_and_pb env (dec_TusAddAndGetVariableRequest (e_tus env)) s) (\<lambda>(com_id, tus_req) s.
    then_st (tus_user (tag_user tus_req), s) (\<lambda>user s.
    then_st (single_or_none (tag_is_last_changed_date tus_req), s) (\<lambda>compare_timestamp s.
    then_st (get_database_connection env s) (\<lambda>_ s.
    then_st (find_compare_author env (s_db s) (tag_is_last_changed_author_id tus_req), s) (\<lambda>compare_author s.
      let npid = tu_npid user; slot = tag_slot_id tus_req; to_add = tag_in_variable tus_req in
      if tu_vuser user then
        then_st (db_or_fail (with_db (tus_add_and_get_vuser_variable (e_sql env) (s_db s) com_id npid slot to_add (s_user s)
            (e_psn_time env) compare_timestamp compare_author) s)) (reply_variable env npid)
      else
        tus_own_id env npid s (\<lambda>user_id s.
          then_st (db_or_fail (with_db (tus_add_and_get_user_variable (e_sql env) (s_db s) com_id user_id slot to_add (s_user s)
              (e_psn_time env) compare_timestamp compare_author) s)) (reply_variable env npid)))))))"

definition tus_try_and_set_variable :: "Env \<Rightarrow> handler" where
  "tus_try_and_set_variable env s =
    then_st (get_com_and_pb env (dec_TusTryAndSetVariableRequest (e_tus env)) s) (\<lambda>(com_id, tus_req) s.
    then_st (tus_user (tts_user tus_req), s) (\<lambda>user s.
    then_st (ok_or Malformed (TusOpeType_from_i32 (tts_ope_type tus_req)), s) (\<lambda>op_type s.
    then_st (single_or_none (tts_compare_value tus_req), s) (\<lambda>compare_value s.
    then_st (single_or_none (tts_is_last_changed_date tus_req), s) (\<lambda>compare_timestamp s.
    then_st (get_database_connection env s) (\<lambda>_ s.
    then_st (find_compare_author env (s_db s) (tts_is_last_changed_author_id tus_req), s) (\<lambda>compare_author s.
      let npid = tu_npid user; slot = tts_slot_id tus_req; to_set = tts_variable tus_req;
          compare_value = (case compare_value of Some v \<Rightarrow> v | None \<Rightarrow> to_set)
      in if tu_vuser user then
           then_st (db_or_fail (with_db (tus_try_and_set_vuser_variable (e_sql env) (s_db s) com_id npid slot to_set (s_user s)
               (e_psn_time env) compare_value op_type compare_timestamp compare_author) s)) (reply_variable env npid)
         else
           tus_own_id env npid s (\<lambda>user_id s.
             then_st (db_or_fail (with_db (tus_try_and_set_user_variable (e_sql env) (s_db s) com_id user_id slot to_set (s_user s)
                 (e_psn_time env) compare_value op_type compare_timestamp compare_author) s)) (reply_variable env npid)))))))))"

definition tus_delete_multislot_variable :: "Env \<Rightarrow> handler" where
  "tus_delete_multislot_variable env s =
    then_st (get_com_and_pb env (dec_TusDeleteMultiSlotVariableRequest (e_tus env)) s) (\<lambda>(com_id, tus_req) s.
    then_st (tus_user (tsr_user tus_req), s) (\<lambda>user s.
      let npid = tu_npid user; slots = tsr_slot_id_array tus_req in
      if slots = [] then (Err Malformed, s)
      else
        then_st (get_database_connection env s) (\<lambda>_ s.
          if tu_vuser user then
            then_st (db_or_fail (with_db (tus_delete_vuser_variable_with_slotlist (e_sql env) (s_db s) com_id npid slots) s))
              (\<lambda>_ s. (Ok NoError, s))
          else
            tus_own_id env npid s (\<lambda>user_id s.
              then_st (db_or_fail (with_db (tus_delete_user_variable_with_slotlist (e_sql env) (s_db s) com_id user_id slots) s))
                (\<lambda>_ s. (Ok NoError, s))))))"

section \<open>Data\<close>

text \<open>The conditions are tested before the data is stored; nothing means that it may be.\<close>

definition preliminary_set_tus_data_check ::
    "(u64 \<times> i64) option db_result \<Rightarrow> u64 option \<Rightarrow> i64 option \<Rightarrow> ErrorType option result" where
  "preliminary_set_tus_data_check f compare_timestamp compare_author_id =
    (if compare_timestamp = None \<and> compare_author_id = None then Ok None
     else case f of
       Err DbInternal \<Rightarrow> Err DbFail
     | Ok None \<Rightarrow> Ok None
     | Ok (Some (db_timestamp, db_author_id)) \<Rightarrow>
         if (case compare_timestamp of Some t \<Rightarrow> db_timestamp > t | None \<Rightarrow> False) then Ok (Some CondFail)
         else if (case compare_author_id of Some a \<Rightarrow> a \<noteq> db_author_id | None \<Rightarrow> False) then Ok (Some CondFail)
         else Ok None
     | _ \<Rightarrow> Panic)"

text \<open>Storing the data in a file and its number in the row, after the check; a refused row takes the file with it.\<close>

definition store_tus_data ::
    "Env \<Rightarrow> bytes \<Rightarrow> ErrorType option result \<Rightarrow> (u64 \<Rightarrow> Database \<Rightarrow> unit db_result \<times> Database) \<Rightarrow> handler" where
  "store_tus_data env data check set_data s =
    then_st (check, s) (\<lambda>ret_value s.
      case ret_value of
        Some e \<Rightarrow> (Ok e, s)
      | None \<Rightarrow>
          then_st (create_tus_data_file env data s) (\<lambda>data_id s.
          then_st (with_db (set_data data_id (s_db s)) s) (\<lambda>res s.
            case res of
              Inr _ \<Rightarrow> (Ok NoError, s)
            | Inl e \<Rightarrow> if e = DbEmpty then (Ok CondFail, delete_tus_data env data_id s) else (Err DbFail, s))))"

definition tus_set_data :: "Env \<Rightarrow> handler" where
  "tus_set_data env s =
    then_st (get_com_and_pb env (dec_TusSetDataRequest (e_tus env)) s) (\<lambda>(com_id, tus_req) s.
    then_st (tus_user (tsd_user tus_req), s) (\<lambda>user s.
      if tsd_data tus_req = [] \<or> length (tsd_info tus_req) > SCE_NP_TUS_DATA_INFO_MAX_SIZE \<or>
         length (tsd_data tus_req) > UNDOCUMENTED_TUS_DATA_MAX_SIZE
      then (Err Malformed, s)
      else
        then_st (single_or_none (tsd_is_last_changed_date tus_req), s) (\<lambda>compare_timestamp s.
        then_st (get_database_connection env s) (\<lambda>_ s.
        then_st (find_compare_author env (s_db s) (tsd_is_last_changed_author_id tus_req), s) (\<lambda>author s.
          let npid = tu_npid user; slot = tsd_slot_id tus_req; db = s_db s;
              info = (if tsd_info tus_req = [] then None else Some (tsd_info tus_req))
          in if tsd_is_last_changed_author_id tus_req \<noteq> [] \<and> author = None then (Ok CondFail, s)
             else if tu_vuser user then
               store_tus_data env (tsd_data tus_req)
                 (preliminary_set_tus_data_check (tus_get_vuser_data_timestamp_and_author (e_sql env) db com_id npid slot)
                    compare_timestamp author)
                 (\<lambda>data_id db. tus_set_vuser_data (e_sql env) db com_id npid slot data_id info (s_user s) (e_psn_time env)
                    compare_timestamp author) s
             else
               tus_own_id env npid s (\<lambda>user_id s.
                 store_tus_data env (tsd_data tus_req)
                   (preliminary_set_tus_data_check (tus_get_user_data_timestamp_and_author (e_sql env) db com_id user_id slot)
                      compare_timestamp author)
                   (\<lambda>data_id db. tus_set_user_data (e_sql env) db com_id user_id slot data_id info user_id (e_psn_time env)
                      compare_timestamp author) s))))))"

definition tus_status :: "string \<Rightarrow> DbTusDataStatus \<times> bytes \<Rightarrow> string \<Rightarrow> TusDataStatus" where
  "tus_status npid st author =
    \<lparr> tds_owner_id = npid, tds_has_data = True, tds_last_changed_date = ds_timestamp (fst st),
      tds_last_changed_author_id = author, tds_info = snd st \<rparr>"

definition no_status :: "string \<Rightarrow> TusDataStatus" where
  "no_status npid =
    \<lparr> tds_owner_id = npid, tds_has_data = False, tds_last_changed_date = 0, tds_last_changed_author_id = [],
      tds_info = [] \<rparr>"

definition tus_get_data :: "Env \<Rightarrow> handler" where
  "tus_get_data env s =
    then_st (get_com_and_pb env (dec_TusGetDataRequest (e_tus env)) s) (\<lambda>(com_id, tus_req) s.
    then_st (tus_user (tgd_user tus_req), s) (\<lambda>user s.
    then_st (get_database_connection env s) (\<lambda>_ s.
      let npid = tu_npid user; slot = tgd_slot_id tus_req;
          answer = (\<lambda>res s. then_st (optional_entry res, s) (\<lambda>info s.
            case info of
              None \<Rightarrow> (Ok NoError, reply_data (enc_TusData (e_tus env) (Some (no_status npid)) []) s)
            | Some st \<Rightarrow>
                (case get_data_file env (ds_data_id (fst st)) (sv_tus_data (s_server s)) of
                   Ok data \<Rightarrow>
                     then_st (author_name env (s_db s) (ds_author_id (fst st)), s) (\<lambda>author s.
                       (Ok NoError, reply_data (enc_TusData (e_tus env) (Some (tus_status npid st author)) data) s))
                 | _ \<Rightarrow> (Err DbFail, s))))
      in if tu_vuser user then answer (tus_get_vuser_data (e_sql env) (s_db s) com_id npid slot) s
         else tus_user_id env npid s (\<lambda>user_id s. answer (tus_get_user_data (e_sql env) (s_db s) com_id user_id slot) s))))"

text \<open>\<^verbatim>\<open>.ok()\<close>.\<close>

definition ok_entry :: "'a db_result \<Rightarrow> 'a option result" where
  "ok_entry r = (case r of Ok x \<Rightarrow> Ok (Some x) | Err _ \<Rightarrow> Ok None | Panic \<Rightarrow> Panic)"

definition final_status :: "Env \<Rightarrow> Database \<Rightarrow> string \<times> (DbTusDataStatus \<times> bytes) option \<Rightarrow> TusDataStatus result" where
  "final_status env db v =
    (case snd v of
       Some st \<Rightarrow> bind_res (author_name env db (ds_author_id (fst st))) (\<lambda>author. Ok (tus_status (fst v) st author))
     | None \<Rightarrow> Ok (no_status (fst v)))"

definition reply_statuses :: "Env \<Rightarrow> (string \<times> (DbTusDataStatus \<times> bytes) option) list \<Rightarrow> handler" where
  "reply_statuses env vec_status s =
    then_st (traverse (final_status env (s_db s)) vec_status, s) (\<lambda>vec_list_status s.
      (Ok NoError, reply_data (enc_TusDataStatusResponse (e_tus env) vec_list_status) s))"

definition tus_get_multislot_data_status :: "Env \<Rightarrow> handler" where
  "tus_get_multislot_data_status env s =
    then_st (get_com_and_pb env (dec_TusGetMultiSlotDataStatusRequest (e_tus env)) s) (\<lambda>(com_id, tus_req) s.
    then_st (tus_user (tsr_user tus_req), s) (\<lambda>user s.
    then_st (get_database_connection env s) (\<lambda>_ s.
      let npid = tu_npid user; slots = tsr_slot_id_array tus_req; answer = (\<lambda>sts. reply_statuses env (map (Pair npid) sts)) in
      if tu_vuser user then
        then_st (traverse (\<lambda>slot. ok_entry (tus_get_vuser_data (e_sql env) (s_db s) com_id npid slot)) slots, s) answer
      else
        tus_user_id env npid s (\<lambda>user_id s.
          then_st (traverse (\<lambda>slot. ok_entry (tus_get_user_data (e_sql env) (s_db s) com_id user_id slot)) slots, s) answer))))"

definition tus_get_multiuser_data_status :: "Env \<Rightarrow> handler" where
  "tus_get_multiuser_data_status env s =
    then_st (get_com_and_pb env (dec_TusGetMultiUserDataStatusRequest (e_tus env)) s) (\<lambda>(com_id, tus_req) s.
      if tur_users tus_req = [] \<or> list_ex (\<lambda>user. tu_npid user = []) (tur_users tus_req) then (Err Malformed, s)
      else
        then_st (get_database_connection env s) (\<lambda>_ s.
          multiuser env
            (\<lambda>npid. ok_entry (tus_get_vuser_data (e_sql env) (s_db s) com_id npid (tur_slot_id tus_req)))
            (\<lambda>user_id. ok_entry (tus_get_user_data (e_sql env) (s_db s) com_id user_id (tur_slot_id tus_req)))
            (tur_users tus_req) [] (reply_statuses env) s))"

definition tus_get_friends_data_status :: "Env \<Rightarrow> handler" where
  "tus_get_friends_data_status env s =
    then_st (get_com_and_pb env (dec_TusGetFriendsDataStatusRequest (e_tus env)) s) (\<lambda>(com_id, tus_req) s.
    then_st (ok_or Malformed (TusStatusSorting_from_i32 (tfr_sort_type tus_req)), s) (\<lambda>sorting s.
    then_st (friends_list (tfr_include_self tus_req) s, s) (\<lambda>user_list s.
      if user_list = [] then (Ok NoError, reply_data (enc_TusDataStatusResponse (e_tus env) []) s)
      else
        then_st (get_database_connection env s) (\<lambda>_ s.
        then_st (db_or_fail (query_db (tus_get_user_data_from_user_list (e_sql env) (s_db s) com_id (map fst user_list)
            (tfr_slot_id tus_req) sorting (tfr_array_num tus_req)) s)) (\<lambda>vec_vars s.
        then_st (traverse (\<lambda>(user_id, st).
            bind_res (get_username_with_helper env (s_db s) user_list (ds_author_id (fst st))) (\<lambda>author.
            bind_res (unwrap (map_of user_list user_id)) (\<lambda>owner. Ok (tus_status owner st author)))) vec_vars, s)
          (\<lambda>final_infos s. (Ok NoError, reply_data (enc_TusDataStatusResponse (e_tus env) final_infos) s)))))))"

definition tus_delete_multislot_data :: "Env \<Rightarrow> handler" where
  "tus_delete_multislot_data env s =
    then_st (get_com_and_pb env (dec_TusDeleteMultiSlotDataRequest (e_tus env)) s) (\<lambda>(com_id, tus_req) s.
    then_st (tus_user (tsr_user tus_req), s) (\<lambda>user s.
      let npid = tu_npid user; slots = tsr_slot_id_array tus_req in
      if slots = [] then (Err Malformed, s)
      else
        then_st (get_database_connection env s) (\<lambda>_ s.
          if tu_vuser user then
            then_st (db_or_fail (with_db (tus_delete_vuser_data_with_slotlist (e_sql env) (s_db s) com_id npid slots) s))
              (\<lambda>_ s. (Ok NoError, s))
          else
            tus_own_id env npid s (\<lambda>user_id s.
              then_st (db_or_fail (with_db (tus_delete_user_data_with_slotlist (e_sql env) (s_db s) com_id user_id slots) s))
                (\<lambda>_ s. (Ok NoError, s))))))"

end
