(* ===== verification/Cmd_Account.thy ===== *)
theory Cmd_Account
  imports Client_State
begin

text \<open>
  The commands on accounts (\<^verbatim>\<open>server/client/cmd_account.rs\<close>), friends (\<^verbatim>\<open>cmd_friend.rs\<close>) and the
  administrator's commands (\<^verbatim>\<open>cmd_admin.rs\<close>).  The parser of mail addresses and the mail server are those of a
  library and are part of the environment.
\<close>

section \<open>Mails\<close>

definition strip_email :: "string \<Rightarrow> string result" where
  "strip_email email =
    (let tokens = split_on CHR ''@'' (to_ascii_lowercase email) in
     bind_res (index_res tokens 0) (\<lambda>user.
     bind_res (index_res (split_on CHR ''+'' user) 0) (\<lambda>alias.
     bind_res (index_res tokens 1) (\<lambda>domain. Ok (alias @ ''@'' @ domain)))))"

text \<open>Whether the mail was delivered.  A mail uses up a number even when its address is refused.\<close>

definition send_email_template :: "Env \<Rightarrow> string \<Rightarrow> string \<Rightarrow> string \<Rightarrow> string \<Rightarrow> Session \<Rightarrow> bool \<times> Session" where
  "send_email_template env email_addr email_username subject body s =
    (let i = sv_email_id (s_server s); s1 = update_server (\<lambda>sv. sv\<lparr> sv_email_id := i + 1 \<rparr>) s;
         mail = \<lparr> ma_address = email_addr, ma_name = email_username, ma_subject = subject, ma_body = body,
                  ma_message_id = ''<'' @ print_nat (unat (e_nanos env)) @ ''.'' @ print_nat (unat i) @ ''@rpcs3.net>'' \<rparr>
     in if e_address env email_addr \<and> e_smtp env mail
        then (True, update_server (\<lambda>sv. sv\<lparr> sv_mails := sv_mails sv @ [mail] \<rparr>) s1)
        else (False, s1))"

definition send_token_mail :: "Env \<Rightarrow> string \<Rightarrow> string \<Rightarrow> string \<Rightarrow> Session \<Rightarrow> bool \<times> Session" where
  "send_token_mail env email_addr npid token =
    send_email_template env email_addr npid ''Your token for RPCN''
      (''Your token for username '' @ npid @ '' is:'' @ [char_of (10 :: nat)] @ token)"

definition send_reset_token_mail :: "Env \<Rightarrow> string \<Rightarrow> string \<Rightarrow> string \<Rightarrow> Session \<Rightarrow> bool \<times> Session" where
  "send_reset_token_mail env email_addr npid reset_token =
    send_email_template env email_addr npid ''Your password reset code for RPCN''
      (''Your password reset code for username '' @ npid @ '' is:'' @ [char_of (10 :: nat)] @ reset_token @
       [char_of (10 :: nat), char_of (10 :: nat)] @ ''Note that this code can only be used once!'')"

section \<open>Logging in\<close>

definition dump_usernames :: "(i64 \<times> string) list \<Rightarrow> bytes" where
  "dump_usernames v_usernames =
    to_le_bytes (of_nat (length v_usernames) :: u32) @ concat (map (\<lambda>(_, username). as_bytes username @ [0]) v_usernames)"

definition dump_usernames_and_status :: "(i64 \<rightharpoonup> ClientSharedInfo) \<Rightarrow> (i64 \<times> string) list \<Rightarrow> bytes" where
  "dump_usernames_and_status client_infos v_usernames =
    to_le_bytes (of_nat (length v_usernames) :: u32) @
    concat (map (\<lambda>(user_id, username). as_bytes username @ [0] @
      (case client_infos user_id of
         None \<Rightarrow> 0 # presence_dump_empty
       | Some client_info \<Rightarrow>
           1 # (case fi_presence (cs_friend_info client_info) of
                  Some presence_info \<Rightarrow> presence_dump presence_info
                | None \<Rightarrow> presence_dump_empty))) v_usernames)"

definition login_reply :: "Account \<Rightarrow> UserRelationships \<Rightarrow> (i64 \<rightharpoonup> ClientSharedInfo) \<Rightarrow> bytes" where
  "login_reply user_data rels client_infos =
    as_bytes (ac_online_name user_data) @ [0] @ as_bytes (ac_avatar_url user_data) @ [0] @
    to_le_bytes (of_int (ac_user_id user_data) :: u64) @ dump_usernames_and_status client_infos (ur_friends rels) @
    dump_usernames (ur_friend_requests rels) @ dump_usernames (ur_friend_requests_received rels) @
    dump_usernames (ur_blocked rels)"

definition login_info :: "string \<Rightarrow> Account \<Rightarrow> ClientInfo" where
  "login_info npid user_data =
    \<lparr> ci_user_id = ac_user_id user_data, ci_npid = npid, ci_online_name = ac_online_name user_data,
      ci_avatar_url = ac_avatar_url user_data, ci_token = ac_token user_data, ci_admin = ac_admin user_data,
      ci_stat_agent = ac_stat_agent user_data, ci_banned = ac_banned user_data \<rparr>"

text \<open>The connection becomes that of the user: from here on it is authentified and the user is online.\<close>

definition enter_user :: "string \<Rightarrow> Account \<Rightarrow> UserRelationships \<Rightarrow> Session \<Rightarrow> Session" where
  "enter_user npid user_data rels s =
    (let info = login_info npid user_data;
         friends = fold (\<lambda>(k, v). bt_insert k v) (ur_friends rels) [];
         s1 = reply_bytes (login_reply user_data rels (s_infos s)) s;
         s2 = s1\<lparr> s_client := (s_client s1)\<lparr> cl_authentified := True, cl_client_info := info \<rparr> \<rparr>
     in update_tracker increase_num_users
          (update_shared (\<lambda>sh. sh\<lparr> sh_client_infos := (sh_client_infos sh)
             (ac_user_id user_data \<mapsto> ClientSharedInfo_new friends info (cl_peer_ip (s_client s2))) \<rparr>) s2))"

definition login_user :: "Env \<Rightarrow> string \<Rightarrow> Account \<Rightarrow> handler" where
  "login_user env npid user_data s =
    (let user_id = ac_user_id user_data in
     if ac_banned user_data then (Err LoginError, s)
     else if s_infos s user_id \<noteq> None then (Err LoginAlreadyLoggedIn, s)
     else if user_id \<in> sh_cleanup_duty (s_shared s) then (Err LoginAlreadyLoggedIn, s)
     else
       then_st (query_db (get_user_id (e_sql env) (s_db s) npid) s) (\<lambda>res s.
         case res of
           Inl _ \<Rightarrow> (Err LoginInvalidUsername, s)
         | Inr _ \<Rightarrow>
             then_st (db_or_fail (query_db (get_relationships (e_sql env) (s_db s) user_id) s)) (\<lambda>rels s.
             then_st (db_or_fail (with_db (update_login_time (e_dbe env) (s_db s) user_id) s)) (\<lambda>_ s.
               let s1 = enter_user npid user_data rels s
               in (Ok NoError, send_notification (create_friend_status_notification npid (e_nanos env) True)
                    (fst ` set (ur_friends rels)) s1)))))"

definition login_error :: "DbError \<Rightarrow> ErrorType" where
  "login_error e =
    (case e of
       DbEmpty \<Rightarrow> LoginInvalidUsername
     | DbWrongPass \<Rightarrow> LoginInvalidPassword
     | DbWrongToken \<Rightarrow> LoginInvalidToken
     | _ \<Rightarrow> LoginError)"

definition login :: "Env \<Rightarrow> handler" where
  "login env s =
    then_st (read_field (get_string False) s) (\<lambda>npid s.
    then_st (read_field (get_string False) s) (\<lambda>password s.
    then_st (read_field (get_string True) s) (\<lambda>token s.
    then_st (check_data s) (\<lambda>_ s.
    then_st (get_database_connection env s) (\<lambda>_ s.
    then_st (query_db (check_user (e_dbe env) (s_db s) npid password token (is_email_validated (s_config s))) s) (\<lambda>res s.
      case res of
        Inl e \<Rightarrow> (Err (login_error e), s)
      | Inr user_data \<Rightarrow> login_user env npid user_data s))))))"

section \<open>Accounts\<close>

text \<open>The address as it is compared with others; the domain of a new one must be on the list when mails are validated.\<close>

definition checked_email :: "Config \<Rightarrow> string \<Rightarrow> string result" where
  "checked_email config email =
    bind_res (strip_email email) (\<lambda>check_email.
      if is_email_validated config then
        bind_res (index_res (split_on CHR ''@'' check_email) 1) (\<lambda>domain.
          if \<not> is_banned_domain config domain then Err CreationBannedEmailProvider else Ok check_email)
      else Ok check_email)"

definition create_account :: "Env \<Rightarrow> handler" where
  "create_account env s =
    then_st (read_field (get_string False) s) (\<lambda>npid s.
    then_st (read_field (get_string False) s) (\<lambda>password s.
    then_st (read_field (get_string False) s) (\<lambda>online_name s.
    then_st (read_field (get_string False) s) (\<lambda>avatar_url s.
    then_st (read_field (get_string False) s) (\<lambda>raw_email s.
    then_st (check_data s) (\<lambda>_ s.
      let email = trim raw_email in
      if \<not> is_valid_client_username npid \<or> \<not> is_valid_client_username online_name \<or>
         \<not> e_address env email \<or> CHR '' '' \<in> set email
      then (Err InvalidInput, s)
      else
        then_st (checked_email (s_config s) email, s) (\<lambda>check_email s.
        then_st (get_database_connection env s) (\<lambda>_ s.
        then_st (with_db (db_add_user (e_dbe env) (s_db s) npid password online_name avatar_url email check_email
            (npid \<in> set (cf_admins_list (s_config s)))) s) (\<lambda>res s.
          case res of
            Inr token \<Rightarrow>
              (Err NoError, if is_email_validated (s_config s) then snd (send_token_mail env email npid token s) else s)
          | Inl DbExistingUsername \<Rightarrow> (Err CreationExistingUsername, s)
          | Inl DbExistingEmail \<Rightarrow> (Err CreationExistingEmail, s)
          | Inl _ \<Rightarrow> (Err CreationError, s))))))))))"

definition delete_account :: "Env \<Rightarrow> handler" where
  "delete_account env s =
    then_st (read_field (get_string False) s) (\<lambda>npid s.
    then_st (read_field (get_string False) s) (\<lambda>password s.
    then_st (check_data s) (\<lambda>_ s.
    then_st (get_database_connection env s) (\<lambda>_ s.
    then_st (query_db (check_user (e_dbe env) (s_db s) npid password [] False) s) (\<lambda>res s.
      case res of
        Inl _ \<Rightarrow> (Err LoginError, s)
      | Inr user_data \<Rightarrow>
          if s_infos s (ac_user_id user_data) \<noteq> None then (Err LoginAlreadyLoggedIn, s)
          else
            then_st (db_or_fail (with_db (delete_user (e_dbe env) (s_db s) (ac_user_id user_data) npid
                (ac_email_check user_data)) s)) (\<lambda>_ s. (Err NoError, s)))))))"

text \<open>Whether less than a day has passed since the recorded time; the difference of the seconds wraps.\<close>

definition too_soon :: "DbEnv \<Rightarrow> u32 option \<Rightarrow> bool" where
  "too_soon de last_sent = (case last_sent of Some t \<Rightarrow> de_seconds de - t < 24 * 60 * 60 | None \<Rightarrow> False)"

definition resend_token :: "Env \<Rightarrow> handler" where
  "resend_token env s =
    (if \<not> is_email_validated (s_config s) then (Err Invalid, s)
     else
       then_st (read_field (get_string False) s) (\<lambda>npid s.
       then_st (read_field (get_string False) s) (\<lambda>password s.
       then_st (check_data s) (\<lambda>_ s.
       then_st (get_database_connection env s) (\<lambda>_ s.
       then_st (query_db (check_user (e_dbe env) (s_db s) npid password [] False) s) (\<lambda>res s.
         case res of
           Inl _ \<Rightarrow> (Err LoginError, s)
         | Inr user_data \<Rightarrow>
             then_st (db_or_fail (query_db (get_token_sent_time (e_sql env) (s_db s) (ac_user_id user_data)) s)) (\<lambda>last_sent s.
               if too_soon (e_dbe env) last_sent then (Err TooSoon, s)
               else case send_token_mail env (ac_email user_data) npid (ac_token user_data) s of
                 (False, s) \<Rightarrow> (Err EmailFail, s)
               | (True, s) \<Rightarrow>
                   then_st (with_db (set_token_sent_time (e_dbe env) (s_db s) (ac_user_id user_data)) s)
                     (\<lambda>_ s. (Err NoError, s)))))))))"

definition send_reset_token :: "Env \<Rightarrow> handler" where
  "send_reset_token env s =
    (if \<not> is_email_validated (s_config s) then (Err Invalid, s)
     else
       then_st (read_field (get_string False) s) (\<lambda>username s.
       then_st (read_field (get_string False) s) (\<lambda>email s.
       then_st (check_data s) (\<lambda>_ s.
       then_st (get_database_connection env s) (\<lambda>_ s.
       then_st (strip_email email, s) (\<lambda>email_check s.
       then_st (query_db (check_email (e_sql env) (s_db s) username email_check) s) (\<lambda>res s.
         case res of
           Inl _ \<Rightarrow> (Err LoginError, s)
         | Inr (user_id, email_to_use) \<Rightarrow>
             then_st (db_or_fail (query_db (get_reset_password_token_sent_time (e_sql env) (s_db s) user_id) s)) (\<lambda>last_sent s.
               if too_soon (e_dbe env) last_sent then (Err TooSoon, s)
               else
                 then_st (db_or_fail (with_db (update_password_token (e_dbe env) (s_db s) user_id) s)) (\<lambda>token s.
                   case send_reset_token_mail env email_to_use username token s of
                     (False, s) \<Rightarrow> (Err EmailFail, s)
                   | (True, s) \<Rightarrow>
                       then_st (db_or_fail (with_db (set_reset_password_token_sent_time (e_dbe env) (s_db s) user_id) s))
                         (\<lambda>_ s. (Err NoError, s)))))))))))"

definition reset_password :: "Env \<Rightarrow> handler" where
  "reset_password env s =
    (if \<not> is_email_validated (s_config s) then (Err Invalid, s)
     else
       then_st (read_field (get_string False) s) (\<lambda>username s.
       then_st (read_field (get_string False) s) (\<lambda>token s.
       then_st (read_field (get_string False) s) (\<lambda>new_password s.
       then_st (check_data s) (\<lambda>_ s.
       then_st (get_database_connection env s) (\<lambda>_ s.
       then_st (query_db (check_reset_token (e_sql env) (s_db s) username token) s) (\<lambda>res s.
         case res of
           Inl _ \<Rightarrow> (Err LoginError, s)
         | Inr user_id \<Rightarrow>
             then_st (db_or_fail (with_db (update_user_password (e_dbe env) (s_db s) user_id token new_password) s))
               (\<lambda>_ s. (Err NoError, s)))))))))"

section \<open>Friends\<close>

definition update_friends :: "i64 \<Rightarrow> ((i64, string) btree \<Rightarrow> (i64, string) btree) \<Rightarrow> Session \<Rightarrow> Session" where
  "update_friends user_id f s = update_shared (\<lambda>sh. sh\<lparr> sh_client_infos := (sh_client_infos sh)(user_id :=
     map_option (\<lambda>i. i\<lparr> cs_friend_info := (cs_friend_info i)\<lparr> fi_friends := f (fi_friends (cs_friend_info i)) \<rparr> \<rparr>)
       (sh_client_infos sh user_id)) \<rparr>) s"

text \<open>The other user of a friend command, by name: never the caller.\<close>

definition other_user :: "Env \<Rightarrow> string \<Rightarrow> Session \<Rightarrow> (i64 \<Rightarrow> handler) \<Rightarrow> ErrorType result \<times> Session" where
  "other_user env friend_npid s k =
    then_st (query_db (get_user_id (e_sql env) (s_db s) friend_npid) s) (\<lambda>res s.
      case res of
        Inl _ \<Rightarrow> (Ok NotFound, s)
      | Inr friend_user_id \<Rightarrow> if friend_user_id = s_user s then (Ok InvalidInput, s) else k friend_user_id s)"

definition notify_added :: "i64 \<Rightarrow> string \<Rightarrow> u8 \<Rightarrow> handler" where
  "notify_added friend_user_id friend_npid status_friend s =
    (let npid = ci_npid (s_info s) in
     if status_friend AND FRIEND_STATUS_FRIEND \<noteq> 0 then
       let s1 = update_friends (s_user s) (bt_insert friend_user_id friend_npid) s;
           friend_online = (s_infos s1 friend_user_id \<noteq> None);
           s2 = update_friends friend_user_id (bt_insert (s_user s) npid) s1;
           s3 = self_notification (create_new_friend_notification friend_npid friend_online) s2
       in (Ok NoError, if friend_online
             then send_single_notification (create_new_friend_notification npid True) friend_user_id s3 else s3)
     else
       (Ok NoError, send_single_notification (create_notification FriendQuery (as_bytes npid @ [0])) friend_user_id s))"

definition add_friend :: "Env \<Rightarrow> handler" where
  "add_friend env s =
    then_st (read_field (get_string False) s) (\<lambda>friend_npid s.
    then_st (check_data s) (\<lambda>_ s.
    then_st (get_database_connection env s) (\<lambda>_ s.
      other_user env friend_npid s (\<lambda>friend_user_id s.
      then_st (query_db (get_rel_status (e_sql env) (s_db s) (s_user s) friend_user_id) s) (\<lambda>rel_status s.
        let set_status = (\<lambda>status_user status_friend s.
              then_st (db_or_fail (with_db (set_rel_status (e_sql env) (s_db s) (s_user s) friend_user_id status_user status_friend) s))
                (\<lambda>_. notify_added friend_user_id friend_npid status_friend))
        in case rel_status of
          Inr (status_user, status_friend) \<Rightarrow>
            if status_user AND FRIEND_STATUS_BLOCKED \<noteq> 0 \<or> status_friend AND FRIEND_STATUS_BLOCKED \<noteq> 0 then (Ok Blocked, s)
            else if status_user AND FRIEND_STATUS_FRIEND \<noteq> 0 then (Ok AlreadyFriend, s)
            else set_status (status_user OR FRIEND_STATUS_FRIEND) status_friend s
        | Inl e \<Rightarrow> if e = DbEmpty then set_status FRIEND_STATUS_FRIEND 0 s else (Err DbFail, s))))))"

definition notify_removed :: "i64 \<Rightarrow> string \<Rightarrow> handler" where
  "notify_removed friend_user_id friend_npid s =
    (let npid = ci_npid (s_info s);
         s1 = self_notification (create_notification FriendLost (as_bytes friend_npid @ [0])) s;
         s2 = send_single_notification (create_notification FriendLost (as_bytes npid @ [0])) friend_user_id s1
     in (Ok NoError, update_friends friend_user_id (bt_remove (s_user s)) (update_friends (s_user s) (bt_remove friend_user_id) s2)))"

definition remove_friend :: "Env \<Rightarrow> handler" where
  "remove_friend env s =
    then_st (read_field (get_string False) s) (\<lambda>friend_npid s.
    then_st (check_data s) (\<lambda>_ s.
    then_st (get_database_connection env s) (\<lambda>_ s.
      other_user env friend_npid s (\<lambda>friend_user_id s.
      then_st (query_db (get_rel_status (e_sql env) (s_db s) (s_user s) friend_user_id) s) (\<lambda>rel_status s.
        case rel_status of
          Inr (status_user, status_friend) \<Rightarrow>
            if (status_user AND FRIEND_STATUS_FRIEND) OR (status_friend AND FRIEND_STATUS_FRIEND) = 0 then (Ok NotFound, s)
            else
              then_st (db_or_fail (with_db (set_rel_status (e_sql env) (s_db s) (s_user s) friend_user_id
                  (status_user AND NOT FRIEND_STATUS_FRIEND) (status_friend AND NOT FRIEND_STATUS_FRIEND)) s))
                (\<lambda>_. notify_removed friend_user_id friend_npid)
        | Inl e \<Rightarrow> (if e = DbEmpty then Ok NotFound else Err DbFail, s))))))"

definition add_block :: handler where
  "add_block s = (Ok NoError, s)"

definition remove_block :: handler where
  "remove_block s = (Ok NoError, s)"

section \<open>Administration\<close>

definition check_admin :: "Session \<Rightarrow> unit result \<times> Session" where
  "check_admin s = (if ci_admin (s_info s) then Ok () else Err Invalid, s)"

definition req_admin_update_domain_bans :: "Env \<Rightarrow> handler" where
  "req_admin_update_domain_bans env s =
    then_st (check_admin s) (\<lambda>_ s.
      (Ok NoError, update_server (\<lambda>sv. sv\<lparr> sv_config := load_domains_banlist (e_domains_file env) (sv_config sv) \<rparr>) s))"

definition req_admin_terminate_server :: handler where
  "req_admin_terminate_server s =
    then_st (check_admin s) (\<lambda>_ s. (Ok NoError, update_server (\<lambda>sv. sv\<lparr> sv_terminate := True \<rparr>) s))"

definition req_admin_update_servers_cfg :: "Env \<Rightarrow> handler" where
  "req_admin_update_servers_cfg env s =
    then_st (check_admin s) (\<lambda>_ s.
    then_st (get_database_connection env s) (\<lambda>_ s.
    then_st (with_db (update_servers_cfg (e_sql env) (e_servers_file env) (s_db s)) s) (\<lambda>res s.
      (Ok (case res of Inl _ \<Rightarrow> DbFail | Inr _ \<Rightarrow> NoError), s))))"

definition req_admin_ban_user :: "Env \<Rightarrow> handler" where
  "req_admin_ban_user env s =
    then_st (check_admin s) (\<lambda>_ s.
    then_st (read_field (get_string False) s) (\<lambda>username s.
    then_st (check_data s) (\<lambda>_ s.
    then_st (get_database_connection env s) (\<lambda>_ s.
    then_st (query_db (get_user_id (e_sql env) (s_db s) username) s) (\<lambda>res s.
      case res of
        Inl _ \<Rightarrow> (Ok NotFound, s)
      | Inr user_id \<Rightarrow>
          then_st (with_db (ban_user (e_sql env) (s_db s) user_id) s) (\<lambda>res s.
            case res of
              Inl _ \<Rightarrow> (Ok DbFail, s)
            | Inr _ \<Rightarrow>
                (Ok NoError, update_shared (\<lambda>sh. sh\<lparr> sh_client_infos := (sh_client_infos sh)
                   (user_id := map_option kick (sh_client_infos sh user_id)) \<rparr>) s)))))))"

definition req_admin_del_user :: "Env \<Rightarrow> handler" where
  "req_admin_del_user env s =
    then_st (check_admin s) (\<lambda>_ s.
    then_st (read_field (get_string False) s) (\<lambda>username s.
    then_st (check_data s) (\<lambda>_ s.
    then_st (get_database_connection env s) (\<lambda>_ s.
    then_st (query_db (get_user_id (e_sql env) (s_db s) username) s) (\<lambda>res s.
      case res of
        Inl _ \<Rightarrow> (Ok NotFound, s)
      | Inr user_id \<Rightarrow>
          then_st (query_db (get_email_check (e_sql env) (s_db s) user_id) s) (\<lambda>res s.
            case res of
              Inl _ \<Rightarrow> (Ok DbFail, s)
            | Inr email_check \<Rightarrow>
                if s_infos s user_id \<noteq> None then (Ok CondFail, s)
                else
                  then_st (with_db (delete_user (e_dbe env) (s_db s) user_id username email_check) s) (\<lambda>res s.
                    (Ok (case res of Inl _ \<Rightarrow> DbFail | Inr _ \<Rightarrow> NoError), s))))))))"

end
