(* ===== verification/Client_Loop.thy ===== *)
theory Client_Loop
  imports Cmd_Room Cmd_Other Cmd_Tus Cmd_Account
begin

text \<open>
  The life of a connection, \<^verbatim>\<open>server/client.rs\<close>: the dispatch of the commands, the frame around one request, the
  loop over the requests of a client, and what is undone when the connection goes away.
\<close>

section \<open>Undoing the state of a user\<close>

text \<open>The result of an operation is dropped, a panic is not.\<close>

definition ignore_result :: "'a result \<times> Session \<Rightarrow> unit result \<times> Session" where
  "ignore_result r = (case r of (Panic, s) \<Rightarrow> (Panic, s) | (_, s) \<Rightarrow> (Ok (), s))"

definition leave_all_rooms :: "Env \<Rightarrow> Session \<Rightarrow> unit result \<times> Session" where
  "leave_all_rooms env s =
    (case get_rooms_by_user (s_rooms s) (s_user s) of
       None \<Rightarrow> (Ok (), s)
     | Some rooms \<Rightarrow>
         fold_st (\<lambda>(com_id, room_id) s. ignore_result (cmd_leave_room env com_id room_id None MemberDisappeared s))
           (e_user_rooms_order env rooms) s)"

definition leave_all_gui_rooms :: "Env \<Rightarrow> Session \<Rightarrow> unit result \<times> Session" where
  "leave_all_gui_rooms env s =
    (case gui_get_rooms_by_user (s_gui s) (s_user s) of
       None \<Rightarrow> (Ok (), s)
     | Some rooms \<Rightarrow> fold_st (\<lambda>room s. ignore_result (cmd_leave_room_gui env room s)) (e_user_gui_order env rooms) s)"

definition forget_game :: "Session \<Rightarrow> Session" where
  "forget_game s =
    (case cl_current_game (s_client s) of
       (Some cur_com_id, service) \<Rightarrow> set_current_game (None, service) (update_tracker (decrease_count_psn cur_com_id) s)
     | (None, _) \<Rightarrow> s)"

definition forget_service :: "Session \<Rightarrow> Session" where
  "forget_service s =
    (case cl_current_game (s_client s) of
       (game, Some cur_service_id) \<Rightarrow> set_current_game (game, None) (update_tracker (decrease_count_ticket cur_service_id) s)
     | (_, None) \<Rightarrow> s)"

definition clean_user_state :: "Env \<Rightarrow> Session \<Rightarrow> unit result \<times> Session" where
  "clean_user_state env s =
    then_st (leave_all_rooms env s) (\<lambda>_ s.
    then_st (leave_all_gui_rooms env s) (\<lambda>_ s. (Ok (), forget_service (forget_game s))))"

definition reset_state :: "Env \<Rightarrow> handler" where
  "reset_state env s = then_st (clean_user_state env s) (\<lambda>_ s. (Ok NoError, s))"

section \<open>Dispatch\<close>

definition process_authentified :: "Env \<Rightarrow> CommandType \<Rightarrow> handler" where
  "process_authentified env command =
    (case command of
       ResetState \<Rightarrow> reset_state env
     | AddFriend \<Rightarrow> add_friend env
     | RemoveFriend \<Rightarrow> remove_friend env
     | AddBlock \<Rightarrow> add_block
     | RemoveBlock \<Rightarrow> remove_block
     | GetServerList \<Rightarrow> req_get_server_list env
     | GetWorldList \<Rightarrow> req_get_world_list env
     | CreateRoom \<Rightarrow> req_create_room env
     | JoinRoom \<Rightarrow> req_join_room env
     | LeaveRoom \<Rightarrow> req_leave_room env
     | SearchRoom \<Rightarrow> req_search_room env
     | SearchRoomAll \<Rightarrow> req_search_room_all env
     | GetRoomDataExternalList \<Rightarrow> req_get_roomdata_external_list env
     | GetRoomMemberDataExternalList \<Rightarrow> req_get_room_member_data_external_list env
     | SetRoomDataExternal \<Rightarrow> req_set_roomdata_external env
     | GetRoomDataInternal \<Rightarrow> req_get_roomdata_internal env
     | SetRoomDataInternal \<Rightarrow> req_set_roomdata_internal env
     | GetRoomMemberDataInternal \<Rightarrow> req_get_roommemberdata_internal env
     | SetRoomMemberDataInternal \<Rightarrow> req_set_roommemberdata_internal env
     | SetUserInfo \<Rightarrow> req_set_userinfo env
     | PingRoomOwner \<Rightarrow> req_ping_room_owner env
     | SendRoomMessage \<Rightarrow> req_send_room_message env
     | RequestSignalingInfos \<Rightarrow> req_signaling_infos env
     | RequestTicket \<Rightarrow> req_ticket env
     | SendMessage \<Rightarrow> send_message env
     | GetBoardInfos \<Rightarrow> req_get_board_infos env
     | RecordScore \<Rightarrow> req_record_score env
     | RecordScoreData \<Rightarrow> req_record_score_data env
     | GetScoreData \<Rightarrow> req_get_score_data env
     | GetScoreRange \<Rightarrow> req_get_score_range env
     | GetScoreFriends \<Rightarrow> req_get_score_friends env
     | GetScoreNpid \<Rightarrow> req_get_score_npid env
     | GetNetworkTime \<Rightarrow> get_network_time env
     | TusSetMultiSlotVariable \<Rightarrow> tus_set_multislot_variable env
     | TusGetMultiSlotVariable \<Rightarrow> tus_get_multislot_variable env
     | TusGetMultiUserVariable \<Rightarrow> tus_get_multiuser_variable env
     | TusGetFriendsVariable \<Rightarrow> tus_get_friends_variable env
     | TusAddAndGetVariable \<Rightarrow> tus_add_and_get_variable env
     | TusTryAndSetVariable \<Rightarrow> tus_try_and_set_variable env
     | TusDeleteMultiSlotVariable \<Rightarrow> tus_delete_multislot_variable env
     | TusSetData \<Rightarrow> tus_set_data env
     | TusGetData \<Rightarrow> tus_get_data env
     | TusGetMultiSlotDataStatus \<Rightarrow> tus_get_multislot_data_status env
     | TusGetMultiUserDataStatus \<Rightarrow> tus_get_multiuser_data_status env
     | TusGetFriendsDataStatus \<Rightarrow> tus_get_friends_data_status env
     | TusDeleteMultiSlotData \<Rightarrow> tus_delete_multislot_data env
     | SetPresence \<Rightarrow> set_presence env
     | CreateRoomGUI \<Rightarrow> req_create_room_gui env
     | JoinRoomGUI \<Rightarrow> req_join_room_gui env
     | LeaveRoomGUI \<Rightarrow> req_leave_room_gui env
     | GetRoomListGUI \<Rightarrow> req_get_room_list_gui env
     | SetRoomSearchFlagGUI \<Rightarrow> req_set_room_search_flag_gui env
     | GetRoomSearchFlagGUI \<Rightarrow> req_get_room_search_flag_gui env
     | SetRoomInfoGUI \<Rightarrow> req_set_room_info_gui env
     | GetRoomInfoGUI \<Rightarrow> req_get_room_info_gui env
     | QuickMatchGUI \<Rightarrow> req_quickmatch_gui env
     | SearchJoinRoomGUI \<Rightarrow> req_searchjoin_gui env
     | UpdateDomainBans \<Rightarrow> req_admin_update_domain_bans env
     | TerminateServer \<Rightarrow> req_admin_terminate_server
     | UpdateServersCfg \<Rightarrow> req_admin_update_servers_cfg env
     | BanUser \<Rightarrow> req_admin_ban_user env
     | DelUser \<Rightarrow> req_admin_del_user env
     | _ \<Rightarrow> Pair (Err Invalid))"

definition process_unauthentified :: "Env \<Rightarrow> CommandType \<Rightarrow> handler" where
  "process_unauthentified env command =
    (case command of
       Login \<Rightarrow> login env
     | Create \<Rightarrow> create_account env
     | Delete \<Rightarrow> delete_account env
     | SendToken \<Rightarrow> resend_token env
     | SendResetToken \<Rightarrow> send_reset_token env
     | ResetPassword \<Rightarrow> reset_password env
     | _ \<Rightarrow> Pair (Err Invalid))"

definition process_command :: "Env \<Rightarrow> CommandType \<Rightarrow> handler" where
  "process_command env command s =
    (if command = Terminate then (Err NoError, s)
     else if \<not> cl_authentified (s_client s) then process_unauthentified env command s
     else process_authentified env command s)"

section \<open>One request\<close>

text \<open>
  After a request the connection goes on, ends, or has panicked.  The packets for the client are the reply and the
  notifications that wait for it, none after a panic.
\<close>

datatype outcome = Continue | Break | Panicked

definition request_session :: "Client \<Rightarrow> ServerState \<Rightarrow> u16 \<Rightarrow> u64 \<Rightarrow> bytes \<Rightarrow> Session" where
  "request_session cl sv command packet_id data =
    \<lparr> s_client = cl, s_server = sv, s_data = StreamExtractor_new data, s_reply = reply_start command packet_id \<rparr>"

definition run_command :: "Env \<Rightarrow> u16 \<Rightarrow> handler" where
  "run_command env command s =
    (case command_from_u16 command of None \<Rightarrow> (Err Malformed, s) | Some c \<Rightarrow> process_command env c s)"

definition finish_request :: "ErrorType \<Rightarrow> Session \<Rightarrow> bytes list \<times> Client" where
  "finish_request e s =
    (reply_finish e (s_reply s) # cl_post_reply_notifications (s_client s),
     (s_client s)\<lparr> cl_post_reply_notifications := [] \<rparr>)"

definition interpret_command ::
    "Env \<Rightarrow> u16 \<Rightarrow> u64 \<Rightarrow> bytes \<Rightarrow> Client \<Rightarrow> ServerState \<Rightarrow> outcome \<times> bytes list \<times> Client \<times> ServerState" where
  "interpret_command env command packet_id data cl sv =
    (case run_command env command (request_session cl sv command packet_id data) of
       (Ok e, s) \<Rightarrow> (case finish_request e s of (packets, cl1) \<Rightarrow> (Continue, packets, cl1, s_server s))
     | (Err e, s) \<Rightarrow> (case finish_request e s of (packets, cl1) \<Rightarrow> (Break, packets, cl1, s_server s))
     | (Panic, s) \<Rightarrow> (Panicked, [], s_client s, s_server s))"

text \<open>
  One turn of the loop on the bytes the client has sent: a header is read and checked, then the rest of the packet.
  The bytes that remain are the last component.
\<close>

definition process_packet ::
    "Env \<Rightarrow> bytes \<Rightarrow> Client \<Rightarrow> ServerState \<Rightarrow> (outcome \<times> bytes list \<times> Client \<times> ServerState) \<times> bytes" where
  "process_packet env input cl sv =
    (let h = parse_header (take 15 input); to_read = unat (ph_size h - HEADER_SIZE); rest = drop 15 input in
     if length input < 15 then ((Break, [], cl, sv), [])
     else if ph_type h \<noteq> packet_type_u8 Request then ((Break, [], cl, sv), rest)
     else if ph_size h > MAX_PACKET_SIZE then ((Break, [], cl, sv), rest)
     else if ph_size h < HEADER_SIZE then ((Break, [], cl, sv), rest)
     else if length rest < to_read then ((Break, [], cl, sv), [])
     else (interpret_command env (ph_command h) (ph_id h) (take to_read rest) cl sv, drop to_read rest))"

lemma process_packet_consumes:
  "fst (fst (process_packet env input cl sv)) = Continue \<Longrightarrow> length (snd (process_packet env input cl sv)) < length input"
  by (auto simp: process_packet_def Let_def split: if_splits)

text \<open>
  The loop of one client on all the bytes it sends until it closes the connection, with the environment of each
  turn.  Other clients act between the turns; here they are idle.
\<close>

function process ::
    "(nat \<Rightarrow> Env) \<Rightarrow> nat \<Rightarrow> bytes \<Rightarrow> Client \<Rightarrow> ServerState \<Rightarrow> outcome \<times> bytes list \<times> Client \<times> ServerState" where
  "process env n input cl sv =
    (case process_packet (env n) input cl sv of
       ((Continue, packets, cl1, sv1), rest) \<Rightarrow>
         (case process env (Suc n) rest cl1 sv1 of (r, packets1, cl2, sv2) \<Rightarrow> (r, packets @ packets1, cl2, sv2))
     | ((r, packets, cl1, sv1), _) \<Rightarrow> (r, packets, cl1, sv1))"
  by pat_completeness auto
termination
  by (relation "measure (\<lambda>(_, _, input, _). length input)") (auto, metis fst_conv process_packet_consumes snd_conv)

section \<open>The end of a connection\<close>

text \<open>
  \<^verbatim>\<open>Drop for Client\<close> in two parts: the user is put on the list of the cleanups at once, and a task of its own undoes
  what the user holds.  A panic in the task leaves the rest undone.
\<close>

definition set_cleanup_duty :: "(i64 set \<Rightarrow> i64 set) \<Rightarrow> ServerState \<Rightarrow> ServerState" where
  "set_cleanup_duty f sv = sv\<lparr> sv_shared := (sv_shared sv)\<lparr> sh_cleanup_duty := f (sh_cleanup_duty (sv_shared sv)) \<rparr> \<rparr>"

definition drop_client :: "Client \<Rightarrow> ServerState \<Rightarrow> ServerState" where
  "drop_client cl sv = (if cl_authentified cl then set_cleanup_duty (insert (ci_user_id (cl_client_info cl))) sv else sv)"

definition go_offline :: "Env \<Rightarrow> Session \<Rightarrow> Session" where
  "go_offline env s =
    (let s1 = update_tracker decrease_num_users s;
         to_notif = (case s_infos s1 (s_user s1) of Some i \<Rightarrow> fst ` set (fi_friends (cs_friend_info i)) | None \<Rightarrow> {});
         s2 = update_shared (\<lambda>sh. sh\<lparr> sh_client_infos := (sh_client_infos sh)(s_user s1 := None) \<rparr>) s1
     in send_notification (create_friend_status_notification (ci_npid (s_info s2)) (e_nanos env) False) to_notif s2)"

definition cleanup_task :: "Env \<Rightarrow> Client \<Rightarrow> ServerState \<Rightarrow> ServerState" where
  "cleanup_task env cl sv =
    (let s = request_session (cl\<lparr> cl_authentified := False \<rparr>) sv 0 0 [] in
     case clean_user_state env s of
       (Ok _, s1) \<Rightarrow> set_cleanup_duty (\<lambda>d. d - {ci_user_id (cl_client_info cl)}) (s_server (go_offline env s1))
     | (_, s1) \<Rightarrow> s_server s1)"

end
