(* ===== verification/Stat_Server.thy ===== *)
theory Stat_Server
  imports Client_State
begin

text \<open>
  The statistics server, \<^verbatim>\<open>server/stat_server.rs\<close>: the players of the games and the score boards as JSON, with a cache of
  the answers.  The HTTP protocol is that of a library; a request is whether its method is GET, and its path.
\<close>

section \<open>Text\<close>

definition newline :: string where
  "newline = [char_of (10 :: nat)]"

definition quote :: "string \<Rightarrow> string" where
  "quote s = CHR 0x22 # s @ [CHR 0x22]"

definition print_int :: "int \<Rightarrow> string" where
  "print_int i = (if i < 0 then CHR ''-'' # print_nat (nat (- i)) else print_nat (nat i))"

definition print_bool :: "bool \<Rightarrow> string" where
  "print_bool b = (if b then ''true'' else ''false'')"

definition lower_hex_digit :: "nat \<Rightarrow> char" where
  "lower_hex_digit d = char_of (if d < 10 then 48 + d else 87 + d)"

definition hex_byte :: "u8 \<Rightarrow> string" where
  "hex_byte b = [lower_hex_digit (unat b div 16), lower_hex_digit (unat b mod 16)]"

definition sanitize_char :: "char \<Rightarrow> string" where
  "sanitize_char c =
    (if c = CHR 0x22 then [CHR 0x5C, CHR 0x22]
     else if c = CHR 0x5C then [CHR 0x5C, CHR 0x5C]
     else if c \<in> {CHR 0x08, CHR 0x0C, CHR 0x0A, CHR 0x0D, CHR 0x09} then []
     else [c])"

definition sanitize_for_json :: "string \<Rightarrow> string" where
  "sanitize_for_json s = concat (map sanitize_char s)"

text \<open>Entries with a comma after each but the last.\<close>

definition comma_lines :: "string list \<Rightarrow> string" where
  "comma_lines xs = concat (map (\<lambda>i. xs ! i @ (if i \<noteq> length xs - 1 then '','' @ newline else newline)) [0..<length xs])"

section \<open>Games\<close>

text \<open>The order of the two hash maps and of the sets of names is an argument.\<close>

record game_order =
  go_psn :: "(ComId \<rightharpoonup> GameInfo) \<Rightarrow> ComId list"
  go_ticket :: "(string \<rightharpoonup> i64) \<Rightarrow> string list"
  go_hints :: "string set \<Rightarrow> string list"

definition games_section :: "string \<Rightarrow> string list \<Rightarrow> string" where
  "games_section name entries =
    (if entries = [] then []
     else '','' @ newline @ ''    '' @ quote name @ '': {'' @ newline @ comma_lines entries @ ''    }'')"

definition game_tracker_to_json :: "game_order \<Rightarrow> GameTracker \<Rightarrow> string" where
  "game_tracker_to_json ord gt =
    (let psn_games = List.map_filter (\<lambda>name. Option.bind (gt_psn_games gt name) (\<lambda>info.
           if gi_num_users info \<noteq> 0 then Some (com_id_to_string name, gi_num_users info, go_hints ord (gi_name_hints info))
           else None)) (go_psn ord (gt_psn_games gt));
         ticket_games = List.map_filter (\<lambda>name. Option.bind (gt_ticket_games gt name) (\<lambda>num_users.
           if num_users \<noteq> 0 then Some (name, num_users) else None)) (go_ticket ord (gt_ticket_games gt))
     in ''{'' @ newline @ ''    '' @ quote ''num_users'' @ '' : '' @ print_int (gt_num_users gt) @
        games_section ''psn_games'' (map (\<lambda>(name, num, hints). ''        '' @ quote name @ '': ['' @ print_int num @
          concat (map (\<lambda>hint. '', '' @ quote (sanitize_for_json hint)) hints) @ '']'') psn_games) @
        games_section ''ticket_games'' (map (\<lambda>(name, num). ''        '' @ quote name @ '': '' @ print_int num) ticket_games) @
        newline @ ''}'')"

section \<open>Scores\<close>

text \<open>\<^verbatim>\<open>c[index]\<close> panics when there is no such entry.\<close>

definition entry_at :: "'a list option \<Rightarrow> nat \<Rightarrow> ('a \<Rightarrow> string) \<Rightarrow> string result" where
  "entry_at xs index f = (case xs of None \<Rightarrow> Ok [] | Some ys \<Rightarrow> bind_res (index_res ys index) (\<lambda>y. Ok (f y)))"

definition score_to_json :: "GetScoreResultCache \<Rightarrow> nat \<Rightarrow> string result" where
  "score_to_json r index =
    (let score = gs_scores r ! index; line = (\<lambda>name v. ''            '' @ quote name @ '': '' @ v @ '','' @ newline) in
     bind_res (entry_at (gs_comments r) index sanitize_for_json) (\<lambda>comment.
     bind_res (entry_at (gs_infos r) index (\<lambda>g. concat (map hex_byte g))) (\<lambda>game_info.
       Ok (''        {'' @ newline @ newline @
           line ''rank'' (print_nat (unat (rd_rank score + 1))) @
           line ''npid'' (quote (rd_npid score)) @
           line ''online_name'' (quote (sanitize_for_json (rd_online_name score))) @
           line ''pcid'' (print_int (rd_pcid score)) @
           line ''score'' (print_int (rd_score score)) @
           line ''has_gamedata'' (print_bool (rd_has_gamedata score)) @
           line ''comment'' (quote comment) @
           line ''info'' (quote game_info) @
           ''            '' @ quote ''timestamp'' @ '': '' @ print_nat (unat (rd_timestamp score)) @ newline @
           ''        }'' @ newline))))"

definition score_result_to_json :: "GetScoreResultCache \<Rightarrow> u32 \<Rightarrow> DbBoardInfo \<Rightarrow> string result" where
  "score_result_to_json r board_id table_infos =
    (let line = (\<lambda>name (v :: u32). ''    '' @ quote name @ '': '' @ print_nat (unat v) @ '','' @ newline) in
     bind_res (traverse (score_to_json r) [0..<length (gs_scores r)]) (\<lambda>scores.
       Ok (''{'' @ newline @
           line ''board_id'' board_id @ line ''rank_limit'' (bi_rank_limit table_infos) @
           line ''update_mode'' (bi_update_mode table_infos) @ line ''sort_mode'' (bi_sort_mode table_infos) @
           line ''upload_num_limit'' (bi_upload_num_limit table_infos) @
           line ''upload_size_limit'' (bi_upload_size_limit table_infos) @
           line ''total_records'' (gs_total_records r) @
           ''    '' @ quote ''scores'' @ '': ['' @ newline @ comma_lines scores @ ''    ]'' @ newline @ ''}'')))"

text \<open>The boards of a game, by number; \<^verbatim>\<open>order\<close> is the order of the hash map of tables.\<close>

definition get_all_tables :: "(ScoresCache \<Rightarrow> TableDescription list) \<Rightarrow> ScoresCache \<Rightarrow> ComId \<Rightarrow> (u32 \<times> ScoreTableCache) list" where
  "get_all_tables order cache com_id =
    List.map_filter (\<lambda>(c, board_id). if c = com_id_to_string com_id
      then map_option (Pair board_id) (ca_tables cache (c, board_id)) else None) (order cache)"

definition table_to_json :: "ComId \<Rightarrow> u32 \<times> ScoreTableCache \<Rightarrow> ScoresCache \<Rightarrow> string result \<times> ScoresCache" where
  "table_to_json com_id table cache =
    (let (board_id, t) = table; info = st_table_info t in
     then_st (get_score_range cache com_id board_id 1 (bi_rank_limit info) True True) (\<lambda>r cache.
       (score_result_to_json r board_id info, cache)))"

fun tables_to_json :: "ComId \<Rightarrow> (u32 \<times> ScoreTableCache) list \<Rightarrow> ScoresCache \<Rightarrow> string list result \<times> ScoresCache" where
  "tables_to_json com_id [] cache = (Ok [], cache)"
| "tables_to_json com_id (t # ts) cache =
    then_st (table_to_json com_id t cache) (\<lambda>json cache.
    then_st (tables_to_json com_id ts cache) (\<lambda>jsons cache. (Ok (json # jsons), cache)))"

definition com_id_score_to_json ::
    "(ScoresCache \<Rightarrow> TableDescription list) \<Rightarrow> ComId \<Rightarrow> ScoresCache \<Rightarrow> string result \<times> ScoresCache" where
  "com_id_score_to_json order com_id cache =
    (case get_all_tables order cache com_id of
       [] \<Rightarrow> (Ok ''[]'', cache)
     | tables \<Rightarrow>
         then_st (tables_to_json com_id (sort_key fst tables) cache) (\<lambda>jsons cache.
           (Ok (''['' @ newline @ comma_lines jsons @ '']''), cache)))"

section \<open>Requests\<close>

text \<open>An answer, with its content type when it is JSON.\<close>

record HttpResponse =
  hr_json :: bool
  hr_body :: string

definition empty_response :: HttpResponse where
  "empty_response = \<lparr> hr_json = False, hr_body = [] \<rparr>"

definition json_response :: "string \<Rightarrow> HttpResponse" where
  "json_response body = \<lparr> hr_json = True, hr_body = body \<rparr>"

record CachedResponse =
  cr_timestamp :: u32
  cr_response :: HttpResponse

definition CachedResponse_new :: CachedResponse where
  "CachedResponse_new = \<lparr> cr_timestamp = 0, cr_response = empty_response \<rparr>"

record JsonCache =
  jc_usage :: CachedResponse
  jc_table :: "ComId \<rightharpoonup> (u32 \<rightharpoonup> CachedResponse)"
  jc_com_id :: "ComId \<rightharpoonup> CachedResponse"

definition JsonCache_new :: JsonCache where
  "JsonCache_new = \<lparr> jc_usage = CachedResponse_new, jc_table = Map.empty, jc_com_id = Map.empty \<rparr>"

text \<open>The sum of the time and the life of an entry wraps.\<close>

definition is_stale :: "u32 \<Rightarrow> u32 \<Rightarrow> CachedResponse \<Rightarrow> bool" where
  "is_stale new_timestamp cache_life c \<longleftrightarrow> new_timestamp > cr_timestamp c + cache_life"

definition handle_usage_req :: "game_order \<Rightarrow> u32 \<Rightarrow> u32 \<Rightarrow> GameTracker \<Rightarrow> JsonCache \<Rightarrow> HttpResponse \<times> JsonCache" where
  "handle_usage_req ord now cache_life gt jc =
    (let fresh = json_response (game_tracker_to_json ord gt) in
     if cache_life = 0 then (fresh, jc)
     else
       let c = jc_usage jc;
           c1 = (if is_stale now cache_life c then c\<lparr> cr_response := fresh \<rparr> else c)
       in (cr_response c1, jc\<lparr> jc_usage := c1 \<rparr>))"

record stat_state =
  ss_cache :: ScoresCache
  ss_json :: JsonCache

text \<open>Asking the cache of scores, and keeping the answer when it is asked for the first time or again after its life.\<close>

definition cached_answer ::
    "u32 \<Rightarrow> u32 \<Rightarrow> CachedResponse \<Rightarrow> (CachedResponse \<Rightarrow> JsonCache \<Rightarrow> JsonCache) \<Rightarrow> (ScoresCache \<Rightarrow> string result \<times> ScoresCache)
      \<Rightarrow> stat_state \<Rightarrow> HttpResponse result \<times> stat_state" where
  "cached_answer now cache_life c put answer st =
    (let st0 = st\<lparr> ss_json := put c (ss_json st) \<rparr> in
     if is_stale now cache_life c then
       bind_st (answer (ss_cache st0)) (\<lambda>json cache.
         let c1 = \<lparr> cr_timestamp = now, cr_response = json_response json \<rparr>
         in (Ok (cr_response c1), st0\<lparr> ss_cache := cache, ss_json := put c1 (ss_json st0) \<rparr>))
       (\<lambda>cache. st0\<lparr> ss_cache := cache \<rparr>)
     else (Ok (cr_response c), st0))"

definition handle_com_id_score_req ::
    "(ScoresCache \<Rightarrow> TableDescription list) \<Rightarrow> u32 \<Rightarrow> u32 \<Rightarrow> ComId \<Rightarrow> stat_state \<Rightarrow> HttpResponse result \<times> stat_state" where
  "handle_com_id_score_req order now cache_life com_id st =
    (let answer = com_id_score_to_json order com_id in
     if cache_life = 0 then
       bind_st (answer (ss_cache st)) (\<lambda>json cache. (Ok (json_response json), st\<lparr> ss_cache := cache \<rparr>)) (\<lambda>cache. st\<lparr> ss_cache := cache \<rparr>)
     else
       let c = (case jc_com_id (ss_json st) com_id of Some c \<Rightarrow> c | None \<Rightarrow> CachedResponse_new)
       in cached_answer now cache_life c (\<lambda>c jc. jc\<lparr> jc_com_id := (jc_com_id jc)(com_id \<mapsto> c) \<rparr>) answer st)"

definition handle_table_score_req ::
    "u32 \<Rightarrow> u32 \<Rightarrow> ComId \<Rightarrow> u32 \<Rightarrow> stat_state \<Rightarrow> HttpResponse result \<times> stat_state" where
  "handle_table_score_req now cache_life com_id table_id st =
    (case get_table (ss_cache st) com_id table_id of
       None \<Rightarrow> (Ok empty_response, st)
     | Some table \<Rightarrow>
         let answer = table_to_json com_id (table_id, table) in
         if cache_life = 0 then
           bind_st (answer (ss_cache st)) (\<lambda>json cache. (Ok (json_response json), st\<lparr> ss_cache := cache \<rparr>)) (\<lambda>cache. st\<lparr> ss_cache := cache \<rparr>)
         else
           let table_map = (case jc_table (ss_json st) com_id of Some m \<Rightarrow> m | None \<Rightarrow> Map.empty);
               c = (case table_map table_id of Some c \<Rightarrow> c | None \<Rightarrow> CachedResponse_new)
           in cached_answer now cache_life c (\<lambda>c jc. jc\<lparr> jc_table := (jc_table jc)(com_id \<mapsto> table_map(table_id \<mapsto> c)) \<rparr>) answer st)"

text \<open>\<^verbatim>\<open>strip_prefix\<close>.\<close>

definition strip_prefix :: "string \<Rightarrow> string \<Rightarrow> string option" where
  "strip_prefix p s = (if take (length p) s = p then Some (drop (length p) s) else None)"

definition handle_stat_server_req ::
    "game_order \<Rightarrow> (ScoresCache \<Rightarrow> TableDescription list) \<Rightarrow> u32 \<Rightarrow> string \<Rightarrow> u32 \<Rightarrow> GameTracker \<Rightarrow> bool \<Rightarrow> string
      \<Rightarrow> stat_state \<Rightarrow> HttpResponse result \<times> stat_state" where
  "handle_stat_server_req ord order now path cache_life gt is_get req_path st =
    (if \<not> is_get then (Ok empty_response, st)
     else if req_path = path @ ''/usage'' then
       (case handle_usage_req ord now cache_life gt (ss_json st) of (r, jc) \<Rightarrow> (Ok r, st\<lparr> ss_json := jc \<rparr>))
     else
       case strip_prefix (path @ ''/score/'') req_path of
         None \<Rightarrow> (Ok empty_response, st)
       | Some rest \<Rightarrow>
           let parts = splitn2 CHR ''/'' rest; com_id = as_bytes (parts ! 0) in
           if length com_id \<noteq> COMMUNICATION_ID_SIZE then (Ok empty_response, st)
           else if length parts = 2 then
             (case parse_uint (parts ! 1) of
                Some table_id \<Rightarrow> handle_table_score_req now cache_life com_id table_id st
              | None \<Rightarrow> (Ok empty_response, st))
           else handle_com_id_score_req order now cache_life com_id st)"

end
