(* ===== verification/Server_Frames.thy ===== *)
theory Server_Frames
  imports Client_Loop
begin

text \<open>
  What a command leaves alone.  The view of a session is what the rooms and the logins depend on: who the client is,
  the two room managers, who is online and who is being cleaned up.  All commands but those that enter, leave or
  change a room and the login keep the view.
\<close>

section \<open>The view\<close>

type_synonym view = "ClientInfo \<times> bool \<times> RoomManager \<times> GuiRoomManager \<times> i64 set \<times> i64 set"

definition view :: "Session \<Rightarrow> view" where
  "view s = (s_info s, cl_authentified (s_client s), s_rooms s, s_gui s, dom (s_infos s), sh_cleanup_duty (s_shared s))"

named_theorems quiet

lemma view_then:
  "view (snd m) = v \<Longrightarrow> (\<And>x s. view s = v \<Longrightarrow> view (snd (f x s)) = v) \<Longrightarrow> view (snd (then_st m f)) = v"
  by (rule then_st_keeps)

lemma view_soft:
  "view (snd m) = v \<Longrightarrow> (\<And>x s. view s = v \<Longrightarrow> view (snd (f x s)) = v) \<Longrightarrow> view (snd (soft m f)) = v"
  by (cases "(m, f)" rule: soft.cases) auto

lemma view_fold:
  "view s = v \<Longrightarrow> (\<And>x s. view s = v \<Longrightarrow> view (f x s) = v) \<Longrightarrow> view (fold f xs s) = v"
  by (induction xs arbitrary: s) auto

lemmas view_intros = view_then view_soft view_fold

lemma view_session [quiet]:
  "view (s\<lparr> s_data := d \<rparr>) = view s" "view (s\<lparr> s_reply := r \<rparr>) = view s"
  "view (set_current_game cg s) = view s" "view (self_notification n s) = view s"
  "view (update_pairs f s) = view s"
  by (simp_all add: view_def set_current_game_def self_notification_def update_pairs_def)

lemma view_server [quiet]:
  "view (update_server (\<lambda>sv. sv\<lparr> sv_config := c sv \<rparr>) s) = view s"
  "view (update_server (\<lambda>sv. sv\<lparr> sv_db := db \<rparr>) s) = view s"
  "view (update_server (\<lambda>sv. sv\<lparr> sv_ticket_id := t \<rparr>) s) = view s"
  "view (update_server (\<lambda>sv. sv\<lparr> sv_email_id := e \<rparr>) s) = view s"
  "view (update_server (\<lambda>sv. sv\<lparr> sv_mails := ms sv \<rparr>) s) = view s"
  "view (update_server (\<lambda>sv. sv\<lparr> sv_score_data := sd sv \<rparr>) s) = view s"
  "view (update_server (\<lambda>sv. sv\<lparr> sv_tus_data := td sv \<rparr>) s) = view s"
  "view (update_server (\<lambda>sv. sv\<lparr> sv_sent := se sv \<rparr>) s) = view s"
  "view (update_server (\<lambda>sv. sv\<lparr> sv_terminate := b \<rparr>) s) = view s"
  by (simp_all add: view_def update_server_def)

lemma view_shared [quiet]:
  "view (update_shared (\<lambda>sh. sh\<lparr> sh_score_cache := sc \<rparr>) s) = view s"
  "view (update_shared (\<lambda>sh. sh\<lparr> sh_game_tracker := gt sh \<rparr>) s) = view s"
  "view (update_shared (\<lambda>sh. sh\<lparr> sh_client_infos := (sh_client_infos sh)(u := map_option f (sh_client_infos sh u)) \<rparr>) s) = view s"
  by (auto simp: view_def update_shared_def update_server_def)

lemma view_primitives [quiet]:
  "view (put_db db s) = view s" "view (update_tracker g s) = view s"
  "view (snd (read_field rf s)) = view s" "view (snd (check_data s)) = view s" "view (snd (read_pb dec s)) = view s"
  "view (track_com_id c s) = view s" "view (snd (get_database_connection env s)) = view s"
  "view (reply_bytes bs s) = view s" "view (reply_data bs s) = view s" "view (send_notification n us s) = view s"
  "view (send_single_notification n u s) = view s"
  "view (put_own_info fo s) = view s" "view (track_service se s) = view s" "view (put_presence p s) = view s"
  "view (update_friends u ff s) = view s"
  "view (snd (check_admin s)) = view s" "view (delete_tus_data env i s) = view s" "view (delete_score_data env i s) = view s"
  "view (snd (create_tus_data_file env data s)) = view s" "view (snd (create_score_data_file env data s)) = view s"
  "view (snd (with_cache wc s)) = view s" "view (register_pair env opp s) = view s" "view (send_joined n' s) = view s"
  by (auto simp: quiet put_db_def update_tracker_def read_field_def check_data_def read_pb_def track_com_id_def
      get_database_connection_def reply_bytes_def reply_data_def send_notification_def send_single_notification_def
      put_own_info_def track_service_def put_presence_def update_friends_def check_admin_def delete_tus_data_def
      delete_score_data_def create_tus_data_file_def create_score_data_file_def with_cache_def register_pair_def
      send_joined_def Let_def split: prod.split option.split)

lemma view_with_db [quiet]: "view (snd (with_db r s)) = view s"
  by (cases "(r, s)" rule: with_db.cases) (simp_all add: quiet)

lemma view_db [quiet]: "view (snd (query_db q s)) = view s" "view (snd (db_or_fail m)) = view (snd m)"
  by (auto simp: quiet query_db_def db_or_fail_def intro!: view_intros)

lemma view_com [quiet]:
  "view (snd (get_com_id_with_redir env s)) = view s"
  "view (snd (get_com_and_pb env dec s)) = view s"
  by (auto simp: quiet get_com_id_with_redir_def get_com_and_pb_def Let_def intro!: view_intros)

section \<open>The commands that keep it\<close>

text \<open>Rooms: what only looks.\<close>

lemma room_queries_quiet [quiet]:
  "view (snd (search_normally env c req s)) = view s"
  "view (snd (rematch_search env c req npid s)) = view s"
  "view (snd (req_search_room_all env s)) = view s"
  "view (snd (req_get_roomdata_external_list env s)) = view s"
  "view (snd (req_get_room_member_data_external_list env s)) = view s"
  "view (snd (req_get_roomdata_internal env s)) = view s"
  "view (snd (req_get_roommemberdata_internal env s)) = view s"
  "view (snd (req_ping_room_owner env s)) = view s"
  "view (snd (notify_update nt i ch s)) = view s"
  "view (snd (deliver_message ct us ds nf s)) = view s"
  "view (snd (req_send_room_message env s)) = view s"
  by (auto simp: quiet search_normally_def rematch_search_def req_search_room_all_def
      req_get_roomdata_external_list_def req_get_room_member_data_external_list_def req_get_roomdata_internal_def
      req_get_roommemberdata_internal_def req_ping_room_owner_def notify_update_def deliver_message_def
      req_send_room_message_def Let_def intro!: view_intros split: prod.split option.split)

lemma req_search_room_quiet [quiet]: "view (snd (req_search_room env s)) = view s"
  by (auto simp: quiet req_search_room_def Let_def intro!: view_intros split: prod.split option.split)

lemma gui_queries_quiet [quiet]:
  "view (snd (req_get_room_list_gui env s)) = view s"
  "view (snd (req_get_room_search_flag_gui env s)) = view s"
  "view (snd (req_get_room_info_gui env s)) = view s"
  by (auto simp: quiet req_get_room_list_gui_def req_get_room_search_flag_gui_def req_get_room_info_gui_def
      intro!: view_intros split: prod.split option.split)

lemma misc_quiet [quiet]:
  "view (snd (req_set_userinfo env s)) = view s"
  "view (snd (req_get_server_list env s)) = view s"
  "view (snd (req_get_world_list env s)) = view s"
  "view (snd (req_signaling_infos env s)) = view s"
  "view (snd (req_ticket env s)) = view s"
  "view (snd (deliver_private_message msg ids s)) = view s"
  "view (snd (get_network_time env s)) = view s"
  "view (snd (notify_presence p s)) = view s"
  by (auto simp: quiet req_set_userinfo_def req_get_server_list_def req_get_world_list_def req_signaling_infos_def
      req_ticket_def deliver_private_message_def get_network_time_def notify_presence_def Let_def
      intro!: view_intros split: prod.split option.split sum.split)

lemma send_message_quiet [quiet]: "view (snd (send_message env s)) = view s"
  by (auto simp: quiet send_message_def intro!: view_intros split: prod.split option.split sum.split if_splits)

lemma view_update_presence:
  "(\<And>x p. view (snd (f x p)) = v) \<Longrightarrow> (\<And>p. view (k p) = v) \<Longrightarrow> view (snd (bind_st (update_presence c req p) f k)) = v"
  by (rule bind_st_keeps) simp_all

lemma set_presence_quiet [quiet]: "view (snd (set_presence env s)) = view s"
  by (auto simp: quiet set_presence_def Let_def intro!: view_intros view_update_presence split: prod.split option.split)

lemma score_quiet [quiet]:
  "view (snd (req_get_board_infos env s)) = view s"
  "view (snd (req_record_score env s)) = view s"
  "view (snd (req_get_score_data env s)) = view s"
  "view (snd (req_get_score_range env s)) = view s"
  "view (snd (req_get_score_friends env s)) = view s"
  "view (snd (req_get_score_npid env s)) = view s"
  by (auto simp: quiet req_get_board_infos_def req_record_score_def req_get_score_data_def req_get_score_range_def
      req_get_score_friends_def req_get_score_npid_def Let_def
      intro!: view_intros split: prod.split option.split sum.split DbError.split)

lemma view_cached:
  assumes "view s = v" and "\<And>x s. view s = v \<Longrightarrow> view (snd (f x s)) = v" and "\<And>e s. view s = v \<Longrightarrow> view (snd (g e s)) = v"
    and "\<And>s. view s = v \<Longrightarrow> view (snd (h s)) = v"
  shows "view (snd (case with_cache op s of (Ok x, s) \<Rightarrow> f x s | (Err e, s) \<Rightarrow> g e s | (Panic, s) \<Rightarrow> h s)) = v"
proof -
  have "view (snd (with_cache op s)) = v" using assms(1) by (simp add: quiet)
  with assms show ?thesis by (auto split: prod.split res.split)
qed

lemma req_record_score_data_quiet [quiet]: "view (snd (req_record_score_data env s)) = view s"
  by (auto simp: quiet req_record_score_data_def Let_def
      intro!: view_intros view_cached split: prod.split option.split sum.split)

text \<open>The title user storage.\<close>

lemma view_tus_user_id:
  "view s = v \<Longrightarrow> (\<And>x s. view s = v \<Longrightarrow> view (snd (k x s)) = v) \<Longrightarrow> view (snd (tus_user_id env npid s k)) = v"
  "view s = v \<Longrightarrow> (\<And>x s. view s = v \<Longrightarrow> view (snd (k x s)) = v) \<Longrightarrow> view (snd (tus_own_id env npid s k)) = v"
  by (auto simp: quiet tus_user_id_def tus_own_id_def intro!: view_intros split: sum.split)

lemma view_multiuser:
  "view s = v \<Longrightarrow> (\<And>x s. view s = v \<Longrightarrow> view (snd (k x s)) = v) \<Longrightarrow> view (snd (multiuser env f g us acc k s)) = v"
  by (induction us arbitrary: acc s) (auto intro!: view_intros view_tus_user_id)

lemmas tus_intros = view_intros view_tus_user_id view_multiuser

lemma tus_replies_quiet [quiet]:
  "view (snd (reply_variables env vars s)) = view s"
  "view (snd (reply_variable env npid var s)) = view s"
  "view (snd (reply_statuses env sts s)) = view s"
  by (auto simp: quiet reply_variables_def reply_variable_def reply_statuses_def intro!: view_intros)

lemma store_tus_data_quiet [quiet]: "view (snd (store_tus_data env data check set_data s)) = view s"
  by (auto simp: quiet store_tus_data_def intro!: view_intros split: option.split sum.split)

lemma tus_get_quiet [quiet]:
  "view (snd (tus_get_multislot_variable env s)) = view s"
  "view (snd (tus_get_multiuser_variable env s)) = view s"
  "view (snd (tus_get_friends_variable env s)) = view s"
  "view (snd (tus_get_data env s)) = view s"
  "view (snd (tus_get_multislot_data_status env s)) = view s"
  "view (snd (tus_get_multiuser_data_status env s)) = view s"
  "view (snd (tus_get_friends_data_status env s)) = view s"
  by (auto simp: quiet tus_get_multislot_variable_def tus_get_multiuser_variable_def tus_get_friends_variable_def
      tus_get_data_def tus_get_multislot_data_status_def tus_get_multiuser_data_status_def
      tus_get_friends_data_status_def Let_def intro!: tus_intros split: prod.split option.split res.split)

lemma tus_set_quiet [quiet]:
  "view (snd (tus_set_multislot_variable env s)) = view s"
  "view (snd (tus_add_and_get_variable env s)) = view s"
  "view (snd (tus_try_and_set_variable env s)) = view s"
  "view (snd (tus_delete_multislot_variable env s)) = view s"
  "view (snd (tus_set_data env s)) = view s"
  "view (snd (tus_delete_multislot_data env s)) = view s"
  by (auto simp: quiet tus_set_multislot_variable_def tus_add_and_get_variable_def tus_try_and_set_variable_def
      tus_delete_multislot_variable_def tus_set_data_def tus_delete_multislot_data_def Let_def
      intro!: tus_intros split: prod.split option.split)

text \<open>Friends, accounts without the login, and administration.\<close>

lemma mail_quiet [quiet]:
  "view (snd (send_token_mail env a n t s)) = view s"
  "view (snd (send_reset_token_mail env a n t s)) = view s"
  by (auto simp: quiet send_token_mail_def send_reset_token_mail_def send_email_template_def Let_def)

lemma mail_view:
  "send_token_mail env a n t s = (b, s') \<Longrightarrow> view s' = view s"
  "send_reset_token_mail env a n t s = (b, s') \<Longrightarrow> view s' = view s"
  using mail_quiet [of env a n t s] by auto

lemma account_quiet [quiet]:
  "view (snd (create_account env s)) = view s"
  "view (snd (delete_account env s)) = view s"
  "view (snd (resend_token env s)) = view s"
  "view (snd (send_reset_token env s)) = view s"
  "view (snd (reset_password env s)) = view s"
  by (auto simp: quiet create_account_def delete_account_def resend_token_def send_reset_token_def reset_password_def Let_def
      intro!: view_intros dest!: mail_view split: prod.split option.split sum.split DbError.split bool.split)

lemma view_other_user:
  "view s = v \<Longrightarrow> (\<And>x s. view s = v \<Longrightarrow> view (snd (k x s)) = v) \<Longrightarrow> view (snd (other_user env npid s k)) = v"
  by (auto simp: quiet other_user_def intro!: view_intros split: sum.split)

lemma friends_notified_quiet [quiet]:
  "view (snd (notify_added i n st s)) = view s"
  "view (snd (notify_removed i n s)) = view s"
  by (auto simp: quiet notify_added_def notify_removed_def Let_def)

lemma friends_quiet [quiet]:
  "view (snd (add_friend env s)) = view s"
  "view (snd (remove_friend env s)) = view s"
  "view (snd (add_block s)) = view s"
  "view (snd (remove_block s)) = view s"
  by (auto simp: quiet add_friend_def remove_friend_def add_block_def remove_block_def Let_def
      intro!: view_intros view_other_user split: prod.split sum.split)

lemma admin_quiet [quiet]:
  "view (snd (req_admin_update_domain_bans env s)) = view s"
  "view (snd (req_admin_terminate_server s)) = view s"
  "view (snd (req_admin_update_servers_cfg env s)) = view s"
  "view (snd (req_admin_ban_user env s)) = view s"
  "view (snd (req_admin_del_user env s)) = view s"
  by (auto simp: quiet req_admin_update_domain_bans_def req_admin_terminate_server_def req_admin_update_servers_cfg_def
      req_admin_ban_user_def req_admin_del_user_def intro!: view_intros split: prod.split sum.split)

end
