(* ===== verification/Server_Rooms.thy ===== *)
theory Server_Rooms
  imports Room_Lifecycle Gui_Properties
begin

text \<open>
  Whose rooms an operation of the two room managers touches: nobody but the acting user enters a room, and the rooms
  stay in their invariant.
\<close>

section \<open>Rooms\<close>

definition rooms_kept :: "i64 \<Rightarrow> RoomManager \<Rightarrow> RoomManager \<Rightarrow> bool" where
  "rooms_kept u rm0 rm \<longleftrightarrow> rm_inv rm \<and> (\<forall>v. v \<noteq> u \<longrightarrow> rooms_of rm v \<subseteq> rooms_of rm0 v) \<and>
    (finite (rooms_of rm0 u) \<longrightarrow> finite (rooms_of rm u))"

lemma rooms_kept_refl: "rm_inv rm \<Longrightarrow> rooms_kept u rm rm"
  by (simp add: rooms_kept_def)

lemma rooms_kept_trans: "rooms_kept u rm0 rm1 \<Longrightarrow> rooms_kept u rm1 rm2 \<Longrightarrow> rooms_kept u rm0 rm2"
  unfolding rooms_kept_def by blast

lemma rooms_keptI:
  assumes "rm_inv rm'" and "rm_user_rooms rm' = rm_user_rooms rm \<or> (\<exists>x. rm_user_rooms rm' = entry_insert u x (rm_user_rooms rm))"
  shows "rooms_kept u rm rm'"
  using assms by (auto simp: rooms_kept_def rooms_of_def entry_insert_def split: option.splits)

lemma put_room_users [simp]: "rm_user_rooms (put_room rm c i r) = rm_user_rooms rm"
  by (simp add: put_room_def)

lemma create_room_kept:
  assumes "rm_inv rm" and "current_cnt rm c \<noteq> - 1"
  shows "rooms_kept (ci_user_id cinfo) rm (snd (create_room codec now rm c req cinfo sid sig))"
  by (rule rooms_keptI [OF create_room_inv [OF assms]], cases rule: create_room_cases [of codec now rm c req cinfo sid sig])
    (auto simp: unfailing_create_room_def with_cnt_def Let_def)

lemma join_room_kept:
  assumes "rm_inv rm" and "(c, jr_room_id req) \<notin> rooms_of rm (ci_user_id cinfo)"
  shows "rooms_kept (ci_user_id cinfo) rm (snd (join_room codec now rm c req cinfo sig))"
proof (rule rooms_keptI [OF join_room_inv [OF assms]])
  let ?rm = "snd (join_room codec now rm c req cinfo sig)"
  show "rm_user_rooms ?rm = rm_user_rooms rm \<or> (\<exists>x. rm_user_rooms ?rm = entry_insert (ci_user_id cinfo) x (rm_user_rooms rm))"
  proof (cases "rm_rooms rm (c, jr_room_id req)")
    case (Some r)
    have "Room_Slots.slots_ok r" using rm_inv_room [OF assms(1) Some] by (simp add: room_inv_def)
    then show ?thesis
      by (cases rule: join_room_cases [OF Some, of codec now cinfo sig]) (auto simp: with_member_def)
  qed (simp add: join_room_def get_room_def Let_def)
qed

lemma set_data_users:
  "rm_user_rooms (snd (set_roomdata_external rm c req_e u)) = rm_user_rooms rm"
  "rm_user_rooms (snd (set_roomdata_internal codec now rm c req_i u)) = rm_user_rooms rm"
  "rm_user_rooms (snd (set_roommemberdata_internal codec now rm c req_m u)) = rm_user_rooms rm"
  by (auto simp: set_roomdata_external_def set_roomdata_internal_def set_roommemberdata_internal_def Let_def
      split: option.splits prod.splits intro!: bind_st_keeps [where P = "\<lambda>rm'. rm_user_rooms rm' = rm_user_rooms rm"])

lemma left_rooms_of:
  assumes inv: "rm_inv rm" and r: "rm_rooms rm (c, i) = Some r" and d: "leave_done rnd rm c i u r rm'"
  shows "rooms_of rm' v = (if v = u then rooms_of rm v - {(c, i)} else rooms_of rm v)"
proof -
  have inv': "rm_inv rm'" using d by (simp add: leave_done_def Let_def)
  have "(x \<in> rooms_of rm' v) = (x \<in> (if v = u then rooms_of rm v - {(c, i)} else rooms_of rm v))" for x
  proof (cases x)
    case (Pair c' i')
    show ?thesis
    proof (cases "get_room_user_ids r - {u} = {}")
      case True
      with d have "rm_rooms rm' = (rm_rooms rm)((c, i) := None)" by (simp add: leave_done_def Let_def)
      with True r show ?thesis unfolding Pair by (auto simp: rm_inv_user [OF inv] rm_inv_user [OF inv'])
    next
      case False
      with d obtain r' where "rm_rooms rm' = (rm_rooms rm)((c, i) \<mapsto> r')" "get_room_user_ids r' = get_room_user_ids r - {u}"
        by (auto simp: leave_done_def Let_def)
      with r show ?thesis unfolding Pair by (auto simp: rm_inv_user [OF inv] rm_inv_user [OF inv'])
    qed
  qed
  then show ?thesis by blast
qed

lemma leave_room_kept:
  assumes "\<And>n. 0 < n \<Longrightarrow> rnd n < n" and "rm_inv rm"
  shows "rooms_kept u rm (snd (leave_room rnd rm c i u)) \<and> rooms_of (snd (leave_room rnd rm c i u)) u \<subseteq> rooms_of rm u - {(c, i)}"
proof (cases "\<exists>r. rm_rooms rm (c, i) = Some r \<and> u \<in> get_room_user_ids r")
  case True
  then obtain r where r: "rm_rooms rm (c, i) = Some r" "u \<in> get_room_user_ids r" by blast
  show ?thesis
  proof (rule leave_room_ok [OF assms r])
    fix rm'
    assume "leave_room rnd rm c i u = (Ok (get_room_user_ids r - {u} = {}, get_room_user_ids r - {u}), rm')"
      and d: "leave_done rnd rm c i u r rm'"
    then show ?thesis using left_rooms_of [OF assms(2) r(1) d] by (simp add: rooms_kept_def leave_done_def Let_def)
  qed
next
  case False
  then have new: "(c, i) \<notin> rooms_of rm u" using assms(2) by (simp add: rm_inv_user)
  show ?thesis by (rule leave_room_refused [OF assms(2) False, of rnd]) (auto simp: assms(2) rooms_kept_def new)
qed

section \<open>GUI rooms\<close>

definition gui_kept :: "i64 \<Rightarrow> GuiRoomManager \<Rightarrow> GuiRoomManager \<Rightarrow> bool" where
  "gui_kept u gm0 gm \<longleftrightarrow> gui_inv gm \<and> (\<forall>v. v \<noteq> u \<longrightarrow> user_set gm v \<subseteq> user_set gm0 v)"

lemma gui_kept_refl: "gui_inv gm \<Longrightarrow> gui_kept u gm gm"
  by (simp add: gui_kept_def)

lemma gui_kept_trans: "gui_kept u gm0 gm1 \<Longrightarrow> gui_kept u gm1 gm2 \<Longrightarrow> gui_kept u gm0 gm2"
  unfolding gui_kept_def by blast

lemma gui_keptI:
  "gui_inv gm' \<Longrightarrow> (\<And>v. v \<noteq> u \<Longrightarrow> gm_user_rooms gm' v = gm_user_rooms gm v) \<Longrightarrow> gui_kept u gm gm'"
  by (simp add: gui_kept_def user_set_def)

lemma entered_others:
  assumes "add_member_to_room i cinfo b r gm = (x, gm')" and "v \<noteq> ci_user_id cinfo"
  shows "gm_user_rooms gm' v = gm_user_rooms gm v"
  using assms add_member_to_room_state(2) [of i cinfo b r gm] by (simp add: entry_insert_def)

lemma create_room_gui_users:
  assumes "v \<noteq> ci_user_id cinfo" and "gm_user_rooms gm v = y"
  shows "gm_user_rooms (snd (create_room_gui codec iter gm c req cinfo)) v = y"
  by (auto simp: assms(2) create_room_gui_def Let_def insert_room_def entered_others [OF _ assms(1)]
      intro!: bind_st_keeps [where P = "\<lambda>g. gm_user_rooms g v = y"])

lemma join_room_gui_users:
  assumes "v \<noteq> ci_user_id cinfo" and "gm_user_rooms gm v = y"
  shows "gm_user_rooms (snd (join_room_gui codec iter gm i cinfo)) v = y"
  by (auto simp: assms(2) join_room_gui_def Let_def entered_others [OF _ assms(1)] split: option.split
      intro!: bind_st_keeps [where P = "\<lambda>g. gm_user_rooms g v = y"])

lemma search_join_gui_users:
  assumes "v \<noteq> ci_user_id cinfo" and "gm_user_rooms gm v = y"
  shows "gm_user_rooms (snd (search_join_gui codec iter gm c req_s cinfo)) v = y"
  by (auto simp: assms(2) search_join_gui_def Let_def entered_others [OF _ assms(1)] split: option.split
      intro!: bind_st_keeps [where P = "\<lambda>g. gm_user_rooms g v = y"])

lemma quickmatch_room_users:
  assumes "v \<noteq> ci_user_id cinfo" and "gm_user_rooms gm v = y"
  shows "gm_user_rooms (snd (quickmatch_room iter gm c req cinfo)) v = y"
  by (auto simp: assms(2) quickmatch_room_def Let_def insert_room_def entered_others [OF _ assms(1)] split: option.split
      intro!: bind_st_keeps [where P = "\<lambda>g. gm_user_rooms g v = y"])

lemma quickmatch_gui_users:
  assumes "v \<noteq> ci_user_id cinfo" and "gm_user_rooms gm v = y"
  shows "gm_user_rooms (snd (quickmatch_gui codec iter gm c req cinfo)) v = y"
  unfolding quickmatch_gui_def
  by (rule then_st_keeps [where P = "\<lambda>g. gm_user_rooms g v = y"])
    (auto simp: complete_quickmatch_def Let_def quickmatch_room_users [OF assms])

lemmas gui_entering_users = create_room_gui_users join_room_gui_users search_join_gui_users quickmatch_gui_users

lemma gui_setting_users:
  "gm_user_rooms (snd (set_search_flag gm i b u)) = gm_user_rooms gm"
  "gm_user_rooms (snd (set_room_info_gui gm i attrs u)) = gm_user_rooms gm"
  by (auto simp: set_search_flag_def set_room_info_gui_def intro!: bind_st_keeps [where P = "\<lambda>g. gm_user_rooms g = gm_user_rooms gm"])

lemma gui_operations_kept:
  assumes "gui_inv gm"
  shows "gm_cur_room_id gm \<noteq> - 1 \<Longrightarrow> gui_kept (ci_user_id cinfo) gm (snd (create_room_gui codec iter gm c req cinfo))"
    and "gui_kept (ci_user_id cinfo) gm (snd (join_room_gui codec iter gm i cinfo))"
    and "iter_ok iter \<Longrightarrow> gui_kept (ci_user_id cinfo) gm (snd (search_join_gui codec iter gm c req_s cinfo))"
    and "iter_ok iter \<Longrightarrow> gm_cur_room_id gm \<noteq> - 1 \<Longrightarrow>
      gui_kept (ci_user_id cinfo) gm (snd (quickmatch_gui codec iter gm c req_q cinfo))"
    and "gui_kept u gm (snd (set_search_flag gm i b u'))"
    and "gui_kept u gm (snd (set_room_info_gui gm i attrs u'))"
  using assms by (auto intro!: gui_keptI gui_entering_users gui_ops_inv simp: gui_setting_users)

text \<open>Leaving takes the room from the user, and from everybody when it closes.\<close>

lemma leave_room_gui_kept:
  fixes cinfo :: ClientInfo and i :: GuiRoomId and codec :: gui_codec
  assumes inv: "gui_inv gm" and iter: "iter_ok iter" and rnd: "\<forall>n > 0. rnd n < n"
  defines "gm' \<equiv> snd (leave_room_gui codec iter rnd gm i cinfo)"
  shows "gui_kept u gm gm' \<and> user_set gm' v \<subseteq> user_set gm v \<and> i \<notin> user_set gm' (ci_user_id cinfo)"
proof -
  have inv': "gui_inv gm'" unfolding gm'_def by (rule leave_room_gui_inv [OF inv iter rnd])
  have "user_set gm' w \<subseteq> user_set gm w \<and> i \<notin> user_set gm' (ci_user_id cinfo)" for w
  proof (cases "\<exists>r m. gm_rooms gm i = Some r \<and> bt_get (gr_members r) (ci_user_id cinfo) = Some m")
    case True
    then obtain r m where r: "gm_rooms gm i = Some r" and m: "bt_get (gr_members r) (ci_user_id cinfo) = Some m" by blast
    from leave_room_gui_ok [OF inv r m iter rnd, of codec] have
      "gm_rooms gm' = (gm_rooms gm)(i := None) \<or> (\<exists>w'. gm_rooms gm' = (gm_rooms gm)(i \<mapsto> promote w' (left_room (ci_user_id cinfo) r))) \<or>
       gm_rooms gm' = (gm_rooms gm)(i \<mapsto> left_room (ci_user_id cinfo) r)"
      by (auto simp: gm'_def split: if_splits)
    with r show ?thesis by (auto simp: gui_inv_user [OF inv] gui_inv_user [OF inv'] split: if_splits)
  next
    case False
    then have "gm' = gm" by (auto simp: gm'_def leave_room_gui_def split: option.split)
    with False show ?thesis by (auto simp: gui_inv_user [OF inv] member_ids_get)
  qed
  with inv' show ?thesis by (auto simp: gui_kept_def)
qed

end
