(* ===== verification/Server_Commands.thy ===== *)
theory Server_Commands
  imports Server_Frames Server_Rooms
begin

text \<open>
  What any command of a client may change of the rooms and the logins: it acts for its own user.  Nobody else enters a
  room, the rooms stay in their invariants, and only the login changes who is online.
\<close>

section \<open>Acting for one user\<close>

fun calm :: "view \<Rightarrow> bool" where
  "calm (ci, a, rm, gm, online, duty) \<longleftrightarrow> rm_inv rm \<and> gui_inv gm"

text \<open>The numbers of new rooms are not used up.\<close>

fun ready :: "view \<Rightarrow> bool" where
  "ready (ci, a, rm, gm, online, duty) \<longleftrightarrow>
    rm_inv rm \<and> gui_inv gm \<and> (\<forall>c. current_cnt rm c \<noteq> - 1) \<and> gm_cur_room_id gm \<noteq> - 1"

fun acts_for_user :: "view \<Rightarrow> view \<Rightarrow> bool" where
  "acts_for_user (ci, a, rm, gm, online, duty) (ci', a', rm', gm', online', duty') \<longleftrightarrow>
    ci' = ci \<and> a' = a \<and> online' = online \<and> duty' = duty \<and>
    rooms_kept (ci_user_id ci) rm rm' \<and> gui_kept (ci_user_id ci) gm gm'"

definition kept :: "Session \<Rightarrow> Session \<Rightarrow> bool" where
  "kept s s' \<longleftrightarrow> acts_for_user (view s) (view s')"

definition env_ok :: "Env \<Rightarrow> bool" where
  "env_ok env \<longleftrightarrow> (\<forall>n > 0. e_rnd env n < n) \<and> iter_ok (e_iter env) \<and>
    (\<forall>S. finite S \<longrightarrow> set (e_user_rooms_order env S) = S) \<and> (\<forall>S. finite S \<longrightarrow> set (e_user_gui_order env S) = S)"

lemma env_okD:
  assumes "env_ok env"
  shows "\<forall>n > 0. e_rnd env n < n" "iter_ok (e_iter env)"
    "finite S \<Longrightarrow> set (e_user_rooms_order env S) = S" "finite G \<Longrightarrow> set (e_user_gui_order env G) = G"
  using assms by (simp_all add: env_ok_def)

lemma calm_view: "calm (view s) \<longleftrightarrow> rm_inv (s_rooms s) \<and> gui_inv (s_gui s)"
  by (simp add: view_def)

lemma ready_view:
  "ready (view s) \<longleftrightarrow> calm (view s) \<and> (\<forall>c. current_cnt (s_rooms s) c \<noteq> - 1) \<and> gm_cur_room_id (s_gui s) \<noteq> - 1"
  by (simp add: view_def)

lemma kept_alt:
  "kept s s' \<longleftrightarrow> s_info s' = s_info s \<and> cl_authentified (s_client s') = cl_authentified (s_client s) \<and>
    dom (s_infos s') = dom (s_infos s) \<and> sh_cleanup_duty (s_shared s') = sh_cleanup_duty (s_shared s) \<and>
    rooms_kept (s_user s) (s_rooms s) (s_rooms s') \<and> gui_kept (s_user s) (s_gui s) (s_gui s')"
  by (simp add: kept_def view_def)

lemma kept_refl: "calm (view s) \<Longrightarrow> kept s s"
  by (simp add: kept_alt calm_view rooms_kept_refl gui_kept_refl)

lemma kept_quiet: "calm (view s) \<Longrightarrow> view s' = view s \<Longrightarrow> kept s s'"
  using kept_refl by (simp add: kept_def)

lemma kept_trans: "kept s s1 \<Longrightarrow> kept s1 s2 \<Longrightarrow> kept s s2"
  unfolding kept_alt by (metis gui_kept_trans rooms_kept_trans)

lemma kept_calm: "kept s s' \<Longrightarrow> calm (view s')"
  by (simp add: kept_alt calm_view rooms_kept_def gui_kept_def)

section \<open>Sequences\<close>

text \<open>Quiet steps before the one that acts.\<close>

lemma then_quiet:
  assumes "Q (view s)" "Q = calm \<or> Q = ready" and "view (snd m) = view s"
    and "\<And>x s'. view s' = view s \<Longrightarrow> Q (view s') \<Longrightarrow> kept s' (snd (f x s'))"
  shows "kept s (snd (then_st m f))"
proof -
  have "calm (view s)" using assms(1,2) ready_view by blast
  then have keep: "kept s s'" if "view s' = view s" for s' using that kept_quiet by blast
  obtain r s1 where m: "m = (r, s1)" by fastforce
  with assms(3) have v: "view s1 = view s" by simp
  from assms(4) [OF v] assms(1) v have "kept s (snd (f x s1))" for x by (simp add: kept_def)
  with keep [OF v] show ?thesis by (cases r) (simp_all add: m)
qed

lemma then_pure:
  assumes "calm (view s)" and "\<And>x. r = Ok x \<Longrightarrow> kept s (snd (f x s))"
  shows "kept s (snd (then_st (r, s) f))" "kept s (snd (soft (r, s) f))"
  using assms kept_refl by (cases r; simp)+

text \<open>Quiet steps after it.\<close>

lemma kept_view_right: "view s2 = view s1 \<Longrightarrow> kept s s2 = kept s s1"
  by (simp add: kept_def)

lemma ending_quiet:
  assumes "kept s (snd m)" and "\<And>x s'. view (snd (f x s')) = view s'"
  shows "kept s (snd (then_st m f))"
  by (rule then_st_keeps) (use assms in \<open>simp_all add: kept_def\<close>)

lemma soft_ending_quiet:
  assumes "kept s (snd m)" and "\<And>x s'. view (snd (f x s')) = view s'"
  shows "kept s (snd (soft m f))" "kept s (snd (soft_malformed m f))"
proof -
  obtain r s1 where "m = (r, s1)" by fastforce
  with assms show "kept s (snd (soft m f))" "kept s (snd (soft_malformed m f))"
    by (cases r; simp add: kept_def)+
qed

lemma kept_with_rooms:
  assumes "calm (view s)" and "rm_inv (s_rooms s) \<Longrightarrow> rooms_kept (s_user s) (s_rooms s) (snd (f (s_rooms s)))"
  shows "kept s (snd (with_rooms f s))"
  using assms
  by (cases "f (s_rooms s)")
    (simp add: kept_alt with_rooms_def calm_view gui_kept_refl update_shared_def update_server_def)

lemma kept_with_new_room:
  assumes "ready (view s)"
    and "rm_inv (s_rooms s) \<Longrightarrow> (\<And>c. current_cnt (s_rooms s) c \<noteq> - 1) \<Longrightarrow>
      rooms_kept (s_user s) (s_rooms s) (snd (f (s_rooms s)))"
  shows "kept s (snd (with_rooms f s))"
  using assms by (intro kept_with_rooms) (simp_all add: ready_view)

lemma kept_with_gui:
  assumes "calm (view s)" and "gui_inv (s_gui s) \<Longrightarrow> gui_kept (s_user s) (s_gui s) (snd (f (s_gui s)))"
  shows "kept s (snd (with_gui f s))"
  using assms
  by (cases "f (s_gui s)")
    (simp add: kept_alt with_gui_def calm_view rooms_kept_refl update_shared_def update_server_def)

lemma kept_with_new_gui_room:
  assumes "ready (view s)"
    and "gui_inv (s_gui s) \<Longrightarrow> gm_cur_room_id (s_gui s) \<noteq> - 1 \<Longrightarrow> gui_kept (s_user s) (s_gui s) (snd (f (s_gui s)))"
  shows "kept s (snd (with_gui f s))"
  using assms by (intro kept_with_gui) (simp_all add: ready_view)

lemmas rooms_ending = ending_quiet [where m = "with_rooms f s" for f s] soft_ending_quiet [where m = "with_rooms f s" for f s]
lemmas gui_ending = ending_quiet [where m = "with_gui f s" for f s] soft_ending_quiet [where m = "with_gui f s" for f s]

lemma ready_calm: "ready v \<Longrightarrow> calm v"
  by (cases v) simp

section \<open>Rooms\<close>

lemma set_data_kept:
  assumes "rm_inv rm"
  shows "rooms_kept u' rm (snd (set_roomdata_external rm c req_e u))"
    "rooms_kept u' rm (snd (set_roomdata_internal codec now rm c req_i u))"
    "rooms_kept u' rm (snd (set_roommemberdata_internal codec now rm c req_m u))"
  using assms
  by (auto intro!: rooms_keptI set_roomdata_external_inv set_roomdata_internal_inv set_roommemberdata_internal_inv
      simp: set_data_users)

lemma req_create_room_kept:
  assumes "ready (view s)"
  shows "kept s (snd (req_create_room env s))"
  unfolding req_create_room_def
  by (rule then_quiet [where Q = ready]) (auto simp: quiet assms ready_calm split: sum.split
    intro!: then_quiet [where Q = ready] rooms_ending kept_with_new_room create_room_kept kept_refl)

lemma set_room_kept:
  assumes "calm (view s)"
  shows "kept s (snd (req_set_roomdata_external env s))"
    "kept s (snd (req_set_roomdata_internal env s))"
    "kept s (snd (req_set_roommemberdata_internal env s))"
  unfolding req_set_roomdata_external_def req_set_roomdata_internal_def req_set_roommemberdata_internal_def
  by (rule then_quiet [where Q = calm]; auto simp: quiet assms
    intro!: rooms_ending kept_with_rooms set_data_kept)+

lemma is_member_alt: "(c, i) \<in> rooms_of rm u \<Longrightarrow> get_room rm c i = Ok r \<Longrightarrow> rm_inv rm \<Longrightarrow> is_member u r"
  by (force simp: rm_inv_user is_member_def get_room_def get_room_user_ids_def list_ex_iff split: option.splits)

lemma req_join_room_kept:
  assumes "calm (view s)"
  shows "kept s (snd (req_join_room env s))"
  unfolding req_join_room_def
  by (rule then_quiet [where Q = calm]) (auto simp: quiet assms Let_def
    intro!: then_pure rooms_ending kept_with_rooms join_room_kept kept_refl view_fold, metis is_member_alt)

lemma cmd_leave_room_kept:
  assumes "env_ok env" and "calm (view s)"
  shows "kept s (snd (cmd_leave_room env c i opt cause s))"
proof -
  have "rooms_kept (s_user s) (s_rooms s) (snd (leave_room (e_rnd env) (s_rooms s) c i (s_user s)))"
    using leave_room_kept env_okD(1) [OF assms(1)] assms(2) by (simp add: calm_view)
  then show ?thesis
    unfolding cmd_leave_room_def
    by (auto simp: quiet assms Let_def intro!: then_pure rooms_ending kept_with_rooms kept_refl split: prod.split)
qed

lemma req_leave_room_kept:
  assumes "env_ok env" and "calm (view s)"
  shows "kept s (snd (req_leave_room env s))"
  unfolding req_leave_room_def
  by (rule then_quiet [where Q = calm]) (auto simp: quiet assms intro!: ending_quiet cmd_leave_room_kept)

section \<open>GUI rooms\<close>

lemma enter_gui_kept:
  assumes "env_ok env" and "ready (view s)"
  shows "kept s (snd (req_create_room_gui env s))"
    "kept s (snd (req_join_room_gui env s))"
    "kept s (snd (req_quickmatch_gui env s))"
    "kept s (snd (req_searchjoin_gui env s))"
  unfolding req_create_room_gui_def req_join_room_gui_def req_quickmatch_gui_def req_searchjoin_gui_def
  by (rule then_quiet [where Q = ready]; auto simp: quiet assms Let_def env_okD [OF assms(1)] ready_calm
    intro!: then_pure gui_ending kept_with_new_gui_room gui_operations_kept
    split: option.split prod.split)+

lemma set_gui_kept:
  assumes "calm (view s)"
  shows "kept s (snd (req_set_room_search_flag_gui env s))"
    "kept s (snd (req_set_room_info_gui env s))"
  unfolding req_set_room_search_flag_gui_def req_set_room_info_gui_def
  by (rule then_quiet [where Q = calm]; auto simp: quiet assms
    intro!: then_pure gui_ending kept_with_gui gui_operations_kept)+

lemma cmd_leave_room_gui_kept:
  assumes "env_ok env" and "calm (view s)"
  shows "kept s (snd (cmd_leave_room_gui env i s))"
  unfolding cmd_leave_room_gui_def
  by (auto simp: quiet assms env_okD [OF assms(1)] leave_room_gui_kept
    intro!: gui_ending kept_with_gui view_fold split: prod.split)

lemma req_leave_room_gui_kept:
  assumes "env_ok env" and "calm (view s)"
  shows "kept s (snd (req_leave_room_gui env s))"
  unfolding req_leave_room_gui_def
  by (rule then_quiet [where Q = calm]) (auto simp: quiet assms
    intro!: then_pure soft_ending_quiet [where m = "cmd_leave_room_gui env i s" for i s] cmd_leave_room_gui_kept)

end
