(* ===== verification/Server_Cleanup.thy ===== *)
theory Server_Cleanup
  imports Server_Commands
begin

text \<open>
  Undoing what a user holds: the user leaves every room of both kinds and goes offline, and this never panics.
\<close>

lemma fold_st_drains:
  assumes "\<And>x s. I s \<Longrightarrow> fst (f x s) = Ok () \<and> I (snd (f x s)) \<and> A (snd (f x s)) \<subseteq> A s - {x}" and "I s"
  shows "fst (fold_st f xs s) = Ok () \<and> I (snd (fold_st f xs s)) \<and> A (snd (fold_st f xs s)) \<subseteq> A s - set xs"
  using assms(2)
proof (induction xs arbitrary: s)
  case (Cons x xs)
  obtain r s1 where f: "f x s = (r, s1)" by fastforce
  with assms(1) [OF Cons.prems, of x] Cons.IH [of s1] show ?case by auto
qed simp

lemma rooms_untouched [simp]:
  "s_rooms (send_notification n us s) = s_rooms s" "s_rooms (register_pair env opp s) = s_rooms s"
  by (auto simp: send_notification_def register_pair_def update_pairs_def update_server_def Let_def split: option.split)

lemma not_member_rooms_of:
  assumes "rm_inv rm" and "rm_rooms rm (c, i) = Some r" and "member_of u (r_users r) = None"
  shows "(c, i) \<notin> rooms_of rm u"
  using assms by (auto simp: rm_inv_user member_of_None get_room_user_ids_image)

section \<open>Leaving one room\<close>

definition gone_from_room :: "ComId \<times> u64 \<Rightarrow> Session \<Rightarrow> Session \<Rightarrow> bool" where
  "gone_from_room x s s' \<longleftrightarrow> rooms_of (s_rooms s') (s_user s) \<subseteq> rooms_of (s_rooms s) (s_user s) - {x}"

lemma cmd_leave_room_leaves:
  assumes env: "env_ok env" and calm: "calm (view s)"
  shows "fst (cmd_leave_room env c i opt cause s) \<noteq> Panic \<and> gone_from_room (c, i) s (snd (cmd_leave_room env c i opt cause s))"
proof -
  have inv: "rm_inv (s_rooms s)" using calm by (simp add: calm_view)
  note out = gone_from_room_def cmd_leave_room_def room_exists_def get_room_def get_member_id_def
  show ?thesis
  proof (cases "rm_rooms (s_rooms s) (c, i)")
    case None
    then show ?thesis using rm_inv_user [OF inv, of c i "s_user s"] by (auto simp: out)
  next
    case (Some r)
    show ?thesis
    proof (cases "member_of (s_user s) (r_users r)")
      case None
      then show ?thesis using Some not_member_rooms_of [OF inv Some None] by (auto simp: out ok_or_def)
    next
      case member: (Some m)
      from member_of_Some [OF this] obtain usr where "(m, usr) \<in> set (r_users r)" by blast
      moreover have "members_ok r" using rm_inv_room(1) [OF inv Some] by (rule room_invD)
      ultimately obtain d where d: "get_room_member_update_info r m cause opt = Ok d"
        using get_room_member_update_info_ok by blast
      obtain x rm' where leave: "leave_room (e_rnd env) (s_rooms s) c i (s_user s) = (x, rm')" by fastforce
      have "x \<noteq> Panic" "rooms_of rm' (s_user s) \<subseteq> rooms_of (s_rooms s) (s_user s) - {(c, i)}"
        using leave_room_inv(2) [of "e_rnd env" "s_rooms s" c i "s_user s"]
          leave_room_kept [of "e_rnd env" "s_rooms s" "s_user s" c i] inv env_okD(1) [OF env] by (simp_all add: leave)
      then show ?thesis
        using Some member d by (cases x)
          (auto simp: out ok_or_def leave with_rooms_def update_shared_def update_server_def Let_def)
    qed
  qed
qed

section \<open>Leaving all\<close>

lemma kept_user: "kept s s' \<Longrightarrow> s_user s' = s_user s"
  by (simp add: kept_alt)

lemma ignore_result_fst: "fst m \<noteq> Panic \<Longrightarrow> fst (ignore_result m) = Ok ()"
  by (cases m; cases "fst m") (auto simp: ignore_result_def)

lemma ignore_result_snd [simp]: "snd (ignore_result m) = snd m"
  by (cases m; cases "fst m") (auto simp: ignore_result_def)

lemma leave_all_rooms_ok:
  assumes env: "env_ok env" and calm: "calm (view s)" and fin: "finite (rooms_of (s_rooms s) (s_user s))"
  shows "fst (leave_all_rooms env s) = Ok () \<and> kept s (snd (leave_all_rooms env s)) \<and>
    rooms_of (s_rooms (snd (leave_all_rooms env s))) (s_user s) = {}"
proof (cases "rm_user_rooms (s_rooms s) (s_user s)")
  case None
  then show ?thesis using kept_refl [OF calm] by (simp add: leave_all_rooms_def get_rooms_by_user_def rooms_of_def)
next
  case (Some rooms)
  let ?f = "\<lambda>(com_id, room_id) s. ignore_result (cmd_leave_room env com_id room_id None MemberDisappeared s)"
  have "fst (?f x s') = Ok () \<and> kept s (snd (?f x s')) \<and>
      rooms_of (s_rooms (snd (?f x s'))) (s_user s) \<subseteq> rooms_of (s_rooms s') (s_user s) - {x}" if "kept s s'" for x s'
  proof -
    have "calm (view s')" using that by (rule kept_calm)
    from cmd_leave_room_leaves [OF env this] cmd_leave_room_kept [OF env this] that show ?thesis
      by (cases x) (auto simp: ignore_result_fst gone_from_room_def kept_user intro: kept_trans)
  qed
  from fold_st_drains [where f = ?f and I = "kept s" and A = "\<lambda>s'. rooms_of (s_rooms s') (s_user s)", OF this kept_refl [OF calm],
      of "e_user_rooms_order env rooms"]
  show ?thesis using Some env_okD(3) [OF env, of rooms] fin
    by (simp add: leave_all_rooms_def get_rooms_by_user_def rooms_of_def)
qed

lemma cmd_leave_room_gui_leaves:
  fixes i :: GuiRoomId
  assumes env: "env_ok env" and calm: "calm (view s)"
  defines "p \<equiv> cmd_leave_room_gui env i s"
  shows "fst p \<noteq> Panic \<and> user_set (s_gui (snd p)) (s_user s) \<subseteq> user_set (s_gui s) (s_user s) - {i} \<and> s_rooms (snd p) = s_rooms s"
proof -
  have inv: "gui_inv (s_gui s)" using calm by (simp add: calm_view)
  obtain x gm' where leave: "leave_room_gui (e_gui env) (e_iter env) (e_rnd env) (s_gui s) i (s_info s) = (x, gm')" by fastforce
  have sent: "s_rooms (fold (\<lambda>(t, d). send_notification (gui_notification t d) ids) ns s') = s_rooms s'"
    "s_gui (fold (\<lambda>(t, d). send_notification (gui_notification t d) ids) ns s') = s_gui s'" for ids ns s'
    by (induction ns arbitrary: s') (auto simp: send_notification_def update_server_def)
  have "x \<noteq> Panic"
  proof (cases "\<exists>r m. gm_rooms (s_gui s) i = Some r \<and> bt_get (gr_members r) (s_user s) = Some m")
    case True
    then obtain r m where r: "gm_rooms (s_gui s) i = Some r" "bt_get (gr_members r) (s_user s) = Some m" by blast
    from leave_room_gui_ok [OF inv r env_okD(2,1) [OF env], of "e_gui env"] leave show ?thesis by auto
  next
    case False
    with leave show ?thesis by (auto simp: leave_room_gui_def split: option.splits)
  qed
  moreover have "user_set gm' (s_user s) \<subseteq> user_set (s_gui s) (s_user s) - {i}"
    using leave_room_gui_kept [OF inv env_okD(2,1) [OF env], of "s_user s" "e_gui env" i "s_info s" "s_user s"] leave by auto
  ultimately show ?thesis
    by (cases x) (auto simp: p_def cmd_leave_room_gui_def with_gui_def leave update_shared_def update_server_def sent)
qed

lemma leave_all_gui_rooms_ok:
  assumes env: "env_ok env" and calm: "calm (view s)"
  defines "p \<equiv> leave_all_gui_rooms env s"
  shows "fst p = Ok () \<and> kept s (snd p) \<and> user_set (s_gui (snd p)) (s_user s) = {} \<and> s_rooms (snd p) = s_rooms s"
proof (cases "gm_user_rooms (s_gui s) (s_user s)")
  case None
  then show ?thesis using kept_refl [OF calm] by (simp add: p_def leave_all_gui_rooms_def gui_get_rooms_by_user_def user_set_def)
next
  case (Some rooms)
  let ?f = "\<lambda>room s. ignore_result (cmd_leave_room_gui env room s)" and ?I = "\<lambda>s'. kept s s' \<and> s_rooms s' = s_rooms s"
  have "fst (?f x s') = Ok () \<and> ?I (snd (?f x s')) \<and>
      user_set (s_gui (snd (?f x s'))) (s_user s) \<subseteq> user_set (s_gui s') (s_user s) - {x}" if "?I s'" for x s'
  proof -
    have "calm (view s')" using that by (blast intro: kept_calm)
    from cmd_leave_room_gui_leaves [OF env this, of x] cmd_leave_room_gui_kept [OF env this, of x] that show ?thesis
      by (auto simp: ignore_result_fst kept_user intro: kept_trans)
  qed
  from fold_st_drains [where f = ?f and I = ?I and A = "\<lambda>s'. user_set (s_gui s') (s_user s)", OF this conjI [OF kept_refl [OF calm] refl],
      of "e_user_gui_order env rooms"]
  moreover have "rooms \<subseteq> dom (gm_rooms (s_gui s))"
    using gui_inv_user [of "s_gui s" _ "s_user s"] calm Some by (force simp: calm_view user_set_def)
  then have "finite rooms" using calm by (auto simp: calm_view gui_inv_def intro: finite_subset)
  ultimately show ?thesis using Some env_okD(4) [OF env, of rooms]
    by (simp add: p_def leave_all_gui_rooms_def gui_get_rooms_by_user_def user_set_def)
qed

lemma forget_view [quiet]: "view (forget_game s) = view s" "view (forget_service s) = view s"
  by (auto simp: quiet forget_game_def forget_service_def split: prod.split option.split)

text \<open>The user is in no room of either kind, and nothing panicked on the way.\<close>

lemma clean_user_state_ok:
  assumes env: "env_ok env" and calm: "calm (view s)" and fin: "finite (rooms_of (s_rooms s) (s_user s))"
  defines "p \<equiv> clean_user_state env s"
  shows "fst p = Ok () \<and> kept s (snd p) \<and> rooms_of (s_rooms (snd p)) (s_user s) = {} \<and> user_set (s_gui (snd p)) (s_user s) = {}"
proof -
  obtain r s1 where m: "leave_all_rooms env s = (r, s1)" by fastforce
  obtain r' s2 where g: "leave_all_gui_rooms env s1 = (r', s2)" by fastforce
  note 1 = leave_all_rooms_ok [OF env calm fin, unfolded m fst_conv snd_conv]
  then have calm1: "calm (view s1)" by (blast intro: kept_calm)
  note 2 = leave_all_gui_rooms_ok [OF env calm1, unfolded g fst_conv snd_conv]
  let ?s = "forget_service (forget_game s2)"
  have v: "view ?s = view s2" by (simp add: quiet)
  then have "s_rooms ?s = s_rooms s2" "s_gui ?s = s_gui s2" by (simp_all add: view_def)
  moreover have "kept s s2" using 1 2 by (blast intro: kept_trans)
  then have "kept s ?s" using v by (simp add: kept_def)
  moreover have "p = (Ok (), ?s)" using 1 2 by (simp add: p_def clean_user_state_def m g)
  ultimately show ?thesis using 1 2 kept_user [of s s1] by simp
qed

lemma reset_state_kept:
  assumes "env_ok env" and "calm (view s)" and "finite (rooms_of (s_rooms s) (s_user s))"
  shows "kept s (snd (reset_state env s))"
  unfolding reset_state_def by (rule ending_quiet) (simp_all add: clean_user_state_ok [OF assms])

end
