(* ===== verification/Server_Start.thy ===== *)
theory Server_Start
  imports Cmd_Tus Cmd_Account
begin

text \<open>
  The start of the server, \<^verbatim>\<open>Server::new\<close> of \<^verbatim>\<open>server.rs\<close>, and the task that cleans the database once a day,
  \<^verbatim>\<open>server/daily_cleaner.rs\<close>.
\<close>

section \<open>The start\<close>

text \<open>
  What the process finds: the database after its migrations, the file of the boards, the names in the two data
  directories and the contents under the numbers, and the files that can be deleted.  All error messages are
  \<^verbatim>\<open>DbInternal\<close>.
\<close>

record Disk =
  dk_database :: Database
  dk_scoreboards :: "string option"
  dk_score_names :: "string option list"
  dk_score_files :: "u64 \<rightharpoonup> bytes"
  dk_tus_names :: "string option list"
  dk_tus_files :: "u64 \<rightharpoonup> bytes"
  dk_remove :: "u64 \<Rightarrow> bool"

definition initialize_score_data_handler :: "Disk \<Rightarrow> DataFiles" where
  "initialize_score_data_handler disk =
    \<lparr> df_dispenser = create_data_directory ''sdt'' (dk_score_names disk), df_files = dk_score_files disk \<rparr>"

definition initialize_tus_data_handler :: "Disk \<Rightarrow> DataFiles" where
  "initialize_tus_data_handler disk =
    \<lparr> df_dispenser = create_data_directory ''tdt'' (dk_tus_names disk), df_files = dk_tus_files disk \<rparr>"

text \<open>A server nobody is connected to.\<close>

definition fresh_server :: "Config \<Rightarrow> Database \<Rightarrow> ScoresCache \<Rightarrow> DataFiles \<Rightarrow> DataFiles \<Rightarrow> ServerState" where
  "fresh_server config db cache score_data tus_data =
    \<lparr> sv_shared = SharedData_new GuiRoomManager_new RoomManager_new Map.empty cache GameTracker_new {},
      sv_config = config, sv_db = db, sv_ticket_id = 1, sv_email_id = 1, sv_mails = [],
      sv_score_data = score_data, sv_tus_data = tus_data, sv_sent = [], sv_terminate = False \<rparr>"

text \<open>
  \<^verbatim>\<open>initialize_database\<close> gives the administrators of the configuration their rights and enters the servers, worlds and lobbies of
  \<^verbatim>\<open>servers.cfg\<close>; neither failure stops the start.
\<close>

definition initialize_database :: "Env \<Rightarrow> Config \<Rightarrow> Database \<Rightarrow> Database" where
  "initialize_database env config db =
    snd (update_servers_cfg (e_sql env) (e_servers_file env) (set_admin_rights (e_sql env) (cf_admins_list config) db))"

definition Server_new :: "Env \<Rightarrow> Config \<Rightarrow> Disk \<Rightarrow> ServerState db_result" where
  "Server_new env config disk =
    (let sql = e_sql env; connect = (if e_connects env then Ok () else Err DbInternal);
         db = initialize_database env config (dk_database disk)
     in bind_res connect (\<lambda>_.
        case start_score sql (e_psn_time env) (dk_scoreboards disk) db of (started, db) \<Rightarrow>
        bind_res started (\<lambda>cache.
        case cleanup_never_used_accounts (e_dbe env) db of (cleaned, db) \<Rightarrow>
        bind_res cleaned (\<lambda>_.
        case clean_score_data sql (dk_remove disk) (remdups (get_ids_from_directory ''sdt'' (dk_score_names disk))) db
            (initialize_score_data_handler disk) of (score_cleaned, score_data) \<Rightarrow>
        bind_res score_cleaned (\<lambda>_.
        case clean_tus_data sql (dk_remove disk) (remdups (get_ids_from_directory ''tdt'' (dk_tus_names disk))) db
            (initialize_tus_data_handler disk) of (tus_cleaned, tus_data) \<Rightarrow>
        bind_res tus_cleaned (\<lambda>_.
          Ok (fresh_server config db cache score_data tus_data)))))))"

section \<open>The daily cleaning\<close>

text \<open>A failure of the first statement does not stop the second.\<close>

definition cleaner_task :: "Env \<Rightarrow> ServerState \<Rightarrow> ServerState" where
  "cleaner_task env sv =
    (if e_connects env then
       let db1 = snd (cleanup_expired_hashes (e_dbe env) (sv_db sv));
           db2 = snd (cleanup_never_used_accounts (e_dbe env) db1)
       in sv\<lparr> sv_db := db2 \<rparr>
     else sv)"

end
