(* ===== verification/Udp_Server.thy ===== *)
theory Udp_Server
  imports Client_State
begin

text \<open>
  The signaling helper, \<^verbatim>\<open>server/udp_server.rs\<close>: a client sends its number and local address in a datagram, the server
  notes the public address the datagram came from and sends it back.
\<close>

text \<open>\<^verbatim>\<open>Ipv6Addr::to_ipv4\<close>: the compatible and the mapped addresses.\<close>

definition to_ipv4 :: "bytes \<Rightarrow> bytes option" where
  "to_ipv4 addr =
    (if take 12 addr = replicate 12 0 \<or> take 12 addr = replicate 10 0 @ [0xFF, 0xFF] then Some (drop 12 addr) else None)"

definition need_update :: "IpAddr \<Rightarrow> u16 \<Rightarrow> ClientSharedSignalingInfo \<Rightarrow> bool" where
  "need_update ip_addr ip_port client_si =
    (case ip_addr of
       V4 addr \<Rightarrow> si_addr_p2p_ipv4 client_si \<noteq> (addr, ip_port)
     | V6 addr \<Rightarrow>
         (case to_ipv4 addr of
            Some actually_ipv4 \<Rightarrow> si_addr_p2p_ipv4 client_si \<noteq> (actually_ipv4, ip_port)
          | None \<Rightarrow> si_addr_p2p_ipv6 client_si \<noteq> Some (addr, ip_port)))"

definition put_address :: "bytes \<Rightarrow> IpAddr \<Rightarrow> u16 \<Rightarrow> ClientSharedSignalingInfo \<Rightarrow> ClientSharedSignalingInfo" where
  "put_address local_addr ip_addr ip_port client_si =
    (let client_si = client_si\<lparr> si_local_addr_p2p := local_addr \<rparr> in
     case ip_addr of
       V4 addr \<Rightarrow> client_si\<lparr> si_addr_p2p_ipv4 := (addr, ip_port) \<rparr>
     | V6 addr \<Rightarrow>
         (case to_ipv4 addr of
            Some actually_ipv4 \<Rightarrow> client_si\<lparr> si_addr_p2p_ipv4 := (actually_ipv4, ip_port) \<rparr>
          | None \<Rightarrow> client_si\<lparr> si_addr_p2p_ipv6 := Some (addr, ip_port) \<rparr>))"

definition update_signaling_information ::
    "i64 \<Rightarrow> bytes \<Rightarrow> IpAddr \<Rightarrow> u16 \<Rightarrow> (i64 \<rightharpoonup> ClientSharedInfo) \<Rightarrow> (i64 \<rightharpoonup> ClientSharedInfo)" where
  "update_signaling_information user_id local_addr ip_addr ip_port client_infos =
    (case client_infos user_id of
       None \<Rightarrow> client_infos
     | Some client_info \<Rightarrow>
         if need_update ip_addr ip_port (cs_signaling_info client_info)
         then client_infos(user_id \<mapsto>
                client_info\<lparr> cs_signaling_info := put_address local_addr ip_addr ip_port (cs_signaling_info client_info) \<rparr>)
         else client_infos)"

text \<open>\<^verbatim>\<open>to_be_bytes\<close> of a port, and the answer: port and subset zero, then the address and the port of the sender.\<close>

definition be_port :: "u16 \<Rightarrow> bytes" where
  "be_port p = rev (to_le_bytes p)"

definition echo_address :: "IpAddr \<Rightarrow> u16 \<Rightarrow> bytes" where
  "echo_address ip_addr ip_port =
    to_le_bytes (0 :: u16) @ [0] @
    (case ip_addr of
       V4 addr \<Rightarrow> addr
     | V6 addr \<Rightarrow> (case to_ipv4 addr of Some actually_ipv4 \<Rightarrow> actually_ipv4 | None \<Rightarrow> addr)) @ be_port ip_port"

definition handle_socket_input :: "bytes \<Rightarrow> IpAddr \<Rightarrow> u16 \<Rightarrow> ServerState \<Rightarrow> bytes option \<times> ServerState" where
  "handle_socket_input recv ip_addr ip_port sv =
    (if length recv \<noteq> 1 + 8 + 4 \<or> recv ! 0 \<noteq> 1 then (None, sv)
     else
       let user_id = sint (of_nat (le_value (take 8 (drop 1 recv))) :: u64); local_addr = take 4 (drop 9 recv)
       in (Some (echo_address ip_addr ip_port),
           sv\<lparr> sv_shared := (sv_shared sv)\<lparr> sh_client_infos :=
             update_signaling_information user_id local_addr ip_addr ip_port (sh_client_infos (sv_shared sv)) \<rparr> \<rparr>))"

text \<open>Nobody comes online or goes offline by a datagram.\<close>

lemma update_signaling_dom: "dom (update_signaling_information u l ip p infos) = dom infos"
  by (auto simp: update_signaling_information_def split: option.splits if_splits)

end
