(* ===== verification/Api_Server.thy ===== *)
theory Api_Server
  imports Client_State "HOL-Library.List_Lexorder" "HOL-Library.Product_Lexorder"
begin

text \<open>
  The administration server of the fork, \<^verbatim>\<open>server/api_server.rs\<close> and the modules under it: the handlers of its routes
  and the check of the key.  The router, the middleware and the conversion from and to JSON are those of libraries; a
  request is the decoded body, nothing when it could not be decoded.
\<close>

section \<open>Errors\<close>

datatype ApiError = InvalidRequest | InvalidCredentials | Forbidden | UserNotFound | MethodNotAllowed | ApiInternal

fun status_and_code :: "ApiError \<Rightarrow> nat \<times> string" where
  "status_and_code InvalidRequest = (400, ''invalid_request'')"
| "status_and_code InvalidCredentials = (401, ''invalid_credentials'')"
| "status_and_code Forbidden = (403, ''forbidden'')"
| "status_and_code UserNotFound = (404, ''user_not_found'')"
| "status_and_code MethodNotAllowed = (405, ''method_not_allowed'')"
| "status_and_code ApiInternal = (500, ''internal_error'')"

definition ApiError_from :: "DbError \<Rightarrow> ApiError" where
  "ApiError_from e = (if e = DbEmpty \<or> e = DbWrongPass then InvalidCredentials else ApiInternal)"

type_synonym 'a api = "(ApiError, 'a) res"

text \<open>An error of the database becomes an error of the interface.\<close>

definition api_db :: "(DbError \<Rightarrow> ApiError) \<Rightarrow> 'a db_result \<Rightarrow> 'a api" where
  "api_db f r = (case r of Ok x \<Rightarrow> Ok x | Err e \<Rightarrow> Err (f e) | Panic \<Rightarrow> Panic)"

text \<open>A task that panics gives \<^verbatim>\<open>Internal\<close> to the one that waits for it.\<close>

definition spawn_blocking :: "'a api \<Rightarrow> 'a api" where
  "spawn_blocking r = (case r of Panic \<Rightarrow> Err ApiInternal | _ \<Rightarrow> r)"

section \<open>The key\<close>

text \<open>Without a key in the configuration the routes behind it do not exist; an answer of 404 without a body.\<close>

datatype 'a api_response = ApiMissing | ApiAnswer "'a api"

definition has_api_key :: "string option \<Rightarrow> string \<Rightarrow> bool" where
  "has_api_key header api_key =
    (case header of None \<Rightarrow> False | 
       Some v \<Rightarrow> length (as_bytes v) = length (as_bytes api_key) \<and> as_bytes v = as_bytes api_key)"

definition require_api_key :: "string option \<Rightarrow> string option \<Rightarrow> 'a api \<Rightarrow> 'a api_response" where
  "require_api_key api_key header next =
    (case api_key of
       None \<Rightarrow> ApiMissing
     | Some key \<Rightarrow> ApiAnswer (if has_api_key header key then next else Err Forbidden))"

text \<open>The key of the configuration; an empty one is none.\<close>

definition configured_key :: "Config \<Rightarrow> string option" where
  "configured_key config = (if cf_api_server_api_key config = [] then None else Some (cf_api_server_api_key config))"

section \<open>Users\<close>

definition authenticate_admin :: "DbEnv \<Rightarrow> Database \<Rightarrow> string \<Rightarrow> string \<Rightarrow> unit api" where
  "authenticate_admin de db username password =
    bind_res (api_db ApiError_from (check_user de db username password [] False)) (\<lambda>admin.
      if \<not> ac_admin admin \<or> ac_banned admin then Err Forbidden else Ok ())"

record VerifyRequest =
  vq_username :: string
  vq_password :: string

record VerifyResponse =
  vp_user_id :: i64
  vp_username :: string
  vp_online_name :: string
  vp_avatar_url :: string
  vp_admin :: bool
  vp_banned :: bool

definition verify :: "Env \<Rightarrow> VerifyRequest option \<Rightarrow> ServerState \<Rightarrow> VerifyResponse api" where
  "verify env body sv =
    bind_res (ok_or InvalidRequest body) (\<lambda>request.
      if vq_username request = [] \<or> vq_password request = [] then Err InvalidRequest
      else
        bind_res (spawn_blocking (if \<not> e_connects env then Err ApiInternal
          else api_db ApiError_from (check_user (e_dbe env) (sv_db sv) (vq_username request) (vq_password request) [] False)))
          (\<lambda>user. Ok \<lparr> vp_user_id = ac_user_id user, vp_username = ac_username user, vp_online_name = ac_online_name user,
                       vp_avatar_url = ac_avatar_url user, vp_admin = ac_admin user, vp_banned = ac_banned user \<rparr>))"

record AdminRequest =
  aq_admin_username :: string
  aq_admin_password :: string
  aq_username :: string

datatype AdminAction = InfoAction | BanAction

text \<open>The administrator is checked, then the user is looked up, and banned when that is the action.\<close>

definition run_admin_action ::
    "Env \<Rightarrow> AdminRequest option \<Rightarrow> AdminAction \<Rightarrow> ServerState \<Rightarrow> UserAdminInfo api \<times> ServerState" where
  "run_admin_action env body action sv =
    then_st (ok_or InvalidRequest body, sv) (\<lambda>request sv.
      if aq_admin_username request = [] \<or> aq_admin_password request = [] \<or> aq_username request = [] then (Err InvalidRequest, sv)
      else
        (case
          then_st (if e_connects env then Ok () else Err ApiInternal, sv_db sv) (\<lambda>_ db.
          then_st (authenticate_admin (e_dbe env) db (aq_admin_username request) (aq_admin_password request), db) (\<lambda>_ db.
          then_st (api_db (\<lambda>e. if e = DbEmpty then UserNotFound else ApiInternal)
              (get_user_admin_info (e_sql env) db (aq_username request)), db) (\<lambda>user db.
            case action of
              InfoAction \<Rightarrow> (Ok user, db)
            | BanAction \<Rightarrow>
                (case ban_user (e_sql env) db (ua_user_id user) of
                   (r, db1) \<Rightarrow> (bind_res (api_db (\<lambda>_. ApiInternal) r) (\<lambda>_. Ok user), db1))))) of
          (r, db) \<Rightarrow> (spawn_blocking r, sv\<lparr> sv_db := db \<rparr>)))"

record UserInfoResponse =
  ui_user :: UserAdminInfo
  ui_online :: bool

definition user_info :: "Env \<Rightarrow> AdminRequest option \<Rightarrow> ServerState \<Rightarrow> UserInfoResponse api \<times> ServerState" where
  "user_info env body sv =
    then_st (run_admin_action env body InfoAction sv) (\<lambda>user sv.
      (Ok \<lparr> ui_user = user, ui_online = (sh_client_infos (sv_shared sv) (ua_user_id user) \<noteq> None) \<rparr>, sv))"

record BanResponse =
  br_user_id :: i64
  br_username :: string
  br_banned :: bool
  br_kicked :: bool

definition ban :: "Env \<Rightarrow> AdminRequest option \<Rightarrow> ServerState \<Rightarrow> BanResponse api \<times> ServerState" where
  "ban env body sv =
    then_st (run_admin_action env body BanAction sv) (\<lambda>user sv.
      let infos = sh_client_infos (sv_shared sv); i = ua_user_id user
      in (Ok \<lparr> br_user_id = i, br_username = ua_username user, br_banned = True, br_kicked = (infos i \<noteq> None) \<rparr>,
          sv\<lparr> sv_shared := (sv_shared sv)\<lparr> sh_client_infos := infos(i := map_option kick (infos i)) \<rparr> \<rparr>))"

section \<open>Sessions and rooms\<close>

record ApiSession =
  as_online_name :: string
  as_npid :: string
  as_ip :: IpAddr

text \<open>The online users in the order of their names; \<^verbatim>\<open>order\<close> is the order of the hash map.\<close>

definition list_sessions :: "i64 list \<Rightarrow> ServerState \<Rightarrow> ApiSession list" where
  "list_sessions order sv =
    sort_key (\<lambda>s. (map of_char (as_online_name s) :: nat list, map of_char (as_npid s) :: nat list))
      (map (\<lambda>i. \<lparr> as_online_name = cs_online_name i, as_npid = cs_npid i, as_ip = cs_ip i \<rparr>)
        (List.map_filter (sh_client_infos (sv_shared sv)) order))"

record MemberJson =
  mj_npid :: string
  mj_online_name :: string
  mj_is_owner :: bool

record RoomJson =
  rj_room_id :: u64
  rj_world_id :: u32
  rj_lobby_id :: u64
  rj_max_slot :: u16
  rj_cur_member_num :: nat
  rj_flag_attr :: u32
  rj_has_password :: bool
  rj_members :: "MemberJson list"

definition room_json :: "u64 \<Rightarrow> Room \<Rightarrow> RoomJson" where
  "room_json room_id room =
    \<lparr> rj_room_id = room_id, rj_world_id = r_world_id room, rj_lobby_id = r_lobby_id room, rj_max_slot = r_max_slot room,
      rj_cur_member_num = length (r_users room), rj_flag_attr = r_flag_attr room,
      rj_has_password = (r_room_password room \<noteq> None),
      rj_members = map (\<lambda>user. \<lparr> mj_npid = u_npid user, mj_online_name = u_online_name user,
        mj_is_owner = (u_flag_attr user AND 0x80000000 \<noteq> 0) \<rparr>) (bt_values (r_users room)) \<rparr>"

definition list_rooms :: "Env \<Rightarrow> string \<Rightarrow> ServerState \<Rightarrow> RoomJson list api" where
  "list_rooms env path sv =
    (let com_id = as_bytes path; rm = sh_room_manager (sv_shared sv) in
     if length com_id \<noteq> COMMUNICATION_ID_SIZE then Err InvalidRequest
     else Ok (List.map_filter (\<lambda>(c, i). if c = com_id then map_option (room_json i) (rm_rooms rm (c, i)) else None)
            (e_rooms_order env rm)))"

text \<open>The players in the rooms of each game, with their addresses: \<^verbatim>\<open>get_players_by_com_id\<close> of the room manager.\<close>

definition print_ip :: "bytes \<Rightarrow> string" where
  "print_ip ip = concat (map (\<lambda>i. (if i = 0 then [] else ''.'') @ print_nat (unat (ip ! i))) [0..<4])"

definition get_players_by_com_id :: "Env \<Rightarrow> RoomManager \<Rightarrow> (ComId \<rightharpoonup> (string \<times> string) list)" where
  "get_players_by_com_id env rm =
    fold (\<lambda>(com_id, i) players.
      case rm_rooms rm (com_id, i) of
        None \<Rightarrow> players
      | Some room \<Rightarrow>
          players(com_id \<mapsto> (case players com_id of Some ps \<Rightarrow> ps | None \<Rightarrow> []) @
            map (\<lambda>user. (u_online_name user, print_ip (fst (si_addr_p2p_ipv4 (u_signaling_info user))))) (bt_values (r_users room))))
      (e_rooms_order env rm) Map.empty"

end
