(* ===== verification/Server_Steps.thy ===== *)
theory Server_Steps
  imports Server_Cleanup Server_Start Udp_Server Api_Server
begin

text \<open>
  The whole server as a transition system: its state with the connections that are open and those that wait for their
  clean up.  A step is a new connection, one packet of a connection, the end of a connection, a clean up, a datagram of
  the signaling helper, a ban over the administration interface, or the daily cleaning, in any order.
\<close>

section \<open>Commands\<close>

lemma process_authentified_kept:
  assumes env: "env_ok env" and ready: "ready (view s)" and fin: "finite (rooms_of (s_rooms s) (s_user s))"
  shows "kept s (snd (process_authentified env command s))"
proof -
  have calm: "calm (view s)" using ready by (rule ready_calm)
  note loud = reset_state_kept [OF env calm fin] req_create_room_kept [OF ready] req_join_room_kept [OF calm]
    req_leave_room_kept [OF env calm] set_room_kept [OF calm] enter_gui_kept [OF env ready] set_gui_kept [OF calm]
    req_leave_room_gui_kept [OF env calm]
  show ?thesis
    by (cases command) (simp_all add: process_authentified_def loud kept_quiet [OF calm] quiet)
qed

text \<open>The login: nothing changes, or a user who was neither online nor being cleaned up comes online.\<close>

fun login_result :: "view \<Rightarrow> view \<Rightarrow> bool" where
  "login_result (ci, a, rm, gm, online, duty) v \<longleftrightarrow> v = (ci, a, rm, gm, online, duty) \<or>
    (\<exists>ci'. v = (ci', True, rm, gm, insert (ci_user_id ci') online, duty) \<and> ci_user_id ci' \<notin> online \<union> duty)"

lemma login_result_refl: "login_result v v"
  by (cases v) simp

lemma then_login:
  assumes "view (snd m) = v" and "\<And>x s. view s = v \<Longrightarrow> login_result v (view (snd (f x s)))"
  shows "login_result v (view (snd (then_st m f)))"
proof -
  obtain r s1 where "m = (r, s1)" by fastforce
  with assms login_result_refl show ?thesis by (cases r) auto
qed

lemma enter_user_view:
  assumes "s_infos s (ac_user_id u) = None" and "ac_user_id u \<notin> sh_cleanup_duty (s_shared s)"
  shows "login_result (view s) (view (enter_user npid u rels s))"
  using assms
  by (auto simp: view_def enter_user_def update_tracker_def update_shared_def update_server_def reply_bytes_def
      login_info_def Let_def)

lemma login_user_view: "login_result (view s) (view (snd (login_user env npid u s)))"
proof -
  have view: "s_infos s' (ac_user_id u) = None" "ac_user_id u \<notin> sh_cleanup_duty (s_shared s')"
    if "view s' = view s" "s_infos s (ac_user_id u) = None" "ac_user_id u \<notin> sh_cleanup_duty (s_shared s)" for s'
    using that by (simp_all add: view_def) (metis domIff)
  show ?thesis
    unfolding login_user_def Let_def
    by (auto simp: quiet login_result_refl split: sum.split intro!: then_login)
      (metis enter_user_view view)+
qed

lemma login_view: "login_result (view s) (view (snd (login env s)))"
  unfolding login_def
  by (auto simp: quiet login_result_refl split: sum.split intro!: then_login) (metis login_user_view)+

lemma process_unauthentified_view: "login_result (view s) (view (snd (process_unauthentified env command s)))"
  by (cases command) (simp_all add: process_unauthentified_def login_view quiet login_result_refl)

section \<open>One packet\<close>

definition client_user :: "Client \<Rightarrow> i64" where
  "client_user cl = ci_user_id (cl_client_info cl)"

text \<open>What the rooms and the logins of the server are, without the connection.\<close>

definition server_view :: "Client \<Rightarrow> ServerState \<Rightarrow> view" where
  "server_view cl sv = view (request_session cl sv 0 0 [])"

lemma server_view_session: "view s = server_view (s_client s) (s_server s)"
  by (simp add: server_view_def view_def request_session_def)

lemma server_view_request: "view (request_session cl sv c i d) = server_view cl sv"
  by (simp add: server_view_def view_def request_session_def)

lemma server_view_replied [simp]: "server_view (cl\<lparr> cl_post_reply_notifications := ns \<rparr>) sv = server_view cl sv"
  by (simp add: server_view_def view_def request_session_def)

text \<open>The change one packet makes: that of a command of the user, or that of the login.\<close>

definition packet_change :: "Client \<Rightarrow> view \<Rightarrow> view \<Rightarrow> bool" where
  "packet_change cl v v' \<longleftrightarrow> (if cl_authentified cl then acts_for_user v v' else login_result v v')"

lemma run_command_change:
  assumes env: "env_ok env" and ready: "ready (view s)" and fin: "finite (rooms_of (s_rooms s) (s_user s))"
  shows "packet_change (s_client s) (view s) (view (snd (run_command env c s)))"
proof -
  have "acts_for_user (view s) (view s)" using kept_refl ready_calm [OF ready] by (simp add: kept_def)
  then show ?thesis
    using process_authentified_kept [OF assms] process_unauthentified_view login_result_refl
    by (auto simp: packet_change_def run_command_def process_command_def kept_def split: option.split)
qed

lemma interpret_command_change:
  assumes "env_ok env" and "ready (server_view cl sv)"
    and "finite (rooms_of (sh_room_manager (sv_shared sv)) (client_user cl))"
    and i: "interpret_command env c i d cl sv = (r, packets, cl', sv')"
  shows "packet_change cl (server_view cl sv) (server_view cl' sv')"
proof -
  let ?s = "request_session cl sv c i d"
  obtain x s where run: "run_command env c ?s = (x, s)" by fastforce
  have "packet_change (s_client ?s) (view ?s) (view (snd (run_command env c ?s)))"
    using assms(1-3) by (intro run_command_change) (simp_all add: server_view_request, simp add: request_session_def client_user_def)
  then have "packet_change cl (server_view cl sv) (view s)" by (simp add: run server_view_request, simp add: request_session_def)
  moreover have "view s = server_view cl' sv'"
    using i by (cases x) (auto simp: interpret_command_def run finish_request_def server_view_session)
  ultimately show ?thesis by simp
qed

lemma process_packet_change:
  assumes "env_ok env" and "ready (server_view cl sv)"
    and "finite (rooms_of (sh_room_manager (sv_shared sv)) (client_user cl))"
    and p: "process_packet env input cl sv = ((r, packets, cl', sv'), rest)"
  shows "packet_change cl (server_view cl sv) (server_view cl' sv')"
proof -
  have "packet_change cl (server_view cl sv) (server_view cl sv)"
    using kept_refl [of "request_session cl sv 0 0 []"] ready_calm [OF assms(2)] login_result_refl
    by (simp add: packet_change_def kept_def server_view_def)
  then show ?thesis using p interpret_command_change [OF assms(1-3)]
    by (auto simp: process_packet_def Let_def split: if_splits)
qed

section \<open>The server and its connections\<close>

record World =
  w_server :: ServerState
  w_clients :: "nat \<rightharpoonup> Client"
  w_dropped :: "nat \<rightharpoonup> Client"

definition World_new :: "ServerState \<Rightarrow> World" where
  "World_new sv = \<lparr> w_server = sv, w_clients = Map.empty, w_dropped = Map.empty \<rparr>"

abbreviation w_shared :: "World \<Rightarrow> SharedData" where
  "w_shared w \<equiv> sv_shared (w_server w)"

text \<open>The end of a connection: a user who was logged in waits for the clean up.\<close>

definition lose_client :: "nat \<Rightarrow> Client \<Rightarrow> World \<Rightarrow> World" where
  "lose_client n cl w =
    w\<lparr> w_server := drop_client cl (w_server w), w_clients := (w_clients w)(n := None),
       w_dropped := (w_dropped w)(n := if cl_authentified cl then Some cl else None) \<rparr>"

text \<open>The numbers of new rooms have not run out: fewer than \<^verbatim>\<open>2 ^ 64 - 1\<close> rooms were made.\<close>

definition numbers_left :: "ServerState \<Rightarrow> bool" where
  "numbers_left sv \<longleftrightarrow> (\<forall>c. current_cnt (sh_room_manager (sv_shared sv)) c \<noteq> - 1) \<and>
    gm_cur_room_id (sh_gui_room_manager (sv_shared sv)) \<noteq> - 1"

inductive server_step :: "World \<Rightarrow> World \<Rightarrow> bool" where
  connected: "w_clients w n = None \<Longrightarrow> w_dropped w n = None \<Longrightarrow>
    server_step w (w\<lparr> w_clients := (w_clients w)(n \<mapsto> Client_new ip) \<rparr>)"
| served: "w_clients w n = Some cl \<Longrightarrow> env_ok env \<Longrightarrow> numbers_left (w_server w) \<Longrightarrow>
    process_packet env input cl (w_server w) = ((Continue, packets, cl', sv'), rest) \<Longrightarrow>
    server_step w (w\<lparr> w_server := sv', w_clients := (w_clients w)(n \<mapsto> cl') \<rparr>)"
| failed: "w_clients w n = Some cl \<Longrightarrow> env_ok env \<Longrightarrow> numbers_left (w_server w) \<Longrightarrow>
    process_packet env input cl (w_server w) = ((r, packets, cl', sv'), rest) \<Longrightarrow> r \<noteq> Continue \<Longrightarrow>
    server_step w (lose_client n cl' (w\<lparr> w_server := sv', w_clients := (w_clients w)(n \<mapsto> cl') \<rparr>))"
| closed: "w_clients w n = Some cl \<Longrightarrow> server_step w (lose_client n cl w)"
| cleaned: "w_dropped w n = Some cl \<Longrightarrow> env_ok env \<Longrightarrow>
    server_step w (w\<lparr> w_server := cleanup_task env cl (w_server w), w_dropped := (w_dropped w)(n := None) \<rparr>)"
| datagram: "server_step w (w\<lparr> w_server := snd (handle_socket_input recv ip port (w_server w)) \<rparr>)"
| banned: "server_step w (w\<lparr> w_server := snd (ban env body (w_server w)) \<rparr>)"
| daily: "server_step w (w\<lparr> w_server := cleaner_task env (w_server w) \<rparr>)"

inductive_cases server_stepE: "server_step w w'"

section \<open>Who is online and who is in a room\<close>

text \<open>The user a connection, open or waiting for its clean up, stands for.\<close>

definition holder :: "World \<Rightarrow> nat \<Rightarrow> i64 option" where
  "holder w n =
    (case w_clients w n of
       Some cl \<Rightarrow> if cl_authentified cl then Some (client_user cl) else None
     | None \<Rightarrow> map_option client_user (w_dropped w n))"

definition online :: "World \<Rightarrow> i64 set" where
  "online w = dom (sh_client_infos (w_shared w))"

definition sessions_good :: "World \<Rightarrow> bool" where
  "sessions_good w \<longleftrightarrow> dom (w_clients w) \<inter> dom (w_dropped w) = {} \<and>
    inj_on (holder w) (dom (holder w)) \<and> ran (holder w) = online w \<and>
    sh_cleanup_duty (w_shared w) = client_user ` ran (w_dropped w)"

definition rooms_sound :: "World \<Rightarrow> bool" where
  "rooms_sound w \<longleftrightarrow> rm_inv (sh_room_manager (w_shared w)) \<and> gui_inv (sh_gui_room_manager (w_shared w)) \<and>
    (\<forall>u. finite (rooms_of (sh_room_manager (w_shared w)) u)) \<and>
    (\<forall>u. u \<notin> online w \<longrightarrow> rooms_of (sh_room_manager (w_shared w)) u = {} \<and> user_set (sh_gui_room_manager (w_shared w)) u = {})"

definition world_inv :: "World \<Rightarrow> bool" where
  "world_inv w \<longleftrightarrow> sessions_good w \<and> rooms_sound w"

end
