(* ===== verification/Server_Inv.thy ===== *)
theory Server_Inv
  imports Server_Steps
begin

text \<open>
  The invariant of the whole server holds in every state it can reach: one session for each online user, and rooms
  whose members are online.
\<close>

section \<open>Steps\<close>

lemma server_view_parts:
  "server_view cl sv = (cl_client_info cl, cl_authentified cl, sh_room_manager (sv_shared sv),
    sh_gui_room_manager (sv_shared sv), dom (sh_client_infos (sv_shared sv)), sh_cleanup_duty (sv_shared sv))"
  by (simp add: server_view_def view_def request_session_def)

lemma World_new_inv: "world_inv (World_new (fresh_server config db cache sd td))"
  using RoomManager_new_inv GuiRoomManager_new_inv
  by (simp add: world_inv_def sessions_good_def rooms_sound_def World_new_def fresh_server_def SharedData_new_def online_def
      holder_def ran_def dom_def RoomManager_new_def rooms_of_def GuiRoomManager_new_def user_set_def)

lemma holder_in_online: "sessions_good w \<Longrightarrow> holder w n = Some u \<Longrightarrow> u \<in> online w"
  by (metis ranI sessions_good_def)

text \<open>Only who is online and in which rooms the managers have the users matters.\<close>

lemma world_inv_cong:
  assumes "world_inv w" and "holder w' = holder w" and "dom (w_clients w') \<inter> dom (w_dropped w') = {}" and "online w' = online w"
    and "sh_cleanup_duty (w_shared w') = client_user ` ran (w_dropped w')"
    and "sh_room_manager (w_shared w') = sh_room_manager (w_shared w)"
    and "sh_gui_room_manager (w_shared w') = sh_gui_room_manager (w_shared w)"
  shows "world_inv w'"
  using assms by (simp add: world_inv_def sessions_good_def rooms_sound_def)

lemma kept_rooms_sound:
  assumes "rooms_sound w" and "u \<in> online w" and "online w' = online w"
    and rooms: "rooms_kept u (sh_room_manager (w_shared w)) (sh_room_manager (w_shared w'))"
    and gui: "gui_kept u (sh_gui_room_manager (w_shared w)) (sh_gui_room_manager (w_shared w'))"
  shows "rooms_sound w'"
proof -
  have fin: "finite (rooms_of (sh_room_manager (w_shared w)) v)" for v using assms(1) by (simp add: rooms_sound_def)
  have "finite (rooms_of (sh_room_manager (w_shared w')) v)" for v
    using rooms fin [of v] fin [of u] by (cases "v = u") (auto simp: rooms_kept_def intro: finite_subset)
  moreover have "rooms_of (sh_room_manager (w_shared w')) v = {} \<and> user_set (sh_gui_room_manager (w_shared w')) v = {}"
    if "v \<notin> online w" for v
  proof -
    from that have "v \<noteq> u" using assms(2) by blast
    moreover have "rooms_of (sh_room_manager (w_shared w)) v = {}" "user_set (sh_gui_room_manager (w_shared w)) v = {}"
      using assms(1) that by (simp_all add: rooms_sound_def)
    ultimately show ?thesis using rooms gui by (simp add: rooms_kept_def gui_kept_def) blast
  qed
  ultimately show ?thesis using rooms gui assms(3) by (simp add: rooms_sound_def rooms_kept_def gui_kept_def)
qed

lemma served_inv:
  assumes inv: "world_inv w" and n: "w_clients w n = Some cl"
    and change: "packet_change cl (server_view cl (w_server w)) (server_view cl' sv')"
  shows "world_inv (w\<lparr> w_server := sv', w_clients := (w_clients w)(n \<mapsto> cl') \<rparr>)" (is "world_inv ?w")
proof (cases "cl_authentified cl")
  case True
  let ?u = "client_user cl"
  from change True have c: "cl_client_info cl' = cl_client_info cl" "cl_authentified cl'"
    "online ?w = online w" "sh_cleanup_duty (w_shared ?w) = sh_cleanup_duty (w_shared w)"
    "rooms_kept ?u (sh_room_manager (w_shared w)) (sh_room_manager (w_shared ?w))"
    "gui_kept ?u (sh_gui_room_manager (w_shared w)) (sh_gui_room_manager (w_shared ?w))"
    by (simp_all add: packet_change_def server_view_parts online_def client_user_def)
  have h: "holder ?w = holder w"
    using n True c(1,2) by (auto simp: holder_def client_user_def fun_eq_iff split: option.split)
  have good: "sessions_good ?w"
    using inv n by (auto simp: world_inv_def sessions_good_def h c(3) c(4) [simplified])
  have "holder w n = Some ?u" using n True by (simp add: holder_def)
  then have "?u \<in> online w" using inv by (auto simp: world_inv_def intro: holder_in_online)
  moreover have "rooms_sound w" using inv by (simp add: world_inv_def)
  ultimately have "rooms_sound ?w" using kept_rooms_sound [OF _ _ c(3,5,6)] by blast
  with good show ?thesis by (simp add: world_inv_def)
next
  case False
  have none: "holder w n = None" using n False by (simp add: holder_def)
  from change False have "login_result (server_view cl (w_server w)) (server_view cl' sv')" by (simp add: packet_change_def)
  then consider (same) "server_view cl' sv' = server_view cl (w_server w)"
    | (entered) "cl_authentified cl'" "client_user cl' \<notin> online w" "online ?w = insert (client_user cl') (online w)"
        "sh_cleanup_duty (w_shared ?w) = sh_cleanup_duty (w_shared w)"
        "sh_room_manager (w_shared ?w) = sh_room_manager (w_shared w)"
        "sh_gui_room_manager (w_shared ?w) = sh_gui_room_manager (w_shared w)"
    by (auto simp: server_view_parts online_def client_user_def)
  then show ?thesis
  proof cases
    case same
    have "holder ?w = holder w" using same False none by (auto simp: holder_def server_view_parts fun_eq_iff split: option.split)
    then show ?thesis using same n inv
      by (intro world_inv_cong [OF inv]) (auto simp: server_view_parts online_def world_inv_def sessions_good_def)
  next
    case entered
    have h: "holder ?w = (holder w)(n \<mapsto> client_user cl')" using entered(1) by (auto simp: holder_def fun_eq_iff split: option.split)
    have inj: "inj_on (holder w) (dom (holder w))" "ran (holder w) = online w"
      using inv by (simp_all add: world_inv_def sessions_good_def)
    have new: "Some (client_user cl') \<notin> holder w ` insert n (dom (holder w))" using entered(2) inj(2) none by (auto simp: ran_def)
    have "inj_on (holder w) (insert n (dom (holder w)))" using inj(1) none by (auto simp: inj_on_insert)
    from inj_on_fun_updI [OF this new, of n] have "inj_on (holder ?w) (dom (holder ?w))"
      unfolding h dom_fun_upd by (simp only: option.distinct if_False)
    moreover have "ran (holder ?w) = online ?w" using none inj(2) by (simp add: h entered(3))
    ultimately have "sessions_good ?w"
      using inv n entered(4) by (auto simp: world_inv_def sessions_good_def)
    moreover have "rooms_sound ?w" using inv entered(3,5,6) by (simp add: world_inv_def rooms_sound_def)
    ultimately show ?thesis by (simp add: world_inv_def)
  qed
qed

lemma lose_client_inv:
  assumes inv: "world_inv w" and n: "w_clients w n = Some cl"
  shows "world_inv (lose_client n cl w)"
proof (rule world_inv_cong [OF inv])
  have d: "w_dropped w n = None" using inv n by (auto simp: world_inv_def sessions_good_def)
  then show "holder (lose_client n cl w) = holder w"
    using n by (auto simp: holder_def lose_client_def fun_eq_iff split: option.split)
  show "dom (w_clients (lose_client n cl w)) \<inter> dom (w_dropped (lose_client n cl w)) = {}"
    using inv by (auto simp: world_inv_def sessions_good_def lose_client_def split: if_splits)
  show "sh_cleanup_duty (w_shared (lose_client n cl w)) = client_user ` ran (w_dropped (lose_client n cl w))"
    using inv d by (auto simp: world_inv_def sessions_good_def lose_client_def drop_client_def set_cleanup_duty_def
        client_user_def fun_upd_idem)
qed (auto simp: lose_client_def drop_client_def set_cleanup_duty_def online_def)

section \<open>Cleaning up\<close>

text \<open>The clean up of a connection ends without a panic and leaves no trace of its user in the rooms or among the online users.\<close>

lemma cleanup_task_ok:
  assumes env: "env_ok env" and inv: "rm_inv (sh_room_manager (sv_shared sv))" "gui_inv (sh_gui_room_manager (sv_shared sv))"
    and fin: "finite (rooms_of (sh_room_manager (sv_shared sv)) (client_user cl))"
  defines "sv' \<equiv> cleanup_task env cl sv"
  shows "rooms_kept (client_user cl) (sh_room_manager (sv_shared sv)) (sh_room_manager (sv_shared sv'))"
    and "gui_kept (client_user cl) (sh_gui_room_manager (sv_shared sv)) (sh_gui_room_manager (sv_shared sv'))"
    and "rooms_of (sh_room_manager (sv_shared sv')) (client_user cl) = {}"
    and "user_set (sh_gui_room_manager (sv_shared sv')) (client_user cl) = {}"
    and "dom (sh_client_infos (sv_shared sv')) = dom (sh_client_infos (sv_shared sv)) - {client_user cl}"
    and "sh_cleanup_duty (sv_shared sv') = sh_cleanup_duty (sv_shared sv) - {client_user cl}"
proof -
  let ?s = "request_session (cl\<lparr> cl_authentified := False \<rparr>) sv 0 0 []"
  obtain r s1 where c: "clean_user_state env ?s = (r, s1)" by fastforce
  have "calm (view ?s)" "finite (rooms_of (s_rooms ?s) (s_user ?s))"
    using inv fin by (simp_all add: calm_view request_session_def client_user_def)
  from clean_user_state_ok [OF env this] c
  have ok: "r = Ok ()" "kept ?s s1" "rooms_of (s_rooms s1) (s_user ?s) = {}" "user_set (s_gui s1) (s_user ?s) = {}" by simp_all
  have sv': "sv' = set_cleanup_duty (\<lambda>d. d - {client_user cl}) (s_server (go_offline env s1))"
    using c ok(1) by (simp add: sv'_def cleanup_task_def client_user_def)
  have u: "s_user ?s = client_user cl" "s_user s1 = client_user cl"
    using kept_user [OF ok(2)] by (simp_all add: request_session_def client_user_def)
  have out: "sh_room_manager (sv_shared sv') = s_rooms s1" "sh_gui_room_manager (sv_shared sv') = s_gui s1"
    "sh_client_infos (sv_shared sv') = (s_infos s1)(client_user cl := None)"
    "sh_cleanup_duty (sv_shared sv') = sh_cleanup_duty (s_shared s1) - {client_user cl}"
    by (simp_all add: sv' set_cleanup_duty_def go_offline_def Let_def send_notification_def update_tracker_def
        update_shared_def update_server_def u)
  from ok(2) u(1)
  have k: "rooms_kept (client_user cl) (sh_room_manager (sv_shared sv)) (s_rooms s1)"
    "gui_kept (client_user cl) (sh_gui_room_manager (sv_shared sv)) (s_gui s1)"
    "dom (s_infos s1) = dom (sh_client_infos (sv_shared sv))" "sh_cleanup_duty (s_shared s1) = sh_cleanup_duty (sv_shared sv)"
    by (simp_all add: kept_alt) (simp_all add: request_session_def)
  show "rooms_kept (client_user cl) (sh_room_manager (sv_shared sv)) (sh_room_manager (sv_shared sv'))"
    "gui_kept (client_user cl) (sh_gui_room_manager (sv_shared sv)) (sh_gui_room_manager (sv_shared sv'))"
    "rooms_of (sh_room_manager (sv_shared sv')) (client_user cl) = {}"
    "user_set (sh_gui_room_manager (sv_shared sv')) (client_user cl) = {}"
    "dom (sh_client_infos (sv_shared sv')) = dom (sh_client_infos (sv_shared sv)) - {client_user cl}"
    "sh_cleanup_duty (sv_shared sv') = sh_cleanup_duty (sv_shared sv) - {client_user cl}"
    using k ok(3,4) by (simp_all add: out u)
qed

lemma cleaned_rooms_sound:
  assumes "rooms_sound w"
    and rooms: "rooms_kept u (sh_room_manager (w_shared w)) (sh_room_manager (w_shared w'))"
    and gui: "gui_kept u (sh_gui_room_manager (w_shared w)) (sh_gui_room_manager (w_shared w'))"
    and gone: "rooms_of (sh_room_manager (w_shared w')) u = {}" "user_set (sh_gui_room_manager (w_shared w')) u = {}"
    and "online w' = online w - {u}"
  shows "rooms_sound w'"
proof -
  have rsub: "rooms_of (sh_room_manager (w_shared w')) v \<subseteq> rooms_of (sh_room_manager (w_shared w)) v" for v
    using rooms gone by (cases "v = u") (simp_all add: rooms_kept_def)
  have gsub: "user_set (sh_gui_room_manager (w_shared w')) v \<subseteq> user_set (sh_gui_room_manager (w_shared w)) v" for v
    using gui gone by (cases "v = u") (simp_all add: gui_kept_def)
  have "finite (rooms_of (sh_room_manager (w_shared w')) v)" for v
    using finite_subset [OF rsub] assms(1) by (simp add: rooms_sound_def)
  moreover have "rooms_of (sh_room_manager (w_shared w')) v = {} \<and> user_set (sh_gui_room_manager (w_shared w')) v = {}"
    if "v \<notin> online w'" for v
    using that gone rsub [of v] gsub [of v] assms(1,6) by (cases "v = u") (simp_all add: rooms_sound_def)
  ultimately show ?thesis using rooms gui by (simp add: rooms_sound_def rooms_kept_def gui_kept_def)
qed

lemma ran_without:
  assumes "m n = Some x" and "\<And>k y. m k = Some y \<Longrightarrow> f y = f x \<Longrightarrow> k = n"
  shows "f ` ran (m(n := None)) = f ` ran m - {f x}"
proof -
  have "f y \<noteq> f x" if "k \<noteq> n" "m k = Some y" for k y using assms(2) that by blast
  then show ?thesis using assms(1) by (auto simp: ran_def image_iff) (metis option.inject)
qed

lemma cleaned_inv:
  assumes inv: "world_inv w" and n: "w_dropped w n = Some cl" and env: "env_ok env"
  shows "world_inv (w\<lparr> w_server := cleanup_task env cl (w_server w), w_dropped := (w_dropped w)(n := None) \<rparr>)" (is "world_inv ?w")
proof -
  let ?u = "client_user cl"
  have good: "dom (w_clients w) \<inter> dom (w_dropped w) = {}" "inj_on (holder w) (dom (holder w))" "ran (holder w) = online w"
    "sh_cleanup_duty (w_shared w) = client_user ` ran (w_dropped w)" and sound: "rooms_sound w"
    using inv by (simp_all add: world_inv_def sessions_good_def)
  have "rm_inv (sh_room_manager (w_shared w))" "gui_inv (sh_gui_room_manager (w_shared w))"
    "finite (rooms_of (sh_room_manager (w_shared w)) ?u)" using sound by (simp_all add: rooms_sound_def)
  note ok = cleanup_task_ok [OF env this]
  have closed: "w_clients w n = None" using good(1) n by blast
  have hn: "holder w n = Some ?u" using closed n by (simp add: holder_def)
  have h: "holder ?w = (holder w)(n := None)" using closed by (auto simp: holder_def fun_eq_iff split: option.split)
  have only: "m = n" if "holder w m = Some ?u" for m using that hn inj_onD [OF good(2), of m n] by auto
  have on: "online ?w = online w - {?u}" using ok(5) by (simp add: online_def)
  have "ran ((holder w)(n := None)) = ran (holder w) - {?u}"
    using ran_without [of "holder w" n ?u "\<lambda>u. u", OF hn] only by simp
  then have "ran (holder ?w) = online ?w" by (simp add: h on good(3))
  moreover have "inj_on (holder ?w) (dom (holder ?w))" using good(2) unfolding h by (auto simp: inj_on_def)
  moreover have "client_user ` ran ((w_dropped w)(n := None)) = client_user ` ran (w_dropped w) - {?u}"
  proof -
    have "m = n" if m: "w_dropped w m = Some c" "client_user c = ?u" for m c
    proof (rule only)
      have "w_clients w m = None" using good(1) m(1) by blast
      then show "holder w m = Some ?u" using m by (simp add: holder_def)
    qed
    then show ?thesis by (rule ran_without [of "w_dropped w" n cl client_user, OF n])
  qed
  moreover have "dom (w_clients ?w) \<inter> dom (w_dropped ?w) = {}" using good(1) by auto
  ultimately have "sessions_good ?w" using ok(6) good(4) by (simp add: sessions_good_def)
  moreover have "rooms_sound ?w"
    by (rule cleaned_rooms_sound [OF sound _ _ _ _ on]) (simp_all add: ok(1-4))
  ultimately show ?thesis by (simp add: world_inv_def)
qed

section \<open>Every step\<close>

lemma ban_view:
  "dom (sh_client_infos (sv_shared (snd (ban env body sv)))) = dom (sh_client_infos (sv_shared sv))"
  "sh_room_manager (sv_shared (snd (ban env body sv))) = sh_room_manager (sv_shared sv)"
  "sh_gui_room_manager (sv_shared (snd (ban env body sv))) = sh_gui_room_manager (sv_shared sv)"
  "sh_cleanup_duty (sv_shared (snd (ban env body sv))) = sh_cleanup_duty (sv_shared sv)"
proof -
  obtain r sv1 where run: "run_admin_action env body BanAction sv = (r, sv1)" by fastforce
  have "sv_shared (snd (run_admin_action env body BanAction sv)) = sv_shared sv"
    by (cases body) (simp_all add: run_admin_action_def ok_or_def split: prod.split)
  then have shared: "sv_shared sv1 = sv_shared sv" by (simp add: run)
  show "dom (sh_client_infos (sv_shared (snd (ban env body sv)))) = dom (sh_client_infos (sv_shared sv))"
    "sh_room_manager (sv_shared (snd (ban env body sv))) = sh_room_manager (sv_shared sv)"
    "sh_gui_room_manager (sv_shared (snd (ban env body sv))) = sh_gui_room_manager (sv_shared sv)"
    "sh_cleanup_duty (sv_shared (snd (ban env body sv))) = sh_cleanup_duty (sv_shared sv)"
    by (cases r; auto simp: ban_def run shared Let_def)+
qed

text \<open>Steps of the other servers of the process, which have no connection.\<close>

lemma background_inv:
  assumes inv: "world_inv w" and "dom (sh_client_infos (sv_shared sv)) = dom (sh_client_infos (w_shared w))"
    and "sh_room_manager (sv_shared sv) = sh_room_manager (w_shared w)"
    and "sh_gui_room_manager (sv_shared sv) = sh_gui_room_manager (w_shared w)"
    and "sh_cleanup_duty (sv_shared sv) = sh_cleanup_duty (w_shared w)"
  shows "world_inv (w\<lparr> w_server := sv \<rparr>)"
proof (rule world_inv_cong [OF inv])
  show "holder (w\<lparr> w_server := sv \<rparr>) = holder w" by (simp add: holder_def fun_eq_iff split: option.split)
qed (use assms in \<open>simp_all add: online_def world_inv_def sessions_good_def\<close>)

lemma packet_inv:
  assumes inv: "world_inv w" and n: "w_clients w n = Some cl" and "env_ok env" and left: "numbers_left (w_server w)"
    and "process_packet env input cl (w_server w) = ((r, packets, cl', sv'), rest)"
  shows "world_inv (w\<lparr> w_server := sv', w_clients := (w_clients w)(n \<mapsto> cl') \<rparr>)"
proof (rule served_inv [OF inv n process_packet_change [OF assms(3) _ _ assms(5)]])
  show "ready (server_view cl (w_server w))" "finite (rooms_of (sh_room_manager (w_shared w)) (client_user cl))"
    using inv left by (simp_all add: server_view_parts world_inv_def rooms_sound_def numbers_left_def)
qed

lemma server_step_inv: "server_step w w' \<Longrightarrow> world_inv w \<Longrightarrow> world_inv w'"
proof (induction rule: server_step.induct)
  case (connected w n ip)
  have "holder (w\<lparr> w_clients := (w_clients w)(n \<mapsto> Client_new ip) \<rparr>) = holder w"
    using connected(1,2) by (auto simp: holder_def Client_new_def fun_eq_iff split: option.split)
  with connected show ?case
    by (intro world_inv_cong [OF connected(3)]) (auto simp: online_def world_inv_def sessions_good_def)
next
  case (served w n cl env input packets cl' sv' rest)
  from served(5,1-4) show ?case by (rule packet_inv)
next
  case (failed w n cl env input r packets cl' sv' rest)
  have "world_inv (w\<lparr> w_server := sv', w_clients := (w_clients w)(n \<mapsto> cl') \<rparr>)"
    using failed(6,1,2,3,4) by (rule packet_inv)
  then show ?case by (rule lose_client_inv) simp
next
  case (datagram w recv ip port)
  then show ?case
    by (intro background_inv) (auto simp: handle_socket_input_def Let_def update_signaling_dom)
next
  case (banned w env body)
  then show ?case by (intro background_inv) (simp_all add: ban_view)
next
  case (daily w env)
  then show ?case by (intro background_inv) (simp_all add: cleaner_task_def Let_def)
qed (simp_all add: lose_client_inv cleaned_inv)

lemma Server_new_fresh: "Server_new env config disk = Ok sv \<Longrightarrow> \<exists>db cache sd td. sv = fresh_server config db cache sd td"
  by (auto simp: Server_new_def Let_def split_beta split: if_splits)

end
