(* ===== verification/Server_Login.thy ===== *)
theory Server_Login
  imports Server_Inv
begin

text \<open>
  Who can log in: the requests that make a connection that of a user, and the request that does it for a user who may.
\<close>

section \<open>The request\<close>

text \<open>The fields of a login as the command reads them: the name, the password, the token, and whether they are there.\<close>

definition login_fields :: "bytes \<Rightarrow> string \<times> string \<times> string \<times> StreamExtractor" where
  "login_fields data =
    (let (npid, d1) = get_string False (StreamExtractor_new data);
         (password, d2) = get_string False d1;
         (token, d3) = get_string True d2
     in (npid, password, token, d3))"

text \<open>The account a name and its secrets open.\<close>

definition opens_account :: "Env \<Rightarrow> ServerState \<Rightarrow> string \<Rightarrow> string \<Rightarrow> string \<Rightarrow> Account \<Rightarrow> bool" where
  "opens_account env sv npid password token a \<longleftrightarrow>
    find (\<lambda>a. ac_username a = npid) (db_account (sv_db sv)) = Some a \<and>
    de_hash (e_dbe env) (as_bytes password) (ac_salt a) = Some (ac_hash a) \<and>
    (is_email_validated (sv_config sv) \<longrightarrow> ac_token a = token)"

definition may_enter :: "ServerState \<Rightarrow> Account \<Rightarrow> bool" where
  "may_enter sv a \<longleftrightarrow> \<not> ac_banned a \<and> sh_client_infos (sv_shared sv) (ac_user_id a) = None \<and>
    ac_user_id a \<notin> sh_cleanup_duty (sv_shared sv)"

lemma check_user_Ok:
  "check_user (e_dbe env) (sv_db sv) npid password token (is_email_validated (sv_config sv)) = Ok a \<longleftrightarrow>
    e_sql env ''check_user'' \<and> opens_account env sv npid password token a"
  by (auto simp: check_user_def query_row_def ok_or_def opens_account_def unwrap_def split: option.splits if_splits
      intro!: exI [of _ a])

section \<open>Only with the secrets\<close>

lemma query_db_eq:
  "query_db r s = (case r of Ok x \<Rightarrow> (Ok (Inr x), s) | Err e \<Rightarrow> (Ok (Inl e), s) | Panic \<Rightarrow> (Panic, s))"
  by (cases r) (simp_all add: query_db_def put_db_def update_server_def)

text \<open>The connection belongs to the user, who is online with it, and nobody else has come or gone.\<close>

definition entered :: "ServerState \<Rightarrow> string \<Rightarrow> Account \<Rightarrow> Client \<Rightarrow> ServerState \<Rightarrow> bool" where
  "entered sv npid a cl' sv' \<longleftrightarrow> cl_authentified cl' \<and> cl_client_info cl' = login_info npid a \<and>
    (\<exists>i. sh_client_infos (sv_shared sv') = (sh_client_infos (sv_shared sv))(ac_user_id a \<mapsto> i) \<and>
      cs_npid i = npid \<and> cs_ip i = cl_peer_ip cl') \<and>
    sh_room_manager (sv_shared sv') = sh_room_manager (sv_shared sv) \<and>
    sh_gui_room_manager (sv_shared sv') = sh_gui_room_manager (sv_shared sv) \<and>
    sh_cleanup_duty (sv_shared sv') = sh_cleanup_duty (sv_shared sv) \<and> sv_config sv' = sv_config sv"

lemma enter_user_entered:
  "entered sv npid a (s_client (send_notification n us (enter_user npid a rels s)))
     (s_server (send_notification n us (enter_user npid a rels s)))"
  if "s_server s = sv\<lparr> sv_db := db \<rparr>"
  using that
  by (simp add: entered_def enter_user_def send_notification_def update_tracker_def update_shared_def update_server_def
      reply_bytes_def login_info_def ClientSharedInfo_new_def Let_def) (intro exI conjI, rule refl, simp_all)

lemma login_user_outcome:
  assumes "login_user env npid a s = (r, s')"
  shows "s_client s' = s_client s \<and> r \<noteq> Ok NoError \<or> may_enter (s_server s) a \<and> r = Ok NoError \<and> entered (s_server s) npid a (s_client s') (s_server s')"
proof (cases "may_enter (s_server s) a")
  case True
  have client: "s_client (put_db db s) = s_client s" for db by (simp add: put_db_def update_server_def)
  obtain t db where up: "update_login_time (e_dbe env) (s_db s) (ac_user_id a) = (t, db)" by fastforce
  have "entered (s_server s) npid a (s_client (send_notification n us (enter_user npid a rels (put_db db s))))
      (s_server (send_notification n us (enter_user npid a rels (put_db db s))))" for n us rels
    by (rule enter_user_entered) (simp add: put_db_def update_server_def)
  then show ?thesis
    using True assms
    by (cases t) (auto simp: may_enter_def login_user_def query_db_eq up client db_or_fail_def Let_def split: res.splits)
qed (use assms in \<open>auto simp: may_enter_def login_user_def Let_def split: if_splits\<close>)

lemma login_eq:
  assumes "login_fields data = (npid, password, token, d)"
  shows "login env (request_session cl sv c i data) =
    (let s = (request_session cl sv c i data)\<lparr> s_data := d \<rparr> in
     if x_error d then (Err Malformed, s) else if \<not> e_connects env then (Err DbFail, s)
     else case check_user (e_dbe env) (sv_db sv) npid password token (is_email_validated (sv_config sv)) of
       Ok a \<Rightarrow> login_user env npid a s | Err e \<Rightarrow> (Err (login_error e), s) | Panic \<Rightarrow> (Panic, s))"
  using assms
  by (auto simp: login_def login_fields_def read_field_def request_session_def check_data_def
      get_database_connection_def query_db_eq Let_def split: prod.splits res.splits)

lemma login_outcome:
  assumes "login env (request_session cl sv c i data) = (r, s')"
  shows "s_client s' = cl \<or> (\<exists>npid password token d a. login_fields data = (npid, password, token, d) \<and> \<not> x_error d \<and>
    opens_account env sv npid password token a \<and> may_enter sv a \<and> entered sv npid a (s_client s') (s_server s'))"
proof -
  obtain npid password token d where f: "login_fields data = (npid, password, token, d)" by (metis prod.exhaust)
  let ?s = "(request_session cl sv c i data)\<lparr> s_data := d \<rparr>"
  consider "s_client s' = cl"
    | a where "\<not> x_error d" "opens_account env sv npid password token a" "login_user env npid a ?s = (r, s')"
    using assms login_eq [OF f]
    by (auto simp: request_session_def Let_def split: if_splits res.splits) (metis check_user_Ok)
  then show ?thesis
    by cases (use f login_user_outcome in \<open>fastforce simp: request_session_def\<close>)+
qed

lemma run_command_enters:
  assumes "run_command env c (request_session cl sv c i data) = (r, s')"
    and "\<not> cl_authentified cl" and "cl_authentified (s_client s')"
  shows "c = 0 \<and> (\<exists>npid password token d a. login_fields data = (npid, password, token, d) \<and> \<not> x_error d \<and>
    opens_account env sv npid password token a \<and> may_enter sv a \<and> entered sv npid a (s_client s') (s_server s'))"
proof -
  let ?s = "request_session cl sv c i data"
  have new: "s_client s' \<noteq> cl" using assms(2,3) by auto
  have "view s' \<noteq> view ?s" using assms(2,3) by (auto simp: view_def request_session_def)
  then have "command_from_u16 c = Some Login"
    using assms
    by (auto simp: run_command_def process_command_def process_unauthentified_def quiet request_session_def
        split: option.splits if_splits CommandType.splits) (metis quiet snd_conv)+
  then show ?thesis
    using assms login_outcome [of env cl sv c i data r s'] new
    by (auto simp: run_command_def process_command_def process_unauthentified_def request_session_def
        command_from_u16_def split: if_splits)
qed

section \<open>Always with the secrets\<close>

text \<open>A packet around the data of a request, as clients send it.\<close>

definition request_packet :: "u16 \<Rightarrow> u64 \<Rightarrow> bytes \<Rightarrow> bytes" where
  "request_packet command packet_id data = packet_header Request command (of_nat (15 + length data)) packet_id @ data"

lemma process_request_packet:
  assumes "15 + length data \<le> unat MAX_PACKET_SIZE"
  shows "process_packet env (request_packet command packet_id data @ rest) cl sv =
    (interpret_command env command packet_id data cl sv, rest)"
proof -
  have size: "unat (of_nat (15 + length data) :: u32) = 15 + length data"
    using assms unat_lt32 [of MAX_PACKET_SIZE] by (simp only: unat_of_nat take_bit_nat_eq_self_iff) simp
  then have "unat (of_nat (15 + length data) - HEADER_SIZE :: u32) = length data"
    using assms unat_lt32 [of MAX_PACKET_SIZE] by (simp add: HEADER_SIZE_def unat_of_nat take_bit_nat_eq_self)
  moreover have "\<not> (of_nat (15 + length data) :: u32) > MAX_PACKET_SIZE" "\<not> (of_nat (15 + length data) :: u32) < HEADER_SIZE"
    using size assms by (simp_all add: word_less_nat_alt HEADER_SIZE_def)
  ultimately show ?thesis
    using parse_packet_header [of Request command "of_nat (15 + length data)" packet_id "[]"]
    by (simp add: process_packet_def request_packet_def Let_def)
qed

definition login_data :: "string \<Rightarrow> string \<Rightarrow> string \<Rightarrow> bytes" where
  "login_data npid password token = string_field npid @ string_field password @ string_field token"

lemma login_data_fields:
  assumes "ascii npid" and "npid \<noteq> []" and "ascii password" and "password \<noteq> []" and "ascii token"
  shows "\<exists>d. login_fields (login_data npid password token) = (npid, password, token, d) \<and> \<not> x_error d"
  using assms
  by (simp add: login_fields_def login_data_def str_field.read_first str_field.read_write str0_field.read_last)
    (simp add: reader_at_def)

lemma login_user_enters:
  assumes "may_enter (s_server s) a" and "\<And>n. e_sql env n"
    and "find (\<lambda>a. ac_username a = npid) (db_account (s_db s)) = Some a"
  shows "\<exists>s'. login_user env npid a s = (Ok NoError, s')"
  using assms
  by (auto simp: may_enter_def login_user_def get_user_id_def query_row_def ok_or_def query_db_eq get_relationships_def
      update_login_time_def execute_def db_or_fail_def Let_def)

lemma login_enters:
  assumes "login_fields data = (npid, password, token, d)" and "\<not> x_error d" and "e_connects env" and "\<And>n. e_sql env n"
    and "opens_account env sv npid password token a" and "may_enter sv a"
  shows "\<exists>s'. login env (request_session cl sv c i data) = (Ok NoError, s') \<and> entered sv npid a (s_client s') (s_server s')"
proof -
  let ?s = "(request_session cl sv c i data)\<lparr> s_data := d \<rparr>"
  have sv: "s_server ?s = sv" by (simp add: request_session_def)
  obtain s' where "login_user env npid a ?s = (Ok NoError, s')"
    using login_user_enters [of ?s a env npid] assms(4-6) by (auto simp: sv opens_account_def)
  moreover from this have "entered sv npid a (s_client s') (s_server s')" using login_user_outcome sv by fastforce
  ultimately show ?thesis
    using login_eq [OF assms(1)] check_user_Ok [of env sv npid password token a] assms(2-5) by (simp add: Let_def)
qed

lemma login_packet_enters:
  assumes "login_fields data = (npid, password, token, d)" and "\<not> x_error d" and "e_connects env" and "\<And>n. e_sql env n"
    and "opens_account env sv npid password token a" and "may_enter sv a" and "\<not> cl_authentified cl"
    and "15 + length data \<le> unat MAX_PACKET_SIZE"
  shows "\<exists>packets cl' sv'. process_packet env (request_packet 0 i data @ rest) cl sv = ((Continue, packets, cl', sv'), rest) \<and>
    entered sv npid a cl' sv'"
proof -
  obtain s' where l: "login env (request_session cl sv 0 i data) = (Ok NoError, s')"
    and e: "entered sv npid a (s_client s') (s_server s')"
    using login_enters [OF assms(1-6)] by blast
  have "run_command env 0 (request_session cl sv 0 i data) = (Ok NoError, s')"
    using l assms(7)
    by (simp add: run_command_def command_from_u16_def process_command_def process_unauthentified_def, simp add: request_session_def)
  with e show ?thesis
    by (simp add: process_request_packet [OF assms(8)] interpret_command_def finish_request_def entered_def)
qed

end
