(* ===== verification/Server_Example.thy ===== *)
theory Server_Example
  imports Server_Login
begin

text \<open>
  A small run of the server, for the witnesses of its properties: a disk with one account, the account's user logs in,
  makes a GUI room and closes the connection, and the clean up follows.  The generated encoders write nothing and the
  decoders accept nothing but the request for the room.
\<close>

section \<open>An environment\<close>

definition se_room_codec :: prost_codec where
  "se_room_codec = \<lparr> enc_CreateRoomResponse = (\<lambda>_. []), enc_JoinRoomResponse = (\<lambda>_. []),
     enc_NotificationUserJoinedRoom = (\<lambda>_. []), enc_SearchRoomResponse = (\<lambda>_. []),
     enc_SearchRoomAllResponse = (\<lambda>_. []), enc_GetRoomDataExternalListResponse = (\<lambda>_. []),
     enc_GetRoomMemberDataExternalListResponse = (\<lambda>_. []), enc_RoomDataInternal = (\<lambda>_. []),
     enc_RoomDataInternalUpdateInfo = (\<lambda>_. []), enc_RoomMemberDataInternal = (\<lambda>_. []),
     enc_RoomMemberDataInternalUpdateInfo = (\<lambda>_. []) \<rparr>"

definition se_gui_codec :: gui_codec where
  "se_gui_codec = \<lparr> enc_MatchingRoomStatus = ms_id, enc_MatchingGuiRoomId = gi_id, enc_MatchingRoomList = \<lambda>_. [],
     enc_MatchingRoom = mr_id, enc_MatchingSearchJoinRoomInfo = \<lambda>_. [] \<rparr>"

definition se_create :: CreateRoomGuiRequest where
  "se_create = \<lparr> cg_total_slots = 2, cg_private_slots = 0, cg_privilege_grant = True, cg_stealth = False, cg_game_attrs = [] \<rparr>"

definition se_cmd_codec :: cmd_codec where
  "se_cmd_codec = \<lparr> enc_RoomMemberUpdateInfo = \<lambda>_. [], enc_RoomUpdateInfo = \<lambda>_. [], enc_GetPingInfoResponse = \<lambda>_. [],
     enc_RoomMessageInfo = \<lambda>_. [], enc_MatchingSignalingInfo = \<lambda>_. [], enc_SignalingAddr = \<lambda>_. [],
     dec_CreateJoinRoomRequest = \<lambda>_. None, dec_JoinRoomRequest = \<lambda>_. None, dec_LeaveRoomRequest = \<lambda>_. None,
     dec_SearchRoomRequest = \<lambda>_. None, dec_GetRoomDataExternalListRequest = \<lambda>_. None,
     dec_SetRoomDataExternalRequest = \<lambda>_. None, dec_GetRoomDataInternalRequest = \<lambda>_. None,
     dec_SetRoomDataInternalRequest = \<lambda>_. None, dec_GetRoomMemberDataInternalRequest = \<lambda>_. None,
     dec_SetRoomMemberDataInternalRequest = \<lambda>_. None, dec_SendRoomMessageRequest = \<lambda>_. None, dec_SetUserInfo = \<lambda>_. None,
     dec_SendMessageRequest = \<lambda>_. None, dec_MessageDetails = \<lambda>_. None, dec_SetPresenceRequest = \<lambda>_. None,
     dec_CreateRoomGuiRequest = \<lambda>_. Some se_create, dec_MatchingGuiRoomId = \<lambda>_. None,
     dec_GetRoomListGuiRequest = \<lambda>_. None, dec_SetRoomSearchFlagGui = \<lambda>_. None, dec_MatchingRoom = \<lambda>_. None,
     dec_QuickMatchGuiRequest = \<lambda>_. None, dec_SearchJoinRoomGuiRequest = \<lambda>_. None \<rparr>"

definition se_score_codec :: score_codec where
  "se_score_codec = \<lparr> enc_BoardInfo = \<lambda>_ _ _ _ _. [], enc_GetScoreResponse = \<lambda>_. [], dec_RecordScoreRequest = \<lambda>_. None,
     dec_RecordScoreGameDataRequest = \<lambda>_. None, dec_GetScoreGameDataRequest = \<lambda>_. None,
     dec_GetScoreRangeRequest = \<lambda>_. None, dec_GetScoreFriendsRequest = \<lambda>_. None, dec_GetScoreNpIdRequest = \<lambda>_. None \<rparr>"

definition se_tus_codec :: tus_codec where
  "se_tus_codec = \<lparr> enc_TusVarResponse = \<lambda>_. [], enc_TusVariable = \<lambda>_. [], enc_TusData = \<lambda>_ _. [],
     enc_TusDataStatusResponse = \<lambda>_. [], dec_TusSetMultiSlotVariableRequest = \<lambda>_. None,
     dec_TusGetMultiSlotVariableRequest = \<lambda>_. None, dec_TusGetMultiUserVariableRequest = \<lambda>_. None,
     dec_TusGetFriendsVariableRequest = \<lambda>_. None, dec_TusAddAndGetVariableRequest = \<lambda>_. None,
     dec_TusTryAndSetVariableRequest = \<lambda>_. None, dec_TusDeleteMultiSlotVariableRequest = \<lambda>_. None,
     dec_TusSetDataRequest = \<lambda>_. None, dec_TusGetDataRequest = \<lambda>_. None,
     dec_TusGetMultiSlotDataStatusRequest = \<lambda>_. None, dec_TusGetMultiUserDataStatusRequest = \<lambda>_. None,
     dec_TusGetFriendsDataStatusRequest = \<lambda>_. None, dec_TusDeleteMultiSlotDataRequest = \<lambda>_. None \<rparr>"

definition se_dbe :: DbEnv where
  "se_dbe = \<lparr> de_sql = \<lambda>_. True, de_hash = \<lambda>password salt. Some (password @ salt), de_salt = [9], de_token = [1, 171],
     de_seconds = 0x66000000 \<rparr>"

definition se_env :: Env where
  "se_env = \<lparr> e_codec = se_room_codec, e_gui = se_gui_codec, e_cmd = se_cmd_codec, e_score = se_score_codec,
     e_tus = se_tus_codec, e_iter = \<lparr> it_members = \<lambda>ms. ms, it_rooms = sorted_list_of_set \<rparr>,
     e_hash_order = sorted_list_of_set, e_rooms_order = \<lambda>_. [], e_user_rooms_order = sorted_list_of_set,
     e_user_gui_order = sorted_list_of_set, e_rnd = \<lambda>_. 0, e_psn_time = 0, e_nanos = 0, e_millis = 0, e_instant = 0,
     e_connects = True, e_dbe = se_dbe, e_file = \<lambda>_. True, e_friends_order = map fst, e_address = \<lambda>_. True,
     e_smtp = \<lambda>_. True, e_domains_file = None, e_servers_file = None \<rparr>"

lemma se_env_ok: "env_ok se_env"
  by (simp add: env_ok_def se_env_def iter_ok_def)

lemma se_env_database: "e_connects se_env" "e_sql se_env n"
  by (simp_all add: se_env_def se_dbe_def)

section \<open>A server with one account\<close>

definition se_account :: Account where
  "se_account = \<lparr> ac_user_id = 2, ac_username = ''ann'', ac_hash = as_bytes ''pw'' @ [9], ac_salt = [9], ac_online_name = ''Ann'',
     ac_avatar_url = ''url'', ac_email = ''ann@host'', ac_email_check = ''ann@host'', ac_token = ''01AB'',
     ac_reset_token = None, ac_admin = False, ac_stat_agent = False, ac_banned = False \<rparr>"

definition se_database :: Database where
  "se_database =
    snd (insert_timestamp (\<lambda>_. True)
      \<lparr> at_user_id = 2, at_creation = 0x66000000, at_last_login = None, at_token_last_sent = None, at_reset_emit = None \<rparr>
      (snd (insert_account (\<lambda>_. True) se_account (new_database 0x66000000 [1] [2]))))"

definition se_disk :: Disk where
  "se_disk = \<lparr> dk_database = se_database, dk_scoreboards = Some [], dk_score_names = [], dk_score_files = Map.empty,
     dk_tus_names = [], dk_tus_files = Map.empty, dk_remove = \<lambda>_. True \<rparr>"

definition se_config :: Config where
  "se_config = Config_new \<lparr> ce_info = 3, ce_parse_level = \<lambda>_. None, ce_signer = \<lambda>_. None \<rparr>"

definition se_server :: ServerState where
  "se_server = (case Server_new se_env se_config se_disk of Ok sv \<Rightarrow> sv | _ \<Rightarrow> undefined)"

lemma se_server_new: "Server_new se_env se_config se_disk = Ok se_server"
proof -
  have "(case Server_new se_env se_config se_disk of Ok _ \<Rightarrow> True | _ \<Rightarrow> False)" by code_simp
  then show ?thesis unfolding se_server_def by (simp split: res.splits)
qed

section \<open>A run\<close>

definition se_login :: bytes where
  "se_login = request_packet 0 1 (login_data ''ann'' ''pw'' [])"

definition se_make_room :: bytes where
  "se_make_room = request_packet 52 2 (as_bytes ''NPWR00001_00'' @ [0, 0, 0, 0])"

definition serve :: "bytes \<Rightarrow> World \<Rightarrow> World" where
  "serve input w =
    (case process_packet se_env input (the (w_clients w 0)) (w_server w) of
       ((_, _, cl, sv), _) \<Rightarrow> w\<lparr> w_server := sv, w_clients := (w_clients w)(0 \<mapsto> cl) \<rparr>)"

definition se_connected :: World where
  "se_connected = (World_new se_server)\<lparr> w_clients := [0 \<mapsto> Client_new (V4 [127, 0, 0, 1])] \<rparr>"

definition se_logged_in :: World where
  "se_logged_in = serve se_login se_connected"

definition se_in_room :: World where
  "se_in_room = serve se_make_room se_logged_in"

definition se_closed :: World where
  "se_closed = lose_client 0 (the (w_clients se_in_room 0)) se_in_room"

lemma serve_step:
  assumes "w_clients w 0 = Some cl" and "numbers_left (w_server w)"
    and "process_packet se_env input cl (w_server w) = ((Continue, packets, cl', sv'), rest)"
  shows "server_step w (serve input w)" "w_server (serve input w) = sv'" "w_clients (serve input w) = (w_clients w)(0 \<mapsto> cl')"
    "w_dropped (serve input w) = w_dropped w"
  using assms server_step.served [OF assms(1) se_env_ok assms(2,3)] by (simp_all add: serve_def)

section \<open>The login\<close>

lemma se_start: "world_inv (World_new se_server)" "numbers_left se_server" "may_enter se_server se_account"
  "sv_config se_server = se_config" "sh_gui_room_manager (sv_shared se_server) = GuiRoomManager_new"
proof -
  obtain db cache sd td where s: "se_server = fresh_server se_config db cache sd td"
    using Server_new_fresh [OF se_server_new] by blast
  show "world_inv (World_new se_server)" unfolding s by (rule World_new_inv)
  show "numbers_left se_server" "may_enter se_server se_account" "sv_config se_server = se_config"
    "sh_gui_room_manager (sv_shared se_server) = GuiRoomManager_new"
    by (simp_all add: s numbers_left_def may_enter_def fresh_server_def SharedData_new_def RoomManager_new_def
        GuiRoomManager_new_def current_cnt_def se_account_def)
qed

lemma se_opens: "opens_account se_env se_server ''ann'' ''pw'' [] se_account"
proof -
  have "find (\<lambda>a. ac_username a = ''ann'') (db_account (sv_db se_server)) = Some se_account" by code_simp
  moreover have "\<not> is_email_validated se_config" by code_simp
  ultimately show ?thesis
    by (simp add: opens_account_def se_start) (simp add: se_env_def se_dbe_def se_account_def)
qed

lemma se_entered:
  obtains packets cl sv where
    "process_packet se_env se_login (Client_new (V4 [127, 0, 0, 1])) se_server = ((Continue, packets, cl, sv), [])"
    "entered se_server ''ann'' se_account cl sv"
proof -
  have client: "\<not> cl_authentified (Client_new (V4 [127, 0, 0, 1]))" by (simp add: Client_new_def)
  have "ascii ''ann''" "ascii ''pw''" "ascii []" by code_simp+
  then obtain d where "login_fields (login_data ''ann'' ''pw'' []) = (''ann'', ''pw'', [], d)" "\<not> x_error d"
    using login_data_fields [of "''ann''" "''pw''" "[]"] by auto
  moreover have "15 + length (login_data ''ann'' ''pw'' []) \<le> unat MAX_PACKET_SIZE"
    by (simp add: login_data_def string_field_def as_bytes_def utf8_char_def MAX_PACKET_SIZE_def)
  ultimately show thesis
    using login_packet_enters [OF _ _ se_env_database se_opens se_start(3) client, of _ d 1 "[]"] that
    by (auto simp: se_login_def)
qed

section \<open>The room\<close>

definition se_room_id :: GuiRoomId where
  "se_room_id = as_bytes ''NPWR00001_00'' @ replicate 15 48 @ [49]"

lemma track_com_id_keeps: "s_data (track_com_id c s) = s_data s" "s_config (track_com_id c s) = s_config s"
  "s_gui (track_com_id c s) = s_gui s" "s_info (track_com_id c s) = s_info s"
  "cl_authentified (s_client (track_com_id c s)) = cl_authentified (s_client s)"
  by (simp_all add: track_com_id_def set_current_game_def update_tracker_def update_shared_def update_server_def
      split: option.split prod.split)

lemma se_create_room:
  assumes "s_data s = StreamExtractor_new (as_bytes ''NPWR00001_00'' @ [0, 0, 0, 0])" and "s_config s = se_config"
    and "s_gui s = GuiRoomManager_new" and "s_info s = login_info ''ann'' se_account"
  shows "\<exists>s'. req_create_room_gui se_env s = (Ok NoError, s') \<and>
    map_option member_ids (gm_rooms (s_gui s') se_room_id) = Some {2} \<and>
    cl_authentified (s_client s') = cl_authentified (s_client s)"
proof -
  let ?com = "as_bytes ''NPWR00001_00''"
  let ?d = "\<lparr> x_vec = ?com @ [0, 0, 0, 0], x_i = 12, x_error = False \<rparr>"
  let ?made = "create_room_gui (e_gui se_env) (e_iter se_env) GuiRoomManager_new ?com se_create (login_info ''ann'' se_account)"
  have com: "get_com_id (s_data s) = (?com, ?d)" unfolding assms(1) by code_simp
  obtain d where pb: "get_pb (dec_CreateRoomGuiRequest (e_cmd se_env)) ?d = (Ok se_create, d)"
  proof -
    have "fst (get_pb (dec_CreateRoomGuiRequest (e_cmd se_env)) ?d) = Ok se_create" by code_simp
    then show thesis using that by (metis prod.collapse)
  qed
  have "is_ok (fst ?made)" and room: "map_option member_ids (gm_rooms (snd ?made) se_room_id) = Some {2}" by code_simp+
  then obtain resp gm where made: "?made = (Ok resp, gm)" by (cases ?made, cases "fst ?made") auto
  have redir: "get_server_redirection se_config c = c" for c
    by (simp add: get_server_redirection_def se_config_def Config_new_def)
  show ?thesis
    using room assms(2-4)
    by (simp add: req_create_room_gui_def get_com_and_pb_def get_com_id_with_redir_def read_field_def com redir
        track_com_id_keeps read_pb_def pb with_gui_def made reply_data_def update_shared_def update_server_def Let_def)
qed

section \<open>The steps\<close>

lemma se_connected_step: "server_step (World_new se_server) se_connected"
  using server_step.connected [of "World_new se_server" 0 "V4 [127, 0, 0, 1]"]
  by (simp add: se_connected_def World_new_def)

lemma se_connected_server: "w_server se_connected = se_server" "w_clients se_connected 0 = Some (Client_new (V4 [127, 0, 0, 1]))"
  "w_clients se_connected = [0 \<mapsto> Client_new (V4 [127, 0, 0, 1])]" "w_dropped se_connected = Map.empty"
  by (simp_all add: se_connected_def World_new_def)

lemma se_logged_in_step:
  "server_step se_connected se_logged_in"
  "\<exists>cl. w_clients se_logged_in = [0 \<mapsto> cl] \<and> entered se_server ''ann'' se_account cl (w_server se_logged_in)"
  "w_dropped se_logged_in = Map.empty"
  using serve_step [OF se_connected_server(2), of se_login, unfolded se_connected_server(1), OF se_start(2)] se_entered
    se_connected_server(3,4)
  by (metis se_logged_in_def fun_upd_upd)+

lemma se_logged_in_server:
  "numbers_left (w_server se_logged_in)" "sh_gui_room_manager (w_shared se_logged_in) = GuiRoomManager_new"
  "sv_config (w_server se_logged_in) = se_config"
  using se_logged_in_step(2) se_start by (auto simp: entered_def numbers_left_def)

lemma se_in_room_step:
  "server_step se_logged_in se_in_room" "\<exists>cl. w_clients se_in_room = [0 \<mapsto> cl] \<and> cl_authentified cl"
  "w_dropped se_in_room = Map.empty"
  "map_option member_ids (gm_rooms (sh_gui_room_manager (w_shared se_in_room)) se_room_id) = Some {2}"
proof -
  let ?data = "as_bytes ''NPWR00001_00'' @ [0, 0, 0, 0]"
  obtain cl where cl: "w_clients se_logged_in = [0 \<mapsto> cl]" "cl_authentified cl" "cl_client_info cl = login_info ''ann'' se_account"
    using se_logged_in_step(2) by (auto simp: entered_def)
  obtain s' where "req_create_room_gui se_env (request_session cl (w_server se_logged_in) 52 2 ?data) = (Ok NoError, s')"
    and room: "map_option member_ids (gm_rooms (s_gui s') se_room_id) = Some {2}" and auth: "cl_authentified (s_client s')"
    using se_create_room [of "request_session cl (w_server se_logged_in) 52 2 ?data"] cl se_logged_in_server
    by (auto simp: request_session_def)
  then have "run_command se_env 52 (request_session cl (w_server se_logged_in) 52 2 ?data) = (Ok NoError, s')"
    using cl(2)
    by (simp add: run_command_def command_from_u16_def process_command_def process_authentified_def)
      (simp add: request_session_def)
  moreover have "15 + length ?data \<le> unat MAX_PACKET_SIZE"
    by (simp add: as_bytes_def utf8_char_def MAX_PACKET_SIZE_def)
  ultimately obtain packets cl' where
    "process_packet se_env se_make_room cl (w_server se_logged_in) = ((Continue, packets, cl', s_server s'), [])"
    "cl_authentified cl'"
    using auth process_request_packet [of ?data se_env 52 2 "[]" cl "w_server se_logged_in"]
    by (simp add: se_make_room_def interpret_command_def finish_request_def)
  moreover have "w_clients se_logged_in 0 = Some cl" by (simp add: cl)
  moreover note serve_step [OF this se_logged_in_server(1) calculation(1)]
  ultimately show "server_step se_logged_in se_in_room" "\<exists>cl. w_clients se_in_room = [0 \<mapsto> cl] \<and> cl_authentified cl"
    "w_dropped se_in_room = Map.empty"
    "map_option member_ids (gm_rooms (sh_gui_room_manager (w_shared se_in_room)) se_room_id) = Some {2}"
    using room cl(1) se_logged_in_step(3) by (auto simp: se_in_room_def)
qed

lemma se_closed_step:
  "server_step se_in_room se_closed"
  "map_option member_ids (gm_rooms (sh_gui_room_manager (w_shared se_closed)) se_room_id) = Some {2}"
  "\<exists>cl. w_clients se_closed = Map.empty \<and> w_dropped se_closed = [0 \<mapsto> cl]"
  using se_in_room_step server_step.closed [of se_in_room 0]
  by (auto simp: se_closed_def lose_client_def drop_client_def set_cleanup_duty_def)

lemma se_reach:
  "reach server_step (World_new se_server) se_connected" "reach server_step (World_new se_server) se_logged_in"
  "reach server_step (World_new se_server) se_in_room" "reach server_step (World_new se_server) se_closed"
  using reach.start reach.more se_connected_step se_logged_in_step(1) se_in_room_step(1) se_closed_step(1) by metis+

end
