(* ===== verification/Server_Properties.thy ===== *)
theory Server_Properties
  imports Server_Example
begin

text \<open>
  What holds of the server in every order of its events: who is online, who is in a room, who logs in and what is left
  when the clients are gone.
\<close>

section \<open>Reachable worlds\<close>

definition world_finite :: "World \<Rightarrow> bool" where
  "world_finite w \<longleftrightarrow> finite (dom (w_clients w)) \<and> finite (dom (w_dropped w))"

lemma lose_client_finite: "world_finite w \<Longrightarrow> world_finite (lose_client n cl w)"
  by (simp add: world_finite_def lose_client_def)

lemma server_step_finite: "server_step w w' \<Longrightarrow> world_finite w \<Longrightarrow> world_finite w'"
proof (induction rule: server_step.induct)
  case (failed w n cl env input r packets cl' sv' rest)
  then show ?case by (intro lose_client_finite) (simp add: world_finite_def)
qed (simp_all add: lose_client_finite, simp_all add: world_finite_def)

interpretation srv: invariant_system "World_new (fresh_server config db cache sd td)" server_step
  "\<lambda>w. world_inv w \<and> world_finite w" for config db cache sd td
proof unfold_locales
  show "world_inv (World_new (fresh_server config db cache sd td)) \<and> world_finite (World_new (fresh_server config db cache sd td))"
    using World_new_inv by (simp add: world_finite_def World_new_def)
qed (blast intro: server_step_inv server_step_finite)

lemma reachable_inv:
  assumes "Server_new env config disk = Ok sv" and "reach server_step (World_new sv) w"
  shows "world_inv w" "world_finite w"
  using Server_new_fresh [OF assms(1)] assms(2) srv.reach_inv by blast+

lemma online_holder:
  assumes "world_inv w" and "u \<in> online w"
  shows "\<exists>!n. holder w n = Some u"
proof -
  have "u \<in> ran (holder w)" and inj: "inj_on (holder w) (dom (holder w))"
    using assms by (simp_all add: world_inv_def sessions_good_def)
  then obtain n where "holder w n = Some u" by (auto simp: ran_def)
  with inj_onD [OF inj] show ?thesis by (metis domI)
qed

lemma members_online:
  assumes "world_inv w"
  shows "rm_rooms (sh_room_manager (w_shared w)) (c, i) = Some r \<Longrightarrow> get_room_user_ids r \<subseteq> online w"
    and "gm_rooms (sh_gui_room_manager (w_shared w)) g = Some gr \<Longrightarrow> member_ids gr \<subseteq> online w"
proof -
  have rm: "rm_inv (sh_room_manager (w_shared w))" and gm: "gui_inv (sh_gui_room_manager (w_shared w))"
    and out: "\<And>u. u \<notin> online w \<Longrightarrow> rooms_of (sh_room_manager (w_shared w)) u = {} \<and> user_set (sh_gui_room_manager (w_shared w)) u = {}"
    using assms by (simp_all add: world_inv_def rooms_sound_def)
  show "rm_rooms (sh_room_manager (w_shared w)) (c, i) = Some r \<Longrightarrow> get_room_user_ids r \<subseteq> online w"
    using rm_inv_user [OF rm, of c i] out by blast
  show "gm_rooms (sh_gui_room_manager (w_shared w)) g = Some gr \<Longrightarrow> member_ids gr \<subseteq> online w"
    using gui_inv_user [OF gm, of g] out by blast
qed

text \<open>C1: whatever the clients, the helper server, the administrators and the timers do after the server has started, and
  in whatever order, every member of a room of either kind is online, every online user belongs to exactly one
  connection, open or lost, and the users whose clean up is due are exactly those of the lost connections.\<close>

theorem server_reachable_inv:
  assumes "Server_new env config disk = Ok sv" and "reach server_step (World_new sv) w"
  shows "(\<forall>c i r. rm_rooms (sh_room_manager (w_shared w)) (c, i) = Some r \<longrightarrow> get_room_user_ids r \<subseteq> online w) \<and>
    (\<forall>g r. gm_rooms (sh_gui_room_manager (w_shared w)) g = Some r \<longrightarrow> member_ids r \<subseteq> online w) \<and>
    (\<forall>u \<in> online w. \<exists>!n. holder w n = Some u) \<and> (\<forall>n u. holder w n = Some u \<longrightarrow> u \<in> online w) \<and>
    sh_cleanup_duty (w_shared w) = client_user ` ran (w_dropped w)"
proof -
  have inv: "world_inv w" by (rule reachable_inv(1) [OF assms])
  then have "sessions_good w" by (simp add: world_inv_def)
  then show ?thesis
    using members_online [OF inv] online_holder [OF inv] holder_in_online by (simp add: sessions_good_def)
qed

theorem server_reachable_inv_witness:
  "2 \<in> online se_closed \<and> (\<exists>!n. holder se_closed n = Some 2) \<and>
    (\<exists>r. gm_rooms (sh_gui_room_manager (w_shared se_closed)) se_room_id = Some r \<and> member_ids r = {2})"
  using server_reachable_inv [OF se_server_new se_reach(4)] se_closed_step(2) by fastforce

section \<open>When all clients go\<close>

text \<open>The connections that are open close, and the clean ups that are due run, in any order.\<close>

inductive wind_down :: "Env \<Rightarrow> World \<Rightarrow> World \<Rightarrow> bool" for env where
  closing: "w_clients w n = Some cl \<Longrightarrow> wind_down env w (lose_client n cl w)"
| cleaning: "w_dropped w n = Some cl \<Longrightarrow>
    wind_down env w (w\<lparr> w_server := cleanup_task env cl (w_server w), w_dropped := (w_dropped w)(n := None) \<rparr>)"

lemma wind_down_step: "wind_down env w w' \<Longrightarrow> env_ok env \<Longrightarrow> server_step w w'"
  by (induction rule: wind_down.induct) (auto intro: server_step.closed server_step.cleaned)

definition work_left :: "World \<Rightarrow> nat" where
  "work_left w = 2 * card (dom (w_clients w)) + card (dom (w_dropped w))"

lemma card_dom_without: "m n = Some x \<Longrightarrow> finite (dom m) \<Longrightarrow> Suc (card (dom (m(n := None)))) = card (dom m)"
  by (simp only: dom_fun_upd if_True simp_thms card_Suc_Diff1 domI)

lemma wind_down_less:
  assumes "wind_down env w w'" and "world_finite w"
  shows "work_left w' < work_left w"
  using assms
proof (induction rule: wind_down.induct)
  case (closing w n cl)
  have "card (dom ((w_dropped w)(n := if cl_authentified cl then Some cl else None))) \<le> Suc (card (dom (w_dropped w)))"
    using closing(2) by (auto simp: world_finite_def card_insert_if card_Diff_singleton_if)
  then show ?case
    using closing card_dom_without [of "w_clients w" n cl] by (simp add: work_left_def lose_client_def world_finite_def)
next
  case (cleaning w n cl)
  then show ?case using card_dom_without [of "w_dropped w" n cl] by (simp add: work_left_def world_finite_def)
qed

definition deserted :: "World \<Rightarrow> bool" where
  "deserted w \<longleftrightarrow> w_clients w = Map.empty \<and> w_dropped w = Map.empty \<and> online w = {} \<and> sh_cleanup_duty (w_shared w) = {} \<and>
    rm_rooms (sh_room_manager (w_shared w)) = Map.empty \<and> gm_rooms (sh_gui_room_manager (w_shared w)) = Map.empty"

text \<open>No room is without members.\<close>

lemma deserted_when_idle:
  assumes inv: "world_inv w" and "w_clients w = Map.empty" and "w_dropped w = Map.empty"
  shows "deserted w"
proof -
  have "ran (holder w) = {}" using assms(2,3) by (simp add: holder_def ran_def)
  then have on: "online w = {}" and duty: "sh_cleanup_duty (w_shared w) = {}"
    using inv assms(3) by (simp_all add: world_inv_def sessions_good_def)
  have "rm_rooms (sh_room_manager (w_shared w)) (c, i) = None" for c i
  proof (rule ccontr)
    assume "rm_rooms (sh_room_manager (w_shared w)) (c, i) \<noteq> None"
    then obtain r where r: "rm_rooms (sh_room_manager (w_shared w)) (c, i) = Some r" by blast
    have "room_inv r" using rm_inv_room(1) [OF _ r] inv by (simp add: world_inv_def rooms_sound_def)
    then show False using members_online(1) [OF inv r] room_invD [of r] on
      by (auto simp: owner_ok_def get_room_user_ids_def)
  qed
  moreover have "gm_rooms (sh_gui_room_manager (w_shared w)) g = None" for g
  proof (rule ccontr)
    assume "gm_rooms (sh_gui_room_manager (w_shared w)) g \<noteq> None"
    then obtain r where r: "gm_rooms (sh_gui_room_manager (w_shared w)) g = Some r" by blast
    have "gui_room_ok r" using gui_inv_room [OF _ r] inv by (simp add: world_inv_def rooms_sound_def)
    then show False using members_online(2) [OF inv r] on by (auto simp: gui_room_ok_def member_ids_def)
  qed
  ultimately show ?thesis using assms on duty by (auto simp: deserted_def)
qed

lemma wind_down_stuck:
  assumes "\<nexists>w'. wind_down env w w'"
  shows "w_clients w = Map.empty \<and> w_dropped w = Map.empty"
  using assms wind_down.intros by (metis not_None_eq ext)

lemma wind_down_reach:
  assumes "(wind_down env ^^ k) w w'" and "env_ok env" and "world_inv w" and "world_finite w"
  shows "world_inv w' \<and> world_finite w' \<and> k + work_left w' \<le> work_left w"
  using assms(1)
proof (induction k arbitrary: w')
  case 0
  then show ?case using assms by simp
next
  case (Suc k)
  then obtain v where v: "(wind_down env ^^ k) w v" "wind_down env v w'" by auto
  then show ?case
    using Suc.IH [OF v(1)] wind_down_less [OF v(2)] wind_down_step [OF v(2) assms(2)]
    by (auto dest: server_step_inv server_step_finite)
qed

text \<open>C2: when the clients of a running server go away, it comes to rest.  From any reachable state, closing the open
  connections and running the clean ups that are due, in any order, stops after at most two events for each
  connection, and where nothing is left to do nobody is online, no room of either kind is left and no clean up is
  due.\<close>

theorem server_comes_to_rest:
  assumes "Server_new env0 config disk = Ok sv" and "reach server_step (World_new sv) w" and "env_ok env"
    and "(wind_down env ^^ k) w w'"
  shows "k \<le> 2 * card (dom (w_clients w)) + card (dom (w_dropped w)) \<and> (deserted w' \<or> (\<exists>w''. wind_down env w' w''))"
  using wind_down_reach [OF assms(4,3) reachable_inv [OF assms(1,2)]] wind_down_stuck deserted_when_idle
  by (auto simp: work_left_def)

theorem server_comes_to_rest_witness:
  "\<exists>w. wind_down se_env se_closed w \<and> deserted w"
proof -
  obtain cl where "w_clients se_closed = Map.empty" and cl: "w_dropped se_closed = [0 \<mapsto> cl]"
    using se_closed_step(3) by blast
  define w where "w = se_closed\<lparr> w_server := cleanup_task se_env cl (w_server se_closed), w_dropped := (w_dropped se_closed)(0 := None) \<rparr>"
  have w: "wind_down se_env se_closed w" unfolding w_def by (rule wind_down.cleaning) (simp add: cl)
  moreover have "\<nexists>w'. wind_down se_env w w'"
    using \<open>w_clients se_closed = Map.empty\<close> by (auto simp: w_def cl elim!: wind_down.cases)
  ultimately show ?thesis
    using server_comes_to_rest [OF se_server_new se_reach(4) se_env_ok, of 1 w] by auto
qed

section \<open>Logging in\<close>

text \<open>C3: a connection becomes that of a user only by a login request whose name is that of an account and whose password
  has the hash of the account, and its token too where addresses are checked; the account is not banned, its user was
  neither online nor waiting for a clean up.  Then the connection has exactly the rights of that account, the user is
  online, and nobody else has come or gone and no room has changed.\<close>

theorem login_needs_secrets:
  assumes "process_packet env input cl sv = ((r, packets, cl', sv'), rest)"
    and "\<not> cl_authentified cl" and "cl_authentified cl'"
  shows "ph_command (parse_header (take 15 input)) = 0 \<and>
    (\<exists>npid password token d a.
      login_fields (take (unat (ph_size (parse_header (take 15 input)) - HEADER_SIZE)) (drop 15 input)) = (npid, password, token, d) \<and>
      \<not> x_error d \<and> opens_account env sv npid password token a \<and> may_enter sv a \<and> entered sv npid a cl' sv')"
proof -
  let ?h = "parse_header (take 15 input)"
  let ?data = "take (unat (ph_size ?h - HEADER_SIZE)) (drop 15 input)"
  obtain x s where run: "run_command env (ph_command ?h) (request_session cl sv (ph_command ?h) (ph_id ?h) ?data) = (x, s)"
    by fastforce
  have "cl_authentified (s_client s)" and same: "entered sv npid a (s_client s) (s_server s) \<Longrightarrow> entered sv npid a cl' sv'" for npid a
    using assms run
    by (cases x; auto simp: process_packet_def interpret_command_def finish_request_def entered_def Let_def split: if_splits)+
  with run_command_enters [OF run assms(2)] show ?thesis by blast
qed

theorem login_needs_secrets_witness:
  "\<exists>cl' sv'. entered se_server ''ann'' se_account cl' sv' \<and> cl_authentified cl' \<and>
    (\<exists>npid password token a. opens_account se_env se_server npid password token a \<and> may_enter se_server a \<and>
      entered se_server npid a cl' sv')"
proof -
  obtain packets cl sv where
    p: "process_packet se_env se_login (Client_new (V4 [127, 0, 0, 1])) se_server = ((Continue, packets, cl, sv), [])"
    and e: "entered se_server ''ann'' se_account cl sv" by (rule se_entered)
  have "\<not> cl_authentified (Client_new (V4 [127, 0, 0, 1]))" "cl_authentified cl"
    using e by (simp_all add: Client_new_def entered_def)
  from login_needs_secrets [OF p this] this(2) e show ?thesis by blast
qed

end
