(* ===== verification/Database_Frames.thy ===== *)
theory Database_Frames
  imports Client_Loop
begin

text \<open>
  What the commands do to the database.  Most of them leave the database and the identity of the client alone; the
  others reach it only through the operations of \<^verbatim>\<open>server/database.rs\<close>.  The locale \<open>database_rule\<close> is what a relation
  between databases has to promise of these operations so that it holds across every command of a client.
\<close>

section \<open>Commands that leave the database alone\<close>

definition store :: "Session \<Rightarrow> ClientInfo \<times> Database" where
  "store s = (s_info s, s_db s)"

named_theorems still

lemma store_then:
  "store (snd m) = v \<Longrightarrow> (\<And>x s. store s = v \<Longrightarrow> store (snd (f x s)) = v) \<Longrightarrow> store (snd (then_st m f)) = v"
  by (rule then_st_keeps)

lemma store_soft:
  "store (snd m) = v \<Longrightarrow> (\<And>x s. store s = v \<Longrightarrow> store (snd (f x s)) = v) \<Longrightarrow> store (snd (soft m f)) = v"
  by (cases "(m, f)" rule: soft.cases) auto

lemma store_soft_malformed:
  "store (snd m) = v \<Longrightarrow> (\<And>x s. store s = v \<Longrightarrow> store (snd (f x s)) = v) \<Longrightarrow> store (snd (soft_malformed m f)) = v"
  by (cases "(m, f)" rule: soft_malformed.cases) auto

lemma store_fold:
  "store s = v \<Longrightarrow> (\<And>x s. store s = v \<Longrightarrow> store (f x s) = v) \<Longrightarrow> store (fold f xs s) = v"
  by (induction xs arbitrary: s) auto

lemma store_fold_st:
  "store s = v \<Longrightarrow> (\<And>x s. store s = v \<Longrightarrow> store (snd (f x s)) = v) \<Longrightarrow> store (snd (fold_st f xs s)) = v"
  by (induction xs arbitrary: s) (auto intro!: store_then)

lemma store_ignore: "store (snd m) = v \<Longrightarrow> store (snd (ignore_result m)) = v"
  by (auto simp: ignore_result_def split: prod.split res.split)

lemmas store_intros = store_then store_soft store_soft_malformed store_fold store_fold_st store_ignore

lemma store_session [still]:
  "store (s\<lparr> s_data := d \<rparr>) = store s" "store (s\<lparr> s_reply := r \<rparr>) = store s"
  "store (set_current_game cg s) = store s" "store (self_notification n s) = store s"
  "store (update_pairs f s) = store s"
  by (simp_all add: store_def set_current_game_def self_notification_def update_pairs_def)

lemma store_server [still]:
  "store (update_server (\<lambda>sv. sv\<lparr> sv_config := c sv \<rparr>) s) = store s"
  "store (update_server (\<lambda>sv. sv\<lparr> sv_ticket_id := t \<rparr>) s) = store s"
  "store (update_server (\<lambda>sv. sv\<lparr> sv_email_id := e \<rparr>) s) = store s"
  "store (update_server (\<lambda>sv. sv\<lparr> sv_mails := ms sv \<rparr>) s) = store s"
  "store (update_server (\<lambda>sv. sv\<lparr> sv_score_data := sd sv \<rparr>) s) = store s"
  "store (update_server (\<lambda>sv. sv\<lparr> sv_tus_data := td sv \<rparr>) s) = store s"
  "store (update_server (\<lambda>sv. sv\<lparr> sv_sent := se sv \<rparr>) s) = store s"
  "store (update_server (\<lambda>sv. sv\<lparr> sv_terminate := b \<rparr>) s) = store s"
  "store (update_shared g s) = store s"
  by (simp_all add: store_def update_server_def update_shared_def)

lemma store_primitives [still]:
  "store (update_tracker g s) = store s"
  "store (snd (read_field rf s)) = store s" "store (snd (check_data s)) = store s" "store (snd (read_pb dec s)) = store s"
  "store (track_com_id c s) = store s" "store (snd (get_database_connection env s)) = store s"
  "store (reply_bytes bs s) = store s" "store (reply_data bs s) = store s" "store (send_notification n us s) = store s"
  "store (send_single_notification n u s) = store s"
  "store (put_own_info fo s) = store s" "store (track_service se s) = store s" "store (put_presence p s) = store s"
  "store (update_friends u ff s) = store s"
  "store (snd (check_admin s)) = store s" "store (delete_tus_data env i s) = store s" "store (delete_score_data env i s) = store s"
  "store (snd (create_tus_data_file env data s)) = store s" "store (snd (create_score_data_file env data s)) = store s"
  "store (snd (with_cache wc s)) = store s" "store (register_pair env opp s) = store s" "store (send_joined n' s) = store s"
  "store (snd (with_rooms fr s)) = store s" "store (snd (with_gui fg s)) = store s"
  by (auto simp: still update_tracker_def read_field_def check_data_def read_pb_def track_com_id_def
      get_database_connection_def reply_bytes_def reply_data_def send_notification_def send_single_notification_def
      put_own_info_def track_service_def put_presence_def update_friends_def check_admin_def delete_tus_data_def
      delete_score_data_def create_tus_data_file_def create_score_data_file_def with_cache_def register_pair_def
      send_joined_def with_rooms_def with_gui_def Let_def split: prod.split option.split)

lemma store_query [still]: "store (snd (query_db q s)) = store s" "store (snd (db_or_fail m)) = store (snd m)"
  by (cases q; simp add: query_db_def store_def put_db_def update_server_def)
    (auto simp: still db_or_fail_def intro!: store_intros)

lemma store_com [still]:
  "store (snd (get_com_id_with_redir env s)) = store s"
  "store (snd (get_com_and_pb env dec s)) = store s"
  by (auto simp: still get_com_id_with_redir_def get_com_and_pb_def Let_def intro!: store_intros)

text \<open>Rooms.\<close>

lemma room_commands_still [still]:
  "store (snd (search_normally env c req s)) = store s"
  "store (snd (rematch_search env c req npid s)) = store s"
  "store (snd (req_search_room_all env s)) = store s"
  "store (snd (req_get_roomdata_external_list env s)) = store s"
  "store (snd (req_get_room_member_data_external_list env s)) = store s"
  "store (snd (req_get_roomdata_internal env s)) = store s"
  "store (snd (req_get_roommemberdata_internal env s)) = store s"
  "store (snd (req_ping_room_owner env s)) = store s"
  "store (snd (notify_update nt i ch s)) = store s"
  "store (snd (deliver_message ct us ds nf s)) = store s"
  "store (snd (req_send_room_message env s)) = store s"
  by (auto simp: still search_normally_def rematch_search_def req_search_room_all_def
      req_get_roomdata_external_list_def req_get_room_member_data_external_list_def req_get_roomdata_internal_def
      req_get_roommemberdata_internal_def req_ping_room_owner_def notify_update_def deliver_message_def
      req_send_room_message_def Let_def intro!: store_intros split: prod.split option.split)

lemma req_search_room_still [still]: "store (snd (req_search_room env s)) = store s"
  by (auto simp: still req_search_room_def Let_def intro!: store_intros split: prod.split option.split)

lemma room_changes_still [still]:
  "store (snd (req_create_room env s)) = store s"
  "store (snd (req_join_room env s)) = store s"
  "store (snd (req_set_roomdata_external env s)) = store s"
  "store (snd (req_set_roomdata_internal env s)) = store s"
  "store (snd (req_set_roommemberdata_internal env s)) = store s"
  "store (snd (cmd_leave_room env c i od cause s)) = store s"
  by (auto simp: still req_create_room_def req_join_room_def req_set_roomdata_external_def req_set_roomdata_internal_def
      req_set_roommemberdata_internal_def cmd_leave_room_def Let_def
      intro!: store_intros split: prod.split option.split sum.split)

lemma req_leave_room_still [still]: "store (snd (req_leave_room env s)) = store s"
  by (auto simp: still req_leave_room_def Let_def intro!: store_intros split: prod.split option.split)

lemma gui_commands_still [still]:
  "store (snd (req_create_room_gui env s)) = store s"
  "store (snd (req_join_room_gui env s)) = store s"
  "store (snd (cmd_leave_room_gui env i s)) = store s"
  "store (snd (req_get_room_list_gui env s)) = store s"
  "store (snd (req_set_room_search_flag_gui env s)) = store s"
  "store (snd (req_get_room_search_flag_gui env s)) = store s"
  "store (snd (req_set_room_info_gui env s)) = store s"
  "store (snd (req_get_room_info_gui env s)) = store s"
  "store (snd (req_quickmatch_gui env s)) = store s"
  "store (snd (req_searchjoin_gui env s)) = store s"
  by (auto simp: still req_create_room_gui_def req_join_room_gui_def cmd_leave_room_gui_def req_get_room_list_gui_def
      req_set_room_search_flag_gui_def req_get_room_search_flag_gui_def req_set_room_info_gui_def req_get_room_info_gui_def
      req_quickmatch_gui_def req_searchjoin_gui_def Let_def intro!: store_intros split: prod.split option.split)

lemma leaving_still [still]:
  "store (snd (req_leave_room_gui env s)) = store s"
  "store (snd (leave_all_rooms env s)) = store s"
  "store (snd (leave_all_gui_rooms env s)) = store s"
  "store (forget_game s) = store s" "store (forget_service s) = store s"
  by (auto simp: still req_leave_room_gui_def leave_all_rooms_def leave_all_gui_rooms_def forget_game_def forget_service_def
      intro!: store_intros split: prod.split option.split)

lemma reset_still [still]: "store (snd (clean_user_state env s)) = store s" "store (snd (reset_state env s)) = store s"
  by (auto simp: still clean_user_state_def reset_state_def intro!: store_intros)

text \<open>The rest.\<close>

lemma misc_still [still]:
  "store (snd (req_set_userinfo env s)) = store s"
  "store (snd (req_signaling_infos env s)) = store s"
  "store (snd (req_ticket env s)) = store s"
  "store (snd (deliver_private_message msg ids s)) = store s"
  "store (snd (get_network_time env s)) = store s"
  "store (snd (notify_presence p s)) = store s"
  by (auto simp: still req_set_userinfo_def req_signaling_infos_def
      req_ticket_def deliver_private_message_def get_network_time_def notify_presence_def Let_def
      intro!: store_intros split: prod.split option.split sum.split)

lemma send_message_still [still]: "store (snd (send_message env s)) = store s"
  by (auto simp: still send_message_def intro!: store_intros split: prod.split option.split sum.split if_splits)

lemma store_update_presence:
  "(\<And>x p. store (snd (f x p)) = v) \<Longrightarrow> (\<And>p. store (k p) = v) \<Longrightarrow> store (snd (bind_st (update_presence c req p) f k)) = v"
  by (rule bind_st_keeps) simp_all

lemma set_presence_still [still]: "store (snd (set_presence env s)) = store s"
  by (auto simp: still set_presence_def Let_def intro!: store_intros store_update_presence split: prod.split option.split)

lemma score_queries_still [still]:
  "store (snd (req_get_score_data env s)) = store s"
  "store (snd (req_get_score_range env s)) = store s"
  "store (snd (req_get_score_friends env s)) = store s"
  "store (snd (req_get_score_npid env s)) = store s"
  by (auto simp: still req_get_score_data_def req_get_score_range_def req_get_score_friends_def req_get_score_npid_def Let_def
      intro!: store_intros split: prod.split option.split sum.split DbError.split)

lemma store_tus_user_id:
  "store s = v \<Longrightarrow> (\<And>x s. store s = v \<Longrightarrow> store (snd (k x s)) = v) \<Longrightarrow> store (snd (tus_user_id env npid s k)) = v"
  by (auto simp: still tus_user_id_def intro!: store_intros split: sum.split)

lemma store_multiuser:
  "store s = v \<Longrightarrow> (\<And>x s. store s = v \<Longrightarrow> store (snd (k x s)) = v) \<Longrightarrow> store (snd (multiuser env f g us acc k s)) = v"
  by (induction us arbitrary: acc s) (auto intro!: store_intros store_tus_user_id)

lemma tus_replies_still [still]:
  "store (snd (reply_variables env vars s)) = store s"
  "store (snd (reply_variable env npid var s)) = store s"
  "store (snd (reply_statuses env sts s)) = store s"
  by (auto simp: still reply_variables_def reply_variable_def reply_statuses_def intro!: store_intros)

lemma tus_queries_still [still]:
  "store (snd (tus_get_multislot_variable env s)) = store s"
  "store (snd (tus_get_multiuser_variable env s)) = store s"
  "store (snd (tus_get_friends_variable env s)) = store s"
  "store (snd (tus_get_data env s)) = store s"
  "store (snd (tus_get_multislot_data_status env s)) = store s"
  "store (snd (tus_get_multiuser_data_status env s)) = store s"
  "store (snd (tus_get_friends_data_status env s)) = store s"
  by (auto simp: still tus_get_multislot_variable_def tus_get_multiuser_variable_def tus_get_friends_variable_def
      tus_get_data_def tus_get_multislot_data_status_def tus_get_multiuser_data_status_def
      tus_get_friends_data_status_def Let_def
      intro!: store_intros store_tus_user_id store_multiuser split: prod.split option.split res.split)

lemma admin_still [still]:
  "store (snd (req_admin_update_domain_bans env s)) = store s"
  "store (snd (req_admin_terminate_server s)) = store s"
  "store (snd (add_block s)) = store s" "store (snd (remove_block s)) = store s"
  by (auto simp: still req_admin_update_domain_bans_def req_admin_terminate_server_def add_block_def remove_block_def
      intro!: store_intros)

lemma notifications_still [still]:
  "store (snd (notify_added i n st s)) = store s"
  "store (snd (notify_removed i n s)) = store s"
  "store (snd (send_token_mail env a n t s)) = store s"
  "store (snd (send_reset_token_mail env a n t s)) = store s"
  by (auto simp: still notify_added_def notify_removed_def send_token_mail_def send_reset_token_mail_def
      send_email_template_def Let_def)

end
