(* ===== verification/Database_Rules.thy ===== *)
theory Database_Rules
  imports Database_Frames
begin

text \<open>
  The contract between the commands and the database.  A relation between the database before and after, for the client
  who acts, that is reflexive and transitive and holds of every operation as the commands call it (with the client's own
  number as owner and as author, and the operations of the administrators for administrators only) holds of every command.
\<close>

section \<open>The contract\<close>

locale database_rule =
  fixes R :: "ClientInfo \<Rightarrow> Database \<Rightarrow> Database \<Rightarrow> bool"
  assumes refl: "R c db db"
    and trans: "R c db db' \<Longrightarrow> R c db' db'' \<Longrightarrow> R c db db''"
    and places: "R c db (snd (get_server_list sql db com b))" "R c db (snd (get_world_list sql db com sid b))"
    and friends: "R c db (snd (set_rel_status sql db (ci_user_id c) v su st))"
    and boards: "R c db (snd (db_get_board_infos sql db com board b))"
    and score: "sc_user_id score = ci_user_id c \<Longrightarrow> R c db (snd (db_record_score sql db com board score b))"
    and score_data: "R c db (snd (set_score_data sql db com (ci_user_id c) pc board points i))"
    and own_vars: "R c db (snd (tus_set_user_variable sql db com (ci_user_id c) slot v (ci_user_id c) ts))"
      "R c db (snd (tus_add_and_get_user_variable sql db com (ci_user_id c) slot v (ci_user_id c) ts ct ca))"
      "R c db (snd (tus_try_and_set_user_variable sql db com (ci_user_id c) slot v (ci_user_id c) ts cv co ct ca))"
      "R c db (snd (tus_delete_user_variable_with_slotlist sql db com (ci_user_id c) slots))"
    and vuser_vars: "R c db (snd (tus_set_vuser_variable sql db com vu slot v (ci_user_id c) ts))"
      "R c db (snd (tus_add_and_get_vuser_variable sql db com vu slot v (ci_user_id c) ts ct ca))"
      "R c db (snd (tus_try_and_set_vuser_variable sql db com vu slot v (ci_user_id c) ts cv co ct ca))"
      "R c db (snd (tus_delete_vuser_variable_with_slotlist sql db com vu slots))"
    and own_data: "R c db (snd (tus_set_user_data sql db com (ci_user_id c) slot i info (ci_user_id c) ts ct ca))"
      "R c db (snd (tus_delete_user_data_with_slotlist sql db com (ci_user_id c) slots))"
    and vuser_data: "R c db (snd (tus_set_vuser_data sql db com vu slot i info (ci_user_id c) ts ct ca))"
      "R c db (snd (tus_delete_vuser_data_with_slotlist sql db com vu slots))"
    and admin: "ci_admin c \<Longrightarrow> R c db (snd (update_servers_cfg sql file db))"
      "ci_admin c \<Longrightarrow> R c db (snd (ban_user sql db u))" "ci_admin c \<Longrightarrow> R c db (snd (delete_user de db u n ec))"

text \<open>The session of a client who has changed the database only as the relation allows.\<close>

definition under :: "(ClientInfo \<Rightarrow> Database \<Rightarrow> Database \<Rightarrow> bool) \<Rightarrow> ClientInfo \<Rightarrow> Database \<Rightarrow> Session \<Rightarrow> bool" where
  "under R c db s \<longleftrightarrow> s_info s = c \<and> R c db (s_db s)"

lemma under_store: "store s' = store s \<Longrightarrow> under R c db s' = under R c db s"
  by (simp add: under_def store_def)

lemmas under_still = still [THEN under_store]

lemma under_then:
  "under R c db (snd m) \<Longrightarrow> (\<And>x s. under R c db s \<Longrightarrow> under R c db (snd (f x s))) \<Longrightarrow> under R c db (snd (then_st m f))"
  by (rule then_st_keeps)

lemma under_fold:
  "under R c db s \<Longrightarrow> (\<And>x s. under R c db s \<Longrightarrow> under R c db (f x s)) \<Longrightarrow> under R c db (fold f xs s)"
  by (induction xs arbitrary: s) auto

lemma under_user_id:
  "under R c db s \<Longrightarrow> (\<And>x s. under R c db s \<Longrightarrow> under R c db (snd (k x s))) \<Longrightarrow> under R c db (snd (tus_user_id env npid s k))"
  "under R c db s \<Longrightarrow> (\<And>x s. under R c db s \<Longrightarrow> under R c db (snd (k x s))) \<Longrightarrow> under R c db (snd (other_user env npid s k))"
  by (auto simp: under_still tus_user_id_def other_user_def intro!: under_then split: sum.split)

lemma under_own_id:
  assumes "under R c db s" and "\<And>s. under R c db s \<Longrightarrow> under R c db (snd (k (ci_user_id c) s))"
  shows "under R c db (snd (tus_own_id env npid s k))"
  unfolding tus_own_id_def
proof (rule under_user_id(1) [OF assms(1)])
  fix x s
  assume s: "under R c db s"
  then have "s_user s = ci_user_id c" by (simp add: under_def)
  then show "under R c db (snd (if x \<noteq> s_user s then (Ok Unauthorized, s) else k x s))"
    using s assms(2) [OF s] by simp
qed

lemma under_soft:
  "under R c db (snd m) \<Longrightarrow> (\<And>x s. under R c db s \<Longrightarrow> under R c db (snd (f x s))) \<Longrightarrow> under R c db (snd (soft m f))"
  by (cases "(m, f)" rule: soft.cases) auto

lemmas under_intros = under_then under_soft under_fold under_user_id under_own_id

context database_rule
begin

lemma put: "under R c db s \<Longrightarrow> R c (s_db s) db' \<Longrightarrow> under R c db (put_db db' s)"
  by (auto simp: under_def put_db_def update_server_def elim: trans)

lemma written: "under R c db s \<Longrightarrow> R c (s_db s) (snd r) \<Longrightarrow> under R c db (snd (with_db r s))"
  by (cases "(r, s)" rule: with_db.cases) (auto intro: put)

lemma caller: "under R c db s \<Longrightarrow> s_user s = ci_user_id c" "under R c db s \<Longrightarrow> s_info s = c"
  by (simp_all add: under_def)

lemma store_tus_data_under:
  assumes "under R c db s" and "\<And>i db. R c db (snd (set_data i db))"
  shows "under R c db (snd (store_tus_data env data check set_data s))"
  using assms
  by (auto simp: under_still store_tus_data_def intro!: under_intros written split: option.split sum.split)

lemma tus_under:
  assumes "under R c db s"
  shows "under R c db (snd (tus_set_multislot_variable env s))" "under R c db (snd (tus_add_and_get_variable env s))"
    "under R c db (snd (tus_try_and_set_variable env s))" "under R c db (snd (tus_delete_multislot_variable env s))"
    "under R c db (snd (tus_set_data env s))" "under R c db (snd (tus_delete_multislot_data env s))"
  using assms
  by (auto simp: under_still tus_set_multislot_variable_def tus_add_and_get_variable_def tus_try_and_set_variable_def
      tus_delete_multislot_variable_def tus_set_data_def tus_delete_multislot_data_def Let_def caller
      intro!: under_intros written put store_tus_data_under own_vars vuser_vars own_data vuser_data
      split: prod.split option.split)

lemma queries_under:
  assumes "under R c db s"
  shows "under R c db (snd (req_get_server_list env s))" "under R c db (snd (req_get_world_list env s))"
    "under R c db (snd (req_get_board_infos env s))"
  using assms
  by (auto simp: under_still req_get_server_list_def req_get_world_list_def req_get_board_infos_def Let_def
      intro!: under_intros written places boards split: prod.split option.split sum.split)

lemma cached_under:
  assumes "under R c db s" and "\<And>x s. under R c db s \<Longrightarrow> under R c db (snd (f x s))" and "\<And>e s. under R c db s \<Longrightarrow> under R c db (snd (g e s))"
    and "\<And>s. under R c db s \<Longrightarrow> under R c db (snd (h s))"
  shows "under R c db (snd (case with_cache op s of (Ok x, s) \<Rightarrow> f x s | (Err e, s) \<Rightarrow> g e s | (Panic, s) \<Rightarrow> h s))"
proof -
  have "under R c db (snd (with_cache op s))" using assms(1) by (simp add: under_still)
  with assms show ?thesis by (auto split: prod.split res.split)
qed

lemma scores_under:
  assumes "under R c db s"
  shows "under R c db (snd (req_record_score env s))" "under R c db (snd (req_record_score_data env s))"
  using assms
  by (auto simp: under_still req_record_score_def req_record_score_data_def Let_def caller
      intro!: under_intros written score score_data cached_under split: prod.split option.split sum.split DbError.split)

lemma friends_under:
  assumes "under R c db s"
  shows "under R c db (snd (add_friend env s))" "under R c db (snd (remove_friend env s))"
  using assms
  by (auto simp: under_still add_friend_def remove_friend_def Let_def caller
      intro!: under_intros written friends split: prod.split sum.split)

lemma check_admin_under:
  "under R c db s \<Longrightarrow> (\<And>s. ci_admin c \<Longrightarrow> under R c db s \<Longrightarrow> under R c db (snd (f () s))) \<Longrightarrow> under R c db (snd (then_st (check_admin s) f))"
  by (auto simp: check_admin_def caller)

lemma admin_under:
  assumes "under R c db s"
  shows "under R c db (snd (req_admin_update_servers_cfg env s))" "under R c db (snd (req_admin_ban_user env s))"
    "under R c db (snd (req_admin_del_user env s))"
  unfolding req_admin_update_servers_cfg_def req_admin_ban_user_def req_admin_del_user_def
  by (rule check_admin_under [OF assms]; auto simp: under_still intro!: under_intros written admin split: prod.split sum.split)+

theorem process_authentified_rule:
  "R (s_info s) (s_db s) (s_db (snd (process_authentified env command s)))"
proof -
  have start: "under R (s_info s) (s_db s) s" by (simp add: under_def refl)
  have "under R (s_info s) (s_db s) (snd (process_authentified env command s))"
    using tus_under [OF start] queries_under [OF start] scores_under [OF start] friends_under [OF start] admin_under [OF start]
    by (cases command) (simp_all add: process_authentified_def under_still start)
  then show ?thesis by (simp add: under_def)
qed

text \<open>One packet of a client who is logged in, and a clean up, which does not touch the database.\<close>

lemma process_packet_rule:
  assumes "cl_authentified cl" and "process_packet env input cl sv = ((r, packets, cl', sv'), rest)"
  shows "R (cl_client_info cl) (sv_db sv) (sv_db sv')"
proof -
  have run: "R (s_info s) (s_db s) (s_db (snd (run_command env n s)))" if "cl_authentified (s_client s)" for n s
    using that process_authentified_rule refl
    by (auto simp: run_command_def process_command_def split: option.split)
  have "R (cl_client_info cl) (sv_db sv) (sv_db (snd (snd (snd (interpret_command env n i data cl sv)))))" for n i data
    using run [of "request_session cl sv n i data" n] assms(1)
    by (auto simp: interpret_command_def finish_request_def request_session_def split: prod.split res.split)
  with assms(2) refl show ?thesis
    by (auto simp: process_packet_def Let_def split: if_splits) (metis snd_conv)
qed

end

lemma cleanup_task_db: "sv_db (cleanup_task env cl sv) = sv_db sv"
proof -
  obtain r s1 where run: "clean_user_state env (request_session (cl\<lparr> cl_authentified := False \<rparr>) sv 0 0 []) = (r, s1)" by fastforce
  have "store (snd (clean_user_state env s)) = store s" for s by (simp add: still)
  from this [of "request_session (cl\<lparr> cl_authentified := False \<rparr>) sv 0 0 []"] have "s_db s1 = sv_db sv"
    by (simp add: run store_def) (simp add: request_session_def)
  moreover have "s_db (go_offline env s) = s_db s" for s
    by (simp add: go_offline_def Let_def send_notification_def update_tracker_def update_shared_def update_server_def)
  ultimately show ?thesis
    by (cases r) (auto simp: cleanup_task_def run set_cleanup_duty_def Let_def)
qed

end
