(* ===== verification/Database_Properties.thy ===== *)
theory Database_Properties
  imports Database_Rules Database_Wf Server_Example Score_Load
begin

text \<open>
  Two relations that fulfil the contract of the commands: the integrity of the database is kept, and a client changes no
  row of anybody else.  With the start of the server, the logins and the tasks in the background the first holds in every
  reachable state.
\<close>

section \<open>Integrity\<close>

interpretation integrity: database_rule "\<lambda>_ db db'. db_wf db \<longrightarrow> db_wf db'"
  by unfold_locales (simp_all add: wf_intros)

lemma wf_then_st:
  "db_wf (s_db (snd m)) \<Longrightarrow> (\<And>x s. db_wf (s_db s) \<Longrightarrow> db_wf (s_db (snd (f x s)))) \<Longrightarrow> db_wf (s_db (snd (then_st m f)))"
  by (rule then_st_keeps)

lemma wf_store: "store s' = store s \<Longrightarrow> db_wf (s_db s') = db_wf (s_db s)"
  by (simp add: store_def)

lemmas wf_still = still [THEN wf_store]

lemma wf_with_db: "db_wf (snd r) \<Longrightarrow> db_wf (s_db (snd (with_db r s)))"
  by (cases "(r, s)" rule: with_db.cases) (simp_all add: put_db_def update_server_def)

lemma enter_user_db: "s_db (enter_user npid u rels s) = s_db s"
  by (simp add: enter_user_def update_tracker_def update_shared_def update_server_def reply_bytes_def Let_def)

lemma mail_wf:
  "send_token_mail env a n t s = (b, s') \<Longrightarrow> db_wf (s_db s') = db_wf (s_db s)"
  "send_reset_token_mail env a n t s = (b, s') \<Longrightarrow> db_wf (s_db s') = db_wf (s_db s)"
  by (metis notifications_still(3,4) snd_conv wf_store)+

lemma login_wf: "db_wf (s_db s) \<Longrightarrow> db_wf (s_db (snd (login env s)))"
  by (auto simp: login_def login_user_def Let_def wf_still enter_user_db
      intro!: wf_then_st wf_with_db wf_intros split: sum.split)

lemma account_commands_wf:
  assumes "db_wf (s_db s)"
  shows "db_wf (s_db (snd (create_account env s)))" "db_wf (s_db (snd (delete_account env s)))"
    "db_wf (s_db (snd (resend_token env s)))" "db_wf (s_db (snd (send_reset_token env s)))"
    "db_wf (s_db (snd (reset_password env s)))"
  using assms
  by (auto simp: create_account_def delete_account_def resend_token_def send_reset_token_def reset_password_def Let_def wf_still
      intro!: wf_then_st wf_with_db wf_intros dest!: mail_wf
      split: prod.split option.split sum.split DbError.split bool.split)

lemma process_packet_wf:
  assumes "process_packet env input cl sv = ((r, packets, cl', sv'), rest)" and "db_wf (sv_db sv)"
  shows "db_wf (sv_db sv')"
proof (cases "cl_authentified cl")
  case True
  then show ?thesis using integrity.process_packet_rule [OF True assms(1)] assms(2) by simp
next
  case False
  have run: "db_wf (s_db (snd (run_command env n s)))" if "\<not> cl_authentified (s_client s)" "db_wf (s_db s)" for n s
    using that login_wf account_commands_wf
    by (auto simp: run_command_def process_command_def process_unauthentified_def split: option.split CommandType.split)
  have "db_wf (sv_db (snd (snd (snd (interpret_command env n i data cl sv)))))" for n i data
    using run [of "request_session cl sv n i data" n] False assms(2)
    by (auto simp: interpret_command_def finish_request_def request_session_def split: prod.split res.split)
  with assms show ?thesis
    by (auto simp: process_packet_def Let_def split: if_splits) (metis snd_conv)
qed

lemma admin_action_wf:
  assumes "db_wf (sv_db sv)"
  shows "db_wf (sv_db (snd (run_admin_action env body BanAction sv)))"
  using assms
  by (auto simp: run_admin_action_def ok_or_def split_beta split: option.split intro!: wf_then wf_intros)

lemma ban_wf: "db_wf (sv_db sv) \<Longrightarrow> db_wf (sv_db (snd (ban env body sv)))"
  unfolding ban_def
  by (rule then_st_keeps [where P = "\<lambda>sv. db_wf (sv_db sv)"]) (simp_all add: admin_action_wf Let_def)

lemma cleaner_task_wf: "db_wf (sv_db sv) \<Longrightarrow> db_wf (sv_db (cleaner_task env sv))"
  by (auto simp: cleaner_task_def Let_def intro!: wf_intros)

lemma server_step_wf: "server_step w w' \<Longrightarrow> db_wf (sv_db (w_server w)) \<Longrightarrow> db_wf (sv_db (w_server w'))"
  by (induction rule: server_step.induct)
    (auto simp: lose_client_def drop_client_def set_cleanup_duty_def cleanup_task_db ban_wf cleaner_task_wf
      handle_socket_input_def update_signaling_information_def Let_def dest: process_packet_wf split: option.split)

lemma Server_new_wf:
  assumes "Server_new env config disk = Ok sv" and "db_wf (dk_database disk)"
  shows "db_wf (sv_db sv)"
proof -
  let ?db = "initialize_database env config (dk_database disk)"
  let ?db1 = "snd (start_score (e_sql env) (e_psn_time env) (dk_scoreboards disk) ?db)"
  have "sv_db sv = snd (cleanup_never_used_accounts (e_dbe env) ?db1)"
    using assms(1) by (auto simp: Server_new_def fresh_server_def Let_def split_beta split: if_splits)
  moreover have "db_wf ?db1"
    unfolding initialize_database_def using assms(2) by (intro start_score_wf wf_intros)
  ultimately show ?thesis by (simp add: wf_intros)
qed

interpretation wfs: invariant_system "World_new sv" server_step "\<lambda>w. db_wf (sv_db sv) \<longrightarrow> db_wf (sv_db (w_server w))" for sv
  by unfold_locales (auto simp: World_new_def intro: server_step_wf)

text \<open>C6: the database keeps its shape.  If the tables the server finds on disk respect their keys, their uniqueness and
  their references (accounts, time stamps, friendships, servers, worlds, lobbies, boards, scores and the four tables of the
  title user storage), then so do the tables after every sequence of commands, logins, registrations, deletions,
  administrative actions and cleanings.\<close>

theorem database_stays_wellformed:
  assumes "Server_new env config disk = Ok sv" and "db_wf (dk_database disk)" and "reach server_step (World_new sv) w"
  shows "db_wf (sv_db (w_server w))"
  using wfs.reach_inv [OF assms(3)] Server_new_wf [OF assms(1,2)] by simp

theorem database_stays_wellformed_witness: "db_wf (dk_database se_disk) \<and> db_wf (sv_db (w_server se_closed))"
proof -
  have "db_wf (dk_database se_disk)"
    unfolding se_disk_def se_database_def by (simp add: wf_intros wf_new_database)
  with database_stays_wellformed [OF se_server_new this se_reach(4)] show ?thesis by blast
qed

section \<open>Ownership\<close>

text \<open>The accounts with all that belongs to them, and everything that names another user only, are as before.\<close>

definition others_kept :: "i64 \<Rightarrow> Database \<Rightarrow> Database \<Rightarrow> bool" where
  "others_kept u db db' \<longleftrightarrow> db_account db' = db_account db \<and> db_account_timestamp db' = db_account_timestamp db \<and>
    db_username_hash db' = db_username_hash db \<and> db_email_hash db' = db_email_hash db \<and>
    filter (\<lambda>f. fr_user_id_1 f \<noteq> u \<and> fr_user_id_2 f \<noteq> u) (db_friendship db') =
      filter (\<lambda>f. fr_user_id_1 f \<noteq> u \<and> fr_user_id_2 f \<noteq> u) (db_friendship db) \<and>
    filter (\<lambda>r. sc_user_id (sr_score r) \<noteq> u) (db_score db') = filter (\<lambda>r. sc_user_id (sr_score r) \<noteq> u) (db_score db) \<and>
    filter (\<lambda>r. tv_owner r \<noteq> u) (db_tus_var db') = filter (\<lambda>r. tv_owner r \<noteq> u) (db_tus_var db) \<and>
    filter (\<lambda>r. tr_owner r \<noteq> u) (db_tus_data db') = filter (\<lambda>r. tr_owner r \<noteq> u) (db_tus_data db)"

lemma filter_update:
  "(\<And>r. P r \<Longrightarrow> \<not> keep r \<and> \<not> keep (f r)) \<Longrightarrow> filter keep (update_where P f t) = filter keep t"
  by (induction t) (auto simp: update_where_def)

lemma filter_delete: "(\<And>r. P r \<Longrightarrow> \<not> keep r) \<Longrightarrow> filter keep (delete_where P t) = filter keep t"
  by (induction t) (auto simp: delete_where_def)

lemma filter_replace:
  "(\<And>r. key r = key row \<Longrightarrow> \<not> keep r) \<Longrightarrow> filter keep (replace_into key row t) = filter keep t"
  by (simp add: replace_into_def filter_delete)

lemma filter_upsert:
  assumes "\<And>r. key r = key row \<Longrightarrow> \<not> keep r" and "\<And>r. key (upd r) = key r"
  shows "filter keep (snd (upsert key upd cond row t)) = filter keep t"
  using assms by (auto simp: upsert_def filter_update split: option.split)

lemma filter_upsert_var:
  assumes "\<And>r. tv_key r = tv_key row \<Longrightarrow> \<not> keep r" and "\<And>new old. tv_key (upd new old) = tv_key old"
  shows "upsert_var fk upd cond row t = Some (r, t') \<Longrightarrow> filter keep t' = filter keep t"
    "filter keep (snd (upsert_and_get sql name fk upd cond row t)) = filter keep t"
proof -
  show up: "filter keep t' = filter keep t" if "upsert_var fk upd cond row t = Some (r, t')" for r t'
    using that filter_upsert [of tv_key row keep "upd row" cond t] assms
    by (auto simp: upsert_var_def split: prod.splits option.splits if_splits)
  then show "filter keep (snd (upsert_and_get sql name fk upd cond row t)) = filter keep t"
    by (auto simp: upsert_and_get_def split: option.split prod.split)
qed

lemma filter_upsert_data:
  assumes "\<And>r. tr_key r = tr_key row \<Longrightarrow> \<not> keep r"
  shows "filter keep (snd (upsert_data sql name fk ct ca row t)) = filter keep t"
  using filter_upsert [of tr_key row keep "set_data_row row" _ t] assms
  by (auto simp: upsert_data_def datas.key_upd split: option.split prod.split) (metis snd_conv)

text \<open>The operations of the commands.\<close>

lemma others_then:
  "others_kept u db (snd m) \<Longrightarrow> (\<And>x db'. others_kept u db db' \<Longrightarrow> others_kept u db (snd (f x db'))) \<Longrightarrow> others_kept u db (snd (then_st m f))"
  by (rule then_st_keeps)

lemma places_others:
  "others_kept u db (snd (get_server_list sql db com b))" "others_kept u db (snd (get_world_list sql db com sid b))"
  "others_kept u db (snd (db_get_board_infos sql db com board b))"
proof -
  have refl: "others_kept u db db" by (simp add: others_kept_def)
  have new: "others_kept u db (snd (create_server sql db' com 1))" "others_kept u db (snd (insert_world sql c sid wid db'))"
    "others_kept u db (snd (create_score_board sql db' com board))" if "others_kept u db db'" for c wid db'
    using that by (simp_all add: create_server_def insert_server_def insert_world_def create_score_board_def others_kept_def Let_def)
  show "others_kept u db (snd (get_server_list sql db com b))" "others_kept u db (snd (get_world_list sql db com sid b))"
    "others_kept u db (snd (db_get_board_infos sql db com board b))"
    by (auto simp: get_server_list_def get_world_list_def db_get_board_infos_def refl new
        intro!: others_then split: res.split DbError.split)
qed

lemma friends_others: "others_kept u db (snd (set_rel_status sql db u v su st))"
  by (auto simp: set_rel_status_def get_ordered_userids_def others_kept_def fr_key_def Let_def intro!: filter_replace)

lemma scores_others:
  "sc_user_id score = u \<Longrightarrow> others_kept u db (snd (db_record_score sql db com board score b))"
  "others_kept u db (snd (set_score_data sql db com u pc board points i))"
proof -
  assume u: "sc_user_id score = u"
  let ?row = "\<lparr> sr_table = (com_id_to_string com, board), sr_score = score\<lparr> sc_data_id := None \<rparr> \<rparr>"
  have "filter (\<lambda>r. sc_user_id (sr_score r) \<noteq> u) (snd (upsert sr_key (set_score_row ?row) cond ?row t)) =
    filter (\<lambda>r. sc_user_id (sr_score r) \<noteq> u) t" for cond t
    by (rule filter_upsert) (auto simp: sr_key_def set_score_row_def u)
  then have "filter (\<lambda>r. sc_user_id (sr_score r) \<noteq> u) t' = filter (\<lambda>r. sc_user_id (sr_score r) \<noteq> u) t"
    if "upsert sr_key (set_score_row ?row) cond ?row t = (x, t')" for cond t x t'
    using that by (metis snd_conv)
  then show "others_kept u db (snd (db_record_score sql db com board score b))"
    unfolding db_record_score_def Let_def
    by (intro others_then [OF places_others(3)]) (auto simp: others_kept_def split: prod.split option.split)
next
  show "others_kept u db (snd (set_score_data sql db com u pc board points i))"
    by (auto simp: set_score_data_def others_kept_def sr_key_def Let_def intro!: filter_update)
qed

lemma own_variables_others:
  "others_kept u db (snd (tus_set_user_variable sql db com u slot v a ts))"
  "others_kept u db (snd (tus_add_and_get_user_variable sql db com u slot v a ts ct ca))"
  "others_kept u db (snd (tus_try_and_set_user_variable sql db com u slot v a ts cv co ct ca))"
  "others_kept u db (snd (tus_delete_user_variable_with_slotlist sql db com u slots))"
  by (auto simp: tus_set_user_variable_def tus_add_and_get_user_variable_def tus_try_and_set_user_variable_def
      tus_delete_user_variable_with_slotlist_def execute_def others_kept_def split_beta vars.key_upd adds.key_upd
      intro!: filter_upsert_var(2) filter_delete elim!: filter_upsert_var(1) [rotated 2] split: option.split)
    (auto simp: tv_key_def var_row_def)

lemma own_data_others:
  "others_kept u db (snd (tus_set_user_data sql db com u slot i info a ts ct ca))"
  "others_kept u db (snd (tus_delete_user_data_with_slotlist sql db com u slots))"
  by (auto simp: tus_set_user_data_def tus_delete_user_data_with_slotlist_def execute_def others_kept_def split_beta
      tr_key_def data_row_def intro!: filter_upsert_data filter_delete)

lemma vuser_others:
  "others_kept u db (snd (tus_set_vuser_variable sql db com vu slot v a ts))"
  "others_kept u db (snd (tus_add_and_get_vuser_variable sql db com vu slot v a ts ct ca))"
  "others_kept u db (snd (tus_try_and_set_vuser_variable sql db com vu slot v a ts cv co ct ca))"
  "others_kept u db (snd (tus_delete_vuser_variable_with_slotlist sql db com vu slots))"
  "others_kept u db (snd (tus_set_vuser_data sql db com vu slot i info a ts ct ca))"
  "others_kept u db (snd (tus_delete_vuser_data_with_slotlist sql db com vu slots))"
  by (auto simp: tus_set_vuser_variable_def tus_add_and_get_vuser_variable_def tus_try_and_set_vuser_variable_def
      tus_delete_vuser_variable_with_slotlist_def tus_set_vuser_data_def tus_delete_vuser_data_with_slotlist_def
      execute_def others_kept_def split_beta split: option.split)

interpretation ownership: database_rule "\<lambda>c db db'. ci_admin c \<or> others_kept (ci_user_id c) db db'"
  by unfold_locales
    (auto simp: places_others friends_others scores_others own_variables_others own_data_others vuser_others,
      simp_all add: others_kept_def)

text \<open>C4: a client who is logged in and is not an administrator changes, whatever they send, no account and no time stamp of
  an account, no friendship between two other users, no score of another user and no title user storage another user
  owns.\<close>

theorem commands_respect_owners:
  assumes "process_packet env input cl sv = ((r, packets, cl', sv'), rest)"
    and "cl_authentified cl" and "\<not> ci_admin (cl_client_info cl)"
  shows "others_kept (ci_user_id (cl_client_info cl)) (sv_db sv) (sv_db sv')"
  using ownership.process_packet_rule [OF assms(2,1)] assms(3) by simp

theorem commands_respect_owners_witness:
  "\<exists>cl r packets cl' sv' rest. process_packet se_env se_make_room cl (w_server se_logged_in) = ((r, packets, cl', sv'), rest) \<and>
    cl_authentified cl \<and> others_kept 2 (sv_db (w_server se_logged_in)) (sv_db sv')"
proof -
  obtain cl :: Client where cl: "cl_authentified cl" "cl_client_info cl = login_info ''ann'' se_account"
    using se_logged_in_step(2) unfolding entered_def by blast
  obtain r packets cl' sv' rest where
    p: "process_packet se_env se_make_room cl (w_server se_logged_in) = ((r, packets, cl', sv'), rest)" by (metis prod.exhaust)
  have "\<not> ci_admin (cl_client_info cl)" "ci_user_id (cl_client_info cl) = 2"
    by (simp_all add: cl login_info_def se_account_def)
  with commands_respect_owners [OF p cl(1)] p cl(1) show ?thesis by metis
qed

end
