(* ===== verification/Storage_Properties.thy ===== *)
theory Storage_Properties
  imports Database_Wf Server_Example
begin

text \<open>
  The variables of the title user storage after a command that adds to one, and what an administrator can do over HTTP.
\<close>

section \<open>Adding to a variable\<close>

definition var_info :: "u64 \<Rightarrow> i64 \<Rightarrow> i64 \<Rightarrow> DbTusVarInfo" where
  "var_info timestamp author_id v = \<lparr> vi_timestamp = timestamp, vi_author_id = author_id, vi_variable = v \<rparr>"

text \<open>A sum out of the range of 64 bits is kept as a floating point number, which no read accepts.\<close>

lemma sql_add_overflow: "sql_add (SqlInt (2 ^ 63 - 1)) (SqlInt 1) = SqlReal (2 ^ 63)"
proof -
  have fl: "floorlog 2 (nat (2 ^ 63 - 1)) = 63" "floorlog 2 (nat (2 ^ 63 + 1)) = 64"
    by (rule antisym [OF floorlog_leI floorlog_geI]; simp)+
  have "round53 (2 ^ 63 - 1) = 2 ^ 63" "round53 (2 ^ 63 + 1) = 2 ^ 63"
    using fl by (simp_all add: round53_def Let_def)
  then show ?thesis by (simp add: in_i64_def sql_store_def)
qed

lemma add_upsert:
  fixes d :: i64 and ts :: u64
  assumes "\<forall>n. sql n" and "u \<in> user_ids db" and "a \<in> user_ids db"
    and row: "row_of tv_key (db_tus_var db) (u, com, slot) = Some r"
    and c: "prepare_cond_string ct ca (tv_timestamp r) (tv_author r)"
  defines "new \<equiv> add_var (var_row u com slot d a ts) r"
  shows "fst (tus_add_and_get_user_variable sql db com u slot d a ts ct ca) = read_var new"
    "row_of tv_key (db_tus_var (snd (tus_add_and_get_user_variable sql db com u slot d a ts ct ca))) k =
      (if k = (u, com, slot) then Some new else row_of tv_key (db_tus_var db) k)"
proof -
  let ?row = "var_row u com slot d a ts"
  let ?cond = "\<lambda>r. prepare_cond_string ct ca (tv_timestamp r) (tv_author r)"
  have key: "tv_key ?row = (u, com, slot)" by (simp add: tv_key_def var_row_def)
  have up: "fst (upsert tv_key (add_var ?row) ?cond ?row (db_tus_var db)) = Some new"
    using adds.upsert_returns [of ?row ?cond "db_tus_var db"] row c by (simp add: key new_def)
  have owner: "tv_owner r = u" using row_of_Some [OF row] by (simp add: tv_key_def)
  then have fk: "user_fk db new" using assms(2,3) by (simp add: user_fk_def account_exists_ids new_def add_var_def var_row_def)
  have look: "row_of tv_key (snd (upsert tv_key (add_var ?row) ?cond ?row (db_tus_var db))) k =
      (if k = (u, com, slot) then Some new else row_of tv_key (db_tus_var db) k)"
    using adds.upsert_lookup [of ?row ?cond "db_tus_var db" k] row c by (simp add: key new_def)
  show "fst (tus_add_and_get_user_variable sql db com u slot d a ts ct ca) = read_var new"
    "row_of tv_key (db_tus_var (snd (tus_add_and_get_user_variable sql db com u slot d a ts ct ca))) k =
      (if k = (u, com, slot) then Some new else row_of tv_key (db_tus_var db) k)"
    using up look fk assms(1)
    by (cases "upsert tv_key (add_var ?row) ?cond ?row (db_tus_var db)";
        simp add: tus_add_and_get_user_variable_def upsert_and_get_def upsert_var_def)+
qed

text \<open>C18: adding to a variable a user has, under the conditions of the request.  Where they do not hold, the variable that is
  there is given back and nothing changes.  Where they hold and the sum is a 64 bit integer, the sum is stored with its
  author and time, given back, and found by the next read.  One more than the largest integer, though, panics the command
  and leaves a variable that panics every read of it.  No other variable of any user changes.\<close>

theorem tus_add_and_get_spec:
  assumes "\<forall>n. sql n" and "u \<in> user_ids db" and "a \<in> user_ids db"
    and "row_of tv_key (db_tus_var db) (u, com, slot) = Some r" and "tv_value r = SqlInt v"
    and "tus_add_and_get_user_variable sql db com u slot d a ts ct ca = (res, db')"
  shows "(\<not> prepare_cond_string ct ca (tv_timestamp r) (tv_author r) \<longrightarrow>
      res = Ok (var_info (tv_timestamp r) (tv_author r) v) \<and> db' = db) \<and>
    (prepare_cond_string ct ca (tv_timestamp r) (tv_author r) \<longrightarrow>
      (in_i64 (v + d) \<longrightarrow> res = Ok (var_info ts a (v + d)) \<and> tus_get_user_variable sql db' com u slot = res) \<and>
      (v = 2 ^ 63 - 1 \<and> d = 1 \<longrightarrow> res = Panic \<and> tus_get_user_variable sql db' com u slot = Panic)) \<and>
    (\<forall>k. k \<noteq> (u, com, slot) \<longrightarrow> row_of tv_key (db_tus_var db') k = row_of tv_key (db_tus_var db) k)"
proof (cases "prepare_cond_string ct ca (tv_timestamp r) (tv_author r)")
  case True
  let ?new = "add_var (var_row u com slot d a ts) r"
  note up = add_upsert [OF assms(1-4) True, where d = d and ts = ts]
  have res: "res = read_var ?new"
    and look: "row_of tv_key (db_tus_var db') k = (if k = (u, com, slot) then Some ?new else row_of tv_key (db_tus_var db) k)" for k
    using up assms(6) by simp_all
  have "tus_get_user_variable sql db' com u slot = read_var ?new"
    using assms(1) by (simp add: tus_get_user_variable_def query_row_def look ok_or_def)
  moreover have "tv_value ?new = sql_add (SqlInt v) (SqlInt d)" "tv_timestamp ?new = ts" "tv_author ?new = a"
    using assms(5) by (simp_all add: add_var_def var_row_def)
  ultimately show ?thesis
    using True res look sql_add_overflow by (auto simp: read_var_def var_info_def simp del: sql_add.simps) (auto simp: in_i64_def)
next
  case False
  let ?row = "var_row u com slot d a ts"
  have key: "tv_key ?row = (u, com, slot)" by (simp add: tv_key_def var_row_def)
  have "upsert tv_key (add_var ?row) (\<lambda>r. prepare_cond_string ct ca (tv_timestamp r) (tv_author r)) ?row (db_tus_var db) = (None, db_tus_var db)"
    using assms(4) False by (simp add: upsert_def key flip: row_of_def)
  then have "(res, db') = (read_var r, db)"
    using assms(1,4,6) by (simp add: tus_add_and_get_user_variable_def upsert_and_get_def upsert_var_def key)
  with False assms(5) show ?thesis by (simp add: read_var_def var_info_def)
qed

definition sp_database :: "i64 \<Rightarrow> Database" where
  "sp_database v = se_database\<lparr> db_tus_var := [var_row 2 [1] 0 v 2 0] \<rparr>"

theorem tus_add_and_get_spec_witness:
  "fst (tus_add_and_get_user_variable (\<lambda>_. True) (sp_database 5) [1] 2 0 3 2 9 None None) = Ok (var_info 9 2 8) \<and>
    fst (tus_add_and_get_user_variable (\<lambda>_. True) (sp_database (2 ^ 63 - 1)) [1] 2 0 1 2 9 None None) = Panic"
proof -
  have ids: "user_ids se_database = {1, 2}" by code_simp
  have in_db: "2 \<in> user_ids (sp_database v)"
    and row: "row_of tv_key (db_tus_var (sp_database v)) (2, [1], 0) = Some (var_row 2 [1] 0 v 2 0)"
    and val: "tv_value (var_row 2 [1] 0 v 2 0) = SqlInt v" for v
    using ids by (simp_all add: sp_database_def user_ids_def row_of_def tv_key_def var_row_def)
  have "prepare_cond_string None None t a" "in_i64 (5 + 3)" for t a by (simp_all add: prepare_cond_string_def in_i64_def)
  with tus_add_and_get_spec [OF _ in_db in_db row val prod.collapse [symmetric],
        where sql = "\<lambda>_. True" and v = 5 and d = 3 and ts = 9 and ct = None and ca = None]
    tus_add_and_get_spec [OF _ in_db in_db row val prod.collapse [symmetric],
        where sql = "\<lambda>_. True" and v = "2 ^ 63 - 1" and d = 1 and ts = 9 and ct = None and ca = None]
  show ?thesis by simp
qed

section \<open>Banning over HTTP\<close>

lemma authenticate_admin_Ok:
  "authenticate_admin de db n p = Ok () \<Longrightarrow> \<exists>a. find (\<lambda>a. ac_username a = n) (db_account db) = Some a \<and> ac_admin a \<and>
    \<not> ac_banned a \<and> de_hash de (as_bytes p) (ac_salt a) = Some (ac_hash a)"
  by (auto simp: authenticate_admin_def api_db_def check_user_def query_row_def ok_or_def unwrap_def
      split: res.splits option.splits if_splits)

definition is_admin_request :: "Env \<Rightarrow> Database \<Rightarrow> AdminRequest \<Rightarrow> bool" where
  "is_admin_request env db q \<longleftrightarrow> (\<exists>a. find (\<lambda>a. ac_username a = aq_admin_username q) (db_account db) = Some a \<and> ac_admin a \<and>
    \<not> ac_banned a \<and> de_hash (e_dbe env) (as_bytes (aq_admin_password q)) (ac_salt a) = Some (ac_hash a))"

definition ban_account :: "i64 \<Rightarrow> Database \<Rightarrow> Database" where
  "ban_account u = update_account (\<lambda>a. ac_user_id a = u) (\<lambda>a. a\<lparr> ac_banned := True \<rparr>)"

lemma run_ban_cases:
  assumes "run_admin_action env body BanAction sv = (r, sv')"
  obtains (refused) "\<nexists>x. r = Ok x" "sv' = sv"
  | (banned) q u x where "body = Some q" "is_admin_request env (sv_db sv) q"
      "find (\<lambda>a. ac_username a = aq_username q) (db_account (sv_db sv)) = Some u"
      "r = Ok x" "ua_user_id x = ac_user_id u" "sv' = sv\<lparr> sv_db := ban_account (ac_user_id u) (sv_db sv) \<rparr>"
proof (cases body)
  case None
  then show thesis using assms refused by (auto simp: run_admin_action_def ok_or_def)
next
  case (Some q)
  let ?db = "sv_db sv"
  let ?auth = "authenticate_admin (e_dbe env) ?db (aq_admin_username q) (aq_admin_password q)"
  let ?info = "get_user_admin_info (e_sql env) ?db (aq_username q)"
  let ?asked = "aq_admin_username q \<noteq> [] \<and> aq_admin_password q \<noteq> [] \<and> aq_username q \<noteq> [] \<and> e_connects env"
  consider (yes) info where "?asked" "?auth = Ok ()" "?info = Ok info" "e_sql env ''ban_user''"
    | (no) "\<not> ?asked \<or> ?auth \<noteq> Ok () \<or> (\<nexists>info. ?info = Ok info) \<or> \<not> e_sql env ''ban_user''"
    by blast
  then show thesis
  proof cases
    case yes
    then obtain u where u: "find (\<lambda>a. ac_username a = aq_username q) (db_account ?db) = Some u" "ua_user_id info = ac_user_id u"
      by (auto simp: get_user_admin_info_def query_row_def ok_or_def Let_def split: if_splits option.splits)
    have "is_admin_request env ?db q" using authenticate_admin_Ok [OF yes(2)] by (simp add: is_admin_request_def)
    moreover have "r = Ok info" "sv' = sv\<lparr> sv_db := ban_account (ac_user_id u) ?db \<rparr>"
      using assms yes u(2)
      by (simp_all add: run_admin_action_def ok_or_def Some api_db_def ban_user_def execute_def spawn_blocking_def ban_account_def)
    ultimately show thesis using banned Some u by blast
  next
    case no
    then show thesis
      using assms refused
      by (cases ?auth; cases ?info)
        (auto simp: run_admin_action_def ok_or_def Some api_db_def ban_user_def execute_def spawn_blocking_def split: if_splits)
  qed
qed

text \<open>C5: a request to ban a user over HTTP has no effect unless it names an administrator who is not banned, with their
  password.  Where it succeeds, the named account and no other is banned, the rest of the database is as before, a user who
  is online is marked to be disconnected, and the answer says so.\<close>

theorem ban_needs_admin:
  assumes "ban env body sv = (r, sv')"
  shows "case r of
      Ok resp \<Rightarrow> (\<exists>q u. body = Some q \<and> is_admin_request env (sv_db sv) q \<and>
        find (\<lambda>a. ac_username a = aq_username q) (db_account (sv_db sv)) = Some u \<and>
        br_user_id resp = ac_user_id u \<and> br_kicked resp = (sh_client_infos (sv_shared sv) (ac_user_id u) \<noteq> None) \<and>
        sv' = sv\<lparr> sv_db := ban_account (ac_user_id u) (sv_db sv),
                  sv_shared := (sv_shared sv)\<lparr> sh_client_infos := (sh_client_infos (sv_shared sv))
                    (ac_user_id u := map_option kick (sh_client_infos (sv_shared sv) (ac_user_id u))) \<rparr> \<rparr>)
    | _ \<Rightarrow> sv' = sv"
proof -
  obtain x sv1 where run: "run_admin_action env body BanAction sv = (x, sv1)" by fastforce
  then show ?thesis
  proof (cases rule: run_ban_cases)
    case refused
    then show ?thesis using assms run by (cases x) (auto simp: ban_def)
  next
    case (banned q u info)
    then show ?thesis using assms run by (auto simp: ban_def Let_def)
  qed
qed

definition sp_admin :: Database where
  "sp_admin = update_account (\<lambda>_. True) (\<lambda>a. a\<lparr> ac_admin := True \<rparr>) se_database"

theorem ban_needs_admin_witness:
  "\<exists>r sv'. ban se_env (Some \<lparr> aq_admin_username = ''ann'', aq_admin_password = ''pw'', aq_username = ''ann'' \<rparr>)
      (se_server\<lparr> sv_db := sp_admin \<rparr>) = (Ok r, sv') \<and> br_user_id r = 2 \<and> sv_db sv' = ban_account 2 sp_admin"
proof -
  let ?q = "\<lparr> aq_admin_username = ''ann'', aq_admin_password = ''pw'', aq_username = ''ann'' \<rparr>"
  obtain r sv' where b: "ban se_env (Some ?q) (se_server\<lparr> sv_db := sp_admin \<rparr>) = (r, sv')" by fastforce
  have "is_ok (fst (ban se_env (Some ?q) (se_server\<lparr> sv_db := sp_admin \<rparr>)))" by code_simp
  then obtain resp where r: "r = Ok resp" using b by (cases r) auto
  have "map_option ac_user_id (find (\<lambda>a. ac_username a = ''ann'') (db_account sp_admin)) = Some 2" by code_simp
  with ban_needs_admin [OF b] b r show ?thesis by auto
qed

end
