(* ===== verification/Spec2Isabelle.thy ===== *)
theory Spec2Isabelle
  imports Search_Properties Packet_Properties Score_Properties Gui_Properties Game_Services Tickets Client_Loop Stat_Server
    Server_Properties Database_Properties Storage_Properties
begin

text \<open>
  A verification of the RPCN server, a matchmaking server written in Rust under \<^verbatim>\<open>src/src\<close>.  Clients connect over TLS, log in
  and send requests; the server keeps rooms, scores, friends, messages and a title user storage.

  \<^bold>\<open>The parts and how they interact.\<close>  \<^verbatim>\<open>server.rs\<close> accepts connections and gives each a \<^verbatim>\<open>Client\<close> (\<^verbatim>\<open>server/client.rs\<close>), which reads
  packets, dispatches them to the handlers under \<^verbatim>\<open>server/client/\<close> and sends the replies.  The handlers use the room manager
  (\<^verbatim>\<open>server/room_manager.rs\<close>), the older GUI rooms (\<^verbatim>\<open>server/gui_room_manager.rs\<close>), the cache of the score boards
  (\<^verbatim>\<open>server/score_cache.rs\<close>), the game tracker (\<^verbatim>\<open>server/game_tracker.rs\<close>) and the database (\<^verbatim>\<open>server/database.rs\<close> and
  \<^verbatim>\<open>server/database/\<close>), which all clients share.  Beside the clients, a datagram server records addresses
  (\<^verbatim>\<open>server/udp_server.rs\<close>), two HTTP servers answer administrators and statistics (\<^verbatim>\<open>server/api_server.rs\<close> with its modules,
  \<^verbatim>\<open>server/stat_server.rs\<close>), and a task cleans the database once a day (\<^verbatim>\<open>server/daily_cleaner.rs\<close>).

  \<^bold>\<open>The modelling.\<close>  Structures are records, enumerations are datatypes, each operation is one function.  An operation that
  can fail returns \<open>Ok\<close>, \<open>Err\<close> or \<open>Panic\<close> (\<open>res\<close> of the theory Prelude), together with the state it leaves where it takes
  \<^verbatim>\<open>&mut self\<close>; what was written before a failure or a panic stays, as the locks are not poisoned.  Unsigned machine
  integers are words, so that arithmetic wraps as it does in a release build; signed ones are integers in the places where no
  wrap around can occur, and the additions that SQLite does on them are written out with their overflow.  A hash map is a map;
  where the code iterates over one, the order is a parameter.  A BTreeMap is an ordered association list.  A string is a list of
  characters below 256, written as UTF-8 and read byte by byte as the code does; characters above are not represented.

  \<^bold>\<open>Parameters.\<close>  Code that is not part of the sources is an argument: the encoders and decoders generated from the message
  definitions (\<open>prost_codec\<close>, \<open>gui_codec\<close>, \<open>cmd_codec\<close>, \<open>score_codec\<close>, \<open>tus_codec\<close>), the iteration orders, clocks, random choices,
  password hashes, and which statements of the database, files and mails succeed (\<open>Env\<close>, \<open>DbEnv\<close>).  The properties of the
  running server assume of them only \<open>env_ok\<close>: a random choice below a bound is below it, and an iteration visits each
  element.  Server_Example has an environment that satisfies it.

  \<^bold>\<open>Theories.\<close>
  \<^item> Prelude, Text, Ordering, Sql_Tables: results, state passing, transition systems with an invariant
    (the locale \<open>invariant_system\<close>), strings, sorting, and the statements of SQL on tables (the locale \<open>keyed_table\<close>).
  \<^item> Client_Types, Np2_Structs, Cmd_Messages: error numbers, client information and the messages.
  \<^item> Room_Attrs, Room, Room_Search, Room_Slots, Room_Manager, Room_Data: \<^verbatim>\<open>room_manager.rs\<close>.  Room_Inv, Manager_Inv,
    Room_Lifecycle, Room_Properties and Search_Properties prove the invariant of a room and of the indices, what creating,
    joining and leaving do, who may change what, and exactly when the search panics.
  \<^item> Gui_Rooms, with Gui_Inv and Gui_Properties: \<^verbatim>\<open>gui_room_manager.rs\<close>.
  \<^item> Stream_Extractor and Packets, with Packet_Properties: \<^verbatim>\<open>stream_extractor.rs\<close>, the header of a packet and
    \<^verbatim>\<open>client/notifications.rs\<close>; reading stays inside a packet and reads back what was written (the locale \<open>packet_field\<close>).
  \<^item> Score_Cache, with Score_Inv, Score_Load and Score_Properties: \<^verbatim>\<open>score_cache.rs\<close>.  The invariant orders a board by value and
    time only, as a loaded board has ties in another order than the cache; Score_Load proves it of the cache the server starts
    with, and the properties hold for every cache reached from there.
  \<^item> Game_Services and Tickets: \<^verbatim>\<open>game_tracker.rs\<close>, \<^verbatim>\<open>game_specific_matchmaking.rs\<close> and \<^verbatim>\<open>client/ticket.rs\<close>.
  \<^item> Config: the configuration of \<^verbatim>\<open>main.rs\<close> and the data directories of \<^verbatim>\<open>server/utils.rs\<close>.
  \<^item> Database, Db_Score, Db_Tus: the tables and every statement on them.  Database_Wf proves that each operation keeps keys,
    uniqueness and references.
  \<^item> Client_State, Cmd_Room, Cmd_Other, Cmd_Score, Cmd_Tus, Cmd_Account, Client_Loop: \<^verbatim>\<open>server/client.rs\<close> and all the handlers
    of \<^verbatim>\<open>server/client/\<close>, the dispatch, the loop over the packets of a connection and its clean up.
  \<^item> Server_Start, Udp_Server, Api_Server, Stat_Server: the start, the daily task and the other servers.
  \<^item> Server_Frames, Server_Rooms, Server_Commands, Server_Cleanup: what each command leaves alone.  Server_Steps makes the
    server with all its connections a transition system, \<open>server_step\<close>; Server_Inv proves its invariant.
  \<^item> Server_Login, Server_Example, Server_Properties: logging in, a small run, and the properties of the whole server.
  \<^item> Database_Frames and Database_Rules: the contract between the commands and the database (the locale \<open>database_rule\<close>), with
    two instances in Database_Properties, the integrity of the tables and the ownership of rows.  Storage_Properties: additions
    to a stored variable, and bans over HTTP.

  \<^bold>\<open>What is shown.\<close>  In every order of connections, packets, losses, clean ups, datagrams, bans and daily cleanings, members of
  rooms are online, an online user has exactly one connection, and the clean ups that are due are those of lost connections; when
  the clients go, the server comes to rest empty.  Logging in needs the secrets of an account that may enter.  A client changes
  no row of another user, and the tables stay well-formed.  Rooms keep their capacity, slots, owner and indices; rights are
  checked, with the private slots those of the allocation's own test, which is not the one the room reports; scores are ranked,
  found and kept as specified unless a recording panics, which happens exactly on ties and on boards without ranks; what is written to a packet, a ticket or a notification can be read
  back.  Some theorems show what the code does against its evident purpose (panics on requests a client can send, slots that are
  lost, rooms that are overfilled, variables that cannot be read any more).

  \<^bold>\<open>Bounds.\<close>  No fuel is used: all functions are total, and the loop over the packets of a connection ends because each packet
  uses up bytes.  A step that serves a packet assumes that the numbers of new rooms have not run out (\<open>numbers_left\<close>), which takes
  \<^verbatim>\<open>2 ^ 64 - 1\<close> rooms of one game.

  \<^bold>\<open>Not modelled.\<close>  A handler runs as one step: the interleaving of two handlers between their locks is left out, as is time (the
  timeouts of a connection and the timer of the daily task).  TLS, sockets, the HTTP and JSON libraries with their routers, the
  generation of keys and certificates and the rest of \<^verbatim>\<open>main\<close>, signals and logging are calls of libraries without state of the server.
  The migrations that rewrite tables of older databases are not modelled, only the tables they lead to.  A notification is
  recorded with its receivers; the queue of a connection that is full is not modelled.
\<close>

end
